(* ===== verification/Prelude.thy ===== *)
theory Prelude
  imports Main "HOL-Library.Word"
begin

text \<open>
  What every component shares: the result and effect types that stand for Rust's
  \<open>Result\<close> and for an async function over a shared server, and the operations of the Rust
  standard library the crates use on strings, slices and integers (\<open>split\<close>,
  \<open>split_once\<close>, \<open>chunks\<close>, \<open>repeat\<close>, decimal \<open>Display\<close> and
  \<open>parse\<close>), with the lemmas the component proofs rest on.

  A Rust string or byte slice is a \<open>string\<close>, one \<open>char\<close> per byte of its UTF-8
  text, so \<open>length\<close> is Rust's \<open>len\<close>. An \<open>error_stack::Report<E>\<close> is its
  current context: attachments are text for the log and no code branches on them.
\<close>

named_theorems eff_simps \<open>equations that run an effectful computation\<close>
named_theorems std_simps \<open>equations of the modelled standard library\<close>

section \<open>Results and effects\<close>

type_synonym ('e, 'a) result = "'e + 'a"

abbreviation Err :: "'e \<Rightarrow> ('e, 'a) result" where
  "Err \<equiv> Inl"

abbreviation Ok :: "'a \<Rightarrow> ('e, 'a) result" where
  "Ok \<equiv> Inr"

text \<open>
  An async function over a server state \<open>'s\<close>: it returns a result and leaves the server
  in a new state. What it did before an early return stays done.
\<close>

type_synonym ('s, 'e, 'a) eff = "'s \<Rightarrow> ('e, 'a) result \<times> 's"

definition ereturn :: "'a \<Rightarrow> ('s, 'e, 'a) eff" where
  "ereturn a = (\<lambda>s. (Ok a, s))"

definition ethrow :: "'e \<Rightarrow> ('s, 'e, 'a) eff" where
  "ethrow e = (\<lambda>s. (Err e, s))"

text \<open>\<open>match m.await { Err(e) => f e, Ok(a) => g a }\<close>.\<close>

definition ematch ::
  "('s, 'e, 'a) eff \<Rightarrow> ('e \<Rightarrow> ('s, 'f, 'b) eff) \<Rightarrow> ('a \<Rightarrow> ('s, 'f, 'b) eff) \<Rightarrow> ('s, 'f, 'b) eff" where
  "ematch m f g = (\<lambda>s. case m s of (Inl e, s') \<Rightarrow> f e s' | (Inr a, s') \<Rightarrow> g a s')"

text \<open>The \<open>?\<close> operator: stop at the first error, otherwise go on.\<close>

definition ebind :: "('s, 'e, 'a) eff \<Rightarrow> ('a \<Rightarrow> ('s, 'e, 'b) eff) \<Rightarrow> ('s, 'e, 'b) eff" where
  "ebind m g = ematch m ethrow g"

definition emap_err :: "('e \<Rightarrow> 'f) \<Rightarrow> ('s, 'e, 'a) eff \<Rightarrow> ('s, 'f, 'a) eff" where
  "emap_err h m = ematch m (\<lambda>e. ethrow (h e)) ereturn"

text \<open>\<open>change_context(c)\<close>: an error keeps its place and gets a new context.\<close>

definition change_context :: "'f \<Rightarrow> ('s, 'e, 'a) eff \<Rightarrow> ('s, 'f, 'a) eff" where
  "change_context c = emap_err (\<lambda>_. c)"

text \<open>A pure fallible step inside an async function.\<close>

definition elift :: "('e, 'a) result \<Rightarrow> ('s, 'e, 'a) eff" where
  "elift r = (\<lambda>s. (r, s))"

lemma ereturn_run [eff_simps, simp]: "ereturn a s = (Ok a, s)"
  by (simp add: ereturn_def)

lemma ethrow_run [eff_simps, simp]: "ethrow e s = (Err e, s)"
  by (simp add: ethrow_def)

lemma elift_run [eff_simps, simp]: "elift r s = (r, s)"
  by (simp add: elift_def)

lemma ematch_run [eff_simps]:
  "ematch m f g s = (case m s of (Inl e, s') \<Rightarrow> f e s' | (Inr a, s') \<Rightarrow> g a s')"
  by (simp add: ematch_def)

lemma ebind_run [eff_simps]:
  "ebind m g s = (case m s of (Inl e, s') \<Rightarrow> (Err e, s') | (Inr a, s') \<Rightarrow> g a s')"
  by (auto simp: ebind_def ematch_def split: prod.splits sum.splits)

lemma emap_err_run [eff_simps]:
  "emap_err h m s = (case m s of (Inl e, s') \<Rightarrow> (Err (h e), s') | (Inr a, s') \<Rightarrow> (Ok a, s'))"
  by (auto simp: emap_err_def ematch_def split: prod.splits sum.splits)

lemma change_context_run [eff_simps]:
  "change_context c m s = (case m s of (Inl e, s') \<Rightarrow> (Err c, s') | (Inr a, s') \<Rightarrow> (Ok a, s'))"
  by (simp add: change_context_def emap_err_run)

lemma change_context_Ok:
  "change_context c m s = (Ok a, s') \<longleftrightarrow> m s = (Ok a, s')"
  by (auto simp: change_context_run split: prod.splits sum.splits)

lemma change_context_Err:
  "change_context c m s = (Err e, s') \<longleftrightarrow> e = c \<and> (\<exists>d. m s = (Err d, s'))"
  by (auto simp: change_context_run split: prod.splits sum.splits)

lemma snd_change_context [simp]: "snd (change_context c m s) = snd (m s)"
  by (auto simp: change_context_run split: prod.splits sum.splits)

lemma ebind_Ok:
  "ebind m g s = (Ok b, s'') \<longleftrightarrow> (\<exists>a s'. m s = (Ok a, s') \<and> g a s' = (Ok b, s''))"
  by (auto simp: ebind_run split: prod.splits sum.splits)

lemma ebind_assoc: "ebind (ebind m f) g = ebind m (\<lambda>a. ebind (f a) g)"
  by (rule ext) (auto simp: ebind_run split: prod.splits sum.splits)

lemma ebind_ereturn [simp]: "ebind m ereturn = m"
  by (rule ext) (auto simp: ebind_run split: prod.splits sum.splits)

lemma ereturn_ebind [simp]: "ebind (ereturn a) g = g a"
  by (rule ext) (simp add: ebind_run)

text \<open>The two ways a sequence can end.\<close>

lemma ebindE:
  assumes "ebind m g s = (r, s'')"
  obtains (err) e where "m s = (Err e, s'')" and "r = Err e"
  | (ok) a s' where "m s = (Ok a, s')" and "g a s' = (r, s'')"
  using assms by (auto simp: ebind_run split: prod.splits sum.splits)

lemma ematchE:
  assumes "ematch m f g s = (r, s'')"
  obtains (err) e s' where "m s = (Err e, s')" and "f e s' = (r, s'')"
  | (ok) a s' where "m s = (Ok a, s')" and "g a s' = (r, s'')"
  using assms by (auto simp: ematch_run split: prod.splits sum.splits)

lemmas eff_splits = prod.splits sum.splits option.splits if_splits

text \<open>\<open>common_utils::fp_utils::when\<close> at \<open>Result<(), E>\<close> is in the prelude because the
  Redis settings, the Redis commands and the configuration checks all guard with it.\<close>

definition when_pred :: "bool \<Rightarrow> ('e, unit) result \<Rightarrow> ('e, unit) result" where
  "when_pred predicate f = (if predicate then f else Ok ())"

text \<open>\<open>Iterator::collect::<Result<Vec<_>, _>>()\<close>: the first error, else all values.\<close>

fun collect_results :: "('e, 'a) result list \<Rightarrow> ('e, 'a list) result" where
  "collect_results [] = Ok []"
| "collect_results (r # rs) =
     (case r of Inl e \<Rightarrow> Err e
      | Inr a \<Rightarrow> (case collect_results rs of Inl e \<Rightarrow> Err e | Inr as \<Rightarrow> Ok (a # as)))"

lemma collect_results_map_Ok [simp]: "collect_results (map Ok as) = Ok as"
  by (induction as) auto

lemma collect_results_OkD: "collect_results rs = Ok as \<Longrightarrow> rs = map Ok as"
  by (induction rs arbitrary: as) (auto split: sum.splits)

lemma collect_results_Ok: "collect_results rs = Ok as \<longleftrightarrow> rs = map Ok as"
  by (auto dest: collect_results_OkD)

text \<open>The question mark on a result, \<open>Option::ok_or\<close>, and an optional new value over an old one.\<close>

definition rbind :: "('e, 'a) result \<Rightarrow> ('a \<Rightarrow> ('e, 'b) result) \<Rightarrow> ('e, 'b) result" where
  "rbind r f = (case r of Inl e \<Rightarrow> Err e | Inr a \<Rightarrow> f a)"

lemma rbind_simps [simp]: "rbind (Err e) f = Err e" "rbind (Ok a) f = f a"
  by (simp_all add: rbind_def)

lemma rbind_Ok_iff: "rbind r f = Ok b \<longleftrightarrow> (\<exists>a. r = Ok a \<and> f a = Ok b)"
  by (cases r) auto

definition ok_or :: "'a option \<Rightarrow> 'e \<Rightarrow> ('e, 'a) result" where
  "ok_or v err = (case v of None \<Rightarrow> Err err | Some a \<Rightarrow> Ok a)"

lemma ok_or_simps [simp]: "ok_or None e = Err e" "ok_or (Some a) e = Ok a"
  by (simp_all add: ok_or_def)

lemma ok_or_Ok_iff [simp]: "ok_or v e = Ok a \<longleftrightarrow> v = Some a"
  by (cases v) auto

definition or_old :: "'a option \<Rightarrow> 'a \<Rightarrow> 'a" where
  "or_old v old = (case v of None \<Rightarrow> old | Some x \<Rightarrow> x)"

lemma or_old_simps [simp]: "or_old None old = old" "or_old (Some x) old = x"
  by (simp_all add: or_old_def)

text \<open>An effect that may have happened or not (a lost reply): the new value or the old one.\<close>

definition same_or :: "'v \<Rightarrow> 'v \<Rightarrow> 'v \<Rightarrow> bool" where
  "same_or old new v \<longleftrightarrow> v = old \<or> v = new"

lemma same_or_old [simp, intro]: "same_or old new old"
  by (simp add: same_or_def)

lemma same_or_new [simp, intro]: "same_or old new new"
  by (simp add: same_or_def)

text \<open>A function that talks to two servers: the state is the pair of theirs.\<close>

definition on_fst :: "('s, 'e, 'a) eff \<Rightarrow> ('s \<times> 'd, 'e, 'a) eff" where
  "on_fst m w = (case m (fst w) of (r, s') \<Rightarrow> (r, (s', snd w)))"

definition on_snd :: "('d, 'e, 'a) eff \<Rightarrow> ('s \<times> 'd, 'e, 'a) eff" where
  "on_snd m w = (case m (snd w) of (r, d') \<Rightarrow> (r, (fst w, d')))"

lemma on_fst_run [eff_simps]: "on_fst m (s, d) = (case m s of (r, s') \<Rightarrow> (r, (s', d)))"
  by (simp add: on_fst_def)

lemma on_snd_run [eff_simps]: "on_snd m (s, d) = (case m d of (r, d') \<Rightarrow> (r, (s, d')))"
  by (simp add: on_snd_def)

section \<open>Strings and slices of the standard library\<close>

text \<open>\<open>str::split_once(c)\<close>.\<close>

fun split_once :: "char \<Rightarrow> string \<Rightarrow> (string \<times> string) option" where
  "split_once c [] = None"
| "split_once c (x # xs) =
     (if x = c then Some ([], xs) else map_option (\<lambda>(a, b). (x # a, b)) (split_once c xs))"

text \<open>\<open>str::split(c)\<close>, all segments in order; never empty.\<close>

fun split_on :: "char \<Rightarrow> string \<Rightarrow> string list" where
  "split_on c [] = [[]]"
| "split_on c (x # xs) =
     (if x = c then [] # split_on c xs
      else (case split_on c xs of [] \<Rightarrow> [[x]] | seg # segs \<Rightarrow> (x # seg) # segs))"

text \<open>\<open>slice::chunks(n)\<close>. The Rust method panics when \<open>n\<close> is 0; the callers' models
  say so where it matters, and the model returns no chunk there.\<close>

function chunks :: "nat \<Rightarrow> 'a list \<Rightarrow> 'a list list" where
  "chunks n xs = (if n = 0 \<or> xs = [] then [] else take n xs # chunks n (drop n xs))"
  by pat_completeness auto
termination
  by (relation "measure (\<lambda>(n, xs). length xs)") auto

declare chunks.simps [simp del]

text \<open>\<open>Display\<close> of an unsigned integer.\<close>

definition digit_char :: "nat \<Rightarrow> char" where
  "digit_char d = ''0123456789'' ! d"

fun show_nat :: "nat \<Rightarrow> string" where
  "show_nat n = (if n < 10 then [digit_char n] else show_nat (n div 10) @ [digit_char (n mod 10)])"

declare show_nat.simps [simp del]

text \<open>The format \<open>{:02}\<close>.\<close>

definition pad2 :: "nat \<Rightarrow> string" where
  "pad2 n = (if n < 10 then ''0'' @ show_nat n else show_nat n)"

text \<open>\<open>Display\<close> of a signed integer.\<close>

definition show_int :: "int \<Rightarrow> string" where
  "show_int i = (if i < 0 then CHR ''-'' # show_nat (nat (- i)) else show_nat (nat i))"

definition digit_val :: "char \<Rightarrow> nat option" where
  "digit_val c = (let n = of_char c :: nat in if 48 \<le> n \<and> n \<le> 57 then Some (n - 48) else None)"

fun parse_digits :: "nat \<Rightarrow> string \<Rightarrow> nat option" where
  "parse_digits acc [] = Some acc"
| "parse_digits acc (c # cs) =
     (case digit_val c of None \<Rightarrow> None | Some d \<Rightarrow> parse_digits (10 * acc + d) cs)"

text \<open>\<open>str::parse\<close> to a non-negative integer of unbounded size: a digit sequence, not empty.\<close>

definition parse_nat :: "string \<Rightarrow> nat option" where
  "parse_nat s = (if s = [] then None else parse_digits 0 s)"

definition in_i64 :: "int \<Rightarrow> bool" where
  "in_i64 i \<longleftrightarrow> - (2 ^ 63) \<le> i \<and> i < 2 ^ 63"

definition in_i32 :: "int \<Rightarrow> bool" where
  "in_i32 i \<longleftrightarrow> - (2 ^ 31) \<le> i \<and> i < 2 ^ 31"

text \<open>Addition on \<open>i32\<close> in a release build wraps around.\<close>

definition wrap_i32 :: "int \<Rightarrow> int" where
  "wrap_i32 i = (i + 2 ^ 31) mod 2 ^ 32 - 2 ^ 31"

lemma wrap_i32_id: "in_i32 i \<Longrightarrow> wrap_i32 i = i"
  by (simp add: wrap_i32_def in_i32_def)

text \<open>\<open>str::parse::<i64>()\<close>: an optional sign and digits, out of range is an error.\<close>

definition parse_i64 :: "string \<Rightarrow> int option" where
  "parse_i64 s =
     (let r = (case s of [] \<Rightarrow> None
               | c # cs \<Rightarrow> (if c = CHR ''-'' then map_option (\<lambda>n. - int n) (parse_nat cs)
                          else if c = CHR ''+'' then map_option int (parse_nat cs)
                          else map_option int (parse_nat s)))
      in case r of None \<Rightarrow> None | Some i \<Rightarrow> if in_i64 i then Some i else None)"

text \<open>\<open>"*".repeat(n)\<close>.\<close>

abbreviation stars :: "nat \<Rightarrow> string" where
  "stars n \<equiv> replicate n CHR ''*''"

subsection \<open>Lemmas\<close>

lemma split_once_append [std_simps]:
  "c \<notin> set a \<Longrightarrow> split_once c (a @ c # b) = Some (a, b)"
  by (induction a) auto

lemma split_once_Some:
  "split_once c s = Some (a, b) \<Longrightarrow> s = a @ c # b \<and> c \<notin> set a"
  by (induction s arbitrary: a) (auto split: if_splits)

lemma split_once_None: "split_once c s = None \<longleftrightarrow> c \<notin> set s"
  by (induction s) auto

lemma split_on_not_Nil [simp]: "split_on c s \<noteq> []"
  by (cases s) (auto split: list.splits)

lemma split_on_no_sep: "c \<notin> set s \<Longrightarrow> split_on c s = [s]"
  by (induction s) auto

lemma split_on_append: "c \<notin> set a \<Longrightarrow> split_on c (a @ c # b) = a # split_on c b"
  by (induction a) auto

lemma split_on_sep_free: "seg \<in> set (split_on c s) \<Longrightarrow> c \<notin> set seg"
  by (induction s arbitrary: seg) (auto split: list.splits if_splits)

lemma length_split_on: "length (split_on c s) = Suc (count_list s c)"
  by (induction s) (auto split: list.splits)

text \<open>Joining the segments with the separator gives the string back.\<close>

fun join_with :: "char \<Rightarrow> string list \<Rightarrow> string" where
  "join_with c [] = []"
| "join_with c [s] = s"
| "join_with c (s # t # ss) = s @ c # join_with c (t # ss)"

lemma join_with_Cons: "ss \<noteq> [] \<Longrightarrow> join_with c (s # ss) = s @ c # join_with c ss"
  by (cases ss) auto

lemma join_split [simp]: "join_with c (split_on c s) = s"
proof (induction s)
  case Nil
  then show ?case by simp
next
  case (Cons x xs)
  obtain seg segs where seg: "split_on c xs = seg # segs"
    by (cases "split_on c xs") auto
  with Cons show ?case by (cases segs) (auto simp: join_with_Cons)
qed

lemma concat_chunks: "0 < n \<Longrightarrow> concat (chunks n xs) = xs"
proof (induction n xs rule: chunks.induct)
  case (1 n xs)
  then show ?case by (auto simp: chunks.simps [of n xs])
qed

lemma chunks_length: "c \<in> set (chunks n xs) \<Longrightarrow> 0 < length c \<and> length c \<le> n"
proof (induction n xs rule: chunks.induct)
  case (1 n xs)
  then show ?case by (auto simp: chunks.simps [of n xs] split: if_splits)
qed

lemma chunks_Nil [simp]: "chunks n [] = []"
  by (simp add: chunks.simps)

lemma chunks_butlast_full: "c \<in> set (butlast (chunks n xs)) \<Longrightarrow> length c = n"
proof (induction n xs rule: chunks.induct)
  case (1 n xs)
  show ?case
  proof (cases "n = 0 \<or> xs = []")
    case True
    with "1.prems" show ?thesis by (simp add: chunks.simps [of n xs])
  next
    case False
    show ?thesis
    proof (cases "drop n xs = []")
      case True
      with False "1.prems" show ?thesis
        by (simp add: chunks.simps [of n xs] chunks.simps [of n "[]"])
    next
      case ne: False
      then have "chunks n (drop n xs) \<noteq> []"
        using False by (subst chunks.simps) simp
      with False ne "1.prems" "1.IH" show ?thesis
        by (auto simp: chunks.simps [of n xs])
    qed
  qed
qed

lemma digit_cases:
  assumes "d < (10::nat)"
  obtains "d = 0" | "d = 1" | "d = 2" | "d = 3" | "d = 4"
    | "d = 5" | "d = 6" | "d = 7" | "d = 8" | "d = 9"
proof -
  from assms have "d = 0 \<or> d = 1 \<or> d = 2 \<or> d = 3 \<or> d = 4 \<or> d = 5 \<or> d = 6 \<or> d = 7 \<or> d = 8 \<or> d = 9"
    by arith
  then show thesis using that by blast
qed

lemma digit_val_char: "d < 10 \<Longrightarrow> digit_val (digit_char d) = Some d"
  by (erule digit_cases) (simp_all add: digit_val_def digit_char_def Let_def)

lemma parse_digits_snoc:
  "parse_digits acc (s @ [c]) =
     (case parse_digits acc s of None \<Rightarrow> None
      | Some n \<Rightarrow> (case digit_val c of None \<Rightarrow> None | Some d \<Rightarrow> Some (10 * n + d)))"
  by (induction s arbitrary: acc) (auto split: option.splits)

lemma show_nat_not_Nil [simp]: "show_nat n \<noteq> []"
  by (subst show_nat.simps) simp

lemma parse_digits_show: "parse_digits 0 (show_nat n) = Some n"
proof (induction n rule: show_nat.induct)
  case (1 n)
  show ?case
  proof (cases "n < 10")
    case True
    then show ?thesis by (simp add: show_nat.simps [of n] digit_val_char)
  next
    case False
    with 1 show ?thesis
      by (simp add: show_nat.simps [of n] parse_digits_snoc digit_val_char)
  qed
qed

lemma parse_show_nat [std_simps]: "parse_nat (show_nat n) = Some n"
  by (simp add: parse_nat_def parse_digits_show)

lemma show_nat_inject [simp]: "show_nat m = show_nat n \<longleftrightarrow> m = n"
  by (metis option.inject parse_show_nat)

text \<open>Every character of a decimal rendering is a digit.\<close>

lemma show_nat_digits: "c \<in> set (show_nat n) \<Longrightarrow> \<exists>d < 10. c = digit_char d"
proof (induction n rule: show_nat.induct)
  case (1 n)
  show ?case
  proof (cases "n < 10")
    case True
    with "1.prems" show ?thesis by (auto simp: show_nat.simps [of n])
  next
    case False
    with "1.prems" consider "c \<in> set (show_nat (n div 10))" | "c = digit_char (n mod 10)"
      by (auto simp: show_nat.simps [of n])
    then show ?thesis
    proof cases
      case 1
      with "1.IH" False show ?thesis by simp
    next
      case 2
      then show ?thesis by (intro exI [of _ "n mod 10"]) simp
    qed
  qed
qed

lemma digit_char_cases: "d < 10 \<Longrightarrow> digit_char d \<in> set ''0123456789''"
  unfolding digit_char_def by (rule nth_mem) simp

lemma show_nat_only_digits: "set (show_nat n) \<subseteq> set ''0123456789''"
  using show_nat_digits digit_char_cases by blast

lemma show_nat_hd_not_sign:
  "show_nat n = c # cs \<Longrightarrow> c \<noteq> CHR ''-'' \<and> c \<noteq> CHR ''+''"
  using show_nat_only_digits [of n] by auto

lemma parse_i64_show_int [std_simps]: "in_i64 i \<Longrightarrow> parse_i64 (show_int i) = Some i"
proof (cases "i < 0")
  case True
  assume "in_i64 i"
  with True show ?thesis by (simp add: parse_i64_def show_int_def parse_show_nat)
next
  case False
  assume i: "in_i64 i"
  obtain c cs where c: "show_nat (nat i) = c # cs"
    by (cases "show_nat (nat i)") auto
  from c have "parse_nat (c # cs) = Some (nat i)"
    by (metis parse_show_nat)
  with False i c show_nat_hd_not_sign [OF c] show ?thesis
    by (simp add: parse_i64_def show_int_def)
qed

end
