(* ===== verification/Redis_Types.thy ===== *)
theory Redis_Types
  imports Prelude
begin

text \<open>
  The data of \<open>crates/redis_interface\<close>: the error enum (\<open>src/errors.rs\<close>), the
  settings with their validation, the entry ids, and the conversions from the client library's
  replies to the crate's own reply enums (\<open>src/types.rs\<close>, \<open>src/lib.rs\<close>).

  \<open>fred\<close> is the Redis client library, not part of the repository. Of its reply values
  and ids only the constructors the crate matches on are named; everything else it can
  return is one further constructor, so that every wildcard branch of the code is reachable.
\<close>

section \<open>Errors\<close>

datatype RedisError =
    InvalidConfiguration string
  | SetFailed
  | SetNxFailed
  | SetExFailed
  | SetExpiryFailed
  | GetFailed
  | DeleteFailed
  | StreamAppendFailed
  | StreamReadFailed
  | GetLengthFailed
  | StreamDeleteFailed
  | StreamTrimFailed
  | StreamAcknowledgeFailed
  | StreamEmptyOrNotAvailable
  | ConsumerGroupCreateFailed
  | ConsumerGroupDestroyFailed
  | ConsumerGroupRemoveConsumerFailed
  | ConsumerGroupSetIdFailed
  | ConsumerGroupClaimFailed
  | JsonSerializationFailed
  | JsonDeserializationFailed
  | SetHashFailed
  | SetHashFieldFailed
  | SetAddMembersFailed
  | GetHashFieldFailed
  | NotFound
  | InvalidRedisEntryId
  | RedisConnectionError
  | SubscribeError
  | PublishError
  | OnMessageError
  | UnknownResult

section \<open>Values and ids of the client library\<close>

datatype RedisErrorKind = NotFoundKind | ParseKind | UnknownKind | OtherKind

datatype FredValue = FredString string | FredNull | FredInteger int | FredOther

datatype XID = XidManual string | XidAuto | XidMax | XidNewInGroup

section \<open>Settings\<close>

record RedisSettings =
  host :: string
  port :: "16 word"
  cluster_enabled :: bool
  cluster_urls :: "string list"
  use_legacy_version :: bool
  pool_size :: nat
  reconnect_max_attempts :: "32 word"
  reconnect_delay :: "32 word"
  default_ttl :: "32 word"
  default_hash_ttl :: "32 word"
  stream_read_count :: "64 word"
  auto_pipeline :: bool
  disable_auto_backpressure :: bool
  max_in_flight_commands :: "64 word"
  default_command_timeout :: "64 word"
  max_feed_count :: "64 word"
  unresponsive_timeout :: "64 word"

text \<open>\<open>char::is_whitespace\<close> on ASCII text, for \<open>str::trim\<close>.\<close>

definition is_ascii_whitespace :: "char \<Rightarrow> bool" where
  "is_ascii_whitespace c \<longleftrightarrow> (let n = of_char c :: nat in (9 \<le> n \<and> n \<le> 13) \<or> n = 32)"

definition str_trim :: "string \<Rightarrow> string" where
  "str_trim s = rev (dropWhile is_ascii_whitespace (rev (dropWhile is_ascii_whitespace s)))"

text \<open>\<open>ConfigExt for String\<close>.\<close>

definition is_empty_after_trim :: "string \<Rightarrow> bool" where
  "is_empty_after_trim s \<longleftrightarrow> str_trim s = []"

definition is_default_or_empty :: "string \<Rightarrow> bool" where
  "is_default_or_empty s \<longleftrightarrow> s = [] \<or> is_empty_after_trim s"

definition RedisSettings_validate :: "RedisSettings \<Rightarrow> (RedisError, unit) result" where
  "RedisSettings_validate self =
     (case when_pred (is_default_or_empty (host self))
             (Err (InvalidConfiguration ''Redis `host` must be specified'')) of
        Inl e \<Rightarrow> Err e
      | Inr _ \<Rightarrow>
          (case when_pred (cluster_enabled self \<and> cluster_urls self = [])
                  (Err (InvalidConfiguration
                    ''Redis `cluster_urls` must be specified if `cluster_enabled` is `true`'')) of
             Inl e \<Rightarrow> Err e
           | Inr _ \<Rightarrow>
               when_pred (default_command_timeout self < unresponsive_timeout self)
                 (Err (InvalidConfiguration
                   ''Unresponsive timeout cannot be greater than the command timeout''))))"

definition RedisSettings_default :: RedisSettings where
  "RedisSettings_default = \<lparr>
     host = ''127.0.0.1'',
     port = 6379,
     cluster_enabled = False,
     cluster_urls = [],
     use_legacy_version = False,
     pool_size = 5,
     reconnect_max_attempts = 5,
     reconnect_delay = 5,
     default_ttl = 300,
     default_hash_ttl = 900,
     stream_read_count = 1,
     auto_pipeline = True,
     disable_auto_backpressure = False,
     max_in_flight_commands = 5000,
     default_command_timeout = 30,
     max_feed_count = 200,
     unresponsive_timeout = 10\<rparr>"

text \<open>The part of the settings a connection pool keeps.\<close>

record RedisConfig =
  cfg_default_ttl :: "32 word"
  cfg_default_stream_read_count :: "64 word"
  cfg_default_hash_ttl :: "32 word"

definition RedisConfig_from :: "RedisSettings \<Rightarrow> RedisConfig" where
  "RedisConfig_from config = \<lparr>
     cfg_default_ttl = default_ttl config,
     cfg_default_stream_read_count = stream_read_count config,
     cfg_default_hash_ttl = default_hash_ttl config\<rparr>"

text \<open>
  The connection URL \<open>RedisConnectionPool::new\<close> builds. Every cluster URL is preceded by
  an ampersand and the first ampersand is skipped.
\<close>

definition redis_connection_url :: "RedisSettings \<Rightarrow> string" where
  "redis_connection_url conf =
     (if cluster_enabled conf
      then ''redis-cluster://'' @ host conf @ '':'' @ show_nat (unat (port conf)) @ ''?'' @
           concat (drop 1 (concat (map (\<lambda>url. [''&'', url]) (cluster_urls conf))))
      else ''redis://'' @ host conf @ '':'' @ show_nat (unat (port conf)))"

section \<open>Entry ids and reply enums\<close>

datatype RedisEntryId =
    UserSpecifiedID string string
  | AutoGeneratedID
  | AfterLastID
  | UndeliveredEntryID

fun XID_from :: "RedisEntryId \<Rightarrow> XID" where
  "XID_from (UserSpecifiedID milliseconds sequence_number) =
     XidManual (milliseconds @ ''-'' @ sequence_number)"
| "XID_from AutoGeneratedID = XidAuto"
| "XID_from AfterLastID = XidMax"
| "XID_from UndeliveredEntryID = XidNewInGroup"

datatype SetnxReply = KeySet | KeyNotSet

fun SetnxReply_from_value :: "FredValue \<Rightarrow> (RedisErrorKind, SetnxReply) result" where
  "SetnxReply_from_value (FredString s) = Ok SetnxReply.KeySet"
| "SetnxReply_from_value FredNull = Ok SetnxReply.KeyNotSet"
| "SetnxReply_from_value v = Err UnknownKind"

datatype HsetnxReply = KeySet | KeyNotSet

definition HsetnxReply_from_value :: "FredValue \<Rightarrow> (RedisErrorKind, HsetnxReply) result" where
  "HsetnxReply_from_value value =
     (if value = FredInteger 1 then Ok HsetnxReply.KeySet
      else if value = FredInteger 0 then Ok HsetnxReply.KeyNotSet
      else Err UnknownKind)"

datatype MsetnxReply = KeysSet | KeysNotSet

definition MsetnxReply_from_value :: "FredValue \<Rightarrow> (RedisErrorKind, MsetnxReply) result" where
  "MsetnxReply_from_value value =
     (if value = FredInteger 1 then Ok KeysSet
      else if value = FredInteger 0 then Ok KeysNotSet
      else Err UnknownKind)"

datatype StreamCapKind = MinID | MaxLen

datatype StreamCapTrim = Exact | AlmostExact

datatype DelReply = KeyDeleted | KeyNotDeleted

definition DelReply_from_value :: "FredValue \<Rightarrow> (RedisErrorKind, DelReply) result" where
  "DelReply_from_value value =
     (if value = FredInteger 1 then Ok KeyDeleted
      else if value = FredInteger 0 then Ok KeyNotDeleted
      else Err UnknownKind)"

datatype SaddReply = KeySet | KeyNotSet

definition SaddReply_from_value :: "FredValue \<Rightarrow> (RedisErrorKind, SaddReply) result" where
  "SaddReply_from_value value =
     (if value = FredInteger 1 then Ok SaddReply.KeySet
      else if value = FredInteger 0 then Ok SaddReply.KeyNotSet
      else Err UnknownKind)"

section \<open>Facts\<close>

lemma dropWhile_all_ws: "list_all P xs \<Longrightarrow> dropWhile P xs = []"
  by (induction xs) auto

lemma is_empty_after_trim_iff:
  "is_empty_after_trim s \<longleftrightarrow> list_all is_ascii_whitespace s"
proof -
  have ne: "rev (dropWhile P (rev t)) = [] \<longleftrightarrow> list_all P t" for P and t :: string
    by (simp add: dropWhile_eq_Nil_conv list_all_iff)
  have "list_all P (dropWhile P s) \<longleftrightarrow> list_all P s" for P
    by (induction s) auto
  then show ?thesis by (simp only: is_empty_after_trim_def str_trim_def ne)
qed

lemma is_default_or_empty_iff:
  "is_default_or_empty s \<longleftrightarrow> list_all is_ascii_whitespace s"
  by (auto simp: is_default_or_empty_def is_empty_after_trim_iff)

lemma SaddReply_from_value_cases:
  "SaddReply_from_value (FredInteger n) =
     (if n = 1 then Ok SaddReply.KeySet else if n = 0 then Ok SaddReply.KeyNotSet else Err UnknownKind)"
  by (simp add: SaddReply_from_value_def)

text \<open>The query part of a cluster URL is the URLs joined by ampersands.\<close>

lemma cluster_query_join:
  "concat (drop 1 (concat (map (\<lambda>url. [''&'', url]) urls))) = join_with CHR ''&'' urls"
proof (cases urls)
  case Nil
  then show ?thesis by simp
next
  case (Cons u us)
  have "u @ concat (concat (map (\<lambda>url. [''&'', url]) us)) = join_with CHR ''&'' (u # us)"
    by (induction us arbitrary: u) (auto simp: join_with_Cons)
  with Cons show ?thesis by simp
qed

end
