(* ===== verification/Errors.thy ===== *)
theory Errors
  imports Redis_Types
begin

text \<open>
  The error enums shared by the storage crates and the functions that turn one into another:
  \<open>common_utils/src/errors.rs\<close>, \<open>diesel_models/src/errors.rs\<close>,
  \<open>data_models/src/errors/db.rs\<close>, \<open>errors/utils.rs\<close>, \<open>errors.rs\<close> and
  \<open>storage_impl::diesel_error_to_data_error\<close>. A \<open>Report<E>\<close> inside an error is
  its current context.
\<close>

section \<open>Error enums\<close>

datatype ParsingError =
    EnumParseFailure string
  | StructParseFailure string
  | EncodeError string
  | UnknownError
  | DateTimeParsingError
  | EmailParsingError
  | PhoneNumberParsingError

datatype ValidationError =
    MissingRequiredField string
  | IncorrectValueProvided string
  | InvalidValue string

text \<open>Of Diesel's own error type the constructors the crates match on.\<close>

datatype DieselError =
    DieselUniqueViolation
  | DieselOtherDatabaseError
  | DieselNotFound
  | DieselQueryBuilderError
  | DieselOther

datatype DatabaseError =
    DatabaseConnectionError
  | NotFound
  | UniqueViolation
  | NoFieldsToUpdate
  | QueryGenerationFailed
  | Others

fun DatabaseError_from :: "DieselError \<Rightarrow> DatabaseError" where
  "DatabaseError_from DieselUniqueViolation = UniqueViolation"
| "DatabaseError_from DieselNotFound = DatabaseError.NotFound"
| "DatabaseError_from DieselQueryBuilderError = QueryGenerationFailed"
| "DatabaseError_from _ = Others"

datatype StorageError =
    InitializationError
  | DatabaseError DatabaseError
  | ValueNotFound string
  | DuplicateValue string "string option"
  | DatabaseConnectionError
  | KVError
  | SerializationFailed
  | MockDbError
  | KafkaError
  | CustomerRedacted
  | DeserializationFailed
  | EncryptionError
  | DecryptionError
  | RedisError RedisError

section \<open>Classification and conversion\<close>

fun is_db_not_found :: "StorageError \<Rightarrow> bool" where
  "is_db_not_found (DatabaseError err) \<longleftrightarrow> err = DatabaseError.NotFound"
| "is_db_not_found (ValueNotFound _) \<longleftrightarrow> True"
| "is_db_not_found _ \<longleftrightarrow> False"

fun is_db_unique_violation :: "StorageError \<Rightarrow> bool" where
  "is_db_unique_violation (DatabaseError err) \<longleftrightarrow> err = UniqueViolation"
| "is_db_unique_violation _ \<longleftrightarrow> False"

text \<open>\<open>storage_impl::diesel_error_to_data_error\<close>.\<close>

fun diesel_error_to_data_error :: "DatabaseError \<Rightarrow> StorageError" where
  "diesel_error_to_data_error DatabaseError.DatabaseConnectionError = StorageError.DatabaseConnectionError"
| "diesel_error_to_data_error DatabaseError.NotFound = ValueNotFound ''Value not found''"
| "diesel_error_to_data_error UniqueViolation = DuplicateValue ''entity '' None"
| "diesel_error_to_data_error e = DatabaseError e"

text \<open>\<open>RedisErrorExt::to_redis_failed_response\<close> of \<open>data_models/src/errors.rs\<close>, the one
  \<open>storage_impl\<close> re-exports, and the second one in \<open>errors/utils.rs\<close>.\<close>

definition to_redis_failed_response :: "RedisError \<Rightarrow> string \<Rightarrow> StorageError" where
  "to_redis_failed_response err key =
     (case err of
        RedisError.NotFound \<Rightarrow> ValueNotFound (''Data does not exist for key '' @ key)
      | SetNxFailed \<Rightarrow> DuplicateValue ''redis'' (Some key)
      | SetAddMembersFailed \<Rightarrow> DuplicateValue ''redis'' (Some key)
      | _ \<Rightarrow> KVError)"

definition utils_to_redis_failed_response :: "RedisError \<Rightarrow> string \<Rightarrow> StorageError" where
  "utils_to_redis_failed_response err key =
     (case err of
        RedisError.NotFound \<Rightarrow> ValueNotFound (''Data does not exist for key '' @ key)
      | SetNxFailed \<Rightarrow> DuplicateValue ''redis'' (Some key)
      | _ \<Rightarrow> KVError)"

text \<open>
  \<open>StorageErrorExt\<close> for the three response enums. Only the responses the functions
  themselves produce are named; the one the caller passes in is a parameter.
\<close>

definition customers_to_not_found_response ::
  "'r \<Rightarrow> 'r \<Rightarrow> (StorageError, 'a) result \<Rightarrow> 'r \<Rightarrow> ('r, 'a) result" where
  "customers_to_not_found_response redacted internal self not_found =
     (case self of Inr a \<Rightarrow> Ok a
      | Inl err \<Rightarrow> Err (if is_db_not_found err then not_found
                       else if err = CustomerRedacted then redacted else internal))"

definition customers_to_duplicate_response ::
  "'r \<Rightarrow> (StorageError, 'a) result \<Rightarrow> 'r \<Rightarrow> ('r, 'a) result" where
  "customers_to_duplicate_response internal self duplicate =
     (case self of Inr a \<Rightarrow> Ok a
      | Inl err \<Rightarrow> Err (if is_db_unique_violation err then duplicate else internal))"

definition api_to_not_found_response ::
  "'r \<Rightarrow> 'r \<Rightarrow> (StorageError, 'a) result \<Rightarrow> 'r \<Rightarrow> ('r, 'a) result" where
  "api_to_not_found_response redacted internal self not_found =
     (case self of Inr a \<Rightarrow> Ok a
      | Inl err \<Rightarrow> Err (case err of ValueNotFound _ \<Rightarrow> not_found
                       | CustomerRedacted \<Rightarrow> redacted | _ \<Rightarrow> internal))"

definition api_to_duplicate_response ::
  "'r \<Rightarrow> (StorageError, 'a) result \<Rightarrow> 'r \<Rightarrow> ('r, 'a) result" where
  "api_to_duplicate_response internal self duplicate =
     (case self of Inr a \<Rightarrow> Ok a
      | Inl err \<Rightarrow> Err (case err of DuplicateValue _ _ \<Rightarrow> duplicate | _ \<Rightarrow> internal))"

definition user_to_not_found_response ::
  "'r \<Rightarrow> (StorageError, 'a) result \<Rightarrow> 'r \<Rightarrow> ('r, 'a) result" where
  "user_to_not_found_response internal self not_found =
     (case self of Inr a \<Rightarrow> Ok a
      | Inl e \<Rightarrow> Err (if is_db_not_found e then not_found else internal))"

definition user_to_duplicate_response ::
  "'r \<Rightarrow> (StorageError, 'a) result \<Rightarrow> 'r \<Rightarrow> ('r, 'a) result" where
  "user_to_duplicate_response internal self duplicate =
     (case self of Inr a \<Rightarrow> Ok a
      | Inl e \<Rightarrow> Err (if is_db_unique_violation e then duplicate else internal))"

end
