(* ===== verification/Diesel_Generics.thy ===== *)
theory Diesel_Generics
  imports Errors "HOL-Library.Multiset"
begin

text \<open>
  \<open>crates/diesel_models/src/generics.rs\<close>: the generic insert, update, delete, find and
  filter queries every model of the crate goes through, and how each maps Diesel's errors.

  Diesel and PostgreSQL are a parameter, the record \<open>('s, 'r, 'k) diesel\<close>: the
  statements on one table with rows \<open>'r\<close> and primary key \<open>'k\<close>, as effects over a
  database state. A predicate is a WHERE clause, a changeset an optional row update (\<open>None\<close> when
  a changeset has no field, which Diesel refuses to build). The locale \<open>db_table\<close> states
  what SQL documents of these statements, over the map from keys to rows; \<open>mem_diesel\<close> is an
  executable table that meets it.
\<close>

section \<open>The statements\<close>

type_synonym 'r changeset = "('r \<Rightarrow> 'r) option"

record ('s, 'r, 'k) diesel =
  d_insert :: "'r \<Rightarrow> ('s, DieselError, 'r) eff"
  d_update :: "('r \<Rightarrow> bool) \<Rightarrow> 'r changeset \<Rightarrow> ('s, DieselError, nat) eff"
  d_update_returning :: "('r \<Rightarrow> bool) \<Rightarrow> 'r changeset \<Rightarrow> ('s, DieselError, 'r list) eff"
  d_update_by_id :: "'k \<Rightarrow> 'r changeset \<Rightarrow> ('s, DieselError, 'r) eff"
  d_delete :: "('r \<Rightarrow> bool) \<Rightarrow> ('s, DieselError, nat) eff"
  d_delete_returning :: "('r \<Rightarrow> bool) \<Rightarrow> ('s, DieselError, 'r list) eff"
  d_find :: "'k \<Rightarrow> ('s, DieselError, 'r) eff"
  d_find_one :: "('r \<Rightarrow> bool) \<Rightarrow> ('s, DieselError, 'r) eff"
  d_filter :: "('r \<Rightarrow> bool) \<Rightarrow> int option \<Rightarrow> int option \<Rightarrow> ('r \<Rightarrow> 'r \<Rightarrow> bool) option \<Rightarrow>
    ('s, DieselError, 'r list) eff"

section \<open>The generic queries\<close>

definition generic_insert :: "('s, 'r, 'k) diesel \<Rightarrow> 'r \<Rightarrow> ('s, DatabaseError, 'r) eff" where
  "generic_insert conn values =
     emap_err (\<lambda>err. if err = DieselUniqueViolation then UniqueViolation else Others) (d_insert conn values)"

definition generic_update ::
  "('s, 'r, 'k) diesel \<Rightarrow> ('r \<Rightarrow> bool) \<Rightarrow> 'r changeset \<Rightarrow> ('s, DatabaseError, nat) eff" where
  "generic_update conn predicate values = change_context Others (d_update conn predicate values)"

text \<open>The error mapping of the updates that return rows.\<close>

fun update_error :: "DieselError \<Rightarrow> DatabaseError" where
  "update_error DieselQueryBuilderError = NoFieldsToUpdate"
| "update_error DieselNotFound = DatabaseError.NotFound"
| "update_error _ = Others"

definition generic_update_with_results ::
  "('s, 'r, 'k) diesel \<Rightarrow> ('r \<Rightarrow> bool) \<Rightarrow> 'r changeset \<Rightarrow> ('s, DatabaseError, 'r list) eff" where
  "generic_update_with_results conn predicate values =
     emap_err update_error (d_update_returning conn predicate values)"

definition generic_update_with_unique_predicate_get_result ::
  "('s, 'r, 'k) diesel \<Rightarrow> ('r \<Rightarrow> bool) \<Rightarrow> 'r changeset \<Rightarrow> ('s, DatabaseError, 'r) eff" where
  "generic_update_with_unique_predicate_get_result conn predicate values =
     ebind (generic_update_with_results conn predicate values)
       (\<lambda>vec_r. if vec_r = [] then ethrow DatabaseError.NotFound
                else if length vec_r \<noteq> 1 then ethrow Others
                else ereturn (last vec_r))"

definition generic_update_by_id ::
  "('s, 'r, 'k) diesel \<Rightarrow> 'k \<Rightarrow> 'r changeset \<Rightarrow> ('s, DatabaseError, 'r) eff" where
  "generic_update_by_id conn i values = emap_err update_error (d_update_by_id conn i values)"

definition generic_delete :: "('s, 'r, 'k) diesel \<Rightarrow> ('r \<Rightarrow> bool) \<Rightarrow> ('s, DatabaseError, bool) eff" where
  "generic_delete conn predicate =
     ebind (change_context Others (d_delete conn predicate))
       (\<lambda>n. if n > 0 then ereturn True else ethrow DatabaseError.NotFound)"

definition generic_delete_one_with_result ::
  "('s, 'r, 'k) diesel \<Rightarrow> ('r \<Rightarrow> bool) \<Rightarrow> ('s, DatabaseError, 'r) eff" where
  "generic_delete_one_with_result conn predicate =
     ebind (change_context Others (d_delete_returning conn predicate))
       (\<lambda>result. case result of [] \<Rightarrow> ethrow DatabaseError.NotFound | r # _ \<Rightarrow> ereturn r)"

fun find_error :: "DieselError \<Rightarrow> DatabaseError" where
  "find_error DieselNotFound = DatabaseError.NotFound"
| "find_error _ = Others"

definition generic_find_by_id_core :: "('s, 'r, 'k) diesel \<Rightarrow> 'k \<Rightarrow> ('s, DatabaseError, 'r) eff" where
  "generic_find_by_id_core conn i = emap_err find_error (d_find conn i)"

definition generic_find_by_id :: "('s, 'r, 'k) diesel \<Rightarrow> 'k \<Rightarrow> ('s, DatabaseError, 'r) eff" where
  "generic_find_by_id conn i = generic_find_by_id_core conn i"

definition to_optional :: "(DatabaseError, 'a) result \<Rightarrow> (DatabaseError, 'a option) result" where
  "to_optional arg =
     (case arg of Inr value \<Rightarrow> Ok (Some value)
      | Inl err \<Rightarrow> if err = DatabaseError.NotFound then Ok None else Err err)"

definition generic_find_by_id_optional ::
  "('s, 'r, 'k) diesel \<Rightarrow> 'k \<Rightarrow> ('s, DatabaseError, 'r option) eff" where
  "generic_find_by_id_optional conn i s =
     (case generic_find_by_id_core conn i s of (r, s') \<Rightarrow> (to_optional r, s'))"

definition generic_find_one_core :: "('s, 'r, 'k) diesel \<Rightarrow> ('r \<Rightarrow> bool) \<Rightarrow> ('s, DatabaseError, 'r) eff" where
  "generic_find_one_core conn predicate = emap_err find_error (d_find_one conn predicate)"

definition generic_find_one :: "('s, 'r, 'k) diesel \<Rightarrow> ('r \<Rightarrow> bool) \<Rightarrow> ('s, DatabaseError, 'r) eff" where
  "generic_find_one conn predicate = generic_find_one_core conn predicate"

definition generic_find_one_optional ::
  "('s, 'r, 'k) diesel \<Rightarrow> ('r \<Rightarrow> bool) \<Rightarrow> ('s, DatabaseError, 'r option) eff" where
  "generic_find_one_optional conn predicate s =
     (case generic_find_one_core conn predicate s of (r, s') \<Rightarrow> (to_optional r, s'))"

text \<open>An order is an ORDER BY expression, given by the comparison it makes.\<close>

definition generic_filter ::
  "('s, 'r, 'k) diesel \<Rightarrow> ('r \<Rightarrow> bool) \<Rightarrow> int option \<Rightarrow> int option \<Rightarrow> ('r \<Rightarrow> 'r \<Rightarrow> bool) option \<Rightarrow>
   ('s, DatabaseError, 'r list) eff" where
  "generic_filter conn predicate limit offset order =
     change_context DatabaseError.NotFound (d_filter conn predicate limit offset order)"

section \<open>What SQL promises of a table\<close>

text \<open>Rows under a changeset: those that match are updated, the others stay.\<close>

definition update_rows :: "('r \<Rightarrow> bool) \<Rightarrow> ('r \<Rightarrow> 'r) \<Rightarrow> ('k \<rightharpoonup> 'r) \<Rightarrow> ('k \<rightharpoonup> 'r)" where
  "update_rows P f t = (\<lambda>k. map_option (\<lambda>r. if P r then f r else r) (t k))"

lemma update_rows_apply: "update_rows P f t k = map_option (\<lambda>r. if P r then f r else r) (t k)"
  by (simp add: update_rows_def)

lemma dom_update_rows [simp]: "dom (update_rows P f t) = dom t"
  by (auto simp: update_rows_def)

locale db_table =
  fixes D :: "('s, 'r, 'k) diesel"
    and pk :: "'r \<Rightarrow> 'k"
    and dvalid :: "'s \<Rightarrow> bool"
    and tbl :: "'s \<Rightarrow> 'k \<rightharpoonup> 'r"
  assumes key_law: "dvalid s \<Longrightarrow> tbl s k = Some r \<Longrightarrow> pk r = k"
    and insert_law: "dvalid s \<Longrightarrow> d_insert D r s = (x1, s') \<Longrightarrow>
      dvalid s' \<and> (tbl s' = tbl s \<or> tbl s (pk r) = None \<and> tbl s' = (tbl s)(pk r \<mapsto> r)) \<and>
      (\<forall>y. x1 = Ok y \<longrightarrow> y = r \<and> tbl s (pk r) = None \<and> tbl s' = (tbl s)(pk r \<mapsto> r)) \<and>
      (x1 = Err DieselUniqueViolation \<longrightarrow> tbl s' = tbl s)"
    and update_law: "dvalid s \<Longrightarrow> (\<And>r. pk (f r) = pk r) \<Longrightarrow> d_update D P (Some f) s = (x2, s') \<Longrightarrow>
      dvalid s' \<and> same_or (tbl s) (update_rows P f (tbl s)) (tbl s') \<and>
      (\<forall>m. x2 = Ok m \<longrightarrow> tbl s' = update_rows P f (tbl s))"
    and update_none_law: "dvalid s \<Longrightarrow> d_update D P None s = (x3, s') \<Longrightarrow>
      dvalid s' \<and> tbl s' = tbl s \<and> (\<exists>e. x3 = Err e)"
    and update_by_id_law: "dvalid s \<Longrightarrow> (\<And>r. pk (f r) = pk r) \<Longrightarrow> d_update_by_id D k (Some f) s = (x4, s') \<Longrightarrow>
      dvalid s' \<and> same_or (tbl s) ((tbl s)(k := map_option f (tbl s k))) (tbl s') \<and>
      (\<forall>y. x4 = Ok y \<longrightarrow> (\<exists>r. tbl s k = Some r \<and> y = f r \<and> tbl s' = (tbl s)(k \<mapsto> f r))) \<and>
      (x4 = Err DieselNotFound \<longrightarrow> tbl s k = None) \<and> x4 \<noteq> Err DieselQueryBuilderError"
    and update_by_id_none_law: "dvalid s \<Longrightarrow> d_update_by_id D k None s = (x5, s') \<Longrightarrow>
      dvalid s' \<and> tbl s' = tbl s \<and> (\<exists>e. x5 = Err e \<and> e \<noteq> DieselNotFound)"
    and find_law: "dvalid s \<Longrightarrow> d_find D k s = (x6, s') \<Longrightarrow>
      dvalid s' \<and> tbl s' = tbl s \<and> (\<forall>y. x6 = Ok y \<longrightarrow> tbl s k = Some y) \<and>
      (x6 = Err DieselNotFound \<longrightarrow> tbl s k = None)"
    and filter_law: "dvalid s \<Longrightarrow> d_filter D P limit None ord s = (x7, s') \<Longrightarrow>
      dvalid s' \<and> tbl s' = tbl s \<and>
      (\<forall>l. x7 = Ok l \<longrightarrow> distinct (map pk l) \<and> set l \<subseteq> {r \<in> ran (tbl s). P r} \<and>
         (limit = None \<longrightarrow> set l = {r \<in> ran (tbl s). P r}))"
    and delete_law: "dvalid s \<Longrightarrow> d_delete D P s = (x8, s') \<Longrightarrow>
      dvalid s' \<and> same_or (tbl s) (\<lambda>k. case tbl s k of None \<Rightarrow> None | Some r \<Rightarrow> if P r then None else Some r) (tbl s') \<and>
      (\<forall>n. x8 = Ok n \<longrightarrow>
         tbl s' = (\<lambda>k. case tbl s k of None \<Rightarrow> None | Some r \<Rightarrow> if P r then None else Some r) \<and>
         (n = 0 \<longleftrightarrow> (\<forall>r \<in> ran (tbl s). \<not> P r)))"
begin

text \<open>The generic queries over a table that keeps the laws.\<close>

lemma generic_insert_cases:
  assumes "dvalid s" and "generic_insert D r s = (x, s')"
  shows "dvalid s'" and "x = Ok y \<Longrightarrow> y = r \<and> tbl s (pk r) = None \<and> tbl s' = (tbl s)(pk r \<mapsto> r)"
    and "x = Err UniqueViolation \<Longrightarrow> tbl s' = tbl s"
proof -
  obtain z where z: "d_insert D r s = (z, s')"
    and x: "x = (case z of Inl e \<Rightarrow> Err (if e = DieselUniqueViolation then UniqueViolation else Others) | Inr a \<Rightarrow> Ok a)"
    using assms(2) by (auto simp: generic_insert_def emap_err_run split: prod.splits sum.splits)
  note l = insert_law [OF assms(1) z]
  show "dvalid s'" using l by blast
  show "x = Ok y \<Longrightarrow> y = r \<and> tbl s (pk r) = None \<and> tbl s' = (tbl s)(pk r \<mapsto> r)"
    using l x by (auto split: sum.splits)
  show "x = Err UniqueViolation \<Longrightarrow> tbl s' = tbl s"
    using l x by (auto split: sum.splits if_splits)
qed

lemma generic_update_cases:
  assumes "dvalid s" and "\<And>r. pk (f r) = pk r" and "generic_update D P (Some f) s = (x, s')"
  shows "dvalid s'" and "same_or (tbl s) (update_rows P f (tbl s)) (tbl s')"
    and "x = Ok n \<Longrightarrow> tbl s' = update_rows P f (tbl s)"
proof -
  obtain z where z: "d_update D P (Some f) s = (z, s')" and x: "x = Ok n \<Longrightarrow> z = Ok n"
    using assms(3) by (auto simp: generic_update_def change_context_run split: prod.splits sum.splits)
  note l = update_law [OF assms(1,2) z]
  show "dvalid s'" and "same_or (tbl s) (update_rows P f (tbl s)) (tbl s')"
    and "x = Ok n \<Longrightarrow> tbl s' = update_rows P f (tbl s)"
    using l x by blast+
qed

lemma generic_update_by_id_cases:
  assumes "dvalid s" and "\<And>r. pk (f r) = pk r" and "generic_update_by_id D k (Some f) s = (x, s')"
  shows "dvalid s' \<and> same_or (tbl s) ((tbl s)(k := map_option f (tbl s k))) (tbl s') \<and>
    (\<forall>y. x = Ok y \<longrightarrow> (\<exists>r. tbl s k = Some r \<and> y = f r \<and> tbl s' = (tbl s)(k \<mapsto> f r))) \<and>
    (x = Err DatabaseError.NotFound \<longrightarrow> tbl s k = None) \<and> x \<noteq> Err NoFieldsToUpdate"
proof -
  obtain z where z: "d_update_by_id D k (Some f) s = (z, s')"
    and x: "x = (case z of Inl e \<Rightarrow> Err (update_error e) | Inr a \<Rightarrow> Ok a)"
    using assms(3) by (auto simp: generic_update_by_id_def emap_err_run split: prod.splits sum.splits)
  note l = update_by_id_law [OF assms(1,2) z]
  show ?thesis
  proof (cases z)
    case (Inl e)
    with l x show ?thesis by (cases e) auto
  next
    case (Inr a)
    with l x show ?thesis by auto
  qed
qed

lemma generic_find_by_id_optional_cases:
  assumes "dvalid s" and "generic_find_by_id_optional D k s = (x, s')"
  shows "dvalid s' \<and> tbl s' = tbl s" and "x = Ok y \<Longrightarrow> y = tbl s k"
proof -
  obtain z where z: "d_find D k s = (z, s')"
    and x: "x = to_optional (case z of Inl e \<Rightarrow> Err (find_error e) | Inr a \<Rightarrow> Ok a)"
    using assms(2) by (auto simp: generic_find_by_id_optional_def generic_find_by_id_core_def emap_err_run
      split: prod.splits sum.splits)
  note l = find_law [OF assms(1) z]
  show "dvalid s' \<and> tbl s' = tbl s" using l by blast
  show "x = Ok y \<Longrightarrow> y = tbl s k"
  proof (cases z)
    case (Inl e)
    assume "x = Ok y"
    with l x Inl show ?thesis by (cases e) (auto simp: to_optional_def)
  next
    case (Inr a)
    assume "x = Ok y"
    with l x Inr show ?thesis by (auto simp: to_optional_def)
  qed
qed

lemma generic_filter_cases:
  assumes "dvalid s" and "generic_filter D P limit None ord s = (x, s')"
  shows "dvalid s' \<and> tbl s' = tbl s"
    and "x = Ok l \<Longrightarrow> distinct (map pk l) \<and> set l \<subseteq> {r \<in> ran (tbl s). P r} \<and>
      (limit = None \<longrightarrow> set l = {r \<in> ran (tbl s). P r})"
proof -
  obtain z where z: "d_filter D P limit None ord s = (z, s')" and x: "x = Ok l \<Longrightarrow> z = Ok l"
    using assms(2) by (auto simp: generic_filter_def change_context_run split: prod.splits sum.splits)
  note l = filter_law [OF assms(1) z]
  show "dvalid s' \<and> tbl s' = tbl s" using l by blast
  show "x = Ok l \<Longrightarrow> distinct (map pk l) \<and> set l \<subseteq> {r \<in> ran (tbl s). P r} \<and>
      (limit = None \<longrightarrow> set l = {r \<in> ran (tbl s). P r})"
    using l x by simp
qed

lemma generic_delete_cases:
  assumes "dvalid s" and "generic_delete D P s = (x, s')"
  shows "dvalid s'"
    and "x = Ok b \<Longrightarrow> b \<and> (\<exists>r \<in> ran (tbl s). P r) \<and> (\<forall>r \<in> ran (tbl s'). \<not> P r)"
    and "x = Err DatabaseError.NotFound \<Longrightarrow> (\<forall>r \<in> ran (tbl s). \<not> P r) \<and> tbl s' = tbl s"
proof -
  obtain z where z: "d_delete D P s = (z, s')"
    and x: "x = (case z of Inl e \<Rightarrow> Err Others | Inr n \<Rightarrow> if n > 0 then Ok True else Err DatabaseError.NotFound)"
    using assms(2) by (auto simp: generic_delete_def ebind_run change_context_run split: prod.splits sum.splits if_splits)
  note l = delete_law [OF assms(1) z]
  show "dvalid s'" using l by blast
  show "x = Ok b \<Longrightarrow> b \<and> (\<exists>r \<in> ran (tbl s). P r) \<and> (\<forall>r \<in> ran (tbl s'). \<not> P r)"
  proof -
    assume "x = Ok b"
    with x obtain n where n: "z = Ok n" "n > 0" "b" by (auto split: sum.splits if_splits)
    with l have "tbl s' = (\<lambda>k. case tbl s k of None \<Rightarrow> None | Some r \<Rightarrow> if P r then None else Some r)"
      by blast
    then have "\<forall>r \<in> ran (tbl s'). \<not> P r" by (auto simp: ran_def split: option.splits if_splits)
    with l n show ?thesis by blast
  qed
  show "x = Err DatabaseError.NotFound \<Longrightarrow> (\<forall>r \<in> ran (tbl s). \<not> P r) \<and> tbl s' = tbl s"
  proof -
    assume "x = Err DatabaseError.NotFound"
    with x have n: "z = Ok 0" by (auto split: sum.splits if_splits)
    with l have no: "\<forall>r \<in> ran (tbl s). \<not> P r" by blast
    moreover from this have "(\<lambda>k. case tbl s k of None \<Rightarrow> None | Some r \<Rightarrow> if P r then None else Some r) = tbl s"
      by (intro ext) (auto simp: ran_def split: option.splits)
    ultimately show ?thesis using l n by auto
  qed
qed

end

text \<open>A table with lookups by predicate and returning deletes.\<close>

locale db_lookup = db_table +
  assumes find_one_law: "dvalid s \<Longrightarrow> d_find_one D P s = (x9, s') \<Longrightarrow>
      dvalid s' \<and> tbl s' = tbl s \<and> (\<forall>y. x9 = Ok y \<longrightarrow> y \<in> ran (tbl s) \<and> P y) \<and>
      (x9 = Err DieselNotFound \<longrightarrow> (\<forall>r \<in> ran (tbl s). \<not> P r))"
begin

lemma generic_find_one_optional_cases:
  assumes "dvalid s" and "generic_find_one_optional D P s = (x, s')"
  shows "dvalid s' \<and> tbl s' = tbl s" and "x = Ok (Some y) \<Longrightarrow> y \<in> ran (tbl s) \<and> P y"
    and "x = Ok None \<Longrightarrow> \<forall>r \<in> ran (tbl s). \<not> P r"
proof -
  obtain z where z: "d_find_one D P s = (z, s')"
    and x: "x = to_optional (case z of Inl e \<Rightarrow> Err (find_error e) | Inr a \<Rightarrow> Ok a)"
    using assms(2) by (auto simp: generic_find_one_optional_def generic_find_one_core_def emap_err_run
      split: prod.splits sum.splits)
  note l = find_one_law [OF assms(1) z]
  show "dvalid s' \<and> tbl s' = tbl s" using l by blast
  show "x = Ok (Some y) \<Longrightarrow> y \<in> ran (tbl s) \<and> P y"
    using l x by (auto simp: to_optional_def split: sum.splits if_splits)
  show "x = Ok None \<Longrightarrow> \<forall>r \<in> ran (tbl s). \<not> P r"
  proof (cases z)
    case (Inl e)
    moreover assume "x = Ok None"
    ultimately show ?thesis using l x by (cases e) (auto simp: to_optional_def split: if_splits)
  next
    case (Inr a)
    moreover assume "x = Ok None"
    ultimately show ?thesis using x by (simp add: to_optional_def)
  qed
qed

end

section \<open>A table in memory\<close>

text \<open>The rows in insertion order.\<close>

definition mem_rows :: "('r \<Rightarrow> 'k) \<Rightarrow> 'r list \<Rightarrow> 'k \<rightharpoonup> 'r" where
  "mem_rows pk rows = map_of (map (\<lambda>r. (pk r, r)) rows)"

definition mem_unique :: "('r \<Rightarrow> 'k) \<Rightarrow> 'r list \<Rightarrow> bool" where
  "mem_unique pk rows \<longleftrightarrow> distinct (map pk rows)"

definition mem_update_rows :: "('r \<Rightarrow> bool) \<Rightarrow> ('r \<Rightarrow> 'r) \<Rightarrow> 'r list \<Rightarrow> 'r list" where
  "mem_update_rows P f rows = map (\<lambda>r. if P r then f r else r) rows"

fun order_insert :: "('r \<Rightarrow> 'r \<Rightarrow> bool) \<Rightarrow> 'r \<Rightarrow> 'r list \<Rightarrow> 'r list" where
  "order_insert le x [] = [x]"
| "order_insert le x (y # ys) = (if le x y then x # y # ys else y # order_insert le x ys)"

fun mem_order :: "('r \<Rightarrow> 'r \<Rightarrow> bool) option \<Rightarrow> 'r list \<Rightarrow> 'r list" where
  "mem_order None rows = rows"
| "mem_order (Some le) rows = foldr (order_insert le) rows []"

definition mem_diesel :: "('r \<Rightarrow> 'k) \<Rightarrow> ('r list, 'r, 'k) diesel" where
  "mem_diesel pk = \<lparr>
     d_insert = (\<lambda>r s. if pk r \<in> set (map pk s) then (Err DieselUniqueViolation, s) else (Ok r, s @ [r])),
     d_update = (\<lambda>P c s. case c of None \<Rightarrow> (Err DieselQueryBuilderError, s)
        | Some f \<Rightarrow> (Ok (length (filter P s)), mem_update_rows P f s)),
     d_update_returning = (\<lambda>P c s. case c of None \<Rightarrow> (Err DieselQueryBuilderError, s)
        | Some f \<Rightarrow> (Ok (map f (filter P s)), mem_update_rows P f s)),
     d_update_by_id = (\<lambda>k c s. case c of None \<Rightarrow> (Err DieselQueryBuilderError, s)
        | Some f \<Rightarrow> (case mem_rows pk s k of None \<Rightarrow> (Err DieselNotFound, s)
            | Some r \<Rightarrow> (Ok (f r), mem_update_rows (\<lambda>q. pk q = k) f s))),
     d_delete = (\<lambda>P s. (Ok (length (filter P s)), filter (\<lambda>r. \<not> P r) s)),
     d_delete_returning = (\<lambda>P s. (Ok (filter P s), filter (\<lambda>r. \<not> P r) s)),
     d_find = (\<lambda>k s. case mem_rows pk s k of None \<Rightarrow> (Err DieselNotFound, s) | Some r \<Rightarrow> (Ok r, s)),
     d_find_one = (\<lambda>P s. case find P s of None \<Rightarrow> (Err DieselNotFound, s) | Some r \<Rightarrow> (Ok r, s)),
     d_filter = (\<lambda>P limit offset order s.
        (Ok ((case limit of None \<Rightarrow> \<lambda>l. l | Some n \<Rightarrow> take (nat n))
             ((case offset of None \<Rightarrow> \<lambda>l. l | Some n \<Rightarrow> drop (nat n)) 
               (mem_order order (filter P s)))), s))\<rparr>"

lemma mset_order_insert [simp]: "mset (order_insert le x xs) = add_mset x (mset xs)"
  by (induction xs) auto

lemma mset_mem_order [simp]: "mset (mem_order ord xs) = mset xs"
proof (cases ord)
  case (Some le)
  have "mset (foldr (order_insert le) xs []) = mset xs" by (induction xs) auto
  with Some show ?thesis by simp
qed simp

lemma set_mem_order [simp]: "set (mem_order ord xs) = set xs"
  by (metis mset_mem_order set_mset_mset)

lemma mem_unique_order [simp]: "mem_unique pk (mem_order ord xs) = mem_unique pk xs"
  unfolding mem_unique_def by (metis mset_mem_order mset_map mset_eq_imp_distinct_iff)

lemma mem_rows_Some: "mem_rows pk s k = Some r \<Longrightarrow> r \<in> set s \<and> pk r = k"
  unfolding mem_rows_def by (auto dest: map_of_SomeD)

lemma mem_rows_iff: "mem_unique pk s \<Longrightarrow> mem_rows pk s k = Some r \<longleftrightarrow> r \<in> set s \<and> pk r = k"
  unfolding mem_rows_def mem_unique_def
  by (subst map_of_eq_Some_iff) (auto simp: comp_def)

lemma mem_rows_None: "mem_rows pk s k = None \<longleftrightarrow> k \<notin> pk ` set s"
  unfolding mem_rows_def by (auto simp: map_of_eq_None_iff image_image)

lemma ran_mem_rows: "mem_unique pk s \<Longrightarrow> ran (mem_rows pk s) = set s"
  by (auto simp: ran_def mem_rows_iff)

lemma mem_rows_append:
  "mem_rows pk s (pk r) = None \<Longrightarrow> mem_rows pk (s @ [r]) = (mem_rows pk s)(pk r \<mapsto> r)"
  by (rule ext) (auto simp: mem_rows_def map_add_def split: option.splits)

lemma mem_rows_update:
  "(\<And>r. pk (f r) = pk r) \<Longrightarrow> mem_rows pk (mem_update_rows P f s) = update_rows P f (mem_rows pk s)"
  by (induction s) (auto simp: mem_rows_def mem_update_rows_def update_rows_def fun_eq_iff)

lemma mem_unique_update:
  "(\<And>r. pk (f r) = pk r) \<Longrightarrow> mem_unique pk (mem_update_rows P f s) = mem_unique pk s"
proof -
  assume "\<And>r. pk (f r) = pk r"
  then have "map pk (mem_update_rows P f s) = map pk s" by (simp add: mem_update_rows_def)
  then show ?thesis by (simp add: mem_unique_def)
qed

lemma update_rows_by_id:
  "update_rows (\<lambda>q. pk q = k) f (mem_rows pk s) = (mem_rows pk s)(k := map_option f (mem_rows pk s k))"
proof (rule ext)
  fix j
  show "update_rows (\<lambda>q. pk q = k) f (mem_rows pk s) j = ((mem_rows pk s)(k := map_option f (mem_rows pk s k))) j"
  proof (cases "j = k")
    case True
    then show ?thesis by (cases "mem_rows pk s k") (auto simp: update_rows_def dest: mem_rows_Some)
  next
    case False
    then show ?thesis by (cases "mem_rows pk s j") (auto simp: update_rows_def dest!: mem_rows_Some)
  qed
qed

lemma mem_unique_filter: "mem_unique pk s \<Longrightarrow> mem_unique pk (filter P s)"
  by (simp add: mem_unique_def distinct_map_filter)

lemma mem_rows_filter:
  assumes "mem_unique pk s"
  shows "mem_rows pk (filter (\<lambda>r. \<not> P r) s) =
    (\<lambda>k. case mem_rows pk s k of None \<Rightarrow> None | Some r \<Rightarrow> if P r then None else Some r)"
proof (rule ext)
  fix k
  show "mem_rows pk (filter (\<lambda>r. \<not> P r) s) k =
      (case mem_rows pk s k of None \<Rightarrow> None | Some r \<Rightarrow> if P r then None else Some r)"
  proof (cases "mem_rows pk (filter (\<lambda>r. \<not> P r) s) k")
    case None
    then show ?thesis
      by (auto simp: mem_rows_None split: option.splits dest!: mem_rows_Some)
  next
    case (Some r)
    with assms have "mem_rows pk s k = Some r" and "\<not> P r"
      by (auto simp: mem_rows_iff mem_unique_filter)
    with Some show ?thesis by simp
  qed
qed

lemma mem_unique_take: "mem_unique pk l \<Longrightarrow> mem_unique pk (take n l)"
  by (simp add: mem_unique_def flip: take_map)

interpretation mem_table: db_table "mem_diesel pk" pk "mem_unique pk" "mem_rows pk"
proof
  fix s and r x1 s'
  assume v: "mem_unique pk s" and run: "d_insert (mem_diesel pk) r s = (x1, s')"
  then show "mem_unique pk s' \<and> (mem_rows pk s' = mem_rows pk s \<or>
      mem_rows pk s (pk r) = None \<and> mem_rows pk s' = (mem_rows pk s)(pk r \<mapsto> r)) \<and>
     (\<forall>y. x1 = Ok y \<longrightarrow> y = r \<and> mem_rows pk s (pk r) = None \<and> mem_rows pk s' = (mem_rows pk s)(pk r \<mapsto> r)) \<and>
     (x1 = Err DieselUniqueViolation \<longrightarrow> mem_rows pk s' = mem_rows pk s)"
    by (auto simp: mem_diesel_def mem_rows_None mem_rows_append mem_unique_def split: if_splits)
qed (auto simp: mem_diesel_def mem_rows_update mem_unique_update ran_mem_rows mem_unique_filter
    update_rows_by_id mem_rows_filter mem_unique_take
    mem_unique_def [symmetric] filter_empty_conv
    split: option.splits if_splits dest: mem_rows_Some in_set_takeD)

interpretation mem_lookup: db_lookup "mem_diesel pk" pk "mem_unique pk" "mem_rows pk"
  by unfold_locales
    (auto simp: mem_diesel_def ran_mem_rows find_None_iff find_Some_iff split: option.splits)

end
