(* ===== verification/Process_Tracker.thy ===== *)
theory Process_Tracker
  imports Diesel_Generics
begin

text \<open>
  The process tracker: the table of scheduled tasks (\<open>diesel_models/src/process_tracker.rs\<close>,
  \<open>diesel_models/src/enums.rs\<close>), its queries (\<open>diesel_models/src/query.rs\<close>) and the
  two implementations of \<open>ProcessTrackerInterface\<close> (\<open>scheduler/src/db/process_tracker.rs\<close>).

  A \<open>serde_json::Value\<close> is a type parameter \<open>'j\<close>. A \<open>PrimitiveDateTime\<close> is an
  \<open>int\<close>, microseconds since the Unix epoch (the resolution of the database column). An
  \<open>i32\<close> is an \<open>int\<close>; its one addition wraps, as in a release build. Every reading of the
  clock takes the next value of an arbitrary sequence that is part of the world.
\<close>

section \<open>Data\<close>

datatype ProcessTrackerStatus = Processing | New | Pending | ProcessStarted | Finish

datatype ProcessTrackerRunner =
    PaymentsSyncWorkflow
  | RefundWorkflowRouter
  | DeleteTokenizeDataWorkflow
  | ApiKeyExpiryWorkflow
  | OutgoingWebhookRetryWorkflow

fun ProcessTrackerRunner_to_string :: "ProcessTrackerRunner \<Rightarrow> string" where
  "ProcessTrackerRunner_to_string PaymentsSyncWorkflow = ''PAYMENTS_SYNC_WORKFLOW''"
| "ProcessTrackerRunner_to_string RefundWorkflowRouter = ''REFUND_WORKFLOW_ROUTER''"
| "ProcessTrackerRunner_to_string DeleteTokenizeDataWorkflow = ''DELETE_TOKENIZE_DATA_WORKFLOW''"
| "ProcessTrackerRunner_to_string ApiKeyExpiryWorkflow = ''API_KEY_EXPIRY_WORKFLOW''"
| "ProcessTrackerRunner_to_string OutgoingWebhookRetryWorkflow = ''OUTGOING_WEBHOOK_RETRY_WORKFLOW''"

definition ProcessTrackerRunner_from_str :: "string \<Rightarrow> ProcessTrackerRunner option" where
  "ProcessTrackerRunner_from_str s =
     find (\<lambda>r. ProcessTrackerRunner_to_string r = s)
       [PaymentsSyncWorkflow, RefundWorkflowRouter, DeleteTokenizeDataWorkflow,
        ApiKeyExpiryWorkflow, OutgoingWebhookRetryWorkflow]"

record 'j ProcessTracker =
  pt_id :: string
  pt_name :: "string option"
  pt_tag :: "string list"
  pt_runner :: "string option"
  pt_retry_count :: int
  pt_schedule_time :: "int option"
  pt_rule :: string
  pt_tracking_data :: 'j
  pt_business_status :: string
  pt_status :: ProcessTrackerStatus
  pt_event :: "string list"
  pt_created_at :: int
  pt_updated_at :: int

definition is_valid_business_status :: "'j ProcessTracker \<Rightarrow> string list \<Rightarrow> bool" where
  "is_valid_business_status self valid_statuses =
     list_ex (\<lambda>x. x = pt_business_status self) valid_statuses"

record 'j ProcessTrackerNew =
  ptn_id :: string
  ptn_name :: "string option"
  ptn_tag :: "string list"
  ptn_runner :: "string option"
  ptn_retry_count :: int
  ptn_schedule_time :: "int option"
  ptn_rule :: string
  ptn_tracking_data :: 'j
  ptn_business_status :: string
  ptn_status :: ProcessTrackerStatus
  ptn_event :: "string list"
  ptn_created_at :: int
  ptn_updated_at :: int

text \<open>\<open>encode_to_value\<close> is serde, the parameter \<open>encode\<close>.\<close>

definition ProcessTrackerNew_new ::
  "('t \<Rightarrow> 'j option) \<Rightarrow> int \<Rightarrow> string \<Rightarrow> string \<Rightarrow> ProcessTrackerRunner \<Rightarrow> string list \<Rightarrow> 't \<Rightarrow> int \<Rightarrow>
   (DatabaseError, 'j ProcessTrackerNew) result" where
  "ProcessTrackerNew_new encode current_time process_tracker_id task runner tag tracking_data schedule_time =
     (case encode tracking_data of
        None \<Rightarrow> Err Others
      | Some data \<Rightarrow> Ok \<lparr>
          ptn_id = process_tracker_id,
          ptn_name = Some task,
          ptn_tag = tag,
          ptn_runner = Some (ProcessTrackerRunner_to_string runner),
          ptn_retry_count = 0,
          ptn_schedule_time = Some schedule_time,
          ptn_rule = [],
          ptn_tracking_data = data,
          ptn_business_status = ''Pending'',
          ptn_status = New,
          ptn_event = [],
          ptn_created_at = current_time,
          ptn_updated_at = current_time\<rparr>)"

text \<open>The row a new record becomes, written out in \<open>MockDb::insert_process\<close> and derived by
  Diesel's \<open>Insertable\<close>.\<close>

definition ProcessTracker_of_new :: "'j ProcessTrackerNew \<Rightarrow> 'j ProcessTracker" where
  "ProcessTracker_of_new n = \<lparr>
     pt_id = ptn_id n,
     pt_name = ptn_name n,
     pt_tag = ptn_tag n,
     pt_runner = ptn_runner n,
     pt_retry_count = ptn_retry_count n,
     pt_schedule_time = ptn_schedule_time n,
     pt_rule = ptn_rule n,
     pt_tracking_data = ptn_tracking_data n,
     pt_business_status = ptn_business_status n,
     pt_status = ptn_status n,
     pt_event = ptn_event n,
     pt_created_at = ptn_created_at n,
     pt_updated_at = ptn_updated_at n\<rparr>"

datatype 'j ProcessTrackerUpdate =
    Update "string option" "int option" "int option" "'j option" "string option"
      "ProcessTrackerStatus option" "int option"
  | StatusUpdate ProcessTrackerStatus "string option"
  | StatusRetryUpdate ProcessTrackerStatus int int

record 'j ProcessTrackerUpdateInternal =
  upd_name :: "string option"
  upd_retry_count :: "int option"
  upd_schedule_time :: "int option"
  upd_tracking_data :: "'j option"
  upd_business_status :: "string option"
  upd_status :: "ProcessTrackerStatus option"
  upd_updated_at :: "int option"

definition ProcessTrackerUpdateInternal_default :: "int \<Rightarrow> 'j ProcessTrackerUpdateInternal" where
  "ProcessTrackerUpdateInternal_default now = \<lparr>
     upd_name = None,
     upd_retry_count = None,
     upd_schedule_time = None,
     upd_tracking_data = None,
     upd_business_status = None,
     upd_status = None,
     upd_updated_at = Some now\<rparr>"

text \<open>\<open>From<ProcessTrackerUpdate>\<close>; the clock is read by the default in the last two cases.\<close>

fun ProcessTrackerUpdateInternal_from ::
  "int \<Rightarrow> 'j ProcessTrackerUpdate \<Rightarrow> 'j ProcessTrackerUpdateInternal" where
  "ProcessTrackerUpdateInternal_from now
     (Update name retry_count schedule_time tracking_data business_status status updated_at) = \<lparr>
       upd_name = name,
       upd_retry_count = retry_count,
       upd_schedule_time = schedule_time,
       upd_tracking_data = tracking_data,
       upd_business_status = business_status,
       upd_status = status,
       upd_updated_at = updated_at\<rparr>"
| "ProcessTrackerUpdateInternal_from now (StatusUpdate status business_status) =
     (ProcessTrackerUpdateInternal_default now)
       \<lparr>upd_status := Some status, upd_business_status := business_status\<rparr>"
| "ProcessTrackerUpdateInternal_from now (StatusRetryUpdate status retry_count schedule_time) =
     (ProcessTrackerUpdateInternal_default now)
       \<lparr>upd_status := Some status, upd_retry_count := Some retry_count,
        upd_schedule_time := Some schedule_time\<rparr>"

text \<open>The derived \<open>AsChangeset\<close>: a field that is \<open>None\<close> is left out of the SET clause, and an
  update with no field at all cannot be built.\<close>

definition apply_update :: "'j ProcessTrackerUpdateInternal \<Rightarrow> 'j ProcessTracker \<Rightarrow> 'j ProcessTracker" where
  "apply_update u r = r\<lparr>
     pt_name := (case upd_name u of None \<Rightarrow> pt_name r | Some n \<Rightarrow> Some n),
     pt_retry_count := or_old (upd_retry_count u) (pt_retry_count r),
     pt_schedule_time := (case upd_schedule_time u of None \<Rightarrow> pt_schedule_time r | Some t \<Rightarrow> Some t),
     pt_tracking_data := or_old (upd_tracking_data u) (pt_tracking_data r),
     pt_business_status := or_old (upd_business_status u) (pt_business_status r),
     pt_status := or_old (upd_status u) (pt_status r),
     pt_updated_at := or_old (upd_updated_at u) (pt_updated_at r)\<rparr>"

definition as_changeset :: "'j ProcessTrackerUpdateInternal \<Rightarrow> 'j ProcessTracker changeset" where
  "as_changeset u =
     (if upd_name u = None \<and> upd_retry_count u = None \<and> upd_schedule_time u = None \<and>
         upd_tracking_data u = None \<and> upd_business_status u = None \<and> upd_status u = None \<and>
         upd_updated_at u = None
      then None else Some (apply_update u))"

section \<open>Queries (query.rs)\<close>

type_synonym ('d, 'j) pt_conn = "('d, 'j ProcessTracker, string) diesel"

definition pt_insert_process ::
  "('d, 'j) pt_conn \<Rightarrow> 'j ProcessTrackerNew \<Rightarrow> ('d, DatabaseError, 'j ProcessTracker) eff" where
  "pt_insert_process conn self = generic_insert conn (ProcessTracker_of_new self)"

text \<open>An update without fields is not an error here: the task the caller holds is returned.\<close>

definition pt_update ::
  "('d, 'j) pt_conn \<Rightarrow> int \<Rightarrow> 'j ProcessTracker \<Rightarrow> 'j ProcessTrackerUpdate \<Rightarrow>
   ('d, DatabaseError, 'j ProcessTracker) eff" where
  "pt_update conn now self process =
     ematch (generic_update_by_id conn (pt_id self)
               (as_changeset (ProcessTrackerUpdateInternal_from now process)))
       (\<lambda>error. if error = NoFieldsToUpdate then ereturn self else ethrow error)
       ereturn"

definition pt_update_process_status_by_ids ::
  "('d, 'j) pt_conn \<Rightarrow> int \<Rightarrow> string list \<Rightarrow> 'j ProcessTrackerUpdate \<Rightarrow> ('d, DatabaseError, nat) eff" where
  "pt_update_process_status_by_ids conn now task_ids task_update =
     generic_update conn (\<lambda>r. pt_id r \<in> set task_ids)
       (as_changeset (ProcessTrackerUpdateInternal_from now task_update))"

definition pt_find_process_by_id ::
  "('d, 'j) pt_conn \<Rightarrow> string \<Rightarrow> ('d, DatabaseError, 'j ProcessTracker option) eff" where
  "pt_find_process_by_id conn i = generic_find_by_id_optional conn i"

text \<open>SQL's BETWEEN includes both ends and is not true of NULL.\<close>

definition scheduled_between :: "int \<Rightarrow> int \<Rightarrow> 'j ProcessTracker \<Rightarrow> bool" where
  "scheduled_between lower upper r =
     (case pt_schedule_time r of None \<Rightarrow> False | Some t \<Rightarrow> lower \<le> t \<and> t \<le> upper)"

definition pt_find_processes_by_time_status ::
  "('d, 'j) pt_conn \<Rightarrow> int \<Rightarrow> int \<Rightarrow> ProcessTrackerStatus \<Rightarrow> int option \<Rightarrow>
   ('d, DatabaseError, 'j ProcessTracker list) eff" where
  "pt_find_processes_by_time_status conn time_lower_limit time_upper_limit status limit =
     generic_filter conn
       (\<lambda>r. scheduled_between time_lower_limit time_upper_limit r \<and> pt_status r = status) limit None None"

text \<open>\<open>Option\<close>'s order puts \<open>None\<close> first; \<open>sort_by\<close> is stable.\<close>

definition schedule_le :: "'j ProcessTracker \<Rightarrow> 'j ProcessTracker \<Rightarrow> bool" where
  "schedule_le a b =
     (case (pt_schedule_time a, pt_schedule_time b) of
        (None, _) \<Rightarrow> True | (Some _, None) \<Rightarrow> False | (Some x, Some y) \<Rightarrow> x \<le> y)"

fun insert_by_schedule :: "'j ProcessTracker \<Rightarrow> 'j ProcessTracker list \<Rightarrow> 'j ProcessTracker list" where
  "insert_by_schedule a [] = [a]"
| "insert_by_schedule a (b # bs) = (if schedule_le a b then a # b # bs else b # insert_by_schedule a bs)"

definition sort_by_schedule :: "'j ProcessTracker list \<Rightarrow> 'j ProcessTracker list" where
  "sort_by_schedule xs = foldr insert_by_schedule xs []"

definition pt_find_processes_to_clean ::
  "('d, 'j) pt_conn \<Rightarrow> int \<Rightarrow> int \<Rightarrow> string \<Rightarrow> nat \<Rightarrow> ('d, DatabaseError, 'j ProcessTracker list) eff" where
  "pt_find_processes_to_clean conn time_lower_limit time_upper_limit runner limit =
     ebind (generic_filter conn
              (\<lambda>r. scheduled_between time_lower_limit time_upper_limit r \<and>
                   pt_status r = ProcessStarted \<and> pt_runner r = Some runner) None None None)
       (\<lambda>x. ereturn (take limit (sort_by_schedule x)))"

definition pt_reinitialize_limbo_processes ::
  "('d, 'j) pt_conn \<Rightarrow> string list \<Rightarrow> int \<Rightarrow> ('d, DatabaseError, nat) eff" where
  "pt_reinitialize_limbo_processes conn ids schedule_time =
     generic_update conn (\<lambda>r. pt_status r = ProcessStarted \<and> pt_id r \<in> set ids)
       (Some (\<lambda>r. r\<lparr>pt_status := Processing, pt_schedule_time := Some schedule_time\<rparr>))"

section \<open>Facts\<close>

lemma ProcessTrackerRunner_roundtrip: "ProcessTrackerRunner_from_str (ProcessTrackerRunner_to_string r) = Some r"
  by (cases r) (simp_all add: ProcessTrackerRunner_from_str_def)

lemma pt_id_apply_update [simp]: "pt_id (apply_update u r) = pt_id r"
  by (simp add: apply_update_def)

lemma as_changeset_status [simp]:
  "as_changeset (ProcessTrackerUpdateInternal_from now (StatusUpdate st b)) =
     Some (apply_update (ProcessTrackerUpdateInternal_from now (StatusUpdate st b)))"
  "as_changeset (ProcessTrackerUpdateInternal_from now (StatusRetryUpdate st n t)) =
     Some (apply_update (ProcessTrackerUpdateInternal_from now (StatusRetryUpdate st n t)))"
  by (simp_all add: as_changeset_def ProcessTrackerUpdateInternal_default_def)

lemma apply_StatusUpdate:
  "apply_update (ProcessTrackerUpdateInternal_from now (StatusUpdate st b)) r =
     r\<lparr>pt_status := st, pt_business_status := or_old b (pt_business_status r), pt_updated_at := now\<rparr>"
  by (simp add: apply_update_def ProcessTrackerUpdateInternal_default_def or_old_def)

lemma apply_StatusRetryUpdate:
  "apply_update (ProcessTrackerUpdateInternal_from now (StatusRetryUpdate st n t)) r =
     r\<lparr>pt_status := st, pt_retry_count := n, pt_schedule_time := Some t, pt_updated_at := now\<rparr>"
  by (simp add: apply_update_def ProcessTrackerUpdateInternal_default_def or_old_def)

declare ProcessTrackerUpdateInternal_from.simps [simp del]

lemma schedule_le_total: "schedule_le a b \<or> schedule_le b a"
  by (auto simp: schedule_le_def split: option.splits)

lemma schedule_le_trans: "schedule_le a b \<Longrightarrow> schedule_le b c \<Longrightarrow> schedule_le a c"
  by (auto simp: schedule_le_def split: option.splits)

lemma set_insert_by_schedule [simp]: "set (insert_by_schedule a bs) = insert a (set bs)"
  by (induction bs) auto

lemma sorted_insert_by_schedule:
  "sorted_wrt schedule_le bs \<Longrightarrow> sorted_wrt schedule_le (insert_by_schedule a bs)"
proof (induction bs)
  case Nil
  then show ?case by simp
next
  case (Cons b bs)
  then show ?case
    using schedule_le_total [of a b] by (auto intro: schedule_le_trans)
qed

lemma sort_by_schedule_sorted: "sorted_wrt schedule_le (sort_by_schedule xs)"
  unfolding sort_by_schedule_def by (induction xs) (auto intro: sorted_insert_by_schedule)

lemma set_sort_by_schedule [simp]: "set (sort_by_schedule xs) = set xs"
  unfolding sort_by_schedule_def by (induction xs) auto

lemma length_insert_by_schedule [simp]: "length (insert_by_schedule a bs) = Suc (length bs)"
  by (induction bs) auto

lemma length_sort_by_schedule [simp]: "length (sort_by_schedule xs) = length xs"
  unfolding sort_by_schedule_def by (induction xs) auto

end
