(* ===== verification/Redis_Commands.thy ===== *)
theory Redis_Commands
  imports Redis_Types
begin

text \<open>
  \<open>RedisConnectionPool\<close> of \<open>crates/redis_interface/src/commands.rs\<close>: every
  command of the crate as an effect over the state \<open>'s\<close> of a Redis server.

  The client library and the server are parameters: the record \<open>'s fred\<close> holds the raw
  commands the crate calls, with the library's own error kinds, and each definition below
  takes the pool that carries it. What the code relies on of these commands is stated as a
  locale in \<open>Redis_Server\<close>. JSON encoding (serde) is a pair of parameters \<open>ser\<close> and
  \<open>de\<close>, \<open>None\<close> for a failure.
\<close>

section \<open>The client library\<close>

type_synonym StreamEntry = "string \<times> (string \<rightharpoonup> string)"
type_synonym StreamReadResult = "string \<rightharpoonup> StreamEntry list"
type_synonym 'a xread = "(string \<times> (string \<times> (string \<rightharpoonup> 'a)) list) list"

record 's fred =
  fred_set :: "string \<Rightarrow> string \<Rightarrow> int \<Rightarrow> bool \<Rightarrow> ('s, RedisErrorKind, FredValue) eff"
  fred_msetnx :: "(string \<times> string) list \<Rightarrow> ('s, RedisErrorKind, FredValue) eff"
  fred_get :: "string \<Rightarrow> ('s, RedisErrorKind, string) eff"
  fred_mget :: "string list \<Rightarrow> ('s, RedisErrorKind, string option list) eff"
  fred_exists :: "string \<Rightarrow> ('s, RedisErrorKind, bool) eff"
  fred_del :: "string \<Rightarrow> ('s, RedisErrorKind, FredValue) eff"
  fred_expire :: "string \<Rightarrow> int \<Rightarrow> ('s, RedisErrorKind, unit) eff"
  fred_expire_at :: "string \<Rightarrow> int \<Rightarrow> ('s, RedisErrorKind, unit) eff"
  fred_hset :: "string \<Rightarrow> (string \<times> string) list \<Rightarrow> ('s, RedisErrorKind, unit) eff"
  fred_hsetnx :: "string \<Rightarrow> string \<Rightarrow> string \<Rightarrow> ('s, RedisErrorKind, FredValue) eff"
  fred_hget :: "string \<Rightarrow> string \<Rightarrow> ('s, RedisErrorKind, string) eff"
  fred_hscan :: "string \<Rightarrow> string \<Rightarrow> 32 word option \<Rightarrow>
      's \<Rightarrow> (RedisErrorKind, (string \<times> FredValue) list option) result list \<times> 's"
  fred_as_string :: "FredValue \<Rightarrow> string option"
  fred_sadd :: "string \<Rightarrow> string list \<Rightarrow> ('s, RedisErrorKind, FredValue) eff"
  fred_xadd :: "string \<Rightarrow> XID \<Rightarrow> (string \<times> string) list \<Rightarrow> ('s, RedisErrorKind, unit) eff"
  fred_xdel :: "string \<Rightarrow> string list \<Rightarrow> ('s, RedisErrorKind, nat) eff"
  fred_xtrim :: "string \<Rightarrow> StreamCapKind \<times> StreamCapTrim \<times> string \<Rightarrow> ('s, RedisErrorKind, nat) eff"
  fred_xack :: "string \<Rightarrow> string \<Rightarrow> string list \<Rightarrow> ('s, RedisErrorKind, nat) eff"
  fred_xlen :: "string \<Rightarrow> ('s, RedisErrorKind, nat) eff"
  fred_xread_map :: "64 word option \<Rightarrow> 64 word option \<Rightarrow> string \<Rightarrow> XID \<Rightarrow>
      ('s, RedisErrorKind, StreamEntry list option) eff"
  fred_xreadgroup_map :: "string \<Rightarrow> string \<Rightarrow> 64 word option \<Rightarrow> 64 word option \<Rightarrow> string \<Rightarrow> XID \<Rightarrow>
      ('s, RedisErrorKind, string option xread) eff"
  fred_xgroup_create :: "string \<Rightarrow> string \<Rightarrow> XID \<Rightarrow> bool \<Rightarrow> ('s, RedisErrorKind, unit) eff"
  fred_xgroup_destroy :: "string \<Rightarrow> string \<Rightarrow> ('s, RedisErrorKind, nat) eff"
  fred_xgroup_delconsumer :: "string \<Rightarrow> string \<Rightarrow> string \<Rightarrow> ('s, RedisErrorKind, nat) eff"
  fred_xgroup_setid :: "string \<Rightarrow> string \<Rightarrow> XID \<Rightarrow> ('s, RedisErrorKind, string) eff"
  fred_publish :: "string \<Rightarrow> FredValue \<Rightarrow> ('s, RedisErrorKind, nat) eff"
  fred_subscribe :: "string \<Rightarrow> ('s, RedisErrorKind, unit) eff"

text \<open>
  \<open>xread_map\<close> on one stream returns the entries of that stream under its name, or no
  stream at all; \<open>RedisConnectionPool\<close> keeps the configuration and the availability
  flag the error listener clears.
\<close>

record 's RedisConnectionPool =
  pool :: "'s fred"
  config :: RedisConfig
  is_redis_available :: bool

section \<open>Keys\<close>

definition set_key :: "'s RedisConnectionPool \<Rightarrow> string \<Rightarrow> string \<Rightarrow> ('s, RedisError, unit) eff" where
  "set_key self key value =
     ebind (change_context SetFailed
              (fred_set (pool self) key value (uint (cfg_default_ttl (config self))) False))
       (\<lambda>_. ereturn ())"

definition set_multiple_keys_if_not_exist ::
  "'s RedisConnectionPool \<Rightarrow> (string \<times> string) list \<Rightarrow> ('s, RedisError, MsetnxReply) eff" where
  "set_multiple_keys_if_not_exist self value =
     change_context SetFailed
       (ebind (fred_msetnx (pool self) value) (\<lambda>v. elift (MsetnxReply_from_value v)))"

definition set_key_if_not_exists_with_expiry ::
  "'s RedisConnectionPool \<Rightarrow> string \<Rightarrow> string \<Rightarrow> int option \<Rightarrow> ('s, RedisError, SetnxReply) eff" where
  "set_key_if_not_exists_with_expiry self key value seconds =
     change_context SetFailed
       (ebind (fred_set (pool self) key value
                 (case seconds of None \<Rightarrow> uint (cfg_default_ttl (config self)) | Some t \<Rightarrow> t) True)
          (\<lambda>v. elift (SetnxReply_from_value v)))"

text \<open>\<open>encode_to_vec().change_context(JsonSerializationFailed)?\<close>\<close>

definition encode_to_vec :: "('v \<Rightarrow> string option) \<Rightarrow> 'v \<Rightarrow> ('s, RedisError, string) eff" where
  "encode_to_vec ser value =
     (case ser value of None \<Rightarrow> ethrow JsonSerializationFailed | Some b \<Rightarrow> ereturn b)"

definition serialize_and_set_key_if_not_exist ::
  "'s RedisConnectionPool \<Rightarrow> ('v \<Rightarrow> string option) \<Rightarrow> string \<Rightarrow> 'v \<Rightarrow> int option \<Rightarrow>
   ('s, RedisError, SetnxReply) eff" where
  "serialize_and_set_key_if_not_exist self ser key value ttl =
     ebind (encode_to_vec ser value)
       (\<lambda>serialized. set_key_if_not_exists_with_expiry self key serialized ttl)"

definition serialize_and_set_key ::
  "'s RedisConnectionPool \<Rightarrow> ('v \<Rightarrow> string option) \<Rightarrow> string \<Rightarrow> 'v \<Rightarrow> ('s, RedisError, unit) eff" where
  "serialize_and_set_key self ser key value =
     ebind (encode_to_vec ser value) (\<lambda>serialized. set_key self key serialized)"

definition serialize_and_set_key_with_expiry ::
  "'s RedisConnectionPool \<Rightarrow> ('v \<Rightarrow> string option) \<Rightarrow> string \<Rightarrow> 'v \<Rightarrow> int \<Rightarrow> ('s, RedisError, unit) eff" where
  "serialize_and_set_key_with_expiry self ser key value seconds =
     ebind (encode_to_vec ser value)
       (\<lambda>serialized. ebind (change_context SetExFailed (fred_set (pool self) key serialized seconds False))
          (\<lambda>_. ereturn ()))"

definition get_key :: "'s RedisConnectionPool \<Rightarrow> string \<Rightarrow> ('s, RedisError, string) eff" where
  "get_key self key = change_context GetFailed (fred_get (pool self) key)"

definition key_exists :: "'s RedisConnectionPool \<Rightarrow> string \<Rightarrow> ('s, RedisError, bool) eff" where
  "key_exists self key = change_context GetFailed (fred_exists (pool self) key)"

text \<open>An absent key reads as no bytes, which the code reports as \<open>NotFound\<close>.\<close>

definition get_and_deserialize_key ::
  "'s RedisConnectionPool \<Rightarrow> (string \<Rightarrow> 'v option) \<Rightarrow> string \<Rightarrow> ('s, RedisError, 'v) eff" where
  "get_and_deserialize_key self de key =
     ebind (get_key self key)
       (\<lambda>value_bytes. ebind (elift (when_pred (value_bytes = []) (Err NotFound)))
          (\<lambda>_. case de value_bytes of
                 None \<Rightarrow> ethrow JsonDeserializationFailed
               | Some v \<Rightarrow> ereturn v))"

definition delete_key :: "'s RedisConnectionPool \<Rightarrow> string \<Rightarrow> ('s, RedisError, DelReply) eff" where
  "delete_key self key =
     change_context DeleteFailed
       (ebind (fred_del (pool self) key) (\<lambda>v. elift (DelReply_from_value v)))"

definition set_key_with_expiry ::
  "'s RedisConnectionPool \<Rightarrow> string \<Rightarrow> string \<Rightarrow> int \<Rightarrow> ('s, RedisError, unit) eff" where
  "set_key_with_expiry self key value seconds =
     ebind (change_context SetExFailed (fred_set (pool self) key value seconds False))
       (\<lambda>_. ereturn ())"

definition set_expiry :: "'s RedisConnectionPool \<Rightarrow> string \<Rightarrow> int \<Rightarrow> ('s, RedisError, unit) eff" where
  "set_expiry self key seconds = change_context SetExpiryFailed (fred_expire (pool self) key seconds)"

definition set_expire_at :: "'s RedisConnectionPool \<Rightarrow> string \<Rightarrow> int \<Rightarrow> ('s, RedisError, unit) eff" where
  "set_expire_at self key timestamp =
     change_context SetExpiryFailed (fred_expire_at (pool self) key timestamp)"

definition get_multiple_keys ::
  "'s RedisConnectionPool \<Rightarrow> string list \<Rightarrow> ('s, RedisError, string option list) eff" where
  "get_multiple_keys self keys = change_context GetFailed (fred_mget (pool self) keys)"

text \<open>The error of a value that does not decode is \<open>JsonSerializationFailed\<close> here, as in the code.\<close>

definition get_and_deserialize_multiple_keys ::
  "'s RedisConnectionPool \<Rightarrow> (string \<Rightarrow> 'v option) \<Rightarrow> string list \<Rightarrow> ('s, RedisError, 'v option list) eff" where
  "get_and_deserialize_multiple_keys self de keys =
     ebind (get_multiple_keys self keys)
       (\<lambda>data. elift (collect_results (map (\<lambda>value_bytes.
          case value_bytes of None \<Rightarrow> Ok None
          | Some bytes \<Rightarrow> (case de bytes of None \<Rightarrow> Err JsonSerializationFailed
                          | Some v \<Rightarrow> Ok (Some v))) data)))"

section \<open>Hashes and sets\<close>

definition set_hash_fields ::
  "'s RedisConnectionPool \<Rightarrow> string \<Rightarrow> (string \<times> string) list \<Rightarrow> int option \<Rightarrow> ('s, RedisError, unit) eff" where
  "set_hash_fields self key values ttl =
     ebind (change_context SetHashFailed (fred_hset (pool self) key values))
       (\<lambda>_. set_expiry self key
          (case ttl of None \<Rightarrow> uint (cfg_default_hash_ttl (config self)) | Some t \<Rightarrow> t))"

definition set_hash_field_if_not_exist ::
  "'s RedisConnectionPool \<Rightarrow> string \<Rightarrow> string \<Rightarrow> string \<Rightarrow> 32 word option \<Rightarrow>
   ('s, RedisError, HsetnxReply) eff" where
  "set_hash_field_if_not_exist self key field value ttl =
     ebind (change_context SetHashFieldFailed
              (ebind (fred_hsetnx (pool self) key field value) (\<lambda>v. elift (HsetnxReply_from_value v))))
       (\<lambda>inner. ebind (set_expiry self key
             (uint (case ttl of None \<Rightarrow> cfg_default_hash_ttl (config self) | Some t \<Rightarrow> t)))
          (\<lambda>_. ereturn inner))"

definition serialize_and_set_hash_field_if_not_exist ::
  "'s RedisConnectionPool \<Rightarrow> ('v \<Rightarrow> string option) \<Rightarrow> string \<Rightarrow> string \<Rightarrow> 'v \<Rightarrow> 32 word option \<Rightarrow>
   ('s, RedisError, HsetnxReply) eff" where
  "serialize_and_set_hash_field_if_not_exist self ser key field value ttl =
     ebind (encode_to_vec ser value)
       (\<lambda>serialized. set_hash_field_if_not_exist self key field serialized ttl)"

text \<open>The loop stops at the first error; the fields set before it stay set.\<close>

fun serialize_and_set_multiple_hash_field_if_not_exist ::
  "'s RedisConnectionPool \<Rightarrow> ('v \<Rightarrow> string option) \<Rightarrow> (string \<times> 'v) list \<Rightarrow> string \<Rightarrow> 32 word option \<Rightarrow>
   ('s, RedisError, HsetnxReply list) eff" where
  "serialize_and_set_multiple_hash_field_if_not_exist self ser [] field ttl = ereturn []"
| "serialize_and_set_multiple_hash_field_if_not_exist self ser ((key, val) # kv) field ttl =
     ebind (serialize_and_set_hash_field_if_not_exist self ser key field val ttl)
       (\<lambda>r. ebind (serialize_and_set_multiple_hash_field_if_not_exist self ser kv field ttl)
          (\<lambda>rs. ereturn (r # rs)))"

text \<open>Failed pages of the scan are logged and skipped, so the scan itself never fails.\<close>

definition hscan ::
  "'s RedisConnectionPool \<Rightarrow> string \<Rightarrow> string \<Rightarrow> 32 word option \<Rightarrow> ('s, RedisError, string list) eff" where
  "hscan self key pattern count = (\<lambda>s.
     case fred_hscan (pool self) key pattern count s of
       (pages, s') \<Rightarrow>
         (Ok (concat (map (\<lambda>page. case page of
               Inr (Some v) \<Rightarrow> List.map_filter (\<lambda>(f, val). fred_as_string (pool self) val) v
             | Inr None \<Rightarrow> []
             | Inl err \<Rightarrow> []) pages)), s'))"

definition hscan_and_deserialize ::
  "'s RedisConnectionPool \<Rightarrow> (string \<Rightarrow> 'v option) \<Rightarrow> string \<Rightarrow> string \<Rightarrow> 32 word option \<Rightarrow>
   ('s, RedisError, 'v list) eff" where
  "hscan_and_deserialize self de key pattern count =
     ebind (hscan self key pattern count)
       (\<lambda>redis_results. ereturn (List.map_filter de redis_results))"

definition get_hash_field :: "'s RedisConnectionPool \<Rightarrow> string \<Rightarrow> string \<Rightarrow> ('s, RedisError, string) eff" where
  "get_hash_field self key field = change_context GetHashFieldFailed (fred_hget (pool self) key field)"

definition get_hash_field_and_deserialize ::
  "'s RedisConnectionPool \<Rightarrow> (string \<Rightarrow> 'v option) \<Rightarrow> string \<Rightarrow> string \<Rightarrow> ('s, RedisError, 'v) eff" where
  "get_hash_field_and_deserialize self de key field =
     ebind (get_hash_field self key field)
       (\<lambda>value_bytes. if value_bytes = [] then ethrow NotFound
          else (case de value_bytes of
                  None \<Rightarrow> ethrow JsonDeserializationFailed
                | Some v \<Rightarrow> ereturn v))"

definition sadd :: "'s RedisConnectionPool \<Rightarrow> string \<Rightarrow> string list \<Rightarrow> ('s, RedisError, SaddReply) eff" where
  "sadd self key members =
     change_context SetAddMembersFailed
       (ebind (fred_sadd (pool self) key members) (\<lambda>v. elift (SaddReply_from_value v)))"

section \<open>Streams and consumer groups\<close>

definition stream_append_entry ::
  "'s RedisConnectionPool \<Rightarrow> string \<Rightarrow> RedisEntryId \<Rightarrow> (string \<times> string) list \<Rightarrow> ('s, RedisError, unit) eff" where
  "stream_append_entry self stream entry_id field_values =
     change_context StreamAppendFailed (fred_xadd (pool self) stream (XID_from entry_id) field_values)"

definition stream_delete_entries ::
  "'s RedisConnectionPool \<Rightarrow> string \<Rightarrow> string list \<Rightarrow> ('s, RedisError, nat) eff" where
  "stream_delete_entries self stream ids = change_context StreamDeleteFailed (fred_xdel (pool self) stream ids)"

definition stream_trim_entries ::
  "'s RedisConnectionPool \<Rightarrow> string \<Rightarrow> StreamCapKind \<times> StreamCapTrim \<times> string \<Rightarrow> ('s, RedisError, nat) eff" where
  "stream_trim_entries self stream xcap = change_context StreamTrimFailed (fred_xtrim (pool self) stream xcap)"

definition stream_acknowledge_entries ::
  "'s RedisConnectionPool \<Rightarrow> string \<Rightarrow> string \<Rightarrow> string list \<Rightarrow> ('s, RedisError, nat) eff" where
  "stream_acknowledge_entries self stream grp ids =
     change_context StreamAcknowledgeFailed (fred_xack (pool self) stream grp ids)"

definition stream_get_length :: "'s RedisConnectionPool \<Rightarrow> string \<Rightarrow> ('s, RedisError, nat) eff" where
  "stream_get_length self stream = change_context GetLengthFailed (fred_xlen (pool self) stream)"

text \<open>An absent or empty stream is answered with nil, which the client library cannot turn
  into a map: its kind is \<open>NotFound\<close> or \<open>Parse\<close>.\<close>

fun stream_read_error :: "RedisErrorKind \<Rightarrow> RedisError" where
  "stream_read_error NotFoundKind = StreamEmptyOrNotAvailable"
| "stream_read_error ParseKind = StreamEmptyOrNotAvailable"
| "stream_read_error k = StreamReadFailed"

definition stream_read_entries ::
  "'s RedisConnectionPool \<Rightarrow> string \<Rightarrow> XID \<Rightarrow> 64 word option \<Rightarrow> ('s, RedisError, StreamReadResult) eff" where
  "stream_read_entries self streams ids read_count =
     emap_err stream_read_error
       (ebind (fred_xread_map (pool self)
                 (Some (case read_count of None \<Rightarrow> cfg_default_stream_read_count (config self) | Some n \<Rightarrow> n))
                 None streams ids)
          (\<lambda>r. ereturn (case r of None \<Rightarrow> Map.empty | Some es \<Rightarrow> [streams \<mapsto> es])))"

definition stream_read_with_options ::
  "'s RedisConnectionPool \<Rightarrow> string \<Rightarrow> RedisEntryId \<Rightarrow> 64 word option \<Rightarrow> 64 word option \<Rightarrow>
   (string \<times> string) option \<Rightarrow> ('s, RedisError, string option xread) eff" where
  "stream_read_with_options self streams ids count block grp =
     emap_err stream_read_error
       (case grp of
          Some (group_name, consumer_name) \<Rightarrow>
            fred_xreadgroup_map (pool self) group_name consumer_name count block streams (XID_from ids)
        | None \<Rightarrow>
            ebind (fred_xread_map (pool self) count block streams (XID_from ids))
              (\<lambda>r. ereturn (case r of None \<Rightarrow> []
                 | Some es \<Rightarrow> [(streams, map (\<lambda>(i, m). (i, map_option Some \<circ> m)) es)])))"

definition consumer_group_create ::
  "'s RedisConnectionPool \<Rightarrow> string \<Rightarrow> string \<Rightarrow> RedisEntryId \<Rightarrow> ('s, RedisError, unit) eff" where
  "consumer_group_create self stream grp entry_id =
     (if entry_id = AutoGeneratedID \<or> entry_id = UndeliveredEntryID then ethrow InvalidRedisEntryId
      else change_context ConsumerGroupCreateFailed
             (fred_xgroup_create (pool self) stream grp (XID_from entry_id) True))"

definition consumer_group_destroy ::
  "'s RedisConnectionPool \<Rightarrow> string \<Rightarrow> string \<Rightarrow> ('s, RedisError, nat) eff" where
  "consumer_group_destroy self stream grp =
     change_context ConsumerGroupDestroyFailed (fred_xgroup_destroy (pool self) stream grp)"

definition consumer_group_delete_consumer ::
  "'s RedisConnectionPool \<Rightarrow> string \<Rightarrow> string \<Rightarrow> string \<Rightarrow> ('s, RedisError, nat) eff" where
  "consumer_group_delete_consumer self stream grp consumer =
     change_context ConsumerGroupRemoveConsumerFailed
       (fred_xgroup_delconsumer (pool self) stream grp consumer)"

definition consumer_group_set_last_id ::
  "'s RedisConnectionPool \<Rightarrow> string \<Rightarrow> string \<Rightarrow> RedisEntryId \<Rightarrow> ('s, RedisError, string) eff" where
  "consumer_group_set_last_id self stream grp entry_id =
     change_context ConsumerGroupSetIdFailed (fred_xgroup_setid (pool self) stream grp (XID_from entry_id))"

section \<open>Facts\<close>

lemmas redis_command_defs =
  set_key_def set_key_if_not_exists_with_expiry_def serialize_and_set_key_if_not_exist_def
  serialize_and_set_key_def get_key_def get_and_deserialize_key_def delete_key_def set_expiry_def
  set_hash_fields_def set_hash_field_if_not_exist_def serialize_and_set_hash_field_if_not_exist_def
  get_hash_field_def get_hash_field_and_deserialize_def sadd_def encode_to_vec_def
  stream_append_entry_def stream_delete_entries_def stream_trim_entries_def
  stream_acknowledge_entries_def

end
