(* ===== verification/Redis_Server.thy ===== *)
theory Redis_Server
  imports Redis_Commands
begin

text \<open>
  What the repository relies on of a Redis server, as interfaces: \<open>redis_streams\<close> for the
  stream commands and \<open>redis_keys\<close> for string keys, both over the raw commands of
  \<open>'s fred\<close> and an abstraction of the server state (\<open>stream_view\<close>,
  \<open>key_view\<close>). The laws are the documented behaviour of XADD, XREAD, XTRIM, XDEL, SET,
  GET, DEL and EXPIRE. A command that reports an error may have had its effect or not (the
  reply can be lost), so the law of an error leaves both open.

  \<open>mem_fred\<close> is an executable in-memory server with these commands. It shows that the
  laws can be met together and is the instance the concrete runs use.
\<close>

section \<open>The interfaces\<close>

locale redis_streams =
  fixes R :: "'s fred"
    and valid :: "'s \<Rightarrow> bool"
    and stream_view :: "'s \<Rightarrow> string \<Rightarrow> StreamEntry list"
  assumes ids_distinct: "valid s \<Longrightarrow> distinct (map fst (stream_view s k))"
    and ids_not_Nil: "valid s \<Longrightarrow> e \<in> set (stream_view s k) \<Longrightarrow> fst e \<noteq> []"
    and xread_law: "valid s \<Longrightarrow> n \<noteq> 0 \<Longrightarrow>
      fred_xread_map R (Some n) None k (XidManual ''0-0'') s = (r1, s') \<Longrightarrow>
      valid s' \<and> stream_view s' = stream_view s \<and>
      (\<forall>es. r1 = Ok (Some es) \<longrightarrow> es = take (unat n) (stream_view s k)) \<and>
      (r1 = Ok None \<longrightarrow> stream_view s k = [])"
    and xtrim_law: "valid s \<Longrightarrow> i < length (stream_view s k) \<Longrightarrow> fst (stream_view s k ! i) = mid \<Longrightarrow>
      fred_xtrim R k (MinID, Exact, mid) s = (r2, s') \<Longrightarrow>
      valid s' \<and>
      same_or (stream_view s) ((stream_view s)(k := drop i (stream_view s k))) (stream_view s') \<and>
      (\<forall>n. r2 = Ok n \<longrightarrow> n = i \<and> stream_view s' = (stream_view s)(k := drop i (stream_view s k)))"
    and xdel_law: "valid s \<Longrightarrow> fred_xdel R k ids s = (r3, s') \<Longrightarrow>
      valid s' \<and>
      same_or (stream_view s)
        ((stream_view s)(k := filter (\<lambda>e. fst e \<notin> set ids) (stream_view s k))) (stream_view s') \<and>
      (\<forall>n. r3 = Ok n \<longrightarrow>
         stream_view s' = (stream_view s)(k := filter (\<lambda>e. fst e \<notin> set ids) (stream_view s k)))"
    and xadd_law: "valid s \<Longrightarrow> distinct (map fst fvs) \<Longrightarrow> fred_xadd R k XidAuto fvs s = (r4, s') \<Longrightarrow>
      valid s' \<and>
      (\<exists>eid. same_or (stream_view s) ((stream_view s)(k := stream_view s k @ [(eid, map_of fvs)])) (stream_view s') \<and>
        (r4 = Ok () \<longrightarrow> stream_view s' = (stream_view s)(k := stream_view s k @ [(eid, map_of fvs)])))"
    and del_stream_law: "valid s \<Longrightarrow> fred_del R k s = (r5, s') \<Longrightarrow>
      valid s' \<and> (\<forall>j. j \<noteq> k \<longrightarrow> stream_view s' j = stream_view s j)"

locale redis_keys =
  fixes R :: "'s fred"
    and valid :: "'s \<Rightarrow> bool"
    and key_view :: "'s \<Rightarrow> string \<rightharpoonup> string"
  assumes get_law: "valid s \<Longrightarrow> fred_get R k s = (r6, s') \<Longrightarrow>
      valid s' \<and> key_view s' = key_view s \<and>
      (\<forall>b. r6 = Ok b \<longrightarrow> b = (case key_view s k of None \<Rightarrow> [] | Some v \<Rightarrow> v))"
    and set_law: "valid s \<Longrightarrow> fred_set R k v t False s = (r7, s') \<Longrightarrow>
      valid s' \<and> same_or (key_view s) ((key_view s)(k \<mapsto> v)) (key_view s') \<and>
      (\<forall>x. r7 = Ok x \<longrightarrow> key_view s' = (key_view s)(k \<mapsto> v))"
    and setnx_absent_law: "valid s \<Longrightarrow> key_view s k = None \<Longrightarrow> fred_set R k v t True s = (r8, s') \<Longrightarrow>
      valid s' \<and> same_or (key_view s) ((key_view s)(k \<mapsto> v)) (key_view s') \<and>
      (\<forall>x. r8 = Ok x \<longrightarrow> (\<exists>ok. x = FredString ok) \<and> key_view s' = (key_view s)(k \<mapsto> v))"
    and setnx_present_law: "valid s \<Longrightarrow> key_view s k = Some w \<Longrightarrow> fred_set R k v t True s = (r9, s') \<Longrightarrow>
      valid s' \<and> key_view s' = key_view s \<and> (\<forall>x. r9 = Ok x \<longrightarrow> x = FredNull)"
    and del_law: "valid s \<Longrightarrow> fred_del R k s = (r10, s') \<Longrightarrow>
      valid s' \<and> same_or (key_view s) ((key_view s)(k := None)) (key_view s') \<and>
      (\<forall>x. r10 = Ok x \<longrightarrow> key_view s' = (key_view s)(k := None) \<and>
         x = FredInteger (if key_view s k = None then 0 else 1))"
    and expire_law: "valid s \<Longrightarrow> 0 < t \<Longrightarrow> fred_expire R k t s = (r11, s') \<Longrightarrow>
      valid s' \<and> key_view s' = key_view s"

section \<open>Client lemmas\<close>

context redis_keys
begin

text \<open>SET NX through \<open>set_key_if_not_exists_with_expiry\<close>: the reply says whether the
  caller's value is the one that is stored.\<close>

lemma set_if_not_exists:
  assumes "pool p = R" and "valid s"
    and "set_key_if_not_exists_with_expiry p k v t s = (Ok reply, s')"
  shows "valid s'"
    and "reply = SetnxReply.KeySet \<Longrightarrow> key_view s k = None \<and> key_view s' = (key_view s)(k \<mapsto> v)"
    and "reply = SetnxReply.KeyNotSet \<Longrightarrow> key_view s k \<noteq> None \<and> key_view s' = key_view s"
proof -
  let ?t = "case t of None \<Rightarrow> uint (cfg_default_ttl (config p)) | Some t \<Rightarrow> t"
  from assms(1,3) obtain x where x: "fred_set R k v ?t True s = (Ok x, s')"
    and reply: "SetnxReply_from_value x = Ok reply"
    by (auto simp: set_key_if_not_exists_with_expiry_def change_context_Ok ebind_Ok)
  have "valid s' \<and>
     (reply = SetnxReply.KeySet \<longrightarrow> key_view s k = None \<and> key_view s' = (key_view s)(k \<mapsto> v)) \<and>
     (reply = SetnxReply.KeyNotSet \<longrightarrow> key_view s k \<noteq> None \<and> key_view s' = key_view s)"
  proof (cases "key_view s k")
    case None
    from setnx_absent_law [OF assms(2) None x] reply None show ?thesis by auto
  next
    case (Some w)
    from setnx_present_law [OF assms(2) Some x] reply Some show ?thesis by auto
  qed
  then show "valid s'"
    and "reply = SetnxReply.KeySet \<Longrightarrow> key_view s k = None \<and> key_view s' = (key_view s)(k \<mapsto> v)"
    and "reply = SetnxReply.KeyNotSet \<Longrightarrow> key_view s k \<noteq> None \<and> key_view s' = key_view s"
    by auto
qed

lemma delete_key_Ok:
  assumes "pool p = R" and "valid s" and "delete_key p k s = (Ok reply, s')"
  shows "valid s' \<and> key_view s' = (key_view s)(k := None) \<and>
    reply = (if key_view s k = None then KeyNotDeleted else KeyDeleted)"
proof -
  from assms(1,3) obtain x where x: "fred_del R k s = (Ok x, s')"
    and reply: "DelReply_from_value x = Ok reply"
    by (auto simp: delete_key_def change_context_Ok ebind_Ok)
  from del_law [OF assms(2) x] reply show ?thesis
    by (auto simp: DelReply_from_value_def split: if_splits)
qed

end

section \<open>An in-memory server\<close>

text \<open>Entry ids are \<open>n-0\<close> with a counter \<open>n\<close> that grows with every XADD.\<close>

record mem =
  mem_strings :: "string \<rightharpoonup> string"
  mem_hashes :: "string \<Rightarrow> string \<rightharpoonup> string"
  mem_sets :: "string \<Rightarrow> string list"
  mem_streams :: "string \<Rightarrow> StreamEntry list"
  mem_next :: nat
  mem_delivered :: "string \<times> string \<Rightarrow> nat option"
  mem_channels :: "string \<Rightarrow> FredValue list"

definition mem_init :: mem where
  "mem_init = \<lparr>mem_strings = Map.empty, mem_hashes = (\<lambda>_. Map.empty), mem_sets = (\<lambda>_. []),
     mem_streams = (\<lambda>_. []), mem_next = 1, mem_delivered = (\<lambda>_. None), mem_channels = (\<lambda>_. [])\<rparr>"

definition mem_id :: "nat \<Rightarrow> string" where
  "mem_id n = show_nat n @ ''-0''"

definition mem_id_num :: "string \<Rightarrow> nat" where
  "mem_id_num i = (case split_once CHR ''-'' i of None \<Rightarrow> 0
     | Some (a, b) \<Rightarrow> (case parse_nat a of None \<Rightarrow> 0 | Some n \<Rightarrow> n))"

definition mem_set :: "string \<Rightarrow> string \<Rightarrow> int \<Rightarrow> bool \<Rightarrow> (mem, RedisErrorKind, FredValue) eff" where
  "mem_set k v t nx s =
     (if nx \<and> mem_strings s k \<noteq> None then (Ok FredNull, s)
      else (Ok (FredString ''OK''), s\<lparr>mem_strings := (mem_strings s)(k \<mapsto> v)\<rparr>))"

definition mem_get :: "string \<Rightarrow> (mem, RedisErrorKind, string) eff" where
  "mem_get k s = (Ok (case mem_strings s k of None \<Rightarrow> [] | Some v \<Rightarrow> v), s)"

definition mem_del :: "string \<Rightarrow> (mem, RedisErrorKind, FredValue) eff" where
  "mem_del k s = (Ok (FredInteger (if mem_strings s k = None then 0 else 1)),
     s\<lparr>mem_strings := (mem_strings s)(k := None)\<rparr>)"

definition mem_expire :: "string \<Rightarrow> int \<Rightarrow> (mem, RedisErrorKind, unit) eff" where
  "mem_expire k t s =
     (Ok (), if 0 < t then s else s\<lparr>mem_strings := (mem_strings s)(k := None)\<rparr>)"

definition mem_hset :: "string \<Rightarrow> (string \<times> string) list \<Rightarrow> (mem, RedisErrorKind, unit) eff" where
  "mem_hset k fvs s = (Ok (), s\<lparr>mem_hashes := (mem_hashes s)(k := mem_hashes s k ++ map_of (rev fvs))\<rparr>)"

definition mem_hsetnx :: "string \<Rightarrow> string \<Rightarrow> string \<Rightarrow> (mem, RedisErrorKind, FredValue) eff" where
  "mem_hsetnx k f v s =
     (if mem_hashes s k f \<noteq> None then (Ok (FredInteger 0), s)
      else (Ok (FredInteger 1), s\<lparr>mem_hashes := (mem_hashes s)(k := (mem_hashes s k)(f \<mapsto> v))\<rparr>))"

definition mem_hget :: "string \<Rightarrow> string \<Rightarrow> (mem, RedisErrorKind, string) eff" where
  "mem_hget k f s = (Ok (case mem_hashes s k f of None \<Rightarrow> [] | Some v \<Rightarrow> v), s)"

definition mem_sadd :: "string \<Rightarrow> string list \<Rightarrow> (mem, RedisErrorKind, FredValue) eff" where
  "mem_sadd k ms s =
     (let new = remdups (filter (\<lambda>m. m \<notin> set (mem_sets s k)) ms)
      in (Ok (FredInteger (int (length new))), s\<lparr>mem_sets := (mem_sets s)(k := mem_sets s k @ new)\<rparr>))"

definition mem_xadd :: "string \<Rightarrow> XID \<Rightarrow> (string \<times> string) list \<Rightarrow> (mem, RedisErrorKind, unit) eff" where
  "mem_xadd k i fvs s =
     (if i \<noteq> XidAuto then (Err OtherKind, s)
      else (Ok (), s\<lparr>mem_streams := (mem_streams s)(k := mem_streams s k @ [(mem_id (mem_next s), map_of fvs)]),
                    mem_next := Suc (mem_next s)\<rparr>))"

definition mem_xdel :: "string \<Rightarrow> string list \<Rightarrow> (mem, RedisErrorKind, nat) eff" where
  "mem_xdel k ids s =
     (let keep = filter (\<lambda>e. fst e \<notin> set ids) (mem_streams s k)
      in (Ok (length (mem_streams s k) - length keep), s\<lparr>mem_streams := (mem_streams s)(k := keep)\<rparr>))"

definition mem_xtrim :: "string \<Rightarrow> StreamCapKind \<times> StreamCapTrim \<times> string \<Rightarrow> (mem, RedisErrorKind, nat) eff" where
  "mem_xtrim k cap s =
     (case cap of (MinID, _, i) \<Rightarrow>
        (let keep = filter (\<lambda>e. mem_id_num i \<le> mem_id_num (fst e)) (mem_streams s k)
         in (Ok (length (mem_streams s k) - length keep), s\<lparr>mem_streams := (mem_streams s)(k := keep)\<rparr>))
      | (MaxLen, _, _) \<Rightarrow> (Err OtherKind, s))"

definition mem_xread ::
  "64 word option \<Rightarrow> 64 word option \<Rightarrow> string \<Rightarrow> XID \<Rightarrow> (mem, RedisErrorKind, StreamEntry list option) eff" where
  "mem_xread n block k i s =
     (let es = mem_streams s k in
      if es = [] then (Err ParseKind, s)
      else (Ok (Some (case n of None \<Rightarrow> es | Some m \<Rightarrow> if m = 0 then es else take (unat m) es)), s))"

definition mem_xgroup_create :: "string \<Rightarrow> string \<Rightarrow> XID \<Rightarrow> bool \<Rightarrow> (mem, RedisErrorKind, unit) eff" where
  "mem_xgroup_create k g i mk s =
     (if mem_delivered s (k, g) \<noteq> None then (Err OtherKind, s)
      else (Ok (), s\<lparr>mem_delivered := (mem_delivered s)((k, g) \<mapsto> mem_next s - 1)\<rparr>))"

definition mem_xreadgroup ::
  "string \<Rightarrow> string \<Rightarrow> 64 word option \<Rightarrow> 64 word option \<Rightarrow> string \<Rightarrow> XID \<Rightarrow>
   (mem, RedisErrorKind, string option xread) eff" where
  "mem_xreadgroup g c n block k i s =
     (case mem_delivered s (k, g) of None \<Rightarrow> (Err OtherKind, s)
      | Some d \<Rightarrow>
        (let new = filter (\<lambda>e. d < mem_id_num (fst e)) (mem_streams s k);
             es = (case n of None \<Rightarrow> new | Some m \<Rightarrow> if m = 0 then new else take (unat m) new)
         in if es = [] then (Err ParseKind, s)
            else (Ok [(k, map (\<lambda>(j, m). (j, map_option Some \<circ> m)) es)],
                  s\<lparr>mem_delivered := (mem_delivered s)((k, g) \<mapsto> mem_id_num (fst (last es)))\<rparr>)))"

definition mem_as_string :: "FredValue \<Rightarrow> string option" where
  "mem_as_string v = (case v of FredString t \<Rightarrow> Some t | _ \<Rightarrow> None)"

definition mem_fred :: "mem fred" where
  "mem_fred = \<lparr>
     fred_set = mem_set,
     fred_msetnx = (\<lambda>kvs s. if \<exists>k \<in> set (map fst kvs). mem_strings s k \<noteq> None then (Ok (FredInteger 0), s)
        else (Ok (FredInteger 1), s\<lparr>mem_strings := mem_strings s ++ map_of (rev kvs)\<rparr>)),
     fred_get = mem_get,
     fred_mget = (\<lambda>ks s. (Ok (map (mem_strings s) ks), s)),
     fred_exists = (\<lambda>k s. (Ok (mem_strings s k \<noteq> None), s)),
     fred_del = mem_del,
     fred_expire = mem_expire,
     fred_expire_at = (\<lambda>k t s. (Ok (), s)),
     fred_hset = mem_hset,
     fred_hsetnx = mem_hsetnx,
     fred_hget = mem_hget,
     fred_hscan = (\<lambda>k p c s. ([], s)),
     fred_as_string = mem_as_string,
     fred_sadd = mem_sadd,
     fred_xadd = mem_xadd,
     fred_xdel = mem_xdel,
     fred_xtrim = mem_xtrim,
     fred_xack = (\<lambda>k g ids s. (Ok (length ids), s)),
     fred_xlen = (\<lambda>k s. (Ok (length (mem_streams s k)), s)),
     fred_xread_map = mem_xread,
     fred_xreadgroup_map = mem_xreadgroup,
     fred_xgroup_create = mem_xgroup_create,
     fred_xgroup_destroy = (\<lambda>k g s. (Ok 1, s\<lparr>mem_delivered := (mem_delivered s)((k, g) := None)\<rparr>)),
     fred_xgroup_delconsumer = (\<lambda>k g c s. (Ok 0, s)),
     fred_xgroup_setid = (\<lambda>k g i s. (Ok ''OK'', s)),
     fred_publish = (\<lambda>c v s. (Ok 0, s\<lparr>mem_channels := (mem_channels s)(c := mem_channels s c @ [v])\<rparr>)),
     fred_subscribe = (\<lambda>c s. (Ok (), s))\<rparr>"

lemmas mem_defs = mem_set_def mem_get_def mem_del_def mem_expire_def mem_hset_def mem_hsetnx_def
  mem_hget_def mem_sadd_def mem_xadd_def mem_xdel_def mem_xtrim_def mem_xread_def
  mem_xgroup_create_def mem_xreadgroup_def mem_as_string_def

text \<open>Ids on every stream are of the server's form, increase, and are below the counter.\<close>

definition mem_valid :: "mem \<Rightarrow> bool" where
  "mem_valid s \<longleftrightarrow> (\<forall>k. \<exists>ns. map fst (mem_streams s k) = map mem_id ns \<and>
     sorted_wrt (<) ns \<and> (\<forall>n \<in> set ns. n < mem_next s))"

lemma mem_id_inject [simp]: "mem_id m = mem_id n \<longleftrightarrow> m = n"
  by (simp add: mem_id_def)

lemma mem_id_not_Nil [simp]: "mem_id n \<noteq> []" "[] \<noteq> mem_id n"
  by (simp_all add: mem_id_def)

lemma mem_id_num_id [simp]: "mem_id_num (mem_id n) = n"
proof -
  have "CHR ''-'' \<notin> set (show_nat n)"
    using show_nat_only_digits [of n] by auto
  then show ?thesis
    by (simp add: mem_id_num_def mem_id_def split_once_append parse_show_nat)
qed

lemma mem_valid_init [simp]: "mem_valid mem_init"
  by (simp add: mem_valid_def mem_init_def)

lemma mem_valid_streams_eq:
  "mem_valid s \<Longrightarrow> mem_streams s' = mem_streams s \<Longrightarrow> mem_next s' = mem_next s \<Longrightarrow> mem_valid s'"
  by (simp add: mem_valid_def)

lemma mem_valid_filter:
  assumes "mem_valid s" and "es = filter P (mem_streams s k)"
  shows "mem_valid (s\<lparr>mem_streams := (mem_streams s)(k := es)\<rparr>)"
proof -
  from assms(1) obtain ns where ns: "map fst (mem_streams s k) = map mem_id ns"
    "sorted_wrt (<) ns" "\<forall>n \<in> set ns. n < mem_next s"
    by (auto simp: mem_valid_def)
  have "\<exists>ms. map fst (filter P xs) = map mem_id ms \<and> sorted_wrt (<) ms \<and> set ms \<subseteq> set ns"
    if "map fst xs = map mem_id ns" "sorted_wrt (<) ns" for xs :: "StreamEntry list" and ns :: "nat list"
    using that
  proof (induction xs arbitrary: ns)
    case Nil
    then show ?case by (intro exI [of _ "[]"]) simp
  next
    case (Cons x xs)
    then obtain n ns' where n: "ns = n # ns'" "fst x = mem_id n" "map fst xs = map mem_id ns'"
      by (cases ns) auto
    from n(1) Cons.prems(2) have "sorted_wrt (<) ns'" by simp
    from Cons.IH [OF n(3) this] obtain ms where
      ms: "map fst (filter P xs) = map mem_id ms" "sorted_wrt (<) ms" "set ms \<subseteq> set ns'"
      by blast
    show ?case
    proof (cases "P x")
      case True
      with ms n Cons.prems(2) show ?thesis by (intro exI [of _ "n # ms"]) auto
    next
      case False
      with ms n show ?thesis by (intro exI [of _ ms]) auto
    qed
  qed
  from this [OF ns(1,2)] obtain ms where
    ms: "map fst es = map mem_id ms" "sorted_wrt (<) ms" "set ms \<subseteq> set ns"
    using assms(2) by blast
  then have "\<exists>ns. map fst es = map mem_id ns \<and> sorted_wrt (<) ns \<and> (\<forall>n \<in> set ns. n < mem_next s)"
    using ns(3) by blast
  with assms(1) show ?thesis
    by (auto simp: mem_valid_def)
qed

lemma mem_valid_xadd:
  assumes "mem_valid s"
  shows "mem_valid (s\<lparr>mem_streams := (mem_streams s)(k := mem_streams s k @ [(mem_id (mem_next s), m)]),
    mem_next := Suc (mem_next s)\<rparr>)"
  unfolding mem_valid_def
proof
  fix j
  from assms obtain ns where ns: "map fst (mem_streams s j) = map mem_id ns"
    "sorted_wrt (<) ns" "\<forall>n \<in> set ns. n < mem_next s"
    by (auto simp: mem_valid_def)
  then show "\<exists>ns. map fst (mem_streams (s\<lparr>mem_streams := (mem_streams s)(k := mem_streams s k @
      [(mem_id (mem_next s), m)]), mem_next := Suc (mem_next s)\<rparr>) j) = map mem_id ns \<and>
    sorted_wrt (<) ns \<and> (\<forall>n \<in> set ns. n < mem_next (s\<lparr>mem_streams := (mem_streams s)(k := mem_streams s k @
      [(mem_id (mem_next s), m)]), mem_next := Suc (mem_next s)\<rparr>))"
    by (intro exI [of _ "if j = k then ns @ [mem_next s] else ns"]) (auto simp: sorted_wrt_append)
qed

lemma filter_ge_drop:
  fixes f :: "'b \<Rightarrow> nat"
  assumes "sorted_wrt (<) (map f xs)" and "i < length xs"
  shows "filter (\<lambda>x. f (xs ! i) \<le> f x) xs = drop i xs"
proof -
  have split: "xs = take i xs @ drop i xs" by simp
  have lt: "\<forall>x \<in> set (take i xs). f x < f (xs ! i)"
    using assms by (auto simp: in_set_conv_nth sorted_wrt_iff_nth_less)
  have ge: "\<forall>x \<in> set (drop i xs). f (xs ! i) \<le> f x"
  proof
    fix x
    assume "x \<in> set (drop i xs)"
    then obtain j where j: "j < length (drop i xs)" "x = drop i xs ! j"
      by (auto simp: in_set_conv_nth)
    then have "i + j < length xs" "x = xs ! (i + j)" by auto
    with assms show "f (xs ! i) \<le> f x"
      by (cases j) (auto simp: sorted_wrt_iff_nth_less less_imp_le)
  qed
  have "filter (\<lambda>x. f (xs ! i) \<le> f x) xs =
      filter (\<lambda>x. f (xs ! i) \<le> f x) (take i xs) @ filter (\<lambda>x. f (xs ! i) \<le> f x) (drop i xs)"
    by (subst (2) split) (simp only: filter_append)
  also have "filter (\<lambda>x. f (xs ! i) \<le> f x) (take i xs) = []"
    using lt by (auto simp: filter_empty_conv not_le)
  also have "filter (\<lambda>x. f (xs ! i) \<le> f x) (drop i xs) = drop i xs"
    using ge by (simp add: filter_id_conv)
  finally show ?thesis by simp
qed

lemma mem_valid_sorted:
  assumes "mem_valid s"
  shows "sorted_wrt (<) (map (\<lambda>e. mem_id_num (fst e)) (mem_streams s k))"
proof -
  from assms obtain ns where ns: "map fst (mem_streams s k) = map mem_id ns" "sorted_wrt (<) ns"
    by (auto simp: mem_valid_def)
  from ns(1) have "map mem_id_num (map fst (mem_streams s k)) = map mem_id_num (map mem_id ns)"
    by simp
  then have "map (\<lambda>e. mem_id_num (fst e)) (mem_streams s k) = ns"
    by (simp add: comp_def)
  with ns(2) show ?thesis by simp
qed

lemma mem_ids_distinct:
  assumes "mem_valid s"
  shows "distinct (map fst (mem_streams s k))"
proof -
  from assms obtain ns where ns: "map fst (mem_streams s k) = map mem_id ns" "sorted_wrt (<) ns"
    by (auto simp: mem_valid_def)
  then show ?thesis
    by (simp add: distinct_map inj_on_def strict_sorted_iff)
qed

lemma mem_ids_not_Nil:
  assumes "mem_valid s" and "e \<in> set (mem_streams s k)"
  shows "fst e \<noteq> []"
proof -
  from assms(1) obtain ns where "map fst (mem_streams s k) = map mem_id ns"
    by (auto simp: mem_valid_def)
  with assms(2) have "fst e \<in> set (map mem_id ns)"
    by (metis image_eqI list.set_map)
  then show ?thesis by auto
qed

interpretation mem_streams: redis_streams mem_fred mem_valid mem_streams
proof (unfold_locales, goal_cases)
  case (1 s k)
  then show ?case by (rule mem_ids_distinct)
next
  case (2 s e k)
  then show ?case by (rule mem_ids_not_Nil)
next
  case (3 s n k r s')
  then show ?case by (auto simp: mem_fred_def mem_xread_def Let_def split: if_splits)
next
  case (4 s i k mid r s')
  then have eq: "filter (\<lambda>e. mem_id_num mid \<le> mem_id_num (fst e)) (mem_streams s k) = drop i (mem_streams s k)"
    using filter_ge_drop [OF mem_valid_sorted [of s k], of i] by simp
  from mem_valid_filter [OF 4(1) eq [symmetric]] 4 eq show ?case
    by (auto simp: mem_fred_def mem_xtrim_def Let_def)
next
  case (5 s k ids r s')
  then show ?case
    by (auto simp: mem_fred_def mem_xdel_def Let_def intro!: mem_valid_filter)
next
  case (6 s fvs k r s')
  then show ?case
    by (auto simp: mem_fred_def mem_xadd_def intro!: mem_valid_xadd exI [of _ "mem_id (mem_next s)"])
next
  case (7 s k r s')
  then show ?case
    by (auto simp: mem_fred_def mem_del_def intro: mem_valid_streams_eq)
qed

interpretation mem_keys: redis_keys mem_fred mem_valid mem_strings
  by unfold_locales
    (auto simp: mem_fred_def mem_get_def mem_set_def mem_del_def mem_expire_def
      intro: mem_valid_streams_eq split: if_splits)

end
