(* ===== verification/Scheduler.thy ===== *)
theory Scheduler
  imports Process_Tracker Redis_Server
begin

text \<open>
  \<open>crates/scheduler\<close>: the producer that moves due tasks from the process tracker table into a
  Redis stream, the consumer that takes them out and runs their workflows, the lock around the
  producer, and the two implementations of the storage traits (\<open>Store\<close> and \<open>MockDb\<close>).

  The world is the Redis server, the database and the clock. A trait object is the record of
  its methods. serde's JSON encoding of a list of tasks and \<open>Uuid::new_v4\<close> are parameters.
\<close>

section \<open>World, errors and settings\<close>

record ('s, 'd) pt_world =
  wd_redis :: 's
  wd_db :: 'd
  wd_clock :: "nat \<Rightarrow> int"

definition in_redis :: "('s, 'e, 'a) eff \<Rightarrow> (('s, 'd) pt_world, 'e, 'a) eff" where
  "in_redis m w = (case m (wd_redis w) of (r, s') \<Rightarrow> (r, w\<lparr>wd_redis := s'\<rparr>))"

definition in_db :: "('d, 'e, 'a) eff \<Rightarrow> (('s, 'd) pt_world, 'e, 'a) eff" where
  "in_db m w = (case m (wd_db w) of (r, d') \<Rightarrow> (r, w\<lparr>wd_db := d'\<rparr>))"

definition date_time_now :: "(('s, 'd) pt_world, 'e, int) eff" where
  "date_time_now w = (Ok (wd_clock w 0), w\<lparr>wd_clock := \<lambda>n. wd_clock w (Suc n)\<rparr>)"

text \<open>\<open>Panicked\<close> is not a value of the Rust enum: it stands for an unwinding panic, which no
  function of the crate catches.\<close>

datatype ProcessTrackerError =
    UnexpectedFlow
  | SerializationFailed
  | DeserializationFailed
  | MissingRequiredField
  | BatchInsertionFailed
  | ProcessInsertionFailed
  | BatchNotFound
  | BatchUpdateFailed
  | BatchDeleteFailed
  | ConfigurationError
  | ProcessUpdateFailed
  | ProcessFetchingFailed
  | ResourceFetchingFailed string
  | FlowExecutionError string
  | NotImplemented
  | JobNotFound
  | EApiErrorResponse
  | EClientError
  | EStorageError StorageError
  | ERedisError RedisError
  | EParsingError ParsingError
  | EValidationError ValidationError
  | TypeConversionError
  | Panicked

datatype SchedulerFlow = Producer | Consumer | Cleaner

record ProducerSettings =
  upper_fetch_limit :: int
  lower_fetch_limit :: int
  lock_key :: string
  lock_ttl :: int
  batch_size :: nat

record ConsumerSettings =
  disabled :: bool
  consumer_group :: string

record SchedulerSettings =
  sched_stream :: string
  sched_producer :: ProducerSettings
  sched_consumer :: ConsumerSettings
  sched_loop_interval :: "64 word"
  graceful_shutdown_interval :: "64 word"

definition ProducerSettings_default :: ProducerSettings where
  "ProducerSettings_default = \<lparr>
     upper_fetch_limit = 0,
     lower_fetch_limit = 1800,
     lock_key = ''PRODUCER_LOCKING_KEY'',
     lock_ttl = 160,
     batch_size = 200\<rparr>"

definition ConsumerSettings_default :: ConsumerSettings where
  "ConsumerSettings_default = \<lparr>disabled = False, consumer_group = ''SCHEDULER_GROUP''\<rparr>"

definition SchedulerSettings_default :: SchedulerSettings where
  "SchedulerSettings_default = \<lparr>
     sched_stream = ''SCHEDULER_STREAM'',
     sched_producer = ProducerSettings_default,
     sched_consumer = ConsumerSettings_default,
     sched_loop_interval = 5000,
     graceful_shutdown_interval = 60000\<rparr>"

section \<open>The traits\<close>

record ('w, 'j) ProcessTrackerInterface =
  reinitialize_limbo_processes :: "string list \<Rightarrow> int \<Rightarrow> ('w, StorageError, nat) eff"
  find_process_by_id :: "string \<Rightarrow> ('w, StorageError, 'j ProcessTracker option) eff"
  update_process :: "'j ProcessTracker \<Rightarrow> 'j ProcessTrackerUpdate \<Rightarrow> ('w, StorageError, 'j ProcessTracker) eff"
  process_tracker_update_process_status_by_ids ::
    "string list \<Rightarrow> 'j ProcessTrackerUpdate \<Rightarrow> ('w, StorageError, nat) eff"
  insert_process :: "'j ProcessTrackerNew \<Rightarrow> ('w, StorageError, 'j ProcessTracker) eff"
  reset_process :: "'j ProcessTracker \<Rightarrow> int \<Rightarrow> ('w, StorageError, unit) eff"
  retry_process :: "'j ProcessTracker \<Rightarrow> int \<Rightarrow> ('w, StorageError, unit) eff"
  finish_process_with_business_status :: "'j ProcessTracker \<Rightarrow> string \<Rightarrow> ('w, StorageError, unit) eff"
  find_processes_by_time_status ::
    "int \<Rightarrow> int \<Rightarrow> ProcessTrackerStatus \<Rightarrow> int option \<Rightarrow> ('w, StorageError, 'j ProcessTracker list) eff"

record ('w, 'j) QueueInterface =
  q_fetch_consumer_tasks :: "string \<Rightarrow> string \<Rightarrow> string \<Rightarrow> ('w, ProcessTrackerError, 'j ProcessTracker list) eff"
  q_consumer_group_create :: "string \<Rightarrow> string \<Rightarrow> RedisEntryId \<Rightarrow> ('w, RedisError, unit) eff"
  acquire_pt_lock :: "string \<Rightarrow> string \<Rightarrow> string \<Rightarrow> int \<Rightarrow> ('w, RedisError, bool) eff"
  release_pt_lock :: "string \<Rightarrow> string \<Rightarrow> ('w, RedisError, bool) eff"
  q_stream_append_entry :: "string \<Rightarrow> RedisEntryId \<Rightarrow> (string \<times> string) list \<Rightarrow> ('w, RedisError, unit) eff"
  q_get_key :: "string \<Rightarrow> ('w, RedisError, string) eff"

record ('w, 'j) SchedulerInterface =
  sched_pt :: "('w, 'j) ProcessTrackerInterface"
  sched_queue :: "('w, 'j) QueueInterface"

section \<open>Batches (consumer/types/batch.rs)\<close>

record 'j ProcessTrackerBatch =
  batch_id :: string
  batch_group_name :: string
  batch_stream_name :: string
  batch_connection_name :: string
  batch_created_time :: int
  batch_rule :: string
  batch_trackers :: "'j ProcessTracker list"

text \<open>\<open>OffsetDateTime::unix_timestamp\<close> rounds down; \<open>from_unix_timestamp\<close> takes the years
  \<open>-9999\<close> to \<open>9999\<close>.\<close>

definition unix_timestamp :: "int \<Rightarrow> int" where
  "unix_timestamp t = t div 1000000"

definition min_timestamp :: int where
  "min_timestamp = - 377705116800"

definition max_timestamp :: int where
  "max_timestamp = 253402300799"

definition from_unix_timestamp :: "int \<Rightarrow> int option" where
  "from_unix_timestamp ts =
     (if min_timestamp \<le> ts \<and> ts \<le> max_timestamp then Some (ts * 1000000) else None)"

definition in_datetime :: "int \<Rightarrow> bool" where
  "in_datetime t \<longleftrightarrow> min_timestamp \<le> unix_timestamp t \<and> unix_timestamp t \<le> max_timestamp"

definition to_redis_field_value_pairs ::
  "('j ProcessTracker list \<Rightarrow> string option) \<Rightarrow> 'j ProcessTrackerBatch \<Rightarrow>
   (ProcessTrackerError, (string \<times> string) list) result" where
  "to_redis_field_value_pairs ser self =
     (case ser (batch_trackers self) of
        None \<Rightarrow> Err SerializationFailed
      | Some trackers \<Rightarrow> Ok [
          (''id'', batch_id self),
          (''group_name'', batch_group_name self),
          (''stream_name'', batch_stream_name self),
          (''connection_name'', batch_connection_name self),
          (''created_time'', show_int (unix_timestamp (batch_created_time self))),
          (''rule'', batch_rule self),
          (''trackers'', trackers)])"

text \<open>\<open>entry.remove(name).flatten().get_required_value(name)\<close> under a new context.\<close>

definition required_field :: "(string \<rightharpoonup> string option) \<Rightarrow> string \<Rightarrow> (ProcessTrackerError, string) result" where
  "required_field entry name =
     (case entry name of Some (Some v) \<Rightarrow> Ok v | _ \<Rightarrow> Err MissingRequiredField)"

definition parse_created_time :: "string \<Rightarrow> (ProcessTrackerError, int) result" where
  "parse_created_time created_time =
     (case parse_i64 created_time of
        None \<Rightarrow> Err DeserializationFailed
      | Some ts \<Rightarrow> (case from_unix_timestamp ts of None \<Rightarrow> Err MissingRequiredField | Some t \<Rightarrow> Ok t))"

definition from_redis_stream_entry ::
  "(string \<Rightarrow> 'j ProcessTracker list option) \<Rightarrow> (string \<rightharpoonup> string option) \<Rightarrow>
   (ProcessTrackerError, 'j ProcessTrackerBatch) result" where
  "from_redis_stream_entry de entry =
     rbind (required_field entry ''id'') (\<lambda>i.
     rbind (required_field entry ''group_name'') (\<lambda>group_name.
     rbind (required_field entry ''stream_name'') (\<lambda>stream_name.
     rbind (required_field entry ''connection_name'') (\<lambda>connection_name.
     rbind (required_field entry ''created_time'') (\<lambda>created_time.
     rbind (parse_created_time created_time) (\<lambda>created_time.
     rbind (required_field entry ''rule'') (\<lambda>rule.
     rbind (required_field entry ''trackers'') (\<lambda>trackers.
     case de trackers of
       None \<Rightarrow> Err DeserializationFailed
     | Some trackers \<Rightarrow> Ok \<lparr>
         batch_id = i,
         batch_group_name = group_name,
         batch_stream_name = stream_name,
         batch_connection_name = connection_name,
         batch_created_time = created_time,
         batch_rule = rule,
         batch_trackers = trackers\<rparr>))))))))"

section \<open>Dividing and appending (utils.rs)\<close>

text \<open>\<open>slice::chunks\<close> panics on a chunk size of 0, also when there is no task.\<close>

definition divide_into_batches ::
  "string \<Rightarrow> nat \<Rightarrow> 'j ProcessTracker list \<Rightarrow> int \<Rightarrow> SchedulerSettings \<Rightarrow>
   (ProcessTrackerError, 'j ProcessTrackerBatch list) result" where
  "divide_into_batches uuid size_of_batch tasks batch_creation_time conf =
     (if size_of_batch = 0 then Err Panicked
      else Ok (map (\<lambda>item. \<lparr>
         batch_id = uuid,
         batch_group_name = consumer_group (sched_consumer conf),
         batch_stream_name = sched_stream conf,
         batch_connection_name = [],
         batch_created_time = batch_creation_time,
         batch_rule = [],
         batch_trackers = item\<rparr>) (chunks size_of_batch tasks)))"

definition divide_tasks ::
  "string \<Rightarrow> 'j ProcessTracker list \<Rightarrow> SchedulerSettings \<Rightarrow>
   (('s, 'd) pt_world, ProcessTrackerError, 'j ProcessTrackerBatch list) eff" where
  "divide_tasks uuid tasks conf =
     ebind date_time_now (\<lambda>now.
       elift (divide_into_batches uuid (batch_size (sched_producer conf)) tasks now conf))"

type_synonym ('s, 'd, 'j) scheduler = "(('s, 'd) pt_world, 'j) SchedulerInterface"

text \<open>When the append fails, the second status update's own failure is only attached to the
  report: the context stays \<open>BatchInsertionFailed\<close>.\<close>

definition update_status_and_append ::
  "('j ProcessTracker list \<Rightarrow> string option) \<Rightarrow> ('s, 'd, 'j) scheduler \<Rightarrow> SchedulerFlow \<Rightarrow>
   'j ProcessTrackerBatch \<Rightarrow> (('s, 'd) pt_world, ProcessTrackerError, unit) eff" where
  "update_status_and_append ser state flow pt_batch =
     (let process_ids = map pt_id (batch_trackers pt_batch) in
      ebind (case flow of
          Producer \<Rightarrow>
            ematch (process_tracker_update_process_status_by_ids (sched_pt state) process_ids
                      (StatusUpdate Processing None))
              (\<lambda>error. ethrow ProcessUpdateFailed) (\<lambda>count. ereturn ())
        | Cleaner \<Rightarrow>
            ebind date_time_now (\<lambda>now.
              ematch (reinitialize_limbo_processes (sched_pt state) process_ids now)
                (\<lambda>error. ethrow ProcessUpdateFailed) (\<lambda>count. ereturn ()))
        | Consumer \<Rightarrow> ethrow UnexpectedFlow)
      (\<lambda>_. ebind (elift (to_redis_field_value_pairs ser pt_batch)) (\<lambda>field_value_pairs.
         ematch (change_context BatchInsertionFailed
                   (q_stream_append_entry (sched_queue state) (batch_stream_name pt_batch)
                      AutoGeneratedID field_value_pairs))
           (\<lambda>err. ematch (process_tracker_update_process_status_by_ids (sched_pt state)
                            (map pt_id (batch_trackers pt_batch)) (StatusUpdate Processing None))
              (\<lambda>inner_err. ethrow err) (\<lambda>count. ethrow err))
           (\<lambda>x. ereturn x))))"

text \<open>The loop over the batches logs an error and goes on with the next batch.\<close>

fun append_batches ::
  "('j ProcessTracker list \<Rightarrow> string option) \<Rightarrow> ('s, 'd, 'j) scheduler \<Rightarrow> SchedulerFlow \<Rightarrow>
   'j ProcessTrackerBatch list \<Rightarrow> (('s, 'd) pt_world, ProcessTrackerError, unit) eff" where
  "append_batches ser state flow [] = ereturn ()"
| "append_batches ser state flow (batch # batches) =
     ematch (update_status_and_append ser state flow batch)
       (\<lambda>error. append_batches ser state flow batches)
       (\<lambda>_. append_batches ser state flow batches)"

definition divide_and_append_tasks ::
  "('j ProcessTracker list \<Rightarrow> string option) \<Rightarrow> string \<Rightarrow> ('s, 'd, 'j) scheduler \<Rightarrow> SchedulerFlow \<Rightarrow>
   'j ProcessTracker list \<Rightarrow> SchedulerSettings \<Rightarrow> (('s, 'd) pt_world, ProcessTrackerError, unit) eff" where
  "divide_and_append_tasks ser uuid state flow tasks settings =
     ebind (divide_tasks uuid tasks settings) (\<lambda>batches. append_batches ser state flow batches)"

text \<open>The lock around the producer. A panic of the callback skips the release.\<close>

definition lock_acquire_release ::
  "('s, 'd, 'j) scheduler \<Rightarrow> SchedulerSettings \<Rightarrow> (('s, 'd) pt_world, ProcessTrackerError, unit) eff \<Rightarrow>
   (('s, 'd) pt_world, ProcessTrackerError, unit) eff" where
  "lock_acquire_release state settings callback =
     (let tag = ''PRODUCER_LOCK''; key = lock_key (sched_producer settings); lock_val = ''LOCKED'';
          ttl = lock_ttl (sched_producer settings) in
      ebind (change_context (ERedisError RedisConnectionError)
               (acquire_pt_lock (sched_queue state) tag key lock_val ttl))
        (\<lambda>acquired. if acquired
           then (\<lambda>w. case callback w of
                   (Inl Panicked, w') \<Rightarrow> (Err Panicked, w')
                 | (result, w') \<Rightarrow>
                     ebind (emap_err ERedisError (release_pt_lock (sched_queue state) tag key))
                       (\<lambda>_. elift result) w')
           else ereturn ()))"

section \<open>The producer (producer.rs)\<close>

definition checked_time :: "int \<Rightarrow> (ProcessTrackerError, int) result" where
  "checked_time t = (if in_datetime t then Ok t else Err ConfigurationError)"

definition fetch_producer_tasks ::
  "('s, 'd, 'j) scheduler \<Rightarrow> SchedulerSettings \<Rightarrow>
   (('s, 'd) pt_world, ProcessTrackerError, 'j ProcessTracker list) eff" where
  "fetch_producer_tasks db conf =
     (let upper = upper_fetch_limit (sched_producer conf);
          lower = lower_fetch_limit (sched_producer conf) in
      ebind date_time_now (\<lambda>now.
      ebind (elift (checked_time (now + upper * 1000000))) (\<lambda>time_upper_limit.
      ebind (elift (checked_time (now - lower * 1000000))) (\<lambda>time_lower_limit.
      ebind (change_context ProcessFetchingFailed
               (find_processes_by_time_status (sched_pt db) time_lower_limit time_upper_limit New None))
        (\<lambda>new_tasks.
      ebind (change_context ProcessFetchingFailed
               (find_processes_by_time_status (sched_pt db) time_lower_limit time_upper_limit Pending None))
        (\<lambda>pending_tasks. ereturn (new_tasks @ pending_tasks)))))))"

definition run_producer_flow ::
  "('j ProcessTracker list \<Rightarrow> string option) \<Rightarrow> string \<Rightarrow> ('s, 'd, 'j) scheduler \<Rightarrow> SchedulerSettings \<Rightarrow>
   (('s, 'd) pt_world, ProcessTrackerError, unit) eff" where
  "run_producer_flow ser uuid state settings =
     lock_acquire_release state settings
       (ebind (fetch_producer_tasks state settings)
          (\<lambda>tasks. divide_and_append_tasks ser uuid state Producer tasks settings))"

section \<open>The consumer (utils.rs, consumer.rs)\<close>

definition try_fold_entries ::
  "(string \<Rightarrow> 'j ProcessTracker list option) \<Rightarrow> (string \<times> (string \<rightharpoonup> string option)) list \<Rightarrow>
   (ProcessTrackerError, ('j ProcessTrackerBatch \<times> string) list) result" where
  "try_fold_entries de entries =
     collect_results (map (\<lambda>(entry_id, entry).
       rbind (from_redis_stream_entry de entry) (\<lambda>b. Ok (b, entry_id))) entries)"

definition get_batches ::
  "(string \<Rightarrow> 'j ProcessTracker list option) \<Rightarrow> 's RedisConnectionPool \<Rightarrow> string \<Rightarrow> string \<Rightarrow> string \<Rightarrow>
   ('s, ProcessTrackerError, 'j ProcessTrackerBatch list) eff" where
  "get_batches de conn stream_name group_name consumer_name =
     ematch (stream_read_with_options conn stream_name UndeliveredEntryID (Some 1) None
               (Some (group_name, consumer_name)))
       (\<lambda>error. if error = StreamEmptyOrNotAvailable then ereturn [] else ethrow BatchNotFound)
       (\<lambda>response.
          ebind (elift (collect_results (map (\<lambda>(k, entries). try_fold_entries de entries) response)))
            (\<lambda>bs. let batches = map fst (concat bs); entry_ids = map snd (concat bs) in
               ebind (change_context BatchUpdateFailed
                        (stream_acknowledge_entries conn stream_name group_name entry_ids))
                 (\<lambda>_. ebind (change_context BatchDeleteFailed
                        (stream_delete_entries conn stream_name entry_ids))
                   (\<lambda>_. ereturn batches))))"

definition valid_business_statuses :: "string list" where
  "valid_business_statuses = [''Pending'']"

definition fetch_consumer_tasks ::
  "(string \<Rightarrow> 'j ProcessTracker list option) \<Rightarrow> (('s, 'd) pt_world, 'j) ProcessTrackerInterface \<Rightarrow>
   's RedisConnectionPool \<Rightarrow> string \<Rightarrow> string \<Rightarrow> string \<Rightarrow>
   (('s, 'd) pt_world, ProcessTrackerError, 'j ProcessTracker list) eff" where
  "fetch_consumer_tasks de db redis_conn stream_name group_name consumer_name =
     ebind (in_redis (get_batches de redis_conn stream_name group_name consumer_name))
       (\<lambda>batches. if batches = [] then ereturn []
          else (let tasks = concat (map (\<lambda>batch. filter (\<lambda>task.
                      is_valid_business_status task valid_business_statuses) (batch_trackers batch)) batches)
                in ebind (change_context ProcessFetchingFailed
                            (process_tracker_update_process_status_by_ids db (map pt_id tasks)
                               (StatusUpdate ProcessStarted None)))
                     (\<lambda>_. ereturn (map (\<lambda>x. x\<lparr>pt_status := ProcessStarted\<rparr>) tasks))))"

definition consumer_error_handler ::
  "('s, 'd, 'j) scheduler \<Rightarrow> 'j ProcessTracker \<Rightarrow> ProcessTrackerError \<Rightarrow>
   (('s, 'd) pt_world, ProcessTrackerError, unit) eff" where
  "consumer_error_handler state process error =
     ebind (change_context ProcessUpdateFailed
              (process_tracker_update_process_status_by_ids (sched_pt state) [pt_id process]
                 (StatusUpdate Finish (Some ''GLOBAL_ERROR''))))
       (\<lambda>_. ereturn ())"

definition create_task ::
  "(('s, 'd) pt_world, 'j) ProcessTrackerInterface \<Rightarrow> 'j ProcessTrackerNew \<Rightarrow>
   (('s, 'd) pt_world, StorageError, unit) eff" where
  "create_task db process_tracker_entry =
     ebind (insert_process db process_tracker_entry) (\<lambda>_. ereturn ())"

text \<open>The workflows are the application's; the default methods of the trait are
  \<open>default_workflow\<close>.\<close>

record ('w, 'j) ProcessTrackerWorkflow =
  wf_execute_workflow :: "'j ProcessTracker \<Rightarrow> ('w, ProcessTrackerError, unit) eff"
  wf_success_handler :: "'j ProcessTracker \<Rightarrow> 'w \<Rightarrow> 'w"
  wf_error_handler :: "'j ProcessTracker \<Rightarrow> ProcessTrackerError \<Rightarrow> ('w, ProcessTrackerError, unit) eff"

definition default_workflow :: "('w, 'j) ProcessTrackerWorkflow" where
  "default_workflow = \<lparr>
     wf_execute_workflow = (\<lambda>process. ethrow NotImplemented),
     wf_success_handler = (\<lambda>process w. w),
     wf_error_handler = (\<lambda>process error. ethrow NotImplemented)\<rparr>"

definition execute_workflow ::
  "(('s, 'd) pt_world, 'j) ProcessTrackerWorkflow \<Rightarrow> ('s, 'd, 'j) scheduler \<Rightarrow> 'j ProcessTracker \<Rightarrow>
   (('s, 'd) pt_world, ProcessTrackerError, unit) eff" where
  "execute_workflow operation state process =
     ematch (wf_execute_workflow operation process)
       (\<lambda>error. ematch (wf_error_handler operation process error)
          (\<lambda>error w. case finish_process_with_business_status (sched_pt state) process ''GLOBAL_FAILURE'' w of
               (status, w') \<Rightarrow> (Ok (), w'))
          (\<lambda>_. ereturn ()))
       (\<lambda>_ w. (Ok (), wf_success_handler operation process w))"

text \<open>The spawned workflows of one turn, in the order of the tasks; their results are dropped.\<close>

fun run_workflows ::
  "('j ProcessTracker \<Rightarrow> ('w, ProcessTrackerError, unit) eff) \<Rightarrow> 'j ProcessTracker list \<Rightarrow> 'w \<Rightarrow> 'w" where
  "run_workflows trigger_workflow [] w = w"
| "run_workflows trigger_workflow (task # tasks) w =
     run_workflows trigger_workflow tasks (snd (trigger_workflow task w))"

definition consumer_operations ::
  "string \<Rightarrow> ('s, 'd, 'j) scheduler \<Rightarrow> SchedulerSettings \<Rightarrow>
   ('j ProcessTracker \<Rightarrow> (('s, 'd) pt_world, ProcessTrackerError, unit) eff) \<Rightarrow>
   (('s, 'd) pt_world, ProcessTrackerError, unit) eff" where
  "consumer_operations uuid state settings trigger_workflow =
     (let stream_name = sched_stream settings;
          group_name = consumer_group (sched_consumer settings);
          consumer_name = ''consumer_'' @ uuid;
          fetch = ebind (q_fetch_consumer_tasks (sched_queue state) stream_name group_name consumer_name)
            (\<lambda>tasks w. (Ok (), run_workflows trigger_workflow tasks w))
      in ematch (q_consumer_group_create (sched_queue state) stream_name group_name AfterLastID)
           (\<lambda>_. fetch) (\<lambda>_. fetch))"

text \<open>The counter of running operations goes up and down around the operation; an error is
  handed to the handler, which only logs.\<close>

definition consumer_operation_handler ::
  "string \<Rightarrow> ('s, 'd, 'j) scheduler \<Rightarrow> SchedulerSettings \<Rightarrow>
   ('j ProcessTracker \<Rightarrow> (('s, 'd) pt_world, ProcessTrackerError, unit) eff) \<Rightarrow>
   64 word \<times> ('s, 'd) pt_world \<Rightarrow> 64 word \<times> ('s, 'd) pt_world" where
  "consumer_operation_handler uuid state settings trigger_workflow cw =
     (case cw of (consumer_operation_counter, w) \<Rightarrow>
        let counter = consumer_operation_counter + 1;
            w' = snd (consumer_operations uuid state settings trigger_workflow w)
        in (counter - 1, w'))"

section \<open>Store (db/process\_tracker.rs, db/queue.rs)\<close>

text \<open>\<open>pool.get()\<close> is the parameter \<open>st_pool\<close>: it hands out a connection or fails. With the
  default features both \<open>pg_connection_read\<close> and \<open>pg_connection_write\<close> take the
  master pool.\<close>

record ('s, 'd, 'j) RouterStore =
  st_pool :: "('d, unit, ('d, 'j) pt_conn) eff"
  st_redis_conn :: "'s RedisConnectionPool"

definition pg_connection_read ::
  "('s, 'd, 'j) RouterStore \<Rightarrow> ('d, StorageError, ('d, 'j) pt_conn) eff" where
  "pg_connection_read store = change_context StorageError.DatabaseConnectionError (st_pool store)"

definition pg_connection_write ::
  "('s, 'd, 'j) RouterStore \<Rightarrow> ('d, StorageError, ('d, 'j) pt_conn) eff" where
  "pg_connection_write store = change_context StorageError.DatabaseConnectionError (st_pool store)"

definition get_redis_conn :: "'s RedisConnectionPool \<Rightarrow> (RedisError, 's RedisConnectionPool) result" where
  "get_redis_conn redis_conn = (if is_redis_available redis_conn then Ok redis_conn else Err RedisConnectionError)"

definition store_find_process_by_id ::
  "('s, 'd, 'j) RouterStore \<Rightarrow> string \<Rightarrow> (('s, 'd) pt_world, StorageError, 'j ProcessTracker option) eff" where
  "store_find_process_by_id self i =
     ebind (in_db (pg_connection_read self))
       (\<lambda>conn. emap_err StorageError.DatabaseError (in_db (pt_find_process_by_id conn i)))"

definition store_reinitialize_limbo_processes ::
  "('s, 'd, 'j) RouterStore \<Rightarrow> string list \<Rightarrow> int \<Rightarrow> (('s, 'd) pt_world, StorageError, nat) eff" where
  "store_reinitialize_limbo_processes self ids schedule_time =
     ebind (in_db (pg_connection_write self))
       (\<lambda>conn. emap_err StorageError.DatabaseError (in_db (pt_reinitialize_limbo_processes conn ids schedule_time)))"

definition store_find_processes_by_time_status ::
  "('s, 'd, 'j) RouterStore \<Rightarrow> int \<Rightarrow> int \<Rightarrow> ProcessTrackerStatus \<Rightarrow> int option \<Rightarrow>
   (('s, 'd) pt_world, StorageError, 'j ProcessTracker list) eff" where
  "store_find_processes_by_time_status self time_lower_limit time_upper_limit status limit =
     ebind (in_db (pg_connection_read self))
       (\<lambda>conn. emap_err StorageError.DatabaseError
          (in_db (pt_find_processes_by_time_status conn time_lower_limit time_upper_limit status limit)))"

definition store_insert_process ::
  "('s, 'd, 'j) RouterStore \<Rightarrow> 'j ProcessTrackerNew \<Rightarrow> (('s, 'd) pt_world, StorageError, 'j ProcessTracker) eff" where
  "store_insert_process self n =
     ebind (in_db (pg_connection_write self))
       (\<lambda>conn. emap_err StorageError.DatabaseError (in_db (pt_insert_process conn n)))"

definition store_update_process ::
  "('s, 'd, 'j) RouterStore \<Rightarrow> 'j ProcessTracker \<Rightarrow> 'j ProcessTrackerUpdate \<Rightarrow>
   (('s, 'd) pt_world, StorageError, 'j ProcessTracker) eff" where
  "store_update_process self this process =
     ebind (in_db (pg_connection_write self))
       (\<lambda>conn. ebind date_time_now
          (\<lambda>now. emap_err StorageError.DatabaseError (in_db (pt_update conn now this process))))"

definition store_reset_process ::
  "('s, 'd, 'j) RouterStore \<Rightarrow> 'j ProcessTracker \<Rightarrow> int \<Rightarrow> (('s, 'd) pt_world, StorageError, unit) eff" where
  "store_reset_process self this schedule_time =
     ebind (store_update_process self this (StatusRetryUpdate New 0 schedule_time)) (\<lambda>_. ereturn ())"

definition store_retry_process ::
  "('s, 'd, 'j) RouterStore \<Rightarrow> 'j ProcessTracker \<Rightarrow> int \<Rightarrow> (('s, 'd) pt_world, StorageError, unit) eff" where
  "store_retry_process self this schedule_time =
     (let retry_count = wrap_i32 (pt_retry_count this + 1) in
      ebind (store_update_process self this (StatusRetryUpdate Pending retry_count schedule_time))
        (\<lambda>_. ereturn ()))"

definition store_finish_process_with_business_status ::
  "('s, 'd, 'j) RouterStore \<Rightarrow> 'j ProcessTracker \<Rightarrow> string \<Rightarrow> (('s, 'd) pt_world, StorageError, unit) eff" where
  "store_finish_process_with_business_status self this business_status =
     ebind (store_update_process self this (StatusUpdate Finish (Some business_status))) (\<lambda>_. ereturn ())"

definition store_process_tracker_update_process_status_by_ids ::
  "('s, 'd, 'j) RouterStore \<Rightarrow> string list \<Rightarrow> 'j ProcessTrackerUpdate \<Rightarrow>
   (('s, 'd) pt_world, StorageError, nat) eff" where
  "store_process_tracker_update_process_status_by_ids self task_ids task_update =
     ebind (in_db (pg_connection_write self))
       (\<lambda>conn. ebind date_time_now
          (\<lambda>now. emap_err StorageError.DatabaseError
             (in_db (pt_update_process_status_by_ids conn now task_ids task_update))))"

definition Store_ProcessTrackerInterface ::
  "('s, 'd, 'j) RouterStore \<Rightarrow> (('s, 'd) pt_world, 'j) ProcessTrackerInterface" where
  "Store_ProcessTrackerInterface self = \<lparr>
     reinitialize_limbo_processes = store_reinitialize_limbo_processes self,
     find_process_by_id = store_find_process_by_id self,
     update_process = store_update_process self,
     process_tracker_update_process_status_by_ids = store_process_tracker_update_process_status_by_ids self,
     insert_process = store_insert_process self,
     reset_process = store_reset_process self,
     retry_process = store_retry_process self,
     finish_process_with_business_status = store_finish_process_with_business_status self,
     find_processes_by_time_status = store_find_processes_by_time_status self\<rparr>"

definition store_fetch_consumer_tasks ::
  "(string \<Rightarrow> 'j ProcessTracker list option) \<Rightarrow> ('s, 'd, 'j) RouterStore \<Rightarrow> string \<Rightarrow> string \<Rightarrow> string \<Rightarrow>
   (('s, 'd) pt_world, ProcessTrackerError, 'j ProcessTracker list) eff" where
  "store_fetch_consumer_tasks de self stream_name group_name consumer_name =
     ebind (emap_err ERedisError (elift (get_redis_conn (st_redis_conn self))))
       (\<lambda>conn. fetch_consumer_tasks de (Store_ProcessTrackerInterface self) conn
                 stream_name group_name consumer_name)"

definition store_consumer_group_create ::
  "('s, 'd, 'j) RouterStore \<Rightarrow> string \<Rightarrow> string \<Rightarrow> RedisEntryId \<Rightarrow> (('s, 'd) pt_world, RedisError, unit) eff" where
  "store_consumer_group_create self stream grp i =
     ebind (elift (get_redis_conn (st_redis_conn self)))
       (\<lambda>conn. in_redis (consumer_group_create conn stream grp i))"

definition store_acquire_pt_lock ::
  "('s, 'd, 'j) RouterStore \<Rightarrow> string \<Rightarrow> string \<Rightarrow> string \<Rightarrow> int \<Rightarrow> (('s, 'd) pt_world, RedisError, bool) eff" where
  "store_acquire_pt_lock self tag key lock_val ttl =
     ebind (elift (get_redis_conn (st_redis_conn self)))
       (\<lambda>conn. ematch (in_redis (set_key_if_not_exists_with_expiry conn key lock_val None))
          (\<lambda>error. ereturn False)
          (\<lambda>reply. case reply of
             SetnxReply.KeySet \<Rightarrow>
               ematch (in_redis (set_expiry conn key ttl))
                 (\<lambda>error. ematch (in_redis (delete_key conn key)) (\<lambda>_. ereturn False) (\<lambda>_. ereturn False))
                 (\<lambda>_. ereturn True)
           | SetnxReply.KeyNotSet \<Rightarrow> ereturn False))"

definition store_release_pt_lock ::
  "('s, 'd, 'j) RouterStore \<Rightarrow> string \<Rightarrow> string \<Rightarrow> (('s, 'd) pt_world, RedisError, bool) eff" where
  "store_release_pt_lock self tag key =
     ebind (elift (get_redis_conn (st_redis_conn self)))
       (\<lambda>conn. ematch (in_redis (delete_key conn key)) (\<lambda>error. ereturn False) (\<lambda>_. ereturn True))"

definition store_stream_append_entry ::
  "('s, 'd, 'j) RouterStore \<Rightarrow> string \<Rightarrow> RedisEntryId \<Rightarrow> (string \<times> string) list \<Rightarrow>
   (('s, 'd) pt_world, RedisError, unit) eff" where
  "store_stream_append_entry self stream entry_id field_values =
     ebind (elift (get_redis_conn (st_redis_conn self)))
       (\<lambda>conn. in_redis (stream_append_entry conn stream entry_id field_values))"

definition store_get_key :: "('s, 'd, 'j) RouterStore \<Rightarrow> string \<Rightarrow> (('s, 'd) pt_world, RedisError, string) eff" where
  "store_get_key self key =
     ebind (elift (get_redis_conn (st_redis_conn self))) (\<lambda>conn. in_redis (get_key conn key))"

definition Store_QueueInterface ::
  "(string \<Rightarrow> 'j ProcessTracker list option) \<Rightarrow> ('s, 'd, 'j) RouterStore \<Rightarrow>
   (('s, 'd) pt_world, 'j) QueueInterface" where
  "Store_QueueInterface de self = \<lparr>
     q_fetch_consumer_tasks = store_fetch_consumer_tasks de self,
     q_consumer_group_create = store_consumer_group_create self,
     acquire_pt_lock = store_acquire_pt_lock self,
     release_pt_lock = store_release_pt_lock self,
     q_stream_append_entry = store_stream_append_entry self,
     q_get_key = store_get_key self\<rparr>"

definition as_scheduler ::
  "(string \<Rightarrow> 'j ProcessTracker list option) \<Rightarrow> ('s, 'd, 'j) RouterStore \<Rightarrow> ('s, 'd, 'j) scheduler" where
  "as_scheduler de self =
     \<lparr>sched_pt = Store_ProcessTrackerInterface self, sched_queue = Store_QueueInterface de self\<rparr>"

section \<open>MockDb\<close>

text \<open>The mock database is the vector of tasks behind its mutex.\<close>

definition MockDb_ProcessTrackerInterface :: "('j ProcessTracker list, 'j) ProcessTrackerInterface" where
  "MockDb_ProcessTrackerInterface = \<lparr>
     reinitialize_limbo_processes = (\<lambda>ids t. ethrow MockDbError),
     find_process_by_id = (\<lambda>i processes. (Ok (find (\<lambda>process. pt_id process = i) processes), processes)),
     update_process = (\<lambda>this process. ethrow MockDbError),
     process_tracker_update_process_status_by_ids = (\<lambda>ids u. ethrow MockDbError),
     insert_process = (\<lambda>n processes. let process = ProcessTracker_of_new n in (Ok process, processes @ [process])),
     reset_process = (\<lambda>this t. ethrow MockDbError),
     retry_process = (\<lambda>this t. ethrow MockDbError),
     finish_process_with_business_status = (\<lambda>this b. ethrow MockDbError),
     find_processes_by_time_status = (\<lambda>l u st limit. ethrow MockDbError)\<rparr>"

definition MockDb_QueueInterface :: "('w, 'j) QueueInterface" where
  "MockDb_QueueInterface = \<lparr>
     q_fetch_consumer_tasks = (\<lambda>s g c. ethrow (ResourceFetchingFailed ''consumer_tasks'')),
     q_consumer_group_create = (\<lambda>s g i. ethrow ConsumerGroupCreateFailed),
     acquire_pt_lock = (\<lambda>tag key v ttl. ereturn False),
     release_pt_lock = (\<lambda>tag key. ereturn False),
     q_stream_append_entry = (\<lambda>s i f. ethrow StreamAppendFailed),
     q_get_key = (\<lambda>k. ethrow RedisConnectionError)\<rparr>"

section \<open>Names and times (utils.rs)\<close>

definition get_process_tracker_id ::
  "ProcessTrackerRunner \<Rightarrow> string \<Rightarrow> string \<Rightarrow> string \<Rightarrow> string" where
  "get_process_tracker_id runner task_name txn_id merchant_id =
     ProcessTrackerRunner_to_string runner @ ''_'' @ task_name @ ''_'' @ txn_id @ ''_'' @ merchant_id"

definition max_datetime :: int where
  "max_datetime = max_timestamp * 1000000 + 999999"

definition min_datetime :: int where
  "min_datetime = min_timestamp * 1000000"

definition get_time_from_delta :: "int \<Rightarrow> int option \<Rightarrow> int option" where
  "get_time_from_delta now delta =
     map_option (\<lambda>t. max min_datetime (min max_datetime (now + t * 1000000))) delta"

end
