(* ===== verification/App_Settings.thy ===== *)
theory App_Settings
  imports Scheduler
begin

text \<open>
  The application settings (\<open>data_models/src/configs/settings.rs\<close>), their defaults
  (\<open>defaults.rs\<close>) and their validation (\<open>validations.rs\<close>), with the lock settings that compute the
  number of retries while they are read and the sets that are read from a comma-separated text. A
  secret is its value. The crate declares no features, so the fields and checks that are compiled only
  with one are left out. Reading the configuration files (the \<open>config\<close> crate) is not modelled.
\<close>

datatype ApplicationError =
    ConfigurationError
  | InvalidConfigurationValueError string
  | MetricsError
  | IoError
  | ApiClientError

definition require :: "bool \<Rightarrow> string \<Rightarrow> (ApplicationError, unit) result" where
  "require bad message = when_pred bad (Err (InvalidConfigurationValueError message))"

definition checks :: "(ApplicationError, unit) result list \<Rightarrow> (ApplicationError, unit) result" where
  "checks rs = foldr (\<lambda>r rest. rbind r (\<lambda>_. rest)) rs (Ok ())"

section \<open>Sections and their defaults\<close>

record Server =
  srv_port :: "16 word"
  srv_workers :: nat
  srv_host :: string
  srv_request_body_limit :: nat
  srv_base_url :: string
  srv_shutdown_timeout :: "64 word"

text \<open>\<open>cpus\<close> is \<open>num_cpus::get_physical\<close>.\<close>

definition Server_default :: "nat \<Rightarrow> Server" where
  "Server_default cpus = \<lparr>
     srv_port = 8080,
     srv_workers = cpus,
     srv_host = ''localhost'',
     srv_request_body_limit = 16 * 1024,
     srv_base_url = ''http://localhost:8080'',
     srv_shutdown_timeout = 30\<rparr>"

record CorsSettings =
  cors_origins :: "string set"
  cors_wildcard_origin :: bool
  cors_max_age :: nat
  cors_allowed_methods :: "string set"

definition CorsSettings_default :: CorsSettings where
  "CorsSettings_default = \<lparr>
     cors_origins = {''http://localhost:8080''},
     cors_wildcard_origin = False,
     cors_max_age = 30,
     cors_allowed_methods = {''GET'', ''PUT'', ''POST'', ''DELETE''}\<rparr>"

datatype QueueStrategy = Fifo | Lifo

record Database =
  db_username :: string
  db_password :: string
  db_host :: string
  db_port :: "16 word"
  db_dbname :: string
  db_pool_size :: "32 word"
  db_connection_timeout :: "64 word"
  db_queue_strategy :: QueueStrategy
  db_min_idle :: "32 word option"
  db_max_lifetime :: "64 word option"

definition Database_default :: Database where
  "Database_default = \<lparr>
     db_username = [],
     db_password = [],
     db_host = ''localhost'',
     db_port = 5432,
     db_dbname = [],
     db_pool_size = 5,
     db_connection_timeout = 10,
     db_queue_strategy = Fifo,
     db_min_idle = None,
     db_max_lifetime = None\<rparr>"

record Secrets =
  sec_jwt_secret :: string
  sec_admin_api_key :: string
  sec_recon_admin_api_key :: string
  sec_master_enc_key :: string

record Locker =
  lk_host :: string
  lk_host_rs :: string
  lk_mock_locker :: bool
  lk_basilisk_host :: string
  lk_locker_signing_key_id :: string
  lk_locker_enabled :: bool

definition Locker_default :: Locker where
  "Locker_default = \<lparr>
     lk_host = ''localhost'',
     lk_host_rs = ''localhost'',
     lk_mock_locker = True,
     lk_basilisk_host = ''localhost'',
     lk_locker_signing_key_id = ''1'',
     lk_locker_enabled = True\<rparr>"

record ApiKeysConfig =
  cfg_hash_key :: string

definition ApiKeysConfig_default :: ApiKeysConfig where
  "ApiKeysConfig_default = \<lparr>cfg_hash_key = []\<rparr>"

record SchedulerConfig = SchedulerSettings +
  sched_server :: Server

text \<open>Of the log file settings, the fields the validation reads.\<close>

record LogFile =
  log_file_enabled :: bool
  log_file_path :: string
  log_file_name :: string

datatype SecretsManagementConfig =
    AwsKms string string
  | HashiCorpVault string string
  | NoEncryption

section \<open>Lock settings\<close>

record LockSettings =
  redis_lock_expiry_seconds :: "32 word"
  delay_between_retries_in_milliseconds :: "32 word"
  lock_retries :: "32 word"

text \<open>The product wraps in the release profile, which has no overflow checks; a division by zero
  panics.\<close>

definition LockSettings_deserialize :: "32 word \<Rightarrow> 32 word \<Rightarrow> LockSettings option" where
  "LockSettings_deserialize expiry delay =
     (if delay = 0 then None
      else Some \<lparr>
        redis_lock_expiry_seconds = expiry,
        delay_between_retries_in_milliseconds = delay,
        lock_retries = expiry * 1000 div delay\<rparr>)"

section \<open>Sets read from a text\<close>

text \<open>\<open>from_str\<close> parses one element; \<open>message\<close> is the text of a failure.\<close>

definition deserialize_hashset_inner ::
  "(string \<Rightarrow> 'a option) \<Rightarrow> (string \<Rightarrow> string) \<Rightarrow> string \<Rightarrow> (string, 'a set) result" where
  "deserialize_hashset_inner from_str message v =
     (let results = map (\<lambda>s. (str_trim s, from_str (str_trim s))) (split_on CHR '','' (str_trim v));
          (values, errors) = fold (\<lambda>(s, r) (values, errors).
             case r of Some t \<Rightarrow> (insert t values, errors) | None \<Rightarrow> (values, errors @ [message s])) results ({}, [])
      in if errors \<noteq> [] then Err (''Some errors occurred:'' @ [CHR 0x0A] @ join_with CHR 0x0A errors) else Ok values)"

definition deserialize_optional_hashset ::
  "(string \<Rightarrow> 'a option) \<Rightarrow> (string \<Rightarrow> string) \<Rightarrow> string option \<Rightarrow> (string, 'a set option) result" where
  "deserialize_optional_hashset from_str message v =
     (case v of None \<Rightarrow> Ok None
      | Some inner \<Rightarrow> rbind (deserialize_hashset_inner from_str message inner)
          (\<lambda>s. Ok (if card s = 0 then None else Some s)))"

section \<open>Validation\<close>

definition Secrets_validate :: "Secrets \<Rightarrow> (ApplicationError, unit) result" where
  "Secrets_validate self = checks [
     require (is_default_or_empty (sec_jwt_secret self)) ''JWT secret must not be empty'',
     require (is_default_or_empty (sec_admin_api_key self)) ''admin API key must not be empty'',
     require (is_default_or_empty (sec_master_enc_key self)) ''Master encryption key must not be empty'']"

definition Locker_validate :: "Locker \<Rightarrow> (ApplicationError, unit) result" where
  "Locker_validate self = checks [
     require (\<not> lk_mock_locker self \<and> is_default_or_empty (lk_host self))
       ''locker host must not be empty when mock locker is disabled'',
     require (\<not> lk_mock_locker self \<and> is_default_or_empty (lk_basilisk_host self))
       ''basilisk host must not be empty when mock locker is disabled'']"

definition Server_validate :: "Server \<Rightarrow> (ApplicationError, unit) result" where
  "Server_validate self = checks [
     require (is_default_or_empty (srv_host self)) ''server host must not be empty'',
     require (srv_workers self = 0) ''number of workers must be greater than 0'']"

definition Database_validate :: "Database \<Rightarrow> (ApplicationError, unit) result" where
  "Database_validate self = checks [
     require (is_default_or_empty (db_host self)) ''database host must not be empty'',
     require (is_default_or_empty (db_dbname self)) ''database name must not be empty'',
     require (is_default_or_empty (db_username self)) ''database user username must not be empty'',
     require (is_default_or_empty (db_password self)) ''database user password must not be empty'']"

definition CorsSettings_validate :: "CorsSettings \<Rightarrow> (ApplicationError, unit) result" where
  "CorsSettings_validate self = checks [
     require (cors_wildcard_origin self \<and> cors_origins self \<noteq> {})
       ''Allowed Origins must be empty when wildcard origin is true'',
     require (\<not> cors_wildcard_origin self \<and> cors_origins self = {})
       ''Allowed origins must not be empty. Please either enable wildcard origin or provide Allowed Origin'']"

definition ApiKeysConfig_validate :: "ApiKeysConfig \<Rightarrow> (ApplicationError, unit) result" where
  "ApiKeysConfig_validate self =
     require (cfg_hash_key self = []) ''API key hashing key must not be empty''"

definition ProducerSettings_validate :: "ProducerSettings \<Rightarrow> (ApplicationError, unit) result" where
  "ProducerSettings_validate self =
     require (is_default_or_empty (lock_key self)) ''producer lock key must not be empty''"

definition SchedulerSettings_validate :: "SchedulerConfig \<Rightarrow> (ApplicationError, unit) result" where
  "SchedulerSettings_validate self = checks [
     require (is_default_or_empty (sched_stream self)) ''scheduler stream must not be empty'',
     require (is_default_or_empty (consumer_group (sched_consumer self))) ''scheduler consumer group must not be empty'',
     ProducerSettings_validate (sched_producer self),
     Server_validate (sched_server self)]"

definition LockSettings_validate :: "LockSettings \<Rightarrow> (ApplicationError, unit) result" where
  "LockSettings_validate self = checks [
     require (redis_lock_expiry_seconds self = 0) ''redis_lock_expiry_seconds must not be empty or 0'',
     require (delay_between_retries_in_milliseconds self = 0)
       ''delay_between_retries_in_milliseconds must not be empty or 0'',
     require (lock_retries self = 0) ''lock_retries must not be empty or 0'']"

fun SecretsManagementConfig_validate :: "SecretsManagementConfig \<Rightarrow> (string, unit) result" where
  "SecretsManagementConfig_validate (AwsKms key_id region) =
     rbind (when_pred (is_default_or_empty key_id) (Err ''KMS AWS key ID must not be empty''))
       (\<lambda>_. when_pred (is_default_or_empty region) (Err ''KMS AWS region must not be empty''))"
| "SecretsManagementConfig_validate (HashiCorpVault url token) =
     rbind (when_pred (is_default_or_empty url) (Err ''HashiCorp vault url must not be empty''))
       (\<lambda>_. when_pred (is_default_or_empty token) (Err ''HashiCorp vault token must not be empty''))"
| "SecretsManagementConfig_validate NoEncryption = Ok ()"

text \<open>The sections of the settings that are validated.\<close>

record Settings =
  st_server :: Server
  st_master_database :: Database
  st_redis :: RedisSettings
  st_log_file :: LogFile
  st_secrets :: Secrets
  st_locker :: Locker
  st_cors :: CorsSettings
  st_scheduler :: "SchedulerConfig option"
  st_api_keys :: ApiKeysConfig
  st_lock_settings :: LockSettings
  st_secrets_management :: SecretsManagementConfig

definition Settings_validate :: "Settings \<Rightarrow> (ApplicationError, unit) result" where
  "Settings_validate self = checks [
     Server_validate (st_server self),
     Database_validate (st_master_database self),
     (case RedisSettings_validate (st_redis self) of
        Inl _ \<Rightarrow> Err (InvalidConfigurationValueError ''Redis configuration'') | Inr u \<Rightarrow> Ok u),
     (if log_file_enabled (st_log_file self) then
        if is_default_or_empty (log_file_name (st_log_file self))
        then Err (InvalidConfigurationValueError ''log file name must not be empty'')
        else if is_default_or_empty (log_file_path (st_log_file self))
        then Err (InvalidConfigurationValueError ''log directory path must not be empty'')
        else Ok ()
      else Ok ()),
     Secrets_validate (st_secrets self),
     Locker_validate (st_locker self),
     CorsSettings_validate (st_cors self),
     (case st_scheduler self of None \<Rightarrow> Ok () | Some scheduler_settings \<Rightarrow> SchedulerSettings_validate scheduler_settings),
     ApiKeysConfig_validate (st_api_keys self),
     LockSettings_validate (st_lock_settings self),
     (case SecretsManagementConfig_validate (st_secrets_management self) of
        Inl err \<Rightarrow> Err (InvalidConfigurationValueError err) | Inr u \<Rightarrow> Ok u)]"

section \<open>Properties\<close>

lemma require_Ok [simp]: "require bad m = Ok u \<longleftrightarrow> \<not> bad"
  by (simp add: require_def when_pred_def)

lemma checks_Ok [simp]: "checks rs = Ok () \<longleftrightarrow> (\<forall>r \<in> set rs. r = Ok ())"
  by (induction rs) (auto simp: checks_def rbind_Ok_iff)

text \<open>A text that is more than white space.\<close>

abbreviation given :: "string \<Rightarrow> bool" where
  "given s \<equiv> \<not> is_default_or_empty s"

lemma RedisSettings_validate_Ok:
  "RedisSettings_validate c = Ok () \<longleftrightarrow> given (host c) \<and> (cluster_enabled c \<longrightarrow> cluster_urls c \<noteq> []) \<and>
     unresponsive_timeout c \<le> default_command_timeout c"
  by (auto simp: RedisSettings_validate_def when_pred_def not_less split: sum.splits if_splits)

lemma require_and:
  "rbind (when_pred p (Err a)) (\<lambda>_. when_pred q (Err b)) = Ok u \<longleftrightarrow> \<not> p \<and> \<not> q"
  by (simp add: when_pred_def)

lemma secrets_management_Ok:
  "SecretsManagementConfig_validate c = Ok u \<longleftrightarrow>
     (case c of NoEncryption \<Rightarrow> True | AwsKms a b \<Rightarrow> given a \<and> given b | HashiCorpVault a b \<Rightarrow> given a \<and> given b)"
  by (cases c) (simp_all add: require_and)

lemma relabelled_Ok: "(case r of Inl e \<Rightarrow> Err (g e) | Inr u \<Rightarrow> Ok u) = Ok () \<longleftrightarrow> r = Ok ()"
  by (cases r) simp_all

lemmas section_validate_Ok = relabelled_Ok secrets_management_Ok RedisSettings_validate_Ok

lemmas given_sections = Server_validate_def Database_validate_def Secrets_validate_def Locker_validate_def
  CorsSettings_validate_def ApiKeysConfig_validate_def LockSettings_validate_def


definition demo_settings :: Settings where
  "demo_settings = \<lparr>
     st_server = Server_default 4,
     st_master_database = Database_default\<lparr>db_username := ''u'', db_password := ''p'', db_dbname := ''d''\<rparr>,
     st_redis = RedisSettings_default,
     st_log_file = \<lparr>log_file_enabled = False, log_file_path = [], log_file_name = []\<rparr>,
     st_secrets = \<lparr>sec_jwt_secret = ''j'', sec_admin_api_key = ''a'', sec_recon_admin_api_key = [], sec_master_enc_key = ''m''\<rparr>,
     st_locker = Locker_default,
     st_cors = CorsSettings_default,
     st_scheduler = None,
     st_api_keys = \<lparr>cfg_hash_key = ''k''\<rparr>,
     st_lock_settings = \<lparr>redis_lock_expiry_seconds = 180, delay_between_retries_in_milliseconds = 100, lock_retries = 1800\<rparr>,
     st_secrets_management = NoEncryption\<rparr>"


text \<open>The retries computed while the lock settings are read cover the life of the lock: together
  they wait at most as long as the lock lives and one more would not, when the life in milliseconds fits in 32
  bits; settings that pass validation have at least one retry. A delay of zero is never accepted: reading
  it panics.\<close>

theorem lock_retries_cover_expiry:
  assumes "LockSettings_deserialize e d = Some l" and "unat e * 1000 < 2 ^ 32"
  shows "unat (lock_retries l) * unat d \<le> unat e * 1000 \<and> unat e * 1000 < (unat (lock_retries l) + 1) * unat d \<and>
    (LockSettings_validate l = Ok () \<longrightarrow> 0 < unat (lock_retries l)) \<and> LockSettings_deserialize e 0 = None"
proof -
  have d: "d \<noteq> 0" and l: "l = \<lparr>redis_lock_expiry_seconds = e, delay_between_retries_in_milliseconds = d, lock_retries = e * 1000 div d\<rparr>"
    using assms(1) by (auto simp: LockSettings_deserialize_def split: if_splits)
  have "unat (e * 1000) = unat e * 1000" using assms(2) by (simp add: unat_word_ariths)
  then have r: "unat (lock_retries l) = unat e * 1000 div unat d" by (simp add: l unat_div)
  have "0 < unat d" using d by (simp add: unat_gt_0)
  then have "unat e * 1000 div unat d * unat d \<le> unat e * 1000"
    and "unat e * 1000 < (unat e * 1000 div unat d + 1) * unat d"
    by (simp_all add: dividend_less_div_times)
  moreover have "LockSettings_validate l = Ok () \<longrightarrow> 0 < unat (lock_retries l)"
    by (simp add: LockSettings_validate_def unat_gt_0)
  ultimately show ?thesis by (simp add: r LockSettings_deserialize_def)
qed

theorem lock_retries_cover_expiry_witness:
  "\<exists>l. LockSettings_deserialize 180 100 = Some l \<and> unat (lock_retries l) * 100 \<le> 180000 \<and> 0 < unat (lock_retries l)"
proof -
  obtain l where l: "LockSettings_deserialize 180 100 = Some l" and v: "LockSettings_validate l = Ok ()"
    by (simp add: LockSettings_deserialize_def LockSettings_validate_def)
  from lock_retries_cover_expiry [OF l] v l show ?thesis by simp
qed

end
