(* ===== verification/Secret_Managers.thy ===== *)
theory Secret_Managers
  imports App_Settings
begin

text \<open>
  The clients that encrypt, decrypt and fetch secrets (\<open>external_services/src/{aws_kms,hashicorp_vault,no_encryption,
  managers}\<close>) behind the two interfaces of \<open>hyperswitch_interfaces/src\<close>.

  The service of AWS and the server of Vault are parameters: an effect on their state that answers a request or
  refuses it. The answers of AWS carry an optional text. The base64 codec is a parameter too; \<open>String::from_utf8\<close>
  accepts exactly the texts of \<open>utf8_valid\<close>. Metrics and logs are not modelled.
\<close>

section \<open>UTF-8\<close>

abbreviation byte_in :: "char \<Rightarrow> nat \<Rightarrow> nat \<Rightarrow> bool" where
  "byte_in c l h \<equiv> l \<le> (of_char c :: nat) \<and> (of_char c :: nat) \<le> h"

text \<open>The second byte after a first byte that opens a sequence of three or four.\<close>

definition second_of_three :: "char \<Rightarrow> char \<Rightarrow> bool" where
  "second_of_three a b = (if of_char a = (0xE0 :: nat) then byte_in b 0xA0 0xBF
     else if of_char a = (0xED :: nat) then byte_in b 0x80 0x9F else byte_in b 0x80 0xBF)"

definition second_of_four :: "char \<Rightarrow> char \<Rightarrow> bool" where
  "second_of_four a b = (if of_char a = (0xF0 :: nat) then byte_in b 0x90 0xBF
     else if of_char a = (0xF4 :: nat) then byte_in b 0x80 0x8F else byte_in b 0x80 0xBF)"

fun utf8_valid :: "string \<Rightarrow> bool" where
  "utf8_valid [] = True"
| "utf8_valid (a # s) =
     (if byte_in a 0 0x7F then utf8_valid s
      else if byte_in a 0xC2 0xDF then (case s of b # t \<Rightarrow> byte_in b 0x80 0xBF \<and> utf8_valid t | _ \<Rightarrow> False)
      else if byte_in a 0xE0 0xEF then
        (case s of b # c # t \<Rightarrow> second_of_three a b \<and> byte_in c 0x80 0xBF \<and> utf8_valid t | _ \<Rightarrow> False)
      else if byte_in a 0xF0 0xF4 then
        (case s of b # c # d # t \<Rightarrow>
           second_of_four a b \<and> byte_in c 0x80 0xBF \<and> byte_in d 0x80 0xBF \<and> utf8_valid t | _ \<Rightarrow> False)
      else False)"

definition from_utf8 :: "string \<Rightarrow> 'e \<Rightarrow> ('e, string) result" where
  "from_utf8 s e = (if utf8_valid s then Ok s else Err e)"

lemma utf8_valid_ascii: "\<forall>c\<in>set s. (of_char c :: nat) < 128 \<Longrightarrow> utf8_valid s"
  by (induction s) auto

section \<open>The interfaces\<close>

datatype EncryptionError = EeEncryptionFailed | EeDecryptionFailed

datatype SecretsManagementError = FetchSecretFailed | ClientCreationFailed

type_synonym 'w secret_client = "string \<Rightarrow> ('w, SecretsManagementError, string) eff"

record 'w encryption_client =
  em_encrypt :: "string \<Rightarrow> ('w, EncryptionError, string) eff"
  em_decrypt :: "string \<Rightarrow> ('w, EncryptionError, string) eff"

section \<open>No encryption\<close>

definition NoEncryption_encrypt :: "string \<Rightarrow> string" where
  "NoEncryption_encrypt data = data"

definition NoEncryption_decrypt :: "string \<Rightarrow> string" where
  "NoEncryption_decrypt data = data"

definition NoEncryption_get_secret :: "'w secret_client" where
  "NoEncryption_get_secret input = elift (from_utf8 (NoEncryption_decrypt input) FetchSecretFailed)"

definition NoEncryption_client :: "'w encryption_client" where
  "NoEncryption_client = \<lparr>em_encrypt = (\<lambda>input. ereturn (NoEncryption_encrypt input)),
     em_decrypt = (\<lambda>input. ereturn (NoEncryption_decrypt input))\<rparr>"

section \<open>AWS KMS\<close>

datatype AwsKmsError =
    KmsBase64EncodingFailed | KmsBase64DecodingFailed | KmsDecryptionFailed | KmsEncryptionFailed
  | MissingPlaintextDecryptionOutput | MissingCiphertextEncryptionOutput | KmsUtf8DecodingFailed
  | AwsKmsClientNotInitialized

text \<open>The operations of the SDK: a key and a blob to an optional blob.\<close>

record 'w kms_sdk =
  sdk_encrypt :: "string \<Rightarrow> string \<Rightarrow> ('w, unit, string option) eff"
  sdk_decrypt :: "string \<Rightarrow> string \<Rightarrow> ('w, unit, string option) eff"

record base64 =
  b64_encode :: "string \<Rightarrow> string"
  b64_decode :: "string \<Rightarrow> string option"

record 'w AwsKmsClient =
  inner_client :: "'w kms_sdk"
  kms_key_id :: string

definition AwsKmsClient_new :: "(string \<Rightarrow> 'w kms_sdk) \<Rightarrow> string \<Rightarrow> string \<Rightarrow> 'w AwsKmsClient" where
  "AwsKmsClient_new connect key_id region = \<lparr>inner_client = connect region, kms_key_id = key_id\<rparr>"

definition AwsKmsClient_decrypt :: "base64 \<Rightarrow> 'w AwsKmsClient \<Rightarrow> string \<Rightarrow> ('w, AwsKmsError, string) eff" where
  "AwsKmsClient_decrypt b64 self data =
     ebind (elift (ok_or (b64_decode b64 data) KmsBase64DecodingFailed)) (\<lambda>ciphertext_blob.
     ebind (change_context KmsDecryptionFailed (sdk_decrypt (inner_client self) (kms_key_id self) ciphertext_blob)) (\<lambda>plaintext.
       elift (rbind (ok_or plaintext MissingPlaintextDecryptionOutput) (\<lambda>blob. from_utf8 blob KmsUtf8DecodingFailed))))"

definition AwsKmsClient_encrypt :: "base64 \<Rightarrow> 'w AwsKmsClient \<Rightarrow> string \<Rightarrow> ('w, AwsKmsError, string) eff" where
  "AwsKmsClient_encrypt b64 self data =
     ebind (change_context KmsEncryptionFailed (sdk_encrypt (inner_client self) (kms_key_id self) data)) (\<lambda>ciphertext.
       elift (rbind (ok_or ciphertext MissingCiphertextEncryptionOutput) (\<lambda>blob. Ok (b64_encode b64 blob))))"

definition AwsKms_client :: "base64 \<Rightarrow> 'w AwsKmsClient \<Rightarrow> 'w encryption_client" where
  "AwsKms_client b64 self =
     \<lparr>em_encrypt = (\<lambda>input. change_context EeEncryptionFailed (AwsKmsClient_encrypt b64 self input)),
      em_decrypt = (\<lambda>input. change_context EeDecryptionFailed (AwsKmsClient_decrypt b64 self input))\<rparr>"

definition AwsKms_get_secret :: "base64 \<Rightarrow> 'w AwsKmsClient \<Rightarrow> 'w secret_client" where
  "AwsKms_get_secret b64 self input = change_context FetchSecretFailed (AwsKmsClient_decrypt b64 self input)"

section \<open>HashiCorp Vault\<close>

datatype HashiCorpError =
    VaultClientCreationFailed | ConfigurationBuildFailed | HexDecodingFailed | VaultBase64DecodingFailed
  | VaultDecryptionFailed | VaultMissingPlaintext | VaultUtf8DecodingFailed
  | IncompleteData | FetchFailed | VaultParseError

text \<open>The client is the read of the key-value engine of the server: a mount and a path to the fields there.\<close>

type_synonym 'w vault = "string \<Rightarrow> string \<Rightarrow> ('w, unit, string \<rightharpoonup> string) eff"

definition Kv2_read :: "'w vault \<Rightarrow> string \<Rightarrow> ('w, HashiCorpError, string) eff" where
  "Kv2_read client location =
     (case split_on CHR '':'' location of
        mount # path # rest \<Rightarrow>
          (let key = (case rest of [] \<Rightarrow> ''value'' | k # _ \<Rightarrow> k) in
           ebind (change_context FetchFailed (client mount path)) (\<lambda>output. elift (ok_or (output key) VaultParseError)))
      | _ \<Rightarrow> ethrow IncompleteData)"

text \<open>Settings are built from the address and the token; building them and the client are the two steps of the
  library.\<close>

definition HashiCorpVault_new ::
  "(string \<Rightarrow> string \<Rightarrow> 'c option) \<Rightarrow> ('c \<Rightarrow> 'w vault option) \<Rightarrow> string \<Rightarrow> string \<Rightarrow> (HashiCorpError, 'w vault) result" where
  "HashiCorpVault_new build connect url token =
     rbind (ok_or (build url token) VaultClientCreationFailed) (\<lambda>settings.
       ok_or (connect settings) VaultClientCreationFailed)"

text \<open>\<open>get_hashicorp_client\<close> fills the cell of the process once.\<close>

definition get_hashicorp_client ::
  "(string \<Rightarrow> string \<Rightarrow> (HashiCorpError, 'c) result) \<Rightarrow> string \<Rightarrow> string \<Rightarrow> ('c option, HashiCorpError, 'c) eff" where
  "get_hashicorp_client new_client url token cell =
     (case cell of
        Some client \<Rightarrow> (Ok client, cell)
      | None \<Rightarrow> (case new_client url token of Inr client \<Rightarrow> (Ok client, Some client) | Inl e \<Rightarrow> (Err e, cell)))"

definition HashiCorpVault_fetch ::
  "(string \<Rightarrow> 'i option) \<Rightarrow> 'w vault \<Rightarrow> string \<Rightarrow> ('w, HashiCorpError, 'i) eff" where
  "HashiCorpVault_fetch from_encoded self data =
     ebind (Kv2_read self data) (\<lambda>output. elift (ok_or (from_encoded output) HexDecodingFailed))"

definition HashiCorpVault_get_secret :: "'w vault \<Rightarrow> 'w secret_client" where
  "HashiCorpVault_get_secret self input = change_context FetchSecretFailed (HashiCorpVault_fetch Some self input)"

section \<open>Choosing a client\<close>

record 'w cloud =
  cl_base64 :: base64
  cl_kms :: "string \<Rightarrow> 'w kms_sdk"
  cl_vault :: "string \<Rightarrow> string \<Rightarrow> (HashiCorpError, 'w vault) result"

definition get_secret_management_client ::
  "'w cloud \<Rightarrow> SecretsManagementConfig \<Rightarrow> (SecretsManagementError, 'w secret_client) result" where
  "get_secret_management_client cloud self =
     (case self of
        AwsKms key_id region \<Rightarrow> Ok (AwsKms_get_secret (cl_base64 cloud) (AwsKmsClient_new (cl_kms cloud) key_id region))
      | HashiCorpVault url token \<Rightarrow>
          (case cl_vault cloud url token of
             Inl _ \<Rightarrow> Err ClientCreationFailed
           | Inr vault \<Rightarrow> Ok (HashiCorpVault_get_secret vault))
      | NoEncryption \<Rightarrow> Ok NoEncryption_get_secret)"

datatype EncryptionManagementConfig = EmAwsKms string string | EmNoEncryption

fun EncryptionManagementConfig_validate :: "EncryptionManagementConfig \<Rightarrow> (string, unit) result" where
  "EncryptionManagementConfig_validate (EmAwsKms key_id region) = SecretsManagementConfig_validate (AwsKms key_id region)"
| "EncryptionManagementConfig_validate EmNoEncryption = Ok ()"

fun get_encryption_management_client :: "'w cloud \<Rightarrow> EncryptionManagementConfig \<Rightarrow> (EncryptionError, 'w encryption_client) result" where
  "get_encryption_management_client cloud (EmAwsKms key_id region) =
     Ok (AwsKms_client (cl_base64 cloud) (AwsKmsClient_new (cl_kms cloud) key_id region))"
| "get_encryption_management_client cloud EmNoEncryption = Ok NoEncryption_client"

section \<open>The services\<close>

text \<open>What the clients rely on: base64 is decoded as it was encoded; a ciphertext the service has given for a
  plaintext under a key opens to it under that key, from then on.\<close>

locale kms_service =
  fixes sdk :: "'w kms_sdk" and b64 :: base64 and opens :: "'w \<Rightarrow> string \<Rightarrow> string \<Rightarrow> string \<Rightarrow> bool"
  assumes base64_roundtrip: "b64_decode b64 (b64_encode b64 x) = Some x"
    and encrypt_opens: "sdk_encrypt sdk k p w = (Ok (Some c), w') \<Longrightarrow> opens w' k c p"
    and encrypt_keeps: "opens w k c p \<Longrightarrow> opens (snd (sdk_encrypt sdk j q w)) k c p"
    and decrypt_opens: "opens w k c p \<Longrightarrow> fst (sdk_decrypt sdk k c w) = Ok (Some p)"
begin

lemma client_encrypt_keeps:
  "opens w k c p \<Longrightarrow> opens (snd (em_encrypt (AwsKms_client b64 \<lparr>inner_client = sdk, kms_key_id = j\<rparr>) q w)) k c p"
  using encrypt_keeps [of w k c p j q]
  by (auto simp: AwsKms_client_def AwsKmsClient_encrypt_def eff_simps split: prod.splits sum.splits)

lemma client_encrypt_opens:
  assumes "em_encrypt (AwsKms_client b64 \<lparr>inner_client = sdk, kms_key_id = k\<rparr>) x w = (Ok y, w')"
  shows "\<exists>c. y = b64_encode b64 c \<and> opens w' k c x"
  using assms encrypt_opens [of k x w]
  by (auto simp: AwsKms_client_def AwsKmsClient_encrypt_def rbind_Ok_iff eff_simps split: prod.splits sum.splits)

lemma later_encryptions_keep:
  "opens w k c p \<Longrightarrow>
   opens (fold (\<lambda>d w. snd (em_encrypt (AwsKms_client b64 \<lparr>inner_client = sdk, kms_key_id = j\<rparr>) d w)) ds w) k c p"
  by (induction ds arbitrary: w) (simp_all add: client_encrypt_keeps)

lemma client_decrypt:
  assumes "opens w k c x"
  shows "fst (AwsKmsClient_decrypt b64 \<lparr>inner_client = sdk, kms_key_id = k\<rparr> (b64_encode b64 c) w) =
    from_utf8 x KmsUtf8DecodingFailed"
  using decrypt_opens [OF assms]
  by (cases "sdk_decrypt sdk k c w") (simp add: AwsKmsClient_decrypt_def base64_roundtrip eff_simps)

end

text \<open>A service in memory: a ciphertext is the number of the plaintext in the list of those encrypted.\<close>

type_synonym mem_kms_state = "(string \<times> string) list"

definition mem_kms :: "mem_kms_state kms_sdk" where
  "mem_kms = \<lparr>sdk_encrypt = (\<lambda>k p w. (Ok (Some (show_nat (length w))), w @ [(k, p)])),
     sdk_decrypt = (\<lambda>k c w. (case parse_nat c of
        Some i \<Rightarrow> if i < length w \<and> fst (w ! i) = k then Ok (Some (snd (w ! i))) else Err ()
      | None \<Rightarrow> Err (), w))\<rparr>"

definition plain_base64 :: base64 where
  "plain_base64 = \<lparr>b64_encode = (\<lambda>x. x), b64_decode = Some\<rparr>"

definition mem_opens :: "mem_kms_state \<Rightarrow> string \<Rightarrow> string \<Rightarrow> string \<Rightarrow> bool" where
  "mem_opens w k c p = (\<exists>i<length w. c = show_nat i \<and> w ! i = (k, p))"

interpretation mem_service: kms_service mem_kms plain_base64 mem_opens
proof unfold_locales
  show "mem_opens w' k c p" if "sdk_encrypt mem_kms k p w = (Ok (Some c), w')" for k p w c w'
    using that by (auto simp: mem_kms_def mem_opens_def)
  show "mem_opens (snd (sdk_encrypt mem_kms j q w)) k c p" if "mem_opens w k c p" for w k c p j q
    using that by (auto simp: mem_kms_def mem_opens_def nth_append intro: less_SucI)
  show "fst (sdk_decrypt mem_kms k c w) = Ok (Some p)" if "mem_opens w k c p" for w k c p
    using that by (auto simp: mem_kms_def mem_opens_def parse_show_nat)
qed (simp add: plain_base64_def)

section \<open>Properties\<close>

text \<open>A location of Vault names a mount, a path and a field, \<open>value\<close> when it is left out; what follows a third
  colon is not looked at, and a location without a colon is refused without a request.\<close>

lemma vault_location:
  assumes "CHR '':'' \<notin> set mount" "CHR '':'' \<notin> set path" "CHR '':'' \<notin> set key"
  shows "Kv2_read client mount = ethrow IncompleteData"
    and "Kv2_read client (mount @ CHR '':'' # path) =
      ebind (change_context FetchFailed (client mount path)) (\<lambda>fs. elift (ok_or (fs ''value'') VaultParseError))"
    and "Kv2_read client (mount @ CHR '':'' # path @ CHR '':'' # key) =
      ebind (change_context FetchFailed (client mount path)) (\<lambda>fs. elift (ok_or (fs key) VaultParseError))"
    and "Kv2_read client (mount @ CHR '':'' # path @ CHR '':'' # key @ CHR '':'' # others) =
      Kv2_read client (mount @ CHR '':'' # path @ CHR '':'' # key)"
  using assms by (simp_all add: Kv2_read_def split_on_append split_on_no_sep)

text \<open>C29: what an encryption client encrypts it decrypts, but for the AWS client only texts. The data
  encrypted without encryption is always given back. Over a service that answers, the AWS client gives back, after any
  number of other encryptions, exactly the data when it is UTF-8; when it is not, the data is encrypted all
  the same and every attempt to decrypt it fails.\<close>

theorem encryption_client_roundtrip:
  assumes service: "kms_service sdk b64 opens"
    and kms: "client = AwsKms_client b64 \<lparr>inner_client = sdk, kms_key_id = k\<rparr>"
    and enc: "em_encrypt client x w = (Ok y, w1)"
    and later: "w2 = fold (\<lambda>d w. snd (em_encrypt client d w)) ds w1"
  shows "fst (em_decrypt client y w2) = (if utf8_valid x then Ok x else Err EeDecryptionFailed) \<and>
    em_decrypt NoEncryption_client (NoEncryption_encrypt x) w = (Ok x, w)"
proof -
  obtain c where y: "y = b64_encode b64 c" and "opens w1 k c x"
    using kms_service.client_encrypt_opens [OF service enc [unfolded kms]] by blast
  then have "opens w2 k c x" unfolding later kms by (intro kms_service.later_encryptions_keep [OF service])
  from kms_service.client_decrypt [OF service this]
  have "fst (em_decrypt client y w2) = (if utf8_valid x then Ok x else Err EeDecryptionFailed)"
    by (cases "AwsKmsClient_decrypt b64 \<lparr>inner_client = sdk, kms_key_id = k\<rparr> (b64_encode b64 c) w2")
      (auto simp: kms y AwsKms_client_def from_utf8_def change_context_run)
  then show ?thesis by (simp add: NoEncryption_client_def NoEncryption_encrypt_def NoEncryption_decrypt_def)
qed

theorem encryption_client_roundtrip_witness:
  "\<exists>y w1. em_encrypt (AwsKms_client plain_base64 \<lparr>inner_client = mem_kms, kms_key_id = ''k''\<rparr>) [char_of (255 :: nat)] [] = (Ok y, w1) \<and>
     fst (em_decrypt (AwsKms_client plain_base64 \<lparr>inner_client = mem_kms, kms_key_id = ''k''\<rparr>) y w1) = Err EeDecryptionFailed"
proof -
  let ?client = "AwsKms_client plain_base64 \<lparr>inner_client = mem_kms, kms_key_id = ''k''\<rparr>"
  obtain y w1 where enc: "em_encrypt ?client [char_of (255 :: nat)] [] = (Ok y, w1)"
    by (simp add: AwsKms_client_def AwsKmsClient_encrypt_def mem_kms_def eff_simps)
  from encryption_client_roundtrip [OF mem_service.kms_service_axioms refl enc, where ds = "[]"] enc show ?thesis
    by (intro exI [of _ y] exI [of _ w1]) simp
qed

end
