(* ===== verification/Enum_Decls.thy ===== *)
theory Enum_Decls
  imports Secret_Managers
begin

text \<open>
  The enums of the workspace as their declarations: name, variants, and the attributes that fix how a
  variant is written as a text. \<open>common_enums/src/enums.rs\<close>, \<open>diesel_models/src/enums.rs\<close> and
  \<open>router_env/src/logger/types.rs\<close>. The derives read these declarations: \<open>strum\<close> for
  \<open>Display\<close> and \<open>FromStr\<close>, \<open>serde\<close> for JSON, and \<open>diesel_enum\<close> of \<open>router_derive\<close> for the
  column in the database (theory \<open>Derive_Macros\<close>). A value of such an enum is one of its variants.

  The conversion of an identifier to snake case or Pascal case belongs to strum and serde: it is the
  parameter \<open>case_fns\<close>, and what their documentation says of it is the locale
  \<open>case_convention\<close>. The feature \<open>dummy_connector\<close> is off.
\<close>

section \<open>Declarations\<close>

datatype CaseRule = Verbatim | SnakeCase | PascalCase

datatype StorageType = Text | DbEnum

record VariantDecl =
  vd_ident :: string
  vd_strum :: "string option"
  vd_serde :: "string option"

record EnumDecl =
  ed_name :: string
  ed_strum :: CaseRule
  ed_serde :: CaseRule
  ed_storage :: "StorageType option"
  ed_variants :: "VariantDecl list"

definition var :: "string \<Rightarrow> VariantDecl" where
  "var i = \<lparr>vd_ident = i, vd_strum = None, vd_serde = None\<rparr>"

definition var_as :: "string \<Rightarrow> string option \<Rightarrow> string option \<Rightarrow> VariantDecl" where
  "var_as i t j = \<lparr>vd_ident = i, vd_strum = t, vd_serde = j\<rparr>"

section \<open>Texts (strum, serde)\<close>

record case_fns =
  cf_snake :: "string \<Rightarrow> string"
  cf_pascal :: "string \<Rightarrow> string"

fun rename_with :: "case_fns \<Rightarrow> CaseRule \<Rightarrow> string \<Rightarrow> string" where
  "rename_with cf Verbatim s = s"
| "rename_with cf SnakeCase s = cf_snake cf s"
| "rename_with cf PascalCase s = cf_pascal cf s"

text \<open>An explicit \<open>serialize\<close> or \<open>rename\<close> on the variant wins over the rule of the enum.\<close>

definition strum_to_string :: "case_fns \<Rightarrow> EnumDecl \<Rightarrow> VariantDecl \<Rightarrow> string" where
  "strum_to_string cf d v = (case vd_strum v of Some t \<Rightarrow> t | None \<Rightarrow> rename_with cf (ed_strum d) (vd_ident v))"

definition strum_from_str :: "case_fns \<Rightarrow> EnumDecl \<Rightarrow> string \<Rightarrow> VariantDecl option" where
  "strum_from_str cf d s = find (\<lambda>v. strum_to_string cf d v = s) (ed_variants d)"

definition serde_to_string :: "case_fns \<Rightarrow> EnumDecl \<Rightarrow> VariantDecl \<Rightarrow> string" where
  "serde_to_string cf d v = (case vd_serde v of Some t \<Rightarrow> t | None \<Rightarrow> rename_with cf (ed_serde d) (vd_ident v))"

section \<open>The conversion of identifiers\<close>

fun upper_char :: "char \<Rightarrow> bool" where
  "upper_char (Char b0 b1 b2 b3 b4 b5 b6 b7) \<longleftrightarrow>
     \<not> b7 \<and> b6 \<and> \<not> b5 \<and> (b0 \<or> b1 \<or> b2 \<or> b3 \<or> b4) \<and> \<not> (b4 \<and> b3 \<and> (b2 \<or> b1 \<and> b0))"

fun lower_char :: "char \<Rightarrow> bool" where
  "lower_char (Char b0 b1 b2 b3 b4 b5 b6 b7) \<longleftrightarrow>
     \<not> b7 \<and> b6 \<and> b5 \<and> (b0 \<or> b1 \<or> b2 \<or> b3 \<or> b4) \<and> \<not> (b4 \<and> b3 \<and> (b2 \<or> b1 \<and> b0))"

fun decimal_char :: "char \<Rightarrow> bool" where
  "decimal_char (Char b0 b1 b2 b3 b4 b5 b6 b7) \<longleftrightarrow>
     \<not> b7 \<and> \<not> b6 \<and> b5 \<and> b4 \<and> \<not> (b3 \<and> (b2 \<or> b1))"

fun lowered :: "char \<Rightarrow> char" where
  "lowered (Char b0 b1 b2 b3 b4 b5 b6 b7) =
     (if upper_char (Char b0 b1 b2 b3 b4 b5 b6 b7) then Char b0 b1 b2 b3 b4 True b6 b7
      else Char b0 b1 b2 b3 b4 b5 b6 b7)"

fun ascii_char :: "char \<Rightarrow> bool" where
  "ascii_char (Char b0 b1 b2 b3 b4 b5 b6 b7) \<longleftrightarrow> \<not> b7"

text \<open>A camel case identifier: words of an upper case letter and lower case letters or digits; a word of
  one letter may stand before another word. \<open>snake_tail\<close> puts an underscore before each further word.\<close>

fun camel_tail :: "nat \<Rightarrow> string \<Rightarrow> bool" where
  "camel_tail uppers [] \<longleftrightarrow> uppers = 0"
| "camel_tail uppers (c # s) \<longleftrightarrow>
     (if upper_char c then uppers < 2 \<and> camel_tail (Suc uppers) s
      else (lower_char c \<or> decimal_char c \<and> uppers < 2) \<and> camel_tail 0 s)"

fun is_camel :: "string \<Rightarrow> bool" where
  "is_camel [] = False"
| "is_camel (c # s) \<longleftrightarrow> upper_char c \<and> camel_tail 1 s"

fun snake_tail :: "string \<Rightarrow> string" where
  "snake_tail [] = []"
| "snake_tail (c # s) = (if upper_char c then CHR ''_'' # lowered c # snake_tail s else c # snake_tail s)"

fun snake_of_camel :: "string \<Rightarrow> string" where
  "snake_of_camel [] = []"
| "snake_of_camel (c # s) = lowered c # snake_tail s"

text \<open>What the documentation says of the conversions, on identifiers of this form.\<close>

locale case_convention =
  fixes cf :: case_fns
  assumes snake_law: "is_camel s \<Longrightarrow> cf_snake cf s = snake_of_camel s"
    and pascal_law: "is_camel s \<Longrightarrow> cf_pascal cf s = s"

definition ascii_case_fns :: case_fns where
  "ascii_case_fns = \<lparr>cf_snake = snake_of_camel, cf_pascal = id\<rparr>"

interpretation ascii_case: case_convention ascii_case_fns
  by unfold_locales (simp_all add: ascii_case_fns_def)

section \<open>common\_enums\<close>

definition ApiKeyType_decl :: EnumDecl where
  "ApiKeyType_decl = \<lparr>ed_name = ''ApiKeyType'', ed_strum = SnakeCase, ed_serde = SnakeCase, ed_storage = Some DbEnum,
     ed_variants = [
      var ''Publishable'', var ''Secret'']\<rparr>"

definition AttemptStatus_decl :: EnumDecl where
  "AttemptStatus_decl = \<lparr>ed_name = ''AttemptStatus'', ed_strum = SnakeCase, ed_serde = SnakeCase, ed_storage = Some DbEnum,
     ed_variants = [
      var ''Started'', var ''AuthenticationFailed'', var ''RouterDeclined'', var ''AuthenticationPending'',
      var ''AuthenticationSuccessful'', var ''Authorized'', var ''AuthorizationFailed'', var ''Charged'',
      var ''Authorizing'', var ''CodInitiated'', var ''Voided'', var ''VoidInitiated'',
      var ''CaptureInitiated'', var ''CaptureFailed'', var ''VoidFailed'', var ''AutoRefunded'',
      var ''PartialCharged'', var ''PartialChargedAndChargeable'', var ''Unresolved'', var ''Pending'',
      var ''Failure'', var ''PaymentMethodAwaited'', var ''ConfirmationAwaited'',
      var ''DeviceDataCollectionPending'']\<rparr>"

definition RoutableConnectors_decl :: EnumDecl where
  "RoutableConnectors_decl = \<lparr>ed_name = ''RoutableConnectors'', ed_strum = SnakeCase, ed_serde = SnakeCase, ed_storage = Some DbEnum,
     ed_variants = [
      var ''Aci'', var ''Adyen'', var ''Airwallex'', var ''Authorizedotnet'', var ''Bankofamerica'',
      var ''Bitpay'', var ''Bambora'', var ''Bluesnap'', var ''Boku'', var ''Braintree'', var ''Cashtocode'',
      var ''Checkout'', var ''Coinbase'', var ''Cryptopay'', var ''Cybersource'', var ''Dlocal'',
      var ''Fiserv'', var ''Forte'', var ''Globalpay'', var ''Globepay'', var ''Gocardless'', var ''Helcim'',
      var ''Iatapay'', var ''Klarna'', var ''Mollie'', var ''Multisafepay'', var ''Nexinets'', var ''Nmi'',
      var ''Noon'', var ''Nuvei'', var ''Opennode'', var ''Payme'', var ''Paypal'', var ''Payu'',
      var ''Placetopay'', var ''Powertranz'', var ''Prophetpay'', var ''Rapyd'', var ''Riskified'',
      var ''Shift4'', var ''Signifyd'', var ''Square'', var ''Stax'', var ''Stripe'', var ''Trustpay'',
      var ''Tsys'', var ''Volt'', var ''Wise'', var ''Worldline'', var ''Worldpay'', var ''Zen'']\<rparr>"

definition AuthenticationType_decl :: EnumDecl where
  "AuthenticationType_decl = \<lparr>ed_name = ''AuthenticationType'', ed_strum = SnakeCase, ed_serde = SnakeCase, ed_storage = Some DbEnum,
     ed_variants = [
      var ''ThreeDs'', var ''NoThreeDs'']\<rparr>"

definition CaptureStatus_decl :: EnumDecl where
  "CaptureStatus_decl = \<lparr>ed_name = ''CaptureStatus'', ed_strum = SnakeCase, ed_serde = SnakeCase, ed_storage = Some DbEnum,
     ed_variants = [
      var ''Started'', var ''Charged'', var ''Pending'', var ''Failed'']\<rparr>"

definition AuthorizationStatus_decl :: EnumDecl where
  "AuthorizationStatus_decl = \<lparr>ed_name = ''AuthorizationStatus'', ed_strum = SnakeCase, ed_serde = SnakeCase, ed_storage = Some Text,
     ed_variants = [
      var ''Success'', var ''Failure'', var ''Processing'', var ''Unresolved'']\<rparr>"

definition BlocklistDataKind_decl :: EnumDecl where
  "BlocklistDataKind_decl = \<lparr>ed_name = ''BlocklistDataKind'', ed_strum = SnakeCase, ed_serde = SnakeCase, ed_storage = Some DbEnum,
     ed_variants = [
      var ''PaymentMethod'', var ''CardBin'', var ''ExtendedCardBin'']\<rparr>"

definition CaptureMethod_decl :: EnumDecl where
  "CaptureMethod_decl = \<lparr>ed_name = ''CaptureMethod'', ed_strum = SnakeCase, ed_serde = SnakeCase, ed_storage = Some DbEnum,
     ed_variants = [
      var ''Automatic'', var ''Manual'', var ''ManualMultiple'', var ''Scheduled'']\<rparr>"

definition ConnectorType_decl :: EnumDecl where
  "ConnectorType_decl = \<lparr>ed_name = ''ConnectorType'', ed_strum = SnakeCase, ed_serde = SnakeCase, ed_storage = Some DbEnum,
     ed_variants = [
      var ''PaymentProcessor'', var ''PaymentVas'', var ''FinOperations'', var ''FizOperations'',
      var ''Networks'', var ''BankingEntities'', var ''NonBankingFinance'', var ''PayoutProcessor'',
      var ''PaymentMethodAuth'', var ''AuthenticationProcessor'']\<rparr>"

definition Currency_decl :: EnumDecl where
  "Currency_decl = \<lparr>ed_name = ''Currency'', ed_strum = Verbatim, ed_serde = Verbatim, ed_storage = Some DbEnum,
     ed_variants = [
      var ''AED'', var ''ALL'', var ''AMD'', var ''ANG'', var ''AOA'', var ''ARS'', var ''AUD'', var ''AWG'',
      var ''AZN'', var ''BAM'', var ''BBD'', var ''BDT'', var ''BGN'', var ''BHD'', var ''BIF'', var ''BMD'',
      var ''BND'', var ''BOB'', var ''BRL'', var ''BSD'', var ''BWP'', var ''BYN'', var ''BZD'', var ''CAD'',
      var ''CHF'', var ''CLP'', var ''CNY'', var ''COP'', var ''CRC'', var ''CUP'', var ''CVE'', var ''CZK'',
      var ''DJF'', var ''DKK'', var ''DOP'', var ''DZD'', var ''EGP'', var ''ETB'', var ''EUR'', var ''FJD'',
      var ''FKP'', var ''GBP'', var ''GEL'', var ''GHS'', var ''GIP'', var ''GMD'', var ''GNF'', var ''GTQ'',
      var ''GYD'', var ''HKD'', var ''HNL'', var ''HRK'', var ''HTG'', var ''HUF'', var ''IDR'', var ''ILS'',
      var ''INR'', var ''IQD'', var ''JMD'', var ''JOD'', var ''JPY'', var ''KES'', var ''KGS'', var ''KHR'',
      var ''KMF'', var ''KRW'', var ''KWD'', var ''KYD'', var ''KZT'', var ''LAK'', var ''LBP'', var ''LKR'',
      var ''LRD'', var ''LSL'', var ''LYD'', var ''MAD'', var ''MDL'', var ''MGA'', var ''MKD'', var ''MMK'',
      var ''MNT'', var ''MOP'', var ''MRU'', var ''MUR'', var ''MVR'', var ''MWK'', var ''MXN'', var ''MYR'',
      var ''MZN'', var ''NAD'', var ''NGN'', var ''NIO'', var ''NOK'', var ''NPR'', var ''NZD'', var ''OMR'',
      var ''PAB'', var ''PEN'', var ''PGK'', var ''PHP'', var ''PKR'', var ''PLN'', var ''PYG'', var ''QAR'',
      var ''RON'', var ''RSD'', var ''RUB'', var ''RWF'', var ''SAR'', var ''SBD'', var ''SCR'', var ''SEK'',
      var ''SGD'', var ''SHP'', var ''SLE'', var ''SLL'', var ''SOS'', var ''SRD'', var ''SSP'', var ''STN'',
      var ''SVC'', var ''SZL'', var ''THB'', var ''TND'', var ''TOP'', var ''TRY'', var ''TTD'', var ''TWD'',
      var ''TZS'', var ''UAH'', var ''UGX'', var ''USD'', var ''UYU'', var ''UZS'', var ''VES'', var ''VND'',
      var ''VUV'', var ''WST'', var ''XAF'', var ''XCD'', var ''XOF'', var ''XPF'', var ''YER'', var ''ZAR'',
      var ''ZMW'']\<rparr>"

definition EventClass_decl :: EnumDecl where
  "EventClass_decl = \<lparr>ed_name = ''EventClass'', ed_strum = SnakeCase, ed_serde = SnakeCase, ed_storage = Some DbEnum,
     ed_variants = [
      var ''Payments'', var ''Refunds'', var ''Disputes'', var ''Mandates'']\<rparr>"

definition EventType_decl :: EnumDecl where
  "EventType_decl = \<lparr>ed_name = ''EventType'', ed_strum = SnakeCase, ed_serde = SnakeCase, ed_storage = Some DbEnum,
     ed_variants = [
      var ''PaymentSucceeded'', var ''PaymentFailed'', var ''PaymentProcessing'', var ''PaymentCancelled'',
      var ''PaymentAuthorized'', var ''PaymentCaptured'', var ''ActionRequired'', var ''RefundSucceeded'',
      var ''RefundFailed'', var ''DisputeOpened'', var ''DisputeExpired'', var ''DisputeAccepted'',
      var ''DisputeCancelled'', var ''DisputeChallenged'', var ''DisputeWon'', var ''DisputeLost'',
      var ''MandateActive'', var ''MandateRevoked'']\<rparr>"

definition WebhookDeliveryAttempt_decl :: EnumDecl where
  "WebhookDeliveryAttempt_decl = \<lparr>ed_name = ''WebhookDeliveryAttempt'', ed_strum = SnakeCase, ed_serde = SnakeCase, ed_storage = Some DbEnum,
     ed_variants = [
      var ''InitialAttempt'', var ''AutomaticRetry'', var ''ManualRetry'']\<rparr>"

definition MerchantStorageScheme_decl :: EnumDecl where
  "MerchantStorageScheme_decl = \<lparr>ed_name = ''MerchantStorageScheme'', ed_strum = SnakeCase, ed_serde = SnakeCase, ed_storage = Some DbEnum,
     ed_variants = [
      var ''PostgresOnly'', var ''RedisKv'']\<rparr>"

definition IntentStatus_decl :: EnumDecl where
  "IntentStatus_decl = \<lparr>ed_name = ''IntentStatus'', ed_strum = SnakeCase, ed_serde = SnakeCase, ed_storage = Some DbEnum,
     ed_variants = [
      var ''Succeeded'', var ''Failed'', var ''Cancelled'', var ''Processing'', var ''RequiresCustomerAction'',
      var ''RequiresMerchantAction'', var ''RequiresPaymentMethod'', var ''RequiresConfirmation'',
      var ''RequiresCapture'', var ''PartiallyCaptured'', var ''PartiallyCapturedAndCapturable'']\<rparr>"

definition FutureUsage_decl :: EnumDecl where
  "FutureUsage_decl = \<lparr>ed_name = ''FutureUsage'', ed_strum = SnakeCase, ed_serde = SnakeCase, ed_storage = Some DbEnum,
     ed_variants = [
      var ''OffSession'', var ''OnSession'']\<rparr>"

definition PaymentMethodIssuerCode_decl :: EnumDecl where
  "PaymentMethodIssuerCode_decl = \<lparr>ed_name = ''PaymentMethodIssuerCode'', ed_strum = SnakeCase, ed_serde = SnakeCase, ed_storage = Some DbEnum,
     ed_variants = [
      var ''JpHdfc'', var ''JpIcici'', var ''JpGooglepay'', var ''JpApplepay'', var ''JpPhonepay'',
      var ''JpWechat'', var ''JpSofort'', var ''JpGiropay'', var ''JpSepa'', var ''JpBacs'']\<rparr>"

definition PaymentMethodStatus_decl :: EnumDecl where
  "PaymentMethodStatus_decl = \<lparr>ed_name = ''PaymentMethodStatus'', ed_strum = SnakeCase, ed_serde = SnakeCase, ed_storage = Some Text,
     ed_variants = [
      var ''Active'', var ''Inactive'', var ''Processing'']\<rparr>"

definition PaymentExperience_decl :: EnumDecl where
  "PaymentExperience_decl = \<lparr>ed_name = ''PaymentExperience'', ed_strum = SnakeCase, ed_serde = SnakeCase, ed_storage = Some Text,
     ed_variants = [
      var ''RedirectToUrl'', var ''InvokeSdkClient'', var ''DisplayQrCode'', var ''OneClick'',
      var ''LinkWallet'', var ''InvokePaymentApp'', var ''DisplayWaitScreen'']\<rparr>"

definition PaymentMethodType_decl :: EnumDecl where
  "PaymentMethodType_decl = \<lparr>ed_name = ''PaymentMethodType'', ed_strum = SnakeCase, ed_serde = SnakeCase, ed_storage = Some Text,
     ed_variants = [
      var ''Ach'', var ''Affirm'', var ''AfterpayClearpay'', var ''Alfamart'', var ''AliPay'', var ''AliPayHk'',
      var ''Alma'', var ''ApplePay'', var ''Atome'', var ''Bacs'', var ''BancontactCard'', var ''Becs'',
      var ''Benefit'', var ''Bizum'', var ''Blik'', var ''Boleto'', var ''BcaBankTransfer'', var ''BniVa'',
      var ''BriVa'', var ''CardRedirect'', var ''CimbVa'', var_as ''ClassicReward'' None (Some ''classic''),
      var ''Credit'', var ''CryptoCurrency'', var ''Cashapp'', var ''Dana'', var ''DanamonVa'', var ''Debit'',
      var ''Efecty'', var ''Eps'', var ''Evoucher'', var ''Giropay'', var ''Givex'', var ''GooglePay'',
      var ''GoPay'', var ''Gcash'', var ''Ideal'', var ''Interac'', var ''Indomaret'', var ''Klarna'',
      var ''KakaoPay'', var ''MandiriVa'', var ''Knet'', var ''MbWay'', var ''MobilePay'', var ''Momo'',
      var ''MomoAtm'', var ''Multibanco'', var ''OnlineBankingThailand'', var ''OnlineBankingCzechRepublic'',
      var ''OnlineBankingFinland'', var ''OnlineBankingFpx'', var ''OnlineBankingPoland'',
      var ''OnlineBankingSlovakia'', var ''Oxxo'', var ''PagoEfectivo'', var ''PermataBankTransfer'',
      var ''OpenBankingUk'', var ''PayBright'', var ''Paypal'', var ''Pix'', var ''PaySafeCard'',
      var ''Przelewy24'', var ''Pse'', var ''RedCompra'', var ''RedPagos'', var ''SamsungPay'', var ''Sepa'',
      var ''Sofort'', var ''Swish'', var ''TouchNGo'', var ''Trustly'', var ''Twint'', var ''UpiCollect'',
      var ''Vipps'', var ''Walley'', var ''WeChatPay'', var ''SevenEleven'', var ''Lawson'', var ''MiniStop'',
      var ''FamilyMart'', var ''Seicomart'', var ''PayEasy'']\<rparr>"

definition PaymentMethod_decl :: EnumDecl where
  "PaymentMethod_decl = \<lparr>ed_name = ''PaymentMethod'', ed_strum = SnakeCase, ed_serde = SnakeCase, ed_storage = Some Text,
     ed_variants = [
      var ''Card'', var ''CardRedirect'', var ''PayLater'', var ''Wallet'', var ''BankRedirect'',
      var ''BankTransfer'', var ''Crypto'', var ''BankDebit'', var ''Reward'', var ''Upi'', var ''Voucher'',
      var ''GiftCard'']\<rparr>"

definition PaymentType_decl :: EnumDecl where
  "PaymentType_decl = \<lparr>ed_name = ''PaymentType'', ed_strum = SnakeCase, ed_serde = SnakeCase, ed_storage = Some DbEnum,
     ed_variants = [
      var ''Normal'', var ''NewMandate'', var ''SetupMandate'', var ''RecurringMandate'']\<rparr>"

definition RefundStatus_decl :: EnumDecl where
  "RefundStatus_decl = \<lparr>ed_name = ''RefundStatus'', ed_strum = SnakeCase, ed_serde = Verbatim, ed_storage = Some DbEnum,
     ed_variants = [
      var ''Failure'', var ''ManualReview'', var ''Pending'', var ''Success'',
      var ''TransactionFailure'']\<rparr>"

definition MandateStatus_decl :: EnumDecl where
  "MandateStatus_decl = \<lparr>ed_name = ''MandateStatus'', ed_strum = SnakeCase, ed_serde = SnakeCase, ed_storage = Some DbEnum,
     ed_variants = [
      var ''Active'', var ''Inactive'', var ''Pending'', var ''Revoked'']\<rparr>"

definition CardNetwork_decl :: EnumDecl where
  "CardNetwork_decl = \<lparr>ed_name = ''CardNetwork'', ed_strum = Verbatim, ed_serde = Verbatim, ed_storage = Some Text,
     ed_variants = [
      var ''Visa'', var ''Mastercard'', var ''AmericanExpress'', var ''JCB'', var ''DinersClub'',
      var ''Discover'', var ''CartesBancaires'', var ''UnionPay'', var ''Interac'', var ''RuPay'',
      var ''Maestro'']\<rparr>"

definition DisputeStage_decl :: EnumDecl where
  "DisputeStage_decl = \<lparr>ed_name = ''DisputeStage'', ed_strum = SnakeCase, ed_serde = SnakeCase, ed_storage = Some DbEnum,
     ed_variants = [
      var ''PreDispute'', var ''Dispute'', var ''PreArbitration'']\<rparr>"

definition DisputeStatus_decl :: EnumDecl where
  "DisputeStatus_decl = \<lparr>ed_name = ''DisputeStatus'', ed_strum = SnakeCase, ed_serde = SnakeCase, ed_storage = Some DbEnum,
     ed_variants = [
      var ''DisputeOpened'', var ''DisputeExpired'', var ''DisputeAccepted'', var ''DisputeCancelled'',
      var ''DisputeChallenged'', var ''DisputeWon'', var ''DisputeLost'']\<rparr>"

definition RequestIncrementalAuthorization_decl :: EnumDecl where
  "RequestIncrementalAuthorization_decl = \<lparr>ed_name = ''RequestIncrementalAuthorization'', ed_strum = SnakeCase, ed_serde = SnakeCase, ed_storage = Some DbEnum,
     ed_variants = [
      var ''True'', var ''False'', var ''Default'']\<rparr>"

definition FileUploadProvider_decl :: EnumDecl where
  "FileUploadProvider_decl = \<lparr>ed_name = ''FileUploadProvider'', ed_strum = SnakeCase, ed_serde = SnakeCase, ed_storage = Some Text,
     ed_variants = [
      var ''Router'', var ''Stripe'', var ''Checkout'']\<rparr>"

definition UsStatesAbbreviation_decl :: EnumDecl where
  "UsStatesAbbreviation_decl = \<lparr>ed_name = ''UsStatesAbbreviation'', ed_strum = Verbatim, ed_serde = Verbatim, ed_storage = None,
     ed_variants = [
      var ''AL'', var ''AK'', var ''AS'', var ''AZ'', var ''AR'', var ''CA'', var ''CO'', var ''CT'',
      var ''DE'', var ''DC'', var ''FM'', var ''FL'', var ''GA'', var ''GU'', var ''HI'', var ''ID'',
      var ''IL'', var ''IN'', var ''IA'', var ''KS'', var ''KY'', var ''LA'', var ''ME'', var ''MH'',
      var ''MD'', var ''MA'', var ''MI'', var ''MN'', var ''MS'', var ''MO'', var ''MT'', var ''NE'',
      var ''NV'', var ''NH'', var ''NJ'', var ''NM'', var ''NY'', var ''NC'', var ''ND'', var ''MP'',
      var ''OH'', var ''OK'', var ''OR'', var ''PW'', var ''PA'', var ''PR'', var ''RI'', var ''SC'',
      var ''SD'', var ''TN'', var ''TX'', var ''UT'', var ''VT'', var ''VI'', var ''VA'', var ''WA'',
      var ''WV'', var ''WI'', var ''WY'']\<rparr>"

definition CanadaStatesAbbreviation_decl :: EnumDecl where
  "CanadaStatesAbbreviation_decl = \<lparr>ed_name = ''CanadaStatesAbbreviation'', ed_strum = Verbatim, ed_serde = Verbatim, ed_storage = None,
     ed_variants = [
      var ''AB'', var ''BC'', var ''MB'', var ''NB'', var ''NL'', var ''NT'', var ''NS'', var ''NU'',
      var ''ON'', var ''PE'', var ''QC'', var ''SK'', var ''YT'']\<rparr>"

definition PayoutStatus_decl :: EnumDecl where
  "PayoutStatus_decl = \<lparr>ed_name = ''PayoutStatus'', ed_strum = SnakeCase, ed_serde = SnakeCase, ed_storage = Some DbEnum,
     ed_variants = [
      var ''Success'', var ''Failed'', var ''Cancelled'', var ''Pending'', var ''Ineligible'',
      var ''RequiresCreation'', var ''RequiresPayoutMethodData'', var ''RequiresFulfillment'']\<rparr>"

definition PayoutType_decl :: EnumDecl where
  "PayoutType_decl = \<lparr>ed_name = ''PayoutType'', ed_strum = SnakeCase, ed_serde = SnakeCase, ed_storage = Some DbEnum,
     ed_variants = [
      var ''Card'', var ''Bank'', var ''Wallet'']\<rparr>"

definition PayoutEntityType_decl :: EnumDecl where
  "PayoutEntityType_decl = \<lparr>ed_name = ''PayoutEntityType'', ed_strum = PascalCase, ed_serde = PascalCase, ed_storage = Some Text,
     ed_variants = [
      var ''Individual'', var ''Company'', var ''NonProfit'', var ''PublicSector'', var ''NaturalPerson'',
      var_as ''Business'' (Some ''lowercase'') (Some ''lowercase''), var ''Personal'']\<rparr>"

definition PaymentSource_decl :: EnumDecl where
  "PaymentSource_decl = \<lparr>ed_name = ''PaymentSource'', ed_strum = SnakeCase, ed_serde = SnakeCase, ed_storage = Some DbEnum,
     ed_variants = [
      var ''MerchantServer'', var ''Postman'', var ''Dashboard'', var ''Sdk'', var ''Webhook'',
      var ''ExternalAuthenticator'']\<rparr>"

definition MerchantDecision_decl :: EnumDecl where
  "MerchantDecision_decl = \<lparr>ed_name = ''MerchantDecision'', ed_strum = SnakeCase, ed_serde = Verbatim, ed_storage = Some Text,
     ed_variants = [
      var ''Approved'', var ''Rejected'', var ''AutoRefunded'']\<rparr>"

definition FrmSuggestion_decl :: EnumDecl where
  "FrmSuggestion_decl = \<lparr>ed_name = ''FrmSuggestion'', ed_strum = SnakeCase, ed_serde = SnakeCase, ed_storage = None,
     ed_variants = [
      var ''FrmCancelTransaction'', var ''FrmManualReview'', var ''FrmAutoRefund'']\<rparr>"

definition ReconStatus_decl :: EnumDecl where
  "ReconStatus_decl = \<lparr>ed_name = ''ReconStatus'', ed_strum = SnakeCase, ed_serde = SnakeCase, ed_storage = Some DbEnum,
     ed_variants = [
      var ''NotRequested'', var ''Requested'', var ''Active'', var ''Disabled'']\<rparr>"

definition AuthenticationStatus_decl :: EnumDecl where
  "AuthenticationStatus_decl = \<lparr>ed_name = ''AuthenticationStatus'', ed_strum = SnakeCase, ed_serde = SnakeCase, ed_storage = Some Text,
     ed_variants = [
      var ''Started'', var ''Pending'', var ''Success'', var ''Failed'']\<rparr>"

definition DecoupledAuthenticationType_decl :: EnumDecl where
  "DecoupledAuthenticationType_decl = \<lparr>ed_name = ''DecoupledAuthenticationType'', ed_strum = SnakeCase, ed_serde = SnakeCase, ed_storage = Some Text,
     ed_variants = [
      var ''Challenge'', var ''Frictionless'']\<rparr>"

definition AuthenticationLifecycleStatus_decl :: EnumDecl where
  "AuthenticationLifecycleStatus_decl = \<lparr>ed_name = ''AuthenticationLifecycleStatus'', ed_strum = SnakeCase, ed_serde = SnakeCase, ed_storage = Some Text,
     ed_variants = [
      var ''Used'', var ''Unused'', var ''Expired'']\<rparr>"

definition ConnectorStatus_decl :: EnumDecl where
  "ConnectorStatus_decl = \<lparr>ed_name = ''ConnectorStatus'', ed_strum = SnakeCase, ed_serde = SnakeCase, ed_storage = Some DbEnum,
     ed_variants = [
      var ''Inactive'', var ''Active'']\<rparr>"

definition TransactionType_decl :: EnumDecl where
  "TransactionType_decl = \<lparr>ed_name = ''TransactionType'', ed_strum = SnakeCase, ed_serde = SnakeCase, ed_storage = Some DbEnum,
     ed_variants = [
      var ''Payment'']\<rparr>"

definition RoleScope_decl :: EnumDecl where
  "RoleScope_decl = \<lparr>ed_name = ''RoleScope'', ed_strum = SnakeCase, ed_serde = SnakeCase, ed_storage = Some DbEnum,
     ed_variants = [
      var ''Merchant'', var ''Organization'']\<rparr>"

definition TransactionStatus_decl :: EnumDecl where
  "TransactionStatus_decl = \<lparr>ed_name = ''TransactionStatus'', ed_strum = Verbatim, ed_serde = Verbatim, ed_storage = Some Text,
     ed_variants = [
      var_as ''Success'' None (Some ''Y''), var_as ''Failure'' None (Some ''N''),
      var_as ''VerificationNotPerformed'' None (Some ''U''), var_as ''NotVerified'' None (Some ''A''),
      var_as ''Rejected'' None (Some ''R''), var_as ''ChallengeRequired'' None (Some ''C''),
      var_as ''ChallengeRequiredDecoupledAuthentication'' None (Some ''D''),
      var_as ''InformationOnly'' None (Some ''I'')]\<rparr>"

definition PermissionGroup_decl :: EnumDecl where
  "PermissionGroup_decl = \<lparr>ed_name = ''PermissionGroup'', ed_strum = SnakeCase, ed_serde = SnakeCase, ed_storage = Some Text,
     ed_variants = [
      var ''OperationsView'', var ''OperationsManage'', var ''ConnectorsView'', var ''ConnectorsManage'',
      var ''WorkflowsView'', var ''WorkflowsManage'', var ''AnalyticsView'', var ''UsersView'',
      var ''UsersManage'', var ''MerchantDetailsView'', var ''MerchantDetailsManage'',
      var ''OrganizationManage'']\<rparr>"

section \<open>diesel\_models\<close>

definition ProcessTrackerStatus_decl :: EnumDecl where
  "ProcessTrackerStatus_decl = \<lparr>ed_name = ''ProcessTrackerStatus'', ed_strum = SnakeCase, ed_serde = SnakeCase, ed_storage = Some DbEnum,
     ed_variants = [
      var ''Processing'', var ''New'', var ''Pending'', var ''ProcessStarted'', var ''Finish'']\<rparr>"

section \<open>router\_env\<close>

text \<open>Names of flows, categories and tags, as they appear in a log line.\<close>

definition Tag_decl :: EnumDecl where
  "Tag_decl = \<lparr>ed_name = ''Tag'', ed_strum = Verbatim, ed_serde = Verbatim, ed_storage = None,
     ed_variants = [
      var ''General'', var ''RedisGet'', var ''RedisSet'', var ''ApiIncomingRequest'',
      var ''ApiOutgoingRequest'', var ''DbCreate'', var ''DbRead'', var ''DbUpdate'', var ''DbDelete'',
      var ''BeginRequest'', var ''EndRequest'', var ''InitiatedToConnector'', var ''Event'',
      var ''CompatibilityLayerRequest'']\<rparr>"

definition Flow_decl :: EnumDecl where
  "Flow_decl = \<lparr>ed_name = ''Flow'', ed_strum = Verbatim, ed_serde = Verbatim, ed_storage = None,
     ed_variants = [
      var ''HealthCheck'', var ''DeepHealthCheck'', var ''MerchantsAccountCreate'',
      var ''MerchantsAccountRetrieve'', var ''MerchantsAccountUpdate'', var ''MerchantsAccountDelete'',
      var ''MerchantConnectorsCreate'', var ''MerchantConnectorsRetrieve'', var ''MerchantAccountList'',
      var ''MerchantConnectorsUpdate'', var ''MerchantConnectorsDelete'', var ''MerchantConnectorsList'',
      var ''ConfigKeyCreate'', var ''ConfigKeyFetch'', var ''ConfigKeyUpdate'', var ''ConfigKeyDelete'',
      var ''CustomersCreate'', var ''CustomersRetrieve'', var ''CustomersUpdate'', var ''CustomersDelete'',
      var ''CustomersGetMandates'', var ''EphemeralKeyCreate'', var ''EphemeralKeyDelete'',
      var ''MandatesRetrieve'', var ''MandatesRevoke'', var ''MandatesList'', var ''PaymentMethodsCreate'',
      var ''PaymentMethodsList'', var ''CustomerPaymentMethodsList'', var ''CustomersList'',
      var ''PaymentMethodsRetrieve'', var ''PaymentMethodsUpdate'', var ''PaymentMethodsDelete'',
      var ''DefaultPaymentMethodsSet'', var ''PaymentsCreate'', var ''PaymentsRetrieve'',
      var ''PaymentsRetrieveForceSync'', var ''PaymentsUpdate'', var ''PaymentsConfirm'',
      var ''PaymentsCapture'', var ''PaymentsCancel'', var ''PaymentsApprove'', var ''PaymentsReject'',
      var ''PaymentsSessionToken'', var ''PaymentsStart'', var ''PaymentsList'', var ''PayoutsAccounts'',
      var ''PaymentsRedirect'', var ''RefundsCreate'', var ''RefundsRetrieve'',
      var ''RefundsRetrieveForceSync'', var ''RefundsUpdate'', var ''RefundsList'', var ''RetrieveForexFlow'',
      var ''ReconMerchantUpdate'', var ''ReconTokenRequest'', var ''ReconServiceRequest'',
      var ''ReconVerifyToken'', var ''RoutingCreateConfig'', var ''RoutingLinkConfig'',
      var ''RoutingUnlinkConfig'', var ''RoutingRetrieveConfig'', var ''RoutingRetrieveActiveConfig'',
      var ''RoutingRetrieveDefaultConfig'', var ''RoutingRetrieveDictionary'', var ''RoutingUpdateConfig'',
      var ''RoutingUpdateDefaultConfig'', var ''RoutingDeleteConfig'', var ''AddToBlocklist'',
      var ''DeleteFromBlocklist'', var ''ListBlocklist'', var ''ToggleBlocklistGuard'',
      var ''IncomingWebhookReceive'', var ''ValidatePaymentMethod'', var ''ApiKeyCreate'',
      var ''ApiKeyRetrieve'', var ''ApiKeyUpdate'', var ''ApiKeyRevoke'', var ''ApiKeyList'',
      var ''DisputesRetrieve'', var ''DisputesList'', var ''CardsInfo'', var ''CreateFile'', var ''DeleteFile'',
      var ''RetrieveFile'', var ''DisputesEvidenceSubmit'', var ''CreateConfigKey'',
      var ''AttachDisputeEvidence'', var ''DeleteDisputeEvidence'', var ''RetrieveDisputeEvidence'',
      var ''CacheInvalidate'', var ''PaymentLinkRetrieve'', var ''PaymentLinkInitiate'',
      var ''PaymentLinkList'', var ''PaymentLinkStatus'', var ''BusinessProfileCreate'',
      var ''BusinessProfileUpdate'', var ''BusinessProfileRetrieve'', var ''BusinessProfileDelete'',
      var ''BusinessProfileList'', var ''Verification'', var ''RustLockerMigration'', var ''GsmRuleCreate'',
      var ''GsmRuleRetrieve'', var ''GsmRuleUpdate'', var ''GsmRuleDelete'', var ''UserSignUp'',
      var ''UserSignUpWithMerchantId'', var ''UserSignInWithoutInviteChecks'', var ''UserSignIn'',
      var ''UserConnectAccount'', var ''DecisionManagerUpsertConfig'', var ''DecisionManagerDeleteConfig'',
      var ''DecisionManagerRetrieveConfig'', var ''FrmFulfillment'', var ''ChangePassword'', var ''Signout'',
      var ''SetDashboardMetadata'', var ''GetMultipleDashboardMetadata'', var ''VerifyPaymentConnector'',
      var ''InternalUserSignup'', var ''SwitchMerchant'', var ''GetAuthorizationInfo'', var ''ListRoles'',
      var ''GetRole'', var ''GetRoleFromToken'', var ''UpdateUserRole'', var ''TransferOrgOwnership'',
      var ''UserMerchantAccountCreate'', var ''GenerateSampleData'', var ''DeleteSampleData'',
      var ''UserMerchantAccountList'', var ''GetUserDetails'', var ''ListUsersForMerchantAccount'',
      var ''PmAuthLinkTokenCreate'', var ''PmAuthExchangeToken'', var ''ForgotPassword'', var ''ResetPassword'',
      var ''InviteUser'', var ''InviteMultipleUser'', var ''ReInviteUser'', var ''AcceptInviteFromEmail'',
      var ''DeleteUserRole'', var ''PaymentsIncrementalAuthorization'', var ''GetActionUrl'',
      var ''SyncOnboardingStatus'', var ''ResetTrackingId'', var ''VerifyEmailWithoutInviteChecks'',
      var ''VerifyEmail'', var ''VerifyEmailRequest'', var ''UpdateUserAccountDetails'',
      var ''AcceptInvitation'', var ''PaymentsExternalAuthentication'', var ''PaymentsAuthorize'',
      var ''CreateRole'', var ''UpdateRole'', var ''WebhookEventInitialDeliveryAttemptList'',
      var ''WebhookEventDeliveryAttemptList'']\<rparr>"

definition Category_decl :: EnumDecl where
  "Category_decl = \<lparr>ed_name = ''Category'', ed_strum = Verbatim, ed_serde = Verbatim, ed_storage = None,
     ed_variants = [
      var ''Redis'', var ''Api'', var ''Store'', var ''Event'', var ''General'']\<rparr>"

section \<open>All stored enums\<close>

text \<open>The enums with a \<open>diesel_enum\<close> attribute, but for the country codes (theory \<open>Countries\<close>).\<close>

definition stored_enums :: "EnumDecl list" where
  "stored_enums = [
     ApiKeyType_decl, AttemptStatus_decl, RoutableConnectors_decl, AuthenticationType_decl, CaptureStatus_decl,
     AuthorizationStatus_decl, BlocklistDataKind_decl, CaptureMethod_decl, ConnectorType_decl, Currency_decl,
     EventClass_decl, EventType_decl, WebhookDeliveryAttempt_decl, MerchantStorageScheme_decl,
     IntentStatus_decl, FutureUsage_decl, PaymentMethodIssuerCode_decl, PaymentMethodStatus_decl,
     PaymentExperience_decl, PaymentMethodType_decl, PaymentMethod_decl, PaymentType_decl, RefundStatus_decl,
     MandateStatus_decl, CardNetwork_decl, DisputeStage_decl, DisputeStatus_decl,
     RequestIncrementalAuthorization_decl, FileUploadProvider_decl, PayoutStatus_decl, PayoutType_decl,
     PayoutEntityType_decl, PaymentSource_decl, MerchantDecision_decl, ReconStatus_decl,
     AuthenticationStatus_decl, DecoupledAuthenticationType_decl, AuthenticationLifecycleStatus_decl,
     ConnectorStatus_decl, TransactionType_decl, RoleScope_decl, TransactionStatus_decl, PermissionGroup_decl,
     ProcessTrackerStatus_decl]"

section \<open>The texts are told apart\<close>

definition plain_text :: "EnumDecl \<Rightarrow> VariantDecl \<Rightarrow> string" where
  "plain_text d v = (case vd_strum v of Some t \<Rightarrow> t
     | None \<Rightarrow> if ed_strum d = SnakeCase then snake_of_camel (vd_ident v) else vd_ident v)"

definition plain_decl :: "EnumDecl \<Rightarrow> bool" where
  "plain_decl d \<longleftrightarrow>
     list_all (\<lambda>v. ed_strum d = Verbatim \<or> vd_strum v \<noteq> None \<or> is_camel (vd_ident v)) (ed_variants d) \<and>
     list_all (\<lambda>v. list_all ascii_char (plain_text d v)) (ed_variants d) \<and>
     distinct (map (plain_text d) (ed_variants d))"

lemma stored_enums_plain: "list_all plain_decl stored_enums"
  by code_simp

end
