(* ===== verification/Derive_Macros.thy ===== *)
theory Derive_Macros
  imports Enum_Decls Redis_Types
begin

text \<open>
  The derive macros of \<open>router_derive\<close>: functions from the syntax tree of a type to the code they
  generate.

  The tree is the part of \<open>syn\<close>'s that the macros look at. How \<open>syn\<close> splits the arguments of an attribute
  into items is its own; an item is what the \<open>Parse\<close> implementations of the crate get to see: an
  assignment \<open>keyword = value\<close>, a single identifier, or a path of two. An error of \<open>syn\<close> itself is
  \<open>ParseError\<close>; spans are left out.

  Generated code is data: the arms of a generated \<open>match\<close>, the functions of a generated \<open>impl\<close>, with a function
  beside it that says what that code does when it runs.
\<close>

section \<open>Syntax\<close>

datatype MetaValue = Lit string | TypePath string

datatype Arg = Assign string MetaValue | Word string | PathPair string string

text \<open>Arguments in parentheses, if there are any.\<close>

record Attribute =
  attr_path :: string
  attr_args :: "Arg list option"

datatype SynType = TyPath "(string \<times> SynType list) list" | TyOther

record Field =
  field_ident :: "string option"
  field_ty :: SynType
  field_attrs :: "Attribute list"

datatype Fields = Unit | Unnamed "Field list" | Named "Field list"

record Variant =
  var_ident :: string
  var_fields :: Fields
  var_attrs :: "Attribute list"

datatype Data = DataStruct Fields | DataEnum "Variant list" | DataUnion

record DeriveInput =
  di_ident :: string
  di_attrs :: "Attribute list"
  di_data :: Data

datatype SynError = Message string | Combined string string | ParseError

section \<open>Helpers (helpers.rs)\<close>

definition non_enum_error :: SynError where
  "non_enum_error = Message ''This macro only supports enums.''"

definition occurrence_error :: "string \<Rightarrow> SynError" where
  "occurrence_error attr = Combined (''Found multiple occurrences of error('' @ attr @ '')'') ''first one here''"

definition syn_error :: "string \<Rightarrow> SynError" where
  "syn_error message = Message message"

text \<open>\<open>", "\<close> between the texts of the variants.\<close>

fun join_comma :: "string list \<Rightarrow> string" where
  "join_comma [] = []"
| "join_comma [s] = s"
| "join_comma (s # ss) = s @ '', '' @ join_comma ss"

definition get_possible_values_for_enum :: "case_fns \<Rightarrow> EnumDecl \<Rightarrow> string" where
  "get_possible_values_for_enum cf d = join_comma (map (strum_to_string cf d) (ed_variants d))"

definition parse_args_with :: "(Arg \<Rightarrow> (SynError, 'm) result) \<Rightarrow> Attribute \<Rightarrow> (SynError, 'm list) result" where
  "parse_args_with parse attr =
     (case attr_args attr of None \<Rightarrow> Err ParseError | Some items \<Rightarrow> collect_results (map parse items))"

fun get_metadata_inner ::
  "(Arg \<Rightarrow> (SynError, 'm) result) \<Rightarrow> string \<Rightarrow> Attribute list \<Rightarrow> (SynError, 'm list) result" where
  "get_metadata_inner parse ident [] = Ok []"
| "get_metadata_inner parse ident (attr # attrs) =
     (if attr_path attr = ident
      then rbind (parse_args_with parse attr)
             (\<lambda>metas. rbind (get_metadata_inner parse ident attrs) (\<lambda>rest. Ok (metas @ rest)))
      else get_metadata_inner parse ident attrs)"

definition get_struct_fields :: "Data \<Rightarrow> (SynError, Field list) result" where
  "get_struct_fields data =
     (case data of DataStruct (Named named) \<Rightarrow> Ok named
      | _ \<Rightarrow> Err (Message ''This macro cannot be used on structs with no fields''))"

section \<open>ApiError (api\_error.rs, api\_error/helpers.rs)\<close>

datatype EnumMeta = ErrorTypeEnum string

fun EnumMeta_parse :: "Arg \<Rightarrow> (SynError, EnumMeta) result" where
  "EnumMeta_parse (Assign keyword (TypePath path)) =
     (if keyword = ''error_type_enum'' then Ok (ErrorTypeEnum path) else Err ParseError)"
| "EnumMeta_parse _ = Err ParseError"

text \<open>The loop of \<open>get_type_properties\<close> over the metadata: the value seen so far.\<close>

fun type_properties_loop :: "string option \<Rightarrow> EnumMeta list \<Rightarrow> (SynError, string option) result" where
  "type_properties_loop seen [] = Ok seen"
| "type_properties_loop seen (ErrorTypeEnum path # metas) =
     (if seen \<noteq> None then Err (occurrence_error ''error_type_enum'') else type_properties_loop (Some path) metas)"

definition get_type_properties :: "DeriveInput \<Rightarrow> (SynError, string) result" where
  "get_type_properties self =
     rbind (get_metadata_inner EnumMeta_parse ''error'' (di_attrs self)) (\<lambda>metas.
     rbind (type_properties_loop None metas) (\<lambda>error_type_enum.
     ok_or error_type_enum (Message ''error(error_type_enum) attribute not found'')))"

datatype VariantMeta = MetaErrorType string | MetaCode string | MetaMessage string | MetaIgnore string

fun VariantMeta_parse :: "Arg \<Rightarrow> (SynError, VariantMeta) result" where
  "VariantMeta_parse (Assign keyword (TypePath path)) =
     (if keyword = ''error_type'' then Ok (MetaErrorType path) else Err ParseError)"
| "VariantMeta_parse (Assign keyword (Lit text)) =
     (if keyword = ''code'' then Ok (MetaCode text)
      else if keyword = ''message'' then Ok (MetaMessage text)
      else if keyword = ''ignore'' then Ok (MetaIgnore text)
      else Err ParseError)"
| "VariantMeta_parse _ = Err ParseError"

record ErrorVariantProperties =
  evp_error_type :: "string option"
  evp_code :: "string option"
  evp_message :: "string option"
  evp_ignore :: "string list option"

definition ErrorVariantProperties_default :: ErrorVariantProperties where
  "ErrorVariantProperties_default =
     \<lparr>evp_error_type = None, evp_code = None, evp_message = None, evp_ignore = None\<rparr>"

text \<open>The set \<open>ignore\<close> with its keyword: \<open>None\<close> until an \<open>ignore\<close> is seen.\<close>

fun variant_properties_loop ::
  "ErrorVariantProperties \<Rightarrow> VariantMeta list \<Rightarrow> (SynError, ErrorVariantProperties) result" where
  "variant_properties_loop output [] = Ok output"
| "variant_properties_loop output (MetaErrorType v # metas) =
     (if evp_error_type output \<noteq> None then Err (occurrence_error ''error_type'')
      else variant_properties_loop (output\<lparr>evp_error_type := Some v\<rparr>) metas)"
| "variant_properties_loop output (MetaCode v # metas) =
     (if evp_code output \<noteq> None then Err (occurrence_error ''code'')
      else variant_properties_loop (output\<lparr>evp_code := Some v\<rparr>) metas)"
| "variant_properties_loop output (MetaMessage v # metas) =
     (if evp_message output \<noteq> None then Err (occurrence_error ''message'')
      else variant_properties_loop (output\<lparr>evp_message := Some v\<rparr>) metas)"
| "variant_properties_loop output (MetaIgnore v # metas) =
     (if evp_ignore output \<noteq> None then Err (occurrence_error ''ignore'')
      else variant_properties_loop
             (output\<lparr>evp_ignore := Some (split_on CHR '','' (filter (\<lambda>c. c \<noteq> CHR '' '') v))\<rparr>) metas)"

definition get_variant_properties :: "Variant \<Rightarrow> (SynError, ErrorVariantProperties) result" where
  "get_variant_properties self =
     rbind (get_metadata_inner VariantMeta_parse ''error'' (var_attrs self))
       (variant_properties_loop ErrorVariantProperties_default)"

definition missing_attribute_error :: "string \<Rightarrow> SynError" where
  "missing_attribute_error attr = Message (attr @ '' must be specified'')"

definition check_missing_attributes :: "ErrorVariantProperties \<Rightarrow> (SynError, unit) result" where
  "check_missing_attributes p =
     (if evp_error_type p = None then Err (missing_attribute_error ''error_type'')
      else if evp_code p = None then Err (missing_attribute_error ''code'')
      else if evp_message p = None then Err (missing_attribute_error ''message'')
      else Ok ())"

text \<open>\<open>str::contains\<close>.\<close>

fun is_prefix_of :: "string \<Rightarrow> string \<Rightarrow> bool" where
  "is_prefix_of [] t = True"
| "is_prefix_of (c # s) [] = False"
| "is_prefix_of (c # s) (d # t) = (c = d \<and> is_prefix_of s t)"

fun str_contains :: "string \<Rightarrow> string \<Rightarrow> bool" where
  "str_contains [] s = is_prefix_of s []"
| "str_contains (c # t) s = (is_prefix_of s (c # t) \<or> str_contains t s)"

definition named_fields :: "Fields \<Rightarrow> Field list" where
  "named_fields fs = (case fs of Named named \<Rightarrow> named | _ \<Rightarrow> [])"

text \<open>Named fields have an identifier; the \<open>unwrap\<close> of a missing one is left undefined by \<open>the\<close>.\<close>

definition get_unused_fields :: "Fields \<Rightarrow> string \<Rightarrow> string list \<Rightarrow> Field list" where
  "get_unused_fields fs message ignore =
     filter (\<lambda>field. \<not> str_contains message (the (field_ident field)) \<and> the (field_ident field) \<notin> set ignore)
       (named_fields fs)"

text \<open>One arm of each of the four generated functions.\<close>

record ErrorArm =
  arm_ident :: string
  arm_error_type :: string
  arm_code :: string
  arm_message :: string
  arm_extra :: "string list"

record ErrorImpl =
  ei_error_type_enum :: string
  ei_arms :: "ErrorArm list"

definition error_arm :: "Variant \<Rightarrow> ErrorVariantProperties \<Rightarrow> ErrorArm" where
  "error_arm variant p =
     \<lparr>arm_ident = var_ident variant,
      arm_error_type = the (evp_error_type p),
      arm_code = the (evp_code p),
      arm_message = the (evp_message p),
      arm_extra = map (the \<circ> field_ident)
        (get_unused_fields (var_fields variant) (the (evp_message p))
           (case evp_ignore p of None \<Rightarrow> [] | Some ig \<Rightarrow> ig))\<rparr>"

definition error_variant :: "Variant \<Rightarrow> (SynError, ErrorArm) result" where
  "error_variant variant =
     rbind (get_variant_properties variant) (\<lambda>p.
     rbind (check_missing_attributes p) (\<lambda>_. Ok (error_arm variant p)))"

definition api_error_derive_inner :: "DeriveInput \<Rightarrow> (SynError, ErrorImpl) result" where
  "api_error_derive_inner ast =
     (case di_data ast of
        DataEnum variants \<Rightarrow>
          rbind (get_type_properties ast) (\<lambda>error_type_enum.
          rbind (collect_results (map error_variant variants)) (\<lambda>arms.
            Ok \<lparr>ei_error_type_enum = error_type_enum, ei_arms = arms\<rparr>))
      | _ \<Rightarrow> Err non_enum_error)"

text \<open>What the generated code does for a value of a variant. \<open>format\<close> is \<open>format!\<close> with the fields of
  the value; the keys of the generated JSON object are given in order.\<close>

definition arm_of :: "ErrorImpl \<Rightarrow> string \<Rightarrow> ErrorArm option" where
  "arm_of impl i = find (\<lambda>arm. arm_ident arm = i) (ei_arms impl)"

definition gen_error_type :: "ErrorImpl \<Rightarrow> string \<Rightarrow> string option" where
  "gen_error_type impl i = map_option arm_error_type (arm_of impl i)"

definition gen_error_code :: "ErrorImpl \<Rightarrow> string \<Rightarrow> string option" where
  "gen_error_code impl i = map_option arm_code (arm_of impl i)"

definition gen_error_message :: "(string \<Rightarrow> string) \<Rightarrow> ErrorImpl \<Rightarrow> string \<Rightarrow> string option" where
  "gen_error_message format impl i = map_option (format \<circ> arm_message) (arm_of impl i)"

definition gen_serialize_keys :: "ErrorImpl \<Rightarrow> string \<Rightarrow> string list option" where
  "gen_serialize_keys impl i =
     map_option (\<lambda>arm. [''type'', ''code'', ''message''] @ arm_extra arm) (arm_of impl i)"

section \<open>DieselEnum (diesel.rs)\<close>

definition StorageType_decl :: EnumDecl where
  "StorageType_decl = \<lparr>ed_name = ''StorageType'', ed_strum = SnakeCase, ed_serde = Verbatim, ed_storage = None,
     ed_variants = [var ''Text'', var ''DbEnum'']\<rparr>"

definition StorageType_of :: "VariantDecl \<Rightarrow> StorageType" where
  "StorageType_of v = (if vd_ident v = ''Text'' then Text else DbEnum)"

fun StorageType_parse :: "case_fns \<Rightarrow> MetaValue \<Rightarrow> (SynError, StorageType) result" where
  "StorageType_parse cf (TypePath p) = Err ParseError"
| "StorageType_parse cf (Lit text) =
     (case strum_from_str cf StorageType_decl text of
        Some v \<Rightarrow> Ok (StorageType_of v)
      | None \<Rightarrow> Err (Message (''Unexpected value for storage_type: `'' @ text @ ''`. Possible values are `'' @
          get_possible_values_for_enum cf StorageType_decl @ ''`'')))"

fun DieselEnumMeta_parse :: "case_fns \<Rightarrow> Arg \<Rightarrow> (SynError, StorageType) result" where
  "DieselEnumMeta_parse cf (Assign keyword v) =
     (if keyword = ''storage_type'' then StorageType_parse cf v else Err ParseError)"
| "DieselEnumMeta_parse cf _ = Err ParseError"

text \<open>The generated \<open>ToSql\<close> and \<open>FromSql\<close> are for a SQL type; for a database enum the type is
  generated too, under the name of the enum in the database.\<close>

record DieselImpl =
  dim_sql_type :: string
  dim_postgres_type :: "string option"

definition diesel_enum_text_derive_inner :: "DeriveInput \<Rightarrow> (SynError, DieselImpl) result" where
  "diesel_enum_text_derive_inner ast =
     (case di_data ast of
        DataEnum _ \<Rightarrow> Ok \<lparr>dim_sql_type = ''::diesel::sql_types::Text'', dim_postgres_type = None\<rparr>
      | _ \<Rightarrow> Err non_enum_error)"

definition diesel_enum_db_enum_derive_inner :: "DeriveInput \<Rightarrow> (SynError, DieselImpl) result" where
  "diesel_enum_db_enum_derive_inner ast =
     (case di_data ast of
        DataEnum _ \<Rightarrow> Ok \<lparr>dim_sql_type = ''Db'' @ di_ident ast, dim_postgres_type = Some (di_ident ast)\<rparr>
      | _ \<Rightarrow> Err non_enum_error)"

definition diesel_enum_derive_inner :: "case_fns \<Rightarrow> DeriveInput \<Rightarrow> (SynError, DieselImpl) result" where
  "diesel_enum_derive_inner cf ast =
     rbind (get_metadata_inner (DieselEnumMeta_parse cf) ''storage_type'' (di_attrs ast)) (\<lambda>storage_type.
       case storage_type of
         [] \<Rightarrow> Err (Message ''Storage type must be specified'')
       | Text # _ \<Rightarrow> diesel_enum_text_derive_inner ast
       | DbEnum # _ \<Rightarrow> diesel_enum_db_enum_derive_inner ast)"

text \<open>The attribute macro puts the SQL type and the storage type before the other attributes of the enum.\<close>

fun diesel_enum_attribute_macro :: "StorageType \<Rightarrow> DeriveInput \<Rightarrow> DeriveInput" where
  "diesel_enum_attribute_macro Text item = item\<lparr>di_attrs :=
     [\<lparr>attr_path = ''diesel'', attr_args = Some [Assign ''sql_type'' (TypePath ''::diesel::sql_types::Text'')]\<rparr>,
      \<lparr>attr_path = ''storage_type'', attr_args = Some [Assign ''storage_type'' (Lit ''text'')]\<rparr>] @ di_attrs item\<rparr>"
| "diesel_enum_attribute_macro DbEnum item = item\<lparr>di_attrs :=
     [\<lparr>attr_path = ''diesel'', attr_args = Some [Assign ''sql_type'' (TypePath (''Db'' @ di_ident item))]\<rparr>,
      \<lparr>attr_path = ''storage_type'', attr_args = Some [Assign ''storage_type'' (Lit ''db_enum'')]\<rparr>] @ di_attrs item\<rparr>"

text \<open>\<open>#[diesel_enum(arg)]\<close> on an enum: the argument, the attributes, and then the derive they ask for.\<close>

definition diesel_enum :: "case_fns \<Rightarrow> Arg \<Rightarrow> DeriveInput \<Rightarrow> (SynError, DieselImpl) result" where
  "diesel_enum cf arg item =
     rbind (DieselEnumMeta_parse cf arg) (\<lambda>meta. diesel_enum_derive_inner cf (diesel_enum_attribute_macro meta item))"

text \<open>The generated conversions, the same for both storage types.\<close>

definition gen_to_sql :: "case_fns \<Rightarrow> EnumDecl \<Rightarrow> VariantDecl \<Rightarrow> string" where
  "gen_to_sql cf d v = strum_to_string cf d v"

definition gen_from_sql :: "case_fns \<Rightarrow> EnumDecl \<Rightarrow> string \<Rightarrow> (string, VariantDecl) result" where
  "gen_from_sql cf d bytes =
     rbind (from_utf8 bytes ''invalid utf-8'') (\<lambda>s.
       ok_or (strum_from_str cf d s) ''Unrecognized enum variant'')"

section \<open>TryGetEnumVariant (try\_get\_enum.rs)\<close>

fun TryGetEnumMeta_parse :: "Arg \<Rightarrow> (SynError, string \<times> string) result" where
  "TryGetEnumMeta_parse (PathPair error_type variant) = Ok (error_type, variant)"
| "TryGetEnumMeta_parse _ = Err ParseError"

definition get_enum_variants :: "Data \<Rightarrow> (SynError, Variant list) result" where
  "get_enum_variants data = (case data of DataEnum variants \<Rightarrow> Ok variants | _ \<Rightarrow> Err non_enum_error)"

definition get_enum_variant_field :: "Variant \<Rightarrow> (SynError, Field list) result" where
  "get_enum_variant_field variant =
     (case var_fields variant of
        Unnamed un \<Rightarrow> Ok un
      | Named n \<Rightarrow> Ok n
      | Unit \<Rightarrow> Err (syn_error ''The enum is a unit variant it's not supported''))"

record TryIntoFn =
  tif_name :: string
  tif_variant :: string
  tif_types :: "SynType list"
  tif_error :: "string \<times> string"

definition try_get_enum_variant :: "DeriveInput \<Rightarrow> (SynError, TryIntoFn list) result" where
  "try_get_enum_variant input =
     rbind (get_metadata_inner TryGetEnumMeta_parse ''error'' (di_attrs input)) (\<lambda>parsed_error_type.
       case parsed_error_type of
         [] \<Rightarrow> Err (Message ''One error should be specified'')
       | err # _ \<Rightarrow>
           rbind (get_enum_variants (di_data input)) (\<lambda>variants.
             collect_results (map (\<lambda>variant. rbind (get_enum_variant_field variant) (\<lambda>variant_field.
               Ok \<lparr>tif_name = ''try_into_'' @ map lowered (var_ident variant), tif_variant = var_ident variant,
                   tif_types = map field_ty variant_field, tif_error = err\<rparr>)) variants)))"

text \<open>A generated function on a value: the variant it is of, and what it holds.\<close>

definition gen_try_into :: "TryIntoFn \<Rightarrow> string \<times> 'v \<Rightarrow> (string \<times> string, 'v) result" where
  "gen_try_into f self = (if fst self = tif_variant f then Ok (snd self) else Err (tif_error f))"

section \<open>Setter (lib.rs)\<close>

fun check_if_auth_based_attr_is_present :: "Attribute list \<Rightarrow> string \<Rightarrow> bool" where
  "check_if_auth_based_attr_is_present [] ident = False"
| "check_if_auth_based_attr_is_present (i # attrs) ident =
     (attr_path i = ident \<or> check_if_auth_based_attr_is_present attrs ident)"

record SetterFn =
  sf_name :: string
  sf_field :: string
  sf_auth_based :: bool

text \<open>On anything but a struct with named fields the macro panics: \<open>None\<close>.\<close>

definition setter :: "DeriveInput \<Rightarrow> SetterFn list option" where
  "setter input =
     (case di_data input of
        DataStruct (Named named) \<Rightarrow>
          Some (map (\<lambda>f. \<lparr>sf_name = ''set_'' @ the (field_ident f), sf_field = the (field_ident f),
            sf_auth_based = check_if_auth_based_attr_is_present (field_attrs f) ''auth_based''\<rparr>) named)
      | _ \<Rightarrow> None)"

definition gen_set :: "SetterFn \<Rightarrow> bool \<Rightarrow> 'v \<Rightarrow> (string \<Rightarrow> 'v) \<Rightarrow> string \<Rightarrow> 'v" where
  "gen_set f is_merchant_flow val self =
     (if sf_auth_based f \<and> \<not> is_merchant_flow then self else self(sf_field f := val))"

section \<open>ConfigValidate (misc.rs)\<close>

definition get_field_type :: "SynType \<Rightarrow> string option" where
  "get_field_type field_type =
     (case field_type of
        TyPath segments \<Rightarrow> if segments = [] then None else Some (fst (last segments))
      | TyOther \<Rightarrow> None)"

datatype ConfigCheck = LeafCheck string | NestedCheck string

definition config_check :: "Field \<Rightarrow> ConfigCheck option" where
  "config_check field =
     (case (field_ident field, get_field_type (field_ty field)) of
        (Some i, Some t) \<Rightarrow>
          if t = ''Option'' then None else if t = ''String'' then Some (LeafCheck i) else Some (NestedCheck i)
      | _ \<Rightarrow> None)"

definition validate_config :: "DeriveInput \<Rightarrow> (SynError, ConfigCheck list) result" where
  "validate_config input =
     rbind (get_struct_fields (di_data input)) (\<lambda>fs. Ok (List.map_filter config_check fs))"

text \<open>The generated \<open>validate\<close>: the text of each leaf, and the \<open>validate\<close> of each nested field.\<close>

fun gen_validate ::
  "(string \<Rightarrow> string) \<Rightarrow> (string \<Rightarrow> string \<Rightarrow> (string, unit) result) \<Rightarrow> ConfigCheck list \<Rightarrow> string \<Rightarrow>
   (string, unit) result" where
  "gen_validate leaf nested [] parent_field = Ok ()"
| "gen_validate leaf nested (LeafCheck i # cs) parent_field =
     rbind (when_pred (leaf i = []) (Err (i @ '' must not be empty for '' @ parent_field)))
       (\<lambda>_. gen_validate leaf nested cs parent_field)"
| "gen_validate leaf nested (NestedCheck i # cs) parent_field =
     rbind (nested i i) (\<lambda>_. gen_validate leaf nested cs parent_field)"

end
