(* ===== verification/Derive_Schema.thy ===== *)
theory Derive_Schema
  imports Derive_Macros
begin

text \<open>
  The two larger macros of \<open>router_derive\<close>: \<open>PolymorphicSchema\<close> (\<open>macros/generate_schema.rs\<close>), which cuts several
  schemas out of one struct, and \<open>Operation\<close> (\<open>macros/operation.rs\<close>). The hash map of required fields is a
  map, the hash set of hidden fields a set, and the \<open>IndexMap\<close> of all fields, whose order shows in the
  generated structs, a list of pairs in the order of the first insertion.
\<close>

section \<open>PolymorphicSchema (generate\_schema.rs)\<close>

fun Ident_parse :: "Arg \<Rightarrow> (SynError, string) result" where
  "Ident_parse (Word s) = Ok s"
| "Ident_parse _ = Err ParseError"

definition get_inner_path_ident :: "Attribute \<Rightarrow> (SynError, string list) result" where
  "get_inner_path_ident attr = parse_args_with Ident_parse attr"

record SchemaMeta =
  struct_name :: string
  type_ident :: string

text \<open>The type of \<open>X = type\<close> is one identifier: a path with \<open>::\<close> is not.\<close>

fun SchemaMeta_parse :: "Arg \<Rightarrow> (SynError, SchemaMeta) result" where
  "SchemaMeta_parse (Assign s (TypePath t)) =
     (if CHR '':'' \<in> set t then Err ParseError else Ok \<lparr>struct_name = s, type_ident = t\<rparr>)"
| "SchemaMeta_parse _ = Err ParseError"

text \<open>\<open>entry(k).or_default().push(a)\<close> of an \<open>IndexMap\<close>.\<close>

fun entry_push :: "('k \<times> 'a list) list \<Rightarrow> 'k \<Rightarrow> 'a \<Rightarrow> ('k \<times> 'a list) list" where
  "entry_push [] k a = [(k, [a])]"
| "entry_push ((k', as) # es) k a = (if k' = k then (k', as @ [a]) # es else (k', as) # entry_push es k a)"

record SchemaTables =
  required_fields :: "(string \<times> string) \<Rightarrow> string option"
  hide_fields :: "(string \<times> string) set"
  all_fields :: "(Field \<times> Attribute list) list"

definition no_tables :: SchemaTables where
  "no_tables = \<lparr>required_fields = Map.empty, hide_fields = {}, all_fields = []\<rparr>"

definition is_mandatory_in :: "Attribute \<Rightarrow> bool" where
  "is_mandatory_in attr \<longleftrightarrow> attr_path attr = ''mandatory_in''"

definition is_remove_in :: "Attribute \<Rightarrow> bool" where
  "is_remove_in attr \<longleftrightarrow> attr_path attr = ''remove_in''"

definition is_printed :: "Attribute \<Rightarrow> bool" where
  "is_printed attr \<longleftrightarrow> attr_path attr = ''schema'' \<or> attr_path attr = ''doc''"

text \<open>\<open>try_for_each\<close> over the \<open>remove_in\<close> attributes: it stops at the first that does not parse, and its error
  is dropped.\<close>

fun hide_loop :: "string \<Rightarrow> Attribute list \<Rightarrow> (string \<times> string) set \<Rightarrow> (string \<times> string) set" where
  "hide_loop field_id [] hidden = hidden"
| "hide_loop field_id (attr # attrs) hidden =
     (case get_inner_path_ident attr of
        Inl _ \<Rightarrow> hidden
      | Inr schemas \<Rightarrow> hide_loop field_id attrs (hidden \<union> set (map (\<lambda>schema. (field_id, schema)) schemas)))"

text \<open>The body of the loop over the fields.\<close>

definition schema_field :: "Field \<Rightarrow> SchemaTables \<Rightarrow> (SynError, SchemaTables) result" where
  "schema_field field t =
     (let mandatory_attribute = filter is_mandatory_in (field_attrs field);
          other_attributes = filter (\<lambda>a. \<not> is_mandatory_in a) (field_attrs field);
          hidden_fields = filter is_remove_in (field_attrs field);
          all = foldl (\<lambda>es a. entry_push es (field\<lparr>field_attrs := []\<rparr>) a) (all_fields t)
                  (filter is_printed other_attributes) in
      rbind (ok_or (field_ident field) (Message ''Cannot use `mandatory_in` on unnamed fields'')) (\<lambda>field_id.
      rbind (get_metadata_inner SchemaMeta_parse ''mandatory_in'' mandatory_attribute) (\<lambda>metas.
        Ok (t\<lparr>required_fields :=
                (case metas of [] \<Rightarrow> required_fields t
                 | meta # _ \<Rightarrow> (required_fields t)((field_id, struct_name meta) \<mapsto> type_ident meta)),
              hide_fields := hide_loop field_id hidden_fields (hide_fields t),
              all_fields := all\<rparr>))))"

fun schema_loop :: "Field list \<Rightarrow> SchemaTables \<Rightarrow> (SynError, SchemaTables) result" where
  "schema_loop [] t = Ok t"
| "schema_loop (field # fs) t = rbind (schema_field field t) (schema_loop fs)"

definition value_type_attribute :: "string \<Rightarrow> Attribute" where
  "value_type_attribute t = \<lparr>attr_path = ''schema'', attr_args = Some [Assign ''value_type'' (TypePath t)]\<rparr>"

text \<open>One field of one schema, or none where it is hidden.\<close>

definition schema_entry ::
  "SchemaTables \<Rightarrow> string \<Rightarrow> Field \<times> Attribute list \<Rightarrow> (Field \<times> Attribute list) option" where
  "schema_entry t schema = (\<lambda>(field, attributes).
     let final_attributes =
           (case field_ident field of
              None \<Rightarrow> attributes
            | Some field_id \<Rightarrow>
                (case required_fields t (field_id, schema) of
                   None \<Rightarrow> attributes
                 | Some required_field_type \<Rightarrow>
                     filter (\<lambda>a. attr_path a \<noteq> ''schema'') attributes @ [value_type_attribute required_field_type]));
         is_hidden_field =
           (case field_ident field of None \<Rightarrow> False | Some field_id \<Rightarrow> (field_id, schema) \<in> hide_fields t) in
     if is_hidden_field then None else Some (field, final_attributes))"

record Schema =
  schema_name :: string
  schema_fields :: "(Field \<times> Attribute list) list"

definition polymorphic_macro_derive_inner :: "DeriveInput \<Rightarrow> (SynError, Schema list) result" where
  "polymorphic_macro_derive_inner input =
     rbind (get_metadata_inner Ident_parse ''generate_schemas'' (di_attrs input)) (\<lambda>schemas_to_create.
     rbind (get_struct_fields (di_data input)) (\<lambda>fs.
     rbind (schema_loop fs no_tables) (\<lambda>t.
       Ok (map (\<lambda>schema. \<lparr>schema_name = schema,
                 schema_fields = List.map_filter (schema_entry t schema) (all_fields t)\<rparr>) schemas_to_create))))"

section \<open>Operation (operation.rs)\<close>

definition Derives_decl :: EnumDecl where
  "Derives_decl = \<lparr>ed_name = ''Derives'', ed_strum = SnakeCase, ed_serde = Verbatim, ed_storage = None,
     ed_variants = [var ''Sync'', var ''Cancel'', var ''Reject'', var ''Capture'', var ''ApproveData'',
       var ''Authorize'', var ''AuthorizeData'', var ''SyncData'', var ''CancelData'', var ''CaptureData'',
       var ''CompleteAuthorizeData'', var ''RejectData'', var ''SetupMandateData'', var ''Start'', var ''Verify'',
       var ''Session'', var ''SessionData'', var ''IncrementalAuthorization'',
       var ''IncrementalAuthorizationData'']\<rparr>"

datatype Conversion =
  ValidateRequest | GetTracker | Domain | UpdateTracker | PostUpdateTracker | All | Invalid string

definition Conversion_decl :: EnumDecl where
  "Conversion_decl = \<lparr>ed_name = ''Conversion'', ed_strum = SnakeCase, ed_serde = Verbatim, ed_storage = None,
     ed_variants = [var ''ValidateRequest'', var ''GetTracker'', var ''Domain'', var ''UpdateTracker'',
       var ''PostUpdateTracker'', var ''All'', var ''Invalid'']\<rparr>"

text \<open>strum fills the field of \<open>Invalid\<close> with the default, the empty string.\<close>

definition Conversion_of :: "VariantDecl \<Rightarrow> Conversion" where
  "Conversion_of v =
     (if vd_ident v = ''ValidateRequest'' then ValidateRequest
      else if vd_ident v = ''GetTracker'' then GetTracker
      else if vd_ident v = ''Domain'' then Domain
      else if vd_ident v = ''UpdateTracker'' then UpdateTracker
      else if vd_ident v = ''PostUpdateTracker'' then PostUpdateTracker
      else if vd_ident v = ''All'' then All
      else Invalid [])"

definition req_types :: "(string \<times> string) list" where
  "req_types =
     [(''Authorize'', ''PaymentsRequest''), (''AuthorizeData'', ''PaymentsAuthorizeData''),
      (''Sync'', ''PaymentsRetrieveRequest''), (''SyncData'', ''PaymentsSyncData''),
      (''Cancel'', ''PaymentsCancelRequest''), (''CancelData'', ''PaymentsCancelData''),
      (''ApproveData'', ''PaymentsApproveData''), (''Reject'', ''PaymentsRejectRequest''),
      (''RejectData'', ''PaymentsRejectData''), (''Capture'', ''PaymentsCaptureRequest''),
      (''CaptureData'', ''PaymentsCaptureData''), (''CompleteAuthorizeData'', ''CompleteAuthorizeData''),
      (''Start'', ''PaymentsStartRequest''), (''Verify'', ''VerifyRequest''),
      (''SetupMandateData'', ''SetupMandateRequestData''), (''Session'', ''PaymentsSessionRequest''),
      (''SessionData'', ''PaymentsSessionData''),
      (''IncrementalAuthorization'', ''PaymentsIncrementalAuthorizationRequest''),
      (''IncrementalAuthorizationData'', ''PaymentsIncrementalAuthorizationData'')]"

definition get_req_type :: "VariantDecl \<Rightarrow> string" where
  "get_req_type derive = the (map_of req_types (vd_ident derive))"

text \<open>A generated function: its name, the trait object it returns and the request type of that trait,
  and whether it hands out \<open>self\<close> or \<open>*self\<close>; or the compile error in its place.\<close>

datatype GenFn = GenFn string string string bool | CompileError SynError

fun gen_function :: "bool \<Rightarrow> Conversion \<Rightarrow> VariantDecl \<Rightarrow> GenFn list" where
  "gen_function deref ValidateRequest d = [GenFn ''to_validate_request'' ''ValidateRequest'' (get_req_type d) deref]"
| "gen_function deref GetTracker d = [GenFn ''to_get_tracker'' ''GetTracker'' (get_req_type d) deref]"
| "gen_function deref Domain d = [GenFn ''to_domain'' ''Domain'' (get_req_type d) deref]"
| "gen_function deref UpdateTracker d = [GenFn ''to_update_tracker'' ''UpdateTracker'' (get_req_type d) deref]"
| "gen_function deref PostUpdateTracker d =
     [GenFn ''to_post_update_tracker'' ''PostUpdateTracker'' (get_req_type d) deref]"
| "gen_function deref (Invalid s) d = [CompileError (syn_error (''Invalid identifier '' @ s))]"
| "gen_function deref All d =
     [GenFn ''to_validate_request'' ''ValidateRequest'' (get_req_type d) deref,
      GenFn ''to_get_tracker'' ''GetTracker'' (get_req_type d) deref,
      GenFn ''to_domain'' ''Domain'' (get_req_type d) deref,
      GenFn ''to_update_tracker'' ''UpdateTracker'' (get_req_type d) deref]"

definition to_function :: "Conversion \<Rightarrow> VariantDecl \<Rightarrow> GenFn list" where
  "to_function self ident = gen_function False self ident"

definition to_ref_function :: "Conversion \<Rightarrow> VariantDecl \<Rightarrow> GenFn list" where
  "to_ref_function self ident = gen_function True self ident"

record OperationImpl =
  oi_req_type :: string
  oi_self :: string
  oi_fns :: "GenFn list"

definition to_operation :: "VariantDecl \<Rightarrow> GenFn list \<Rightarrow> string \<Rightarrow> OperationImpl" where
  "to_operation self fns name = \<lparr>oi_req_type = get_req_type self, oi_self = name, oi_fns = fns\<rparr>"

definition to_ref_operation :: "VariantDecl \<Rightarrow> GenFn list \<Rightarrow> string \<Rightarrow> OperationImpl" where
  "to_ref_operation self ref_fns name = \<lparr>oi_req_type = get_req_type self, oi_self = ''&'' @ name, oi_fns = ref_fns\<rparr>"

definition parse_list_string ::
  "case_fns \<Rightarrow> EnumDecl \<Rightarrow> string \<Rightarrow> string \<Rightarrow> (SynError, VariantDecl list) result" where
  "parse_list_string cf d list_string keyword =
     collect_results (map (\<lambda>s. ok_or (strum_from_str cf d (str_trim s))
       (Message (''Unexpected '' @ keyword @ '', possible values are '' @ get_possible_values_for_enum cf d)))
       (split_on CHR '','' list_string))"

fun get_conversions :: "case_fns \<Rightarrow> MetaValue \<Rightarrow> (SynError, Conversion list) result" where
  "get_conversions cf (Lit list_string) =
     rbind (parse_list_string cf Conversion_decl list_string ''operation'') (\<lambda>vs. Ok (map Conversion_of vs))"
| "get_conversions cf (TypePath p) = Err ParseError"

fun get_derives :: "case_fns \<Rightarrow> MetaValue \<Rightarrow> (SynError, VariantDecl list) result" where
  "get_derives cf (Lit list_string) = parse_list_string cf Derives_decl list_string ''flow''"
| "get_derives cf (TypePath p) = Err ParseError"

datatype OperationsEnumMeta = Operations "Conversion list" | FlowMeta "VariantDecl list"

fun OperationsEnumMeta_parse :: "case_fns \<Rightarrow> Arg \<Rightarrow> (SynError, OperationsEnumMeta) result" where
  "OperationsEnumMeta_parse cf (Assign keyword v) =
     (if keyword = ''operations'' then rbind (get_conversions cf v) (\<lambda>ops. Ok (Operations ops))
      else if keyword = ''flow'' then rbind (get_derives cf v) (\<lambda>ds. Ok (FlowMeta ds))
      else Err ParseError)"
| "OperationsEnumMeta_parse cf _ = Err ParseError"

text \<open>The last \<open>operations\<close> and the last \<open>flow\<close> win.\<close>

fun operation_properties_loop ::
  "Conversion list \<Rightarrow> VariantDecl list \<Rightarrow> OperationsEnumMeta list \<Rightarrow> Conversion list \<times> VariantDecl list" where
  "operation_properties_loop operations flows [] = (operations, flows)"
| "operation_properties_loop operations flows (Operations v # metas) = operation_properties_loop v flows metas"
| "operation_properties_loop operations flows (FlowMeta v # metas) = operation_properties_loop operations v metas"

definition get_operation_properties ::
  "OperationsEnumMeta list \<Rightarrow> (SynError, Conversion list \<times> VariantDecl list) result" where
  "get_operation_properties operation_enums =
     (let (operations, flows) = operation_properties_loop [] [] operation_enums in
      if operations = [] then Err (Message ''atleast one operation must be specitied'')
      else if flows = [] then Err (Message ''atleast one flow must be specitied'')
      else Ok (operations, flows))"

definition operation_derive_inner :: "case_fns \<Rightarrow> DeriveInput \<Rightarrow> (SynError, OperationImpl list) result" where
  "operation_derive_inner cf input =
     rbind (get_metadata_inner (OperationsEnumMeta_parse cf) ''operation'' (di_attrs input)) (\<lambda>operations_meta.
     rbind (get_operation_properties operations_meta) (\<lambda>(operations, flows).
       let trait_derive = map (\<lambda>derive. to_operation derive
             (concat (map (\<lambda>conversion. to_function conversion derive) operations)) (di_ident input)) flows;
           ref_trait_derive = map (\<lambda>derive. to_ref_operation derive
             (concat (map (\<lambda>conversion. to_ref_function conversion derive) operations)) (di_ident input)) flows in
       Ok (ref_trait_derive @ trait_derive)))"

end
