(* ===== verification/Derive_Props.thy ===== *)
theory Derive_Props
  imports Derive_Schema
begin

text \<open>
  What the derive macros promise. Every value of a stored enum is read back from the text that is written
  for it; the error of an API response has the code, type and message of its attributes, and shows the fields
  that its message does not; the schemas cut out of a struct are those of a definition that looks at one
  field at a time.
\<close>

section \<open>Stored enums\<close>

lemma ascii_char_less: "ascii_char c \<Longrightarrow> of_char c < (128 :: nat)"
  by (cases c) simp

lemma find_injective: "inj_on f (set xs) \<Longrightarrow> v \<in> set xs \<Longrightarrow> find (\<lambda>x. f x = f v) xs = Some v"
  by (induction xs) (auto simp: inj_on_def)

context case_convention
begin

lemma strum_to_string_plain:
  assumes "plain_decl d" "v \<in> set (ed_variants d)"
  shows "strum_to_string cf d v = plain_text d v"
  using assms snake_law pascal_law
  by (cases "ed_strum d")
    (auto simp: plain_decl_def list_all_iff strum_to_string_def plain_text_def split: option.splits)

lemma strum_from_str_plain:
  assumes d: "plain_decl d"
  shows "strum_from_str cf d s = Some v \<longleftrightarrow> v \<in> set (ed_variants d) \<and> s = strum_to_string cf d v"
proof -
  have inj: "inj_on (strum_to_string cf d) (set (ed_variants d))"
    using d strum_to_string_plain [OF d] by (auto simp: plain_decl_def distinct_map inj_on_def)
  have "s = strum_to_string cf d v \<and> v \<in> set (ed_variants d)" if "strum_from_str cf d s = Some v"
    using that by (auto simp: strum_from_str_def find_Some_iff)
  then show ?thesis
    using find_injective [OF inj, of v] by (auto simp: strum_from_str_def)
qed

lemma strum_text_utf8:
  assumes "plain_decl d" "v \<in> set (ed_variants d)"
  shows "utf8_valid (strum_to_string cf d v)"
  using assms strum_to_string_plain [OF assms]
  by (intro utf8_valid_ascii) (auto simp: plain_decl_def list_all_iff intro: ascii_char_less)

lemma gen_from_sql_plain:
  assumes d: "plain_decl d"
  shows "gen_from_sql cf d bytes = Ok v \<longleftrightarrow> v \<in> set (ed_variants d) \<and> bytes = gen_to_sql cf d v"
  using strum_from_str_plain [OF d, of bytes v] strum_text_utf8 [OF d, of v]
  by (auto simp: gen_from_sql_def gen_to_sql_def from_utf8_def ok_or_def split: option.splits if_splits)

end



text \<open>The payout entity \<open>Business\<close> has \<open>serialize = "lowercase"\<close> where \<open>serialize_all\<close> was meant: the
  column holds the word \<open>lowercase\<close>, and \<open>business\<close> is not read.\<close>

lemma payout_business_text:
  "gen_to_sql cf PayoutEntityType_decl (var_as ''Business'' (Some ''lowercase'') (Some ''lowercase'')) = ''lowercase''"
  by (simp add: gen_to_sql_def strum_to_string_def var_as_def)

lemma payout_business_not_read:
  "gen_from_sql ascii_case_fns PayoutEntityType_decl ''business'' = Err ''Unrecognized enum variant''"
  by code_simp

section \<open>Errors of the API\<close>

lemma is_prefix_of_iff: "is_prefix_of s t \<longleftrightarrow> (\<exists>b. t = s @ b)"
  by (induction s t rule: is_prefix_of.induct) auto

lemma str_contains_iff: "str_contains t s \<longleftrightarrow> (\<exists>a b. t = a @ s @ b)"
proof (induction t)
  case Nil
  show ?case by (cases s) auto
next
  case (Cons c t)
  have "(\<exists>a b. c # t = a @ s @ b) \<longleftrightarrow> (\<exists>b. c # t = s @ b) \<or> (\<exists>a b. t = a @ s @ b)"
    by (metis append_Cons append_Nil list.exhaust list.inject)
  then show ?case using Cons by (simp add: is_prefix_of_iff)
qed

lemma variant_properties_loop_Ok:
  "variant_properties_loop out metas = Ok p \<Longrightarrow>
     (\<forall>t. evp_error_type p = Some t \<longleftrightarrow> evp_error_type out = Some t \<or> MetaErrorType t \<in> set metas) \<and>
     (\<forall>c. evp_code p = Some c \<longleftrightarrow> evp_code out = Some c \<or> MetaCode c \<in> set metas) \<and>
     (\<forall>m. evp_message p = Some m \<longleftrightarrow> evp_message out = Some m \<or> MetaMessage m \<in> set metas)"
  by (induction out metas rule: variant_properties_loop.induct) (auto split: if_splits)

definition ignored_names :: "VariantMeta list \<Rightarrow> string list" where
  "ignored_names metas = concat (map (\<lambda>meta. case meta of
     MetaIgnore s \<Rightarrow> split_on CHR '','' (filter (\<lambda>c. c \<noteq> CHR '' '') s) | _ \<Rightarrow> []) metas)"

lemma variant_properties_loop_ignore:
  "variant_properties_loop out metas = Ok p \<Longrightarrow>
     (case evp_ignore p of None \<Rightarrow> [] | Some ig \<Rightarrow> ig) =
     (case evp_ignore out of None \<Rightarrow> [] | Some ig \<Rightarrow> ig) @ ignored_names metas"
proof (induction out metas rule: variant_properties_loop.induct)
  case (5 out v metas)
  then show ?case
    by (cases "evp_ignore out") (auto simp: ignored_names_def split: option.splits)
qed (auto simp: ignored_names_def split: if_splits)

lemma error_variant_Ok:
  assumes "error_variant v = Ok arm"
  obtains metas p where "get_metadata_inner VariantMeta_parse ''error'' (var_attrs v) = Ok metas"
    "variant_properties_loop ErrorVariantProperties_default metas = Ok p"
    "evp_error_type p \<noteq> None" "evp_code p \<noteq> None" "evp_message p \<noteq> None" "arm = error_arm v p"
  using assms
  by (auto simp: error_variant_def get_variant_properties_def check_missing_attributes_def rbind_def
      split: sum.splits if_splits)

lemma arm_of_variant:
  assumes ok: "api_error_derive_inner ast = Ok impl" and data: "di_data ast = DataEnum variants"
    and v: "v \<in> set variants" and dist: "distinct (map var_ident variants)"
  obtains arm where "error_variant v = Ok arm" "arm_of impl (var_ident v) = Some arm"
proof -
  from ok data have arms: "map error_variant variants = map Ok (ei_arms impl)"
    by (auto simp: api_error_derive_inner_def rbind_def collect_results_Ok split: sum.splits)
  have same: "arm_ident arm = var_ident w" if "error_variant w = Ok arm" for w arm
    using that by (auto elim!: error_variant_Ok simp: error_arm_def)
  have "\<exists>arm. error_variant v = Ok arm \<and> find (\<lambda>arm. arm_ident arm = var_ident v) arms = Some arm"
    if "map error_variant vs = map Ok arms" "v \<in> set vs" "distinct (map var_ident vs)" for vs arms
    using that
  proof (induction vs arbitrary: arms)
    case (Cons w vs)
    then obtain arm rest where arms: "arms = arm # rest" "error_variant w = Ok arm"
      "map error_variant vs = map Ok rest" by auto
    with Cons show ?case by (cases "v = w") (auto simp: same)
  qed simp
  from this [OF arms v dist] that show ?thesis by (auto simp: arm_of_def)
qed

text \<open>C23: Where \<open>ApiError\<close> accepts an enum, the error of each variant is the one its attributes ask for: the
  code, type and message are those given to the variant, and the response has the keys
  \<open>type\<close>, \<open>code\<close> and \<open>message\<close> and then, in order, the named fields that do not occur in
  the message and are not in an \<open>ignore\<close> list.\<close>

theorem api_error_derive_correct:
  assumes "api_error_derive_inner ast = Ok impl" and "di_data ast = DataEnum variants"
    and "v \<in> set variants" and "distinct (map var_ident variants)"
  shows "\<exists>metas message. get_metadata_inner VariantMeta_parse ''error'' (var_attrs v) = Ok metas \<and>
    (\<forall>t. gen_error_type impl (var_ident v) = Some t \<longleftrightarrow> MetaErrorType t \<in> set metas) \<and>
    (\<forall>c. gen_error_code impl (var_ident v) = Some c \<longleftrightarrow> MetaCode c \<in> set metas) \<and>
    (\<forall>m. MetaMessage m \<in> set metas \<longleftrightarrow> m = message) \<and>
    gen_error_message format impl (var_ident v) = Some (format message) \<and>
    gen_serialize_keys impl (var_ident v) = Some ([''type'', ''code'', ''message''] @
      filter (\<lambda>i. \<not> (\<exists>a b. message = a @ i @ b) \<and> i \<notin> set (ignored_names metas))
        (map (the \<circ> field_ident) (named_fields (var_fields v))))"
proof -
  from arm_of_variant [OF assms] obtain arm where
    v: "error_variant v = Ok arm" and arm: "arm_of impl (var_ident v) = Some arm" .
  from error_variant_Ok [OF v] obtain metas p where
    metas: "get_metadata_inner VariantMeta_parse ''error'' (var_attrs v) = Ok metas" and
    loop: "variant_properties_loop ErrorVariantProperties_default metas = Ok p" and
    some: "evp_error_type p \<noteq> None" "evp_code p \<noteq> None" "evp_message p \<noteq> None" and
    arm_eq: "arm = error_arm v p" .
  note props = variant_properties_loop_Ok [OF loop] variant_properties_loop_ignore [OF loop]
  from some obtain t c m where p: "evp_error_type p = Some t" "evp_code p = Some c" "evp_message p = Some m"
    by blast
  show ?thesis
    using metas props p
    by (intro exI [of _ metas] exI [of _ m])
      (auto simp: arm arm_eq error_arm_def gen_error_type_def gen_error_code_def gen_error_message_def
        gen_serialize_keys_def get_unused_fields_def str_contains_iff filter_map comp_def
        ErrorVariantProperties_default_def)
qed

text \<open>An enum with one variant, whose message shows one of its two fields.\<close>

definition example_error :: DeriveInput where
  "example_error = \<lparr>di_ident = ''MyError'',
     di_attrs = [\<lparr>attr_path = ''error'', attr_args = Some [Assign ''error_type_enum'' (TypePath ''ErrorType'')]\<rparr>],
     di_data = DataEnum [\<lparr>var_ident = ''ConfigurationError'',
       var_fields = Named [
         \<lparr>field_ident = Some ''file_path'', field_ty = TyPath [(''String'', [])], field_attrs = []\<rparr>,
         \<lparr>field_ident = Some ''reason'', field_ty = TyPath [(''String'', [])], field_attrs = []\<rparr>],
       var_attrs = [\<lparr>attr_path = ''error'', attr_args = Some [
         Assign ''error_type'' (TypePath ''ErrorType::StartupError''), Assign ''code'' (Lit ''E001''),
         Assign ''message'' (Lit ''Failed to read configuration file: {file_path}'')]\<rparr>]\<rparr>]\<rparr>"

definition example_error_impl :: ErrorImpl where
  "example_error_impl = \<lparr>ei_error_type_enum = ''ErrorType'', ei_arms = [
     \<lparr>arm_ident = ''ConfigurationError'', arm_error_type = ''ErrorType::StartupError'', arm_code = ''E001'',
      arm_message = ''Failed to read configuration file: {file_path}'', arm_extra = [''reason'']\<rparr>]\<rparr>"

lemma example_error_derived: "api_error_derive_inner example_error = Ok example_error_impl"
  by code_simp

theorem api_error_derive_correct_witness:
  "api_error_derive_inner example_error = Ok example_error_impl \<and>
   gen_serialize_keys example_error_impl ''ConfigurationError'' =
     Some [''type'', ''code'', ''message'', ''reason''] \<and>
   (\<exists>metas. (\<forall>c. gen_error_code example_error_impl ''ConfigurationError'' = Some c \<longleftrightarrow> MetaCode c \<in> set metas) \<and>
      MetaCode ''E001'' \<in> set metas)"
proof -
  obtain v where v: "di_data example_error = DataEnum [v]" and i: "var_ident v = ''ConfigurationError''"
    by (simp add: example_error_def)
  have "gen_error_code example_error_impl ''ConfigurationError'' = Some ''E001''"
    "gen_serialize_keys example_error_impl ''ConfigurationError'' = Some [''type'', ''code'', ''message'', ''reason'']"
    by code_simp+
  then show ?thesis
    using api_error_derive_correct [OF example_error_derived v, of v id] example_error_derived
    unfolding i by auto
qed

text \<open>A field is left out of the response by the mere letters of the message: the field \<open>id\<close> of a variant
  whose message holds the word \<open>provided\<close>.\<close>

lemma unused_field_by_substring:
  "get_unused_fields (Named [\<lparr>field_ident = Some ''id'', field_ty = TyOther, field_attrs = []\<rparr>])
     ''The token provided has expired'' [] = []"
  by code_simp

section \<open>Schemas\<close>

text \<open>The schemas, one field at a time: a field is in a schema when it has something to print and is not
  removed there, and the type of its first \<open>mandatory_in\<close> replaces its own \<open>schema\<close> attributes.\<close>

definition field_mandatory :: "Field \<Rightarrow> (SynError, SchemaMeta list) result" where
  "field_mandatory f = get_metadata_inner SchemaMeta_parse ''mandatory_in'' (field_attrs f)"

definition mandatory_type :: "Field \<Rightarrow> string \<Rightarrow> string option" where
  "mandatory_type f name =
     (case field_mandatory f of
        Inr (meta # _) \<Rightarrow> if struct_name meta = name then Some (type_ident meta) else None
      | _ \<Rightarrow> None)"

fun removed_in :: "Attribute list \<Rightarrow> string list" where
  "removed_in [] = []"
| "removed_in (a # as) =
     (if is_remove_in a
      then (case get_inner_path_ident a of Inl _ \<Rightarrow> [] | Inr names \<Rightarrow> names @ removed_in as)
      else removed_in as)"

definition printed :: "Field \<Rightarrow> Attribute list" where
  "printed f = filter is_printed (field_attrs f)"

definition field_in_schema :: "string \<Rightarrow> Field \<Rightarrow> (Field \<times> Attribute list) list" where
  "field_in_schema name f =
     (if printed f = [] \<or> name \<in> set (removed_in (field_attrs f)) then []
      else [(f\<lparr>field_attrs := []\<rparr>,
        case mandatory_type f name of
          None \<Rightarrow> printed f
        | Some t \<Rightarrow> filter (\<lambda>a. attr_path a = ''doc'') (field_attrs f) @ [value_type_attribute t])])"

text \<open>What the three tables hold after the fields \<open>fs\<close>.\<close>

definition tables_of :: "Field list \<Rightarrow> SchemaTables" where
  "tables_of fs =
     \<lparr>required_fields = (\<lambda>(i, name). case find (\<lambda>f. field_ident f = Some i) fs of
        None \<Rightarrow> None | Some f \<Rightarrow> mandatory_type f name),
      hide_fields = {(i, name). \<exists>f\<in>set fs. field_ident f = Some i \<and> name \<in> set (removed_in (field_attrs f))},
      all_fields = map (\<lambda>f. (f\<lparr>field_attrs := []\<rparr>, printed f)) (filter (\<lambda>f. printed f \<noteq> []) fs)\<rparr>"

lemma get_metadata_inner_filter:
  "get_metadata_inner parse i (filter (\<lambda>a. attr_path a = i) as) = get_metadata_inner parse i as"
  by (induction as) auto

lemma mandatory_metadata:
  "get_metadata_inner SchemaMeta_parse ''mandatory_in'' (filter is_mandatory_in (field_attrs f)) = field_mandatory f"
  using get_metadata_inner_filter [of SchemaMeta_parse "''mandatory_in''" "field_attrs f"]
  by (simp add: field_mandatory_def is_mandatory_in_def [abs_def])

lemma printed_other: "filter (\<lambda>a. \<not> is_mandatory_in a \<and> is_printed a) (field_attrs f) = printed f"
  unfolding printed_def by (rule filter_cong) (auto simp: is_printed_def is_mandatory_in_def)

lemma hide_loop_eq: "hide_loop i (filter is_remove_in as) hidden = hidden \<union> Pair i ` set (removed_in as)"
  by (induction as arbitrary: hidden) (auto split: sum.splits)

lemma entry_push_present: "k \<notin> fst ` set es \<Longrightarrow> entry_push (es @ [(k, bs)]) k a = es @ [(k, bs @ [a])]"
  by (induction es) auto

lemma entry_push_absent: "k \<notin> fst ` set es \<Longrightarrow> entry_push es k a = es @ [(k, [a])]"
  by (induction es) auto

lemma entry_push_fold_present:
  "k \<notin> fst ` set es \<Longrightarrow> foldl (\<lambda>es a. entry_push es k a) (es @ [(k, bs)]) as = es @ [(k, bs @ as)]"
  by (induction as arbitrary: bs) (auto simp: entry_push_present)

lemma entry_push_fold:
  "k \<notin> fst ` set es \<Longrightarrow>
     foldl (\<lambda>es a. entry_push es k a) es as = es @ (if as = [] then [] else [(k, as)])"
  by (cases as) (auto simp: entry_push_absent entry_push_fold_present)

lemma find_append: "find P (xs @ ys) = (case find P xs of None \<Rightarrow> find P ys | Some x \<Rightarrow> Some x)"
  by (induction xs) auto

lemma schema_field_step:
  assumes i: "field_ident f = Some i" and new: "Some i \<notin> field_ident ` set fs"
    and m: "field_mandatory f = Ok metas"
  shows "schema_field f (tables_of fs) = Ok (tables_of (fs @ [f]))"
proof -
  have fresh: "f\<lparr>field_attrs := []\<rparr> \<notin> fst ` set (all_fields (tables_of fs))"
  proof
    assume "f\<lparr>field_attrs := []\<rparr> \<in> fst ` set (all_fields (tables_of fs))"
    then obtain g where g: "g \<in> set fs" "f\<lparr>field_attrs := []\<rparr> = g\<lparr>field_attrs := []\<rparr>"
      by (auto simp: tables_of_def)
    from arg_cong [OF g(2), of field_ident] i new g(1) show False by force
  qed
  have none: "find (\<lambda>g. field_ident g = Some i) fs = None"
    using new by (force simp: find_None_iff)
  have req: "(case metas of [] \<Rightarrow> required_fields (tables_of fs)
      | meta # _ \<Rightarrow> (required_fields (tables_of fs))((i, struct_name meta) \<mapsto> type_ident meta)) =
    required_fields (tables_of (fs @ [f]))"
    using i none by (auto simp: tables_of_def find_append mandatory_type_def m fun_eq_iff split: list.splits option.splits)
  have hid: "hide_fields (tables_of fs) \<union> Pair i ` set (removed_in (field_attrs f)) =
      hide_fields (tables_of (fs @ [f]))"
    using i by (auto simp: tables_of_def)
  show ?thesis
    using entry_push_fold [OF fresh, of "printed f"] req hid
    by (simp add: schema_field_def mandatory_metadata printed_other m i hide_loop_eq ok_or_def Let_def)
      (simp add: tables_of_def)
qed

lemma schema_loop_tables:
  assumes "distinct (map field_ident (fs @ gs))"
    and "\<forall>f\<in>set gs. field_ident f \<noteq> None \<and> (\<exists>metas. field_mandatory f = Ok metas)"
  shows "schema_loop gs (tables_of fs) = Ok (tables_of (fs @ gs))"
  using assms
proof (induction gs arbitrary: fs)
  case (Cons f gs)
  then obtain i metas where "field_ident f = Some i" "field_mandatory f = Ok metas" by auto
  with Cons.prems have "schema_field f (tables_of fs) = Ok (tables_of (fs @ [f]))"
    by (intro schema_field_step) auto
  with Cons.IH [of "fs @ [f]"] Cons.prems show ?case by simp
qed simp

lemma find_distinct_key:
  "distinct (map k xs) \<Longrightarrow> x \<in> set xs \<Longrightarrow> k x = c \<Longrightarrow> find (\<lambda>y. k y = c) xs = Some x"
  by (induction xs) (auto simp: rev_image_eqI)

lemma schema_entry_field:
  assumes dist: "distinct (map field_ident fs)" and f: "f \<in> set fs" "field_ident f \<noteq> None"
  shows "schema_entry (tables_of fs) name (f\<lparr>field_attrs := []\<rparr>, printed f) =
    (if name \<in> set (removed_in (field_attrs f)) then None
     else Some (f\<lparr>field_attrs := []\<rparr>,
       case mandatory_type f name of
         None \<Rightarrow> printed f
       | Some t \<Rightarrow> filter (\<lambda>a. attr_path a = ''doc'') (field_attrs f) @ [value_type_attribute t]))"
proof -
  from f obtain i where i: "field_ident f = Some i" by blast
  have found: "find (\<lambda>g. field_ident g = Some i) fs = Some f"
    by (rule find_distinct_key [OF dist f(1) i])
  have hid: "(i, name) \<in> hide_fields (tables_of fs) \<longleftrightarrow> name \<in> set (removed_in (field_attrs f))"
    using dist f(1) i by (auto simp: tables_of_def distinct_map inj_on_def)
  have doc: "filter (\<lambda>a. attr_path a \<noteq> ''schema'') (printed f) = filter (\<lambda>a. attr_path a = ''doc'') (field_attrs f)"
    unfolding printed_def filter_filter by (rule filter_cong) (auto simp: is_printed_def)
  have "required_fields (tables_of fs) (i, name) = mandatory_type f name"
    by (simp add: tables_of_def found)
  then show ?thesis
    using hid doc by (auto simp: schema_entry_def i Let_def split: option.splits)
qed

lemma schema_fields_eq:
  assumes dist: "distinct (map field_ident fs)" and ids: "\<forall>f\<in>set fs. field_ident f \<noteq> None"
  shows "List.map_filter (schema_entry (tables_of fs) name) (all_fields (tables_of fs)) =
    concat (map (field_in_schema name) fs)"
proof -
  have "List.map_filter (schema_entry (tables_of fs) name)
      (map (\<lambda>f. (f\<lparr>field_attrs := []\<rparr>, printed f)) (filter (\<lambda>f. printed f \<noteq> []) gs)) =
    concat (map (field_in_schema name) gs)" if "set gs \<subseteq> set fs" for gs
    using that ids
    by (induction gs) (auto simp: schema_entry_field [OF dist] field_in_schema_def List.map_filter_simps)
  then show ?thesis by (simp add: tables_of_def)
qed


text \<open>A request with three fields: the first required in one schema, the second hidden there, and
  the third with nothing to print.\<close>

definition schema_attr :: Attribute where
  "schema_attr = \<lparr>attr_path = ''schema'', attr_args = Some [Assign ''value_type'' (TypePath ''OptionU64'')]\<rparr>"

definition doc_attr :: Attribute where
  "doc_attr = \<lparr>attr_path = ''doc'', attr_args = None\<rparr>"

definition example_fields :: "Field list" where
  "example_fields = [
     \<lparr>field_ident = Some ''amount'', field_ty = TyPath [(''Option'', [TyPath [(''u64'', [])]])],
      field_attrs = [schema_attr, doc_attr,
        \<lparr>attr_path = ''mandatory_in'', attr_args = Some [Assign ''PaymentsCreateRequest'' (TypePath ''u64'')]\<rparr>]\<rparr>,
     \<lparr>field_ident = Some ''client_secret'', field_ty = TyPath [(''String'', [])],
      field_attrs = [doc_attr, \<lparr>attr_path = ''remove_in'', attr_args = Some [Word ''PaymentsCreateRequest'']\<rparr>]\<rparr>,
     \<lparr>field_ident = Some ''currency'', field_ty = TyPath [(''String'', [])], field_attrs = []\<rparr>]"

definition example_request :: DeriveInput where
  "example_request = \<lparr>di_ident = ''PaymentsRequest'',
     di_attrs = [\<lparr>attr_path = ''generate_schemas'', attr_args = Some [Word ''PaymentsCreateRequest'', Word ''PaymentsUpdateRequest'']\<rparr>],
     di_data = DataStruct (Named example_fields)\<rparr>"


section \<open>Operations\<close>

text \<open>An accepted \<open>Operation\<close> has for each flow one implementation on the reference and one on the type, and
  \<open>all\<close> leaves \<open>to_post_update_tracker\<close> out of every one.\<close>

lemma operation_derive_impls:
  assumes "operation_derive_inner cf input = Ok impls"
  obtains metas operations flows where
    "get_metadata_inner (OperationsEnumMeta_parse cf) ''operation'' (di_attrs input) = Ok metas"
    "operation_properties_loop [] [] metas = (operations, flows)" "operations \<noteq> []" "flows \<noteq> []"
    "map oi_req_type impls = map get_req_type flows @ map get_req_type flows"
    "map oi_self impls = replicate (length flows) (''&'' @ di_ident input) @ replicate (length flows) (di_ident input)"
  using assms
  by (auto simp: operation_derive_inner_def get_operation_properties_def Let_def rbind_def
      to_operation_def to_ref_operation_def comp_def map_replicate_const split: sum.splits prod.splits if_splits)

lemma all_has_no_post_update: "GenFn ''to_post_update_tracker'' t r b \<notin> set (gen_function deref All d)"
  by simp

text \<open>The example of the documentation, \<open>#[operation(all)]\<close>, does not parse.\<close>

lemma operation_all_rejected:
  "operation_derive_inner cf \<lparr>di_ident = ''Point'',
     di_attrs = [\<lparr>attr_path = ''operation'', attr_args = Some [Word ''all'']\<rparr>], di_data = DataStruct (Named [])\<rparr> =
   Err ParseError"
  by (simp add: operation_derive_inner_def parse_args_with_def rbind_def)

text \<open>Nor do the other two examples: \<open>storage_type = "pg_enum"\<close>, and \<open>mandatory_in\<close> with a name alone.\<close>

lemma pg_enum_rejected: "\<exists>m. diesel_enum ascii_case_fns (Assign ''storage_type'' (Lit ''pg_enum'')) item = Err (Message m)"
proof -
  have "strum_from_str ascii_case_fns StorageType_decl ''pg_enum'' = None"
    by code_simp
  then show ?thesis by (simp add: diesel_enum_def rbind_def)
qed

lemma mandatory_in_name_rejected: "SchemaMeta_parse (Word name) = Err ParseError"
  by simp

end
