(* ===== verification/Cache.thy ===== *)
theory Cache
  imports Redis_Server Errors
begin

text \<open>
  The caches of \<open>crates/storage_impl\<close> (\<open>redis/cache.rs\<close>, \<open>redis/pub_sub.rs\<close>): the
  invalidation messages, reading through memory and Redis, redacting a key, and the handler of
  invalidation messages.

  The in-memory cache library (moka) is a parameter, the record \<open>('c, 'a) moka\<close> of its
  get, insert and invalidate on a cache state \<open>'c\<close> with dynamically typed values \<open>'a\<close>;
  what the code relies on is the locale \<open>moka_cache\<close>, which leaves eviction open. A world
  is the cache, the Redis server and whatever the loading function \<open>f\<close> works on.
\<close>

section \<open>Invalidation messages (cache.rs)\<close>

datatype CacheKind = Config string | Accounts string | All string

definition CONFIG_CACHE_PREFIX :: string where
  "CONFIG_CACHE_PREFIX = ''config''"

definition ACCOUNTS_CACHE_PREFIX :: string where
  "ACCOUNTS_CACHE_PREFIX = ''accounts''"

definition ALL_CACHE_PREFIX :: string where
  "ALL_CACHE_PREFIX = ''all_cache_kind''"

fun RedisValue_from :: "CacheKind \<Rightarrow> FredValue" where
  "RedisValue_from (Config s) = FredString (CONFIG_CACHE_PREFIX @ '','' @ s)"
| "RedisValue_from (Accounts s) = FredString (ACCOUNTS_CACHE_PREFIX @ '','' @ s)"
| "RedisValue_from (All s) = FredString (ALL_CACHE_PREFIX @ '','' @ s)"

text \<open>\<open>as_string\<close> of the client library is the parameter \<open>as_string\<close>.\<close>

definition CacheKind_try_from ::
  "(FredValue \<Rightarrow> string option) \<Rightarrow> FredValue \<Rightarrow> (ValidationError, CacheKind) result" where
  "CacheKind_try_from as_string kind =
     (let validation_err = InvalidValue ''Invalid publish key provided in pubsub'' in
      case as_string kind of
        None \<Rightarrow> Err validation_err
      | Some kind \<Rightarrow>
          (case split_once CHR '','' kind of
             None \<Rightarrow> Err validation_err
           | Some (prefix, s) \<Rightarrow>
               (if prefix = ACCOUNTS_CACHE_PREFIX then Ok (Accounts s)
                else if prefix = CONFIG_CACHE_PREFIX then Ok (Config s)
                else if prefix = ALL_CACHE_PREFIX then Ok (All s)
                else Err validation_err)))"

section \<open>The cache library\<close>

record ('c, 'a) moka =
  moka_get :: "string \<Rightarrow> 'c \<Rightarrow> 'a option \<times> 'c"
  moka_insert :: "string \<Rightarrow> 'a \<Rightarrow> 'c \<Rightarrow> 'c"
  moka_invalidate :: "string \<Rightarrow> 'c \<Rightarrow> 'c"

text \<open>\<open>up\<close> and \<open>down\<close> are the conversions to and from \<open>dyn Cacheable\<close>.\<close>

definition cache_push :: "('c, 'a) moka \<Rightarrow> ('v \<Rightarrow> 'a) \<Rightarrow> string \<Rightarrow> 'v \<Rightarrow> 'c \<Rightarrow> 'c" where
  "cache_push M up key val = moka_insert M key (up val)"

definition cache_get_val :: "('c, 'a) moka \<Rightarrow> ('a \<Rightarrow> 'v option) \<Rightarrow> string \<Rightarrow> 'c \<Rightarrow> 'v option \<times> 'c" where
  "cache_get_val M down key c = (case moka_get M key c of (v, c') \<Rightarrow> (Option.bind v down, c'))"

definition cache_remove :: "('c, 'a) moka \<Rightarrow> string \<Rightarrow> 'c \<Rightarrow> 'c" where
  "cache_remove M key = moka_invalidate M key"

section \<open>Reading and redacting (cache.rs)\<close>

record ('c, 's, 'd) cache_world =
  cw_cache :: 'c
  cw_redis :: 's
  cw_db :: 'd

definition cw_on_redis :: "('s, 'e, 'b) eff \<Rightarrow> (('c, 's, 'd) cache_world, 'e, 'b) eff" where
  "cw_on_redis m w = (case m (cw_redis w) of (r, s') \<Rightarrow> (r, w\<lparr>cw_redis := s'\<rparr>))"

definition cw_on_db :: "('d, 'e, 'b) eff \<Rightarrow> (('c, 's, 'd) cache_world, 'e, 'b) eff" where
  "cw_on_db m w = (case m (cw_db w) of (r, d') \<Rightarrow> (r, w\<lparr>cw_db := d'\<rparr>))"

definition cache_redis :: "'s RedisConnectionPool \<Rightarrow> (StorageError, 's RedisConnectionPool) result" where
  "cache_redis conn = (if is_redis_available conn then Ok conn else Err (StorageError.RedisError RedisConnectionError))"

definition get_or_populate_redis ::
  "('v \<Rightarrow> string option) \<Rightarrow> (string \<Rightarrow> 'v option) \<Rightarrow> 's RedisConnectionPool \<Rightarrow> string \<Rightarrow>
   ('d, StorageError, 'v) eff \<Rightarrow> (('c, 's, 'd) cache_world, StorageError, 'v) eff" where
  "get_or_populate_redis ser de store key f =
     ebind (elift (cache_redis store)) (\<lambda>redis.
       let get_data_set_redis =
             ebind (cw_on_db f) (\<lambda>data.
               ebind (change_context KVError (cw_on_redis (serialize_and_set_key redis ser key data)))
                 (\<lambda>_. ereturn data))
       in ematch (cw_on_redis (get_and_deserialize_key redis de key))
            (\<lambda>err. if err = RedisError.NotFound \<or> err = JsonDeserializationFailed
               then get_data_set_redis else ethrow KVError)
            ereturn)"

definition get_or_populate_in_memory ::
  "('c, 'a) moka \<Rightarrow> ('v \<Rightarrow> 'a) \<Rightarrow> ('a \<Rightarrow> 'v option) \<Rightarrow> ('v \<Rightarrow> string option) \<Rightarrow> (string \<Rightarrow> 'v option) \<Rightarrow>
   's RedisConnectionPool \<Rightarrow> string \<Rightarrow> ('d, StorageError, 'v) eff \<Rightarrow>
   (('c, 's, 'd) cache_world, StorageError, 'v) eff" where
  "get_or_populate_in_memory M up down ser de store key f w =
     (case cache_get_val M down key (cw_cache w) of
        (Some val, c') \<Rightarrow> (Ok val, w\<lparr>cw_cache := c'\<rparr>)
      | (None, c') \<Rightarrow>
          ebind (get_or_populate_redis ser de store key f)
            (\<lambda>val w'. (Ok val, w'\<lparr>cw_cache := cache_push M up key val (cw_cache w')\<rparr>))
            (w\<lparr>cw_cache := c'\<rparr>))"

text \<open>\<open>in_memory\<close> says whether a cache is passed.\<close>

definition redact_cache ::
  "('c, 'a) moka \<Rightarrow> 's RedisConnectionPool \<Rightarrow> string \<Rightarrow> ('d, StorageError, 't) eff \<Rightarrow> bool \<Rightarrow>
   (('c, 's, 'd) cache_world, StorageError, 't) eff" where
  "redact_cache M store key f in_memory =
     ebind (cw_on_db f) (\<lambda>data w.
       (let w' = (if in_memory then w\<lparr>cw_cache := moka_invalidate M key (cw_cache w)\<rparr> else w) in
        ebind (elift (cache_redis store)) (\<lambda>conn.
          ebind (change_context KVError (cw_on_redis (delete_key conn key))) (\<lambda>_. ereturn data)) w'))"

definition PUB_SUB_CHANNEL :: string where
  "PUB_SUB_CHANNEL = ''hyperswitch_invalidate''"

text \<open>\<open>publish\<close> of \<open>pub_sub.rs\<close> reports a failure as \<open>SubscribeError\<close>.\<close>

definition publish :: "'s RedisConnectionPool \<Rightarrow> string \<Rightarrow> CacheKind \<Rightarrow> ('s, RedisError, nat) eff" where
  "publish self channel key =
     change_context SubscribeError (fred_publish (pool self) channel (RedisValue_from key))"

definition publish_into_redact_channel ::
  "'s RedisConnectionPool \<Rightarrow> CacheKind \<Rightarrow> (('c, 's, 'd) cache_world, StorageError, nat) eff" where
  "publish_into_redact_channel store key =
     ebind (elift (cache_redis store)) (\<lambda>conn.
       change_context KVError (cw_on_redis (publish conn PUB_SUB_CHANNEL key)))"

definition publish_and_redact ::
  "'s RedisConnectionPool \<Rightarrow> CacheKind \<Rightarrow> ('d, StorageError, 't) eff \<Rightarrow>
   (('c, 's, 'd) cache_world, StorageError, 't) eff" where
  "publish_and_redact store key f =
     ebind (cw_on_db f) (\<lambda>data. ebind (publish_into_redact_channel store key) (\<lambda>_. ereturn data))"

section \<open>Handling messages (pub\_sub.rs)\<close>

text \<open>The two process-wide caches and Redis; the loop over the messages received.\<close>

type_synonym ('c, 's) caches = "('c \<times> 'c) \<times> 's"

fun invalidate_kind :: "('c, 'a) moka \<Rightarrow> CacheKind \<Rightarrow> 'c \<times> 'c \<Rightarrow> string \<times> ('c \<times> 'c)" where
  "invalidate_kind M (Config key) (config_cache, accounts_cache) =
     (key, (moka_invalidate M key config_cache, accounts_cache))"
| "invalidate_kind M (Accounts key) (config_cache, accounts_cache) =
     (key, (config_cache, moka_invalidate M key accounts_cache))"
| "invalidate_kind M (All key) (config_cache, accounts_cache) =
     (key, (moka_invalidate M key config_cache, moka_invalidate M key accounts_cache))"

definition handle_message ::
  "('c, 'a) moka \<Rightarrow> (FredValue \<Rightarrow> string option) \<Rightarrow> 's RedisConnectionPool \<Rightarrow> FredValue \<Rightarrow>
   ('c, 's) caches \<Rightarrow> ('c, 's) caches" where
  "handle_message M as_string self message st =
     (case CacheKind_try_from as_string message of
        Inl err \<Rightarrow> st
      | Inr kind \<Rightarrow>
          (case invalidate_kind M kind (fst st) of
             (key, cs) \<Rightarrow> (cs, snd (delete_key self key (snd st)))))"

definition on_message ::
  "('c, 'a) moka \<Rightarrow> (FredValue \<Rightarrow> string option) \<Rightarrow> 's RedisConnectionPool \<Rightarrow> FredValue list \<Rightarrow>
   ('c, 's) caches \<Rightarrow> ('c, 's) caches" where
  "on_message M as_string self messages st = fold (handle_message M as_string self) messages st"

section \<open>What a cache promises\<close>

text \<open>\<open>held c k\<close> bounds what a lookup of \<open>k\<close> can return; an entry can be evicted at any
  time.\<close>

locale moka_cache =
  fixes M :: "('c, 'a) moka" and held :: "'c \<Rightarrow> string \<rightharpoonup> 'a"
  assumes get_held: "moka_get M k c = (Some v, c') \<Longrightarrow> held c k = Some v"
    and get_keeps: "moka_get M k c = (x, c') \<Longrightarrow> held c' \<subseteq>\<^sub>m held c"
    and insert_held: "held (moka_insert M k v c) \<subseteq>\<^sub>m (held c)(k \<mapsto> v)"
    and invalidate_held: "held (moka_invalidate M k c) \<subseteq>\<^sub>m (held c)(k := None)"
begin

lemma get_val_held: "cache_get_val M down k c = (Some v, c') \<Longrightarrow> \<exists>a. held c k = Some a \<and> down a = Some v"
  by (auto simp: cache_get_val_def bind_eq_Some_conv split: prod.splits dest: get_held)

lemma get_val_None: "held c k = None \<Longrightarrow> fst (cache_get_val M down k c) = None"
  by (cases "cache_get_val M down k c"; cases "fst (cache_get_val M down k c)") (auto dest: get_val_held)

lemma invalidated: "held (moka_invalidate M k c) k = None"
  using invalidate_held [of k c] by (auto simp: map_le_def dom_def)

end

text \<open>A map without eviction is such a cache.\<close>

definition map_moka :: "(string \<rightharpoonup> 'a, 'a) moka" where
  "map_moka = \<lparr>moka_get = (\<lambda>k c. (c k, c)), moka_insert = (\<lambda>k v c. c(k \<mapsto> v)), moka_invalidate = (\<lambda>k c. c(k := None))\<rparr>"

interpretation map_cache: moka_cache map_moka "\<lambda>c. c"
  by unfold_locales (auto simp: map_moka_def)

section \<open>Properties\<close>

text \<open>An invalidation message survives the channel: what \<open>publish\<close> sends is read by
  \<open>on_message\<close> as the same kind and key, also when the key itself contains commas.\<close>

theorem cache_kind_roundtrip:
  assumes "\<And>s. as_string (FredString s) = Some s"
  shows "CacheKind_try_from as_string (RedisValue_from kind) = Ok kind"
proof -
  have "split_once CHR '','' (CONFIG_CACHE_PREFIX @ CHR '','' # s) = Some (CONFIG_CACHE_PREFIX, s)"
    "split_once CHR '','' (ACCOUNTS_CACHE_PREFIX @ CHR '','' # s) = Some (ACCOUNTS_CACHE_PREFIX, s)"
    "split_once CHR '','' (ALL_CACHE_PREFIX @ CHR '','' # s) = Some (ALL_CACHE_PREFIX, s)" for s
    by (simp_all add: split_once_append CONFIG_CACHE_PREFIX_def ACCOUNTS_CACHE_PREFIX_def ALL_CACHE_PREFIX_def)
  then show ?thesis
    using assms by (cases kind) (simp_all add: CacheKind_try_from_def CONFIG_CACHE_PREFIX_def
      ACCOUNTS_CACHE_PREFIX_def ALL_CACHE_PREFIX_def Let_def)
qed

theorem cache_kind_roundtrip_witness:
  "CacheKind_try_from mem_as_string (RedisValue_from (Config ''a,b'')) = Ok (Config ''a,b'')"
  by (rule cache_kind_roundtrip) (simp add: mem_as_string_def)


definition demo_cache_pool :: "mem RedisConnectionPool" where
  "demo_cache_pool = \<lparr>pool = mem_fred, config = RedisConfig_from RedisSettings_default, is_redis_available = True\<rparr>"

definition demo_cache_world :: "(string \<rightharpoonup> string, mem, string) cache_world" where
  "demo_cache_world = \<lparr>cw_cache = [''k'' \<mapsto> ''old''], cw_redis = mem_init, cw_db = ''old''\<rparr>"

definition demo_cache_after :: "(string \<rightharpoonup> string, mem, string) cache_world" where
  "demo_cache_after = \<lparr>cw_cache = Map.empty, cw_redis = mem_init, cw_db = ''new''\<rparr>"

lemma demo_redact_run:
  "redact_cache map_moka demo_cache_pool ''k'' (\<lambda>d. (Ok (), ''new'')) True demo_cache_world = (Ok (), demo_cache_after)"
  by (simp add: redact_cache_def cw_on_db_def cw_on_redis_def cache_redis_def eff_simps map_moka_def
    delete_key_def mem_fred_def mem_del_def mem_init_def DelReply_from_value_def demo_cache_pool_def
    demo_cache_world_def demo_cache_after_def)

definition demo_read ::
  "(StorageError, string) result \<times> (string \<rightharpoonup> string, mem, string) cache_world" where
  "demo_read = get_or_populate_in_memory map_moka (\<lambda>v. v) Some Some Some demo_cache_pool ''k'' (\<lambda>d. (Ok d, d))
     demo_cache_after"

lemma demo_read_run: "\<exists>w. demo_read = (Ok ''new'', w)"
  by (simp add: demo_read_def demo_cache_after_def get_or_populate_in_memory_def get_or_populate_redis_def
    cache_get_val_def cw_on_redis_def cw_on_db_def cache_redis_def eff_simps map_moka_def demo_cache_pool_def
    get_and_deserialize_key_def get_key_def when_pred_def serialize_and_set_key_def set_key_def mem_fred_def mem_init_def mem_get_def mem_set_def
    encode_to_vec_def)


end
