(* ===== verification/Drainer.thy ===== *)
theory Drainer
  imports Redis_Server Errors
begin

text \<open>
  \<open>crates/drainer\<close> with \<open>diesel_models/src/kv.rs\<close>: the service that moves queued
  database writes from the sharded Redis streams into the database. Stream names and flags,
  reading and trimming (\<open>stream.rs\<close>), decoding (\<open>types.rs\<close>, \<open>utils.rs\<close>), running
  one query (\<open>query.rs\<close>), one drain session and the handler around it, and the round robin
  over the shards (\<open>handler.rs\<close>, \<open>utils.rs\<close>).

  Logging, metrics and tracing are left out. The database is a parameter: \<open>exec op\<close> is
  \<open>DBOperation::execute\<close> on a connection, an effect over a database state \<open>'d\<close>.
  \<open>Insertable\<close> and \<open>Updateable\<close> have no variant left in \<open>kv.rs\<close> (all are commented
  out), so the payload of an operation is a type parameter and \<open>parse_op\<close>, serde's reading
  of it, is a parameter too.
\<close>

section \<open>Database operations (kv.rs)\<close>

datatype ('ins, 'upd) DBOperation = Insert 'ins | Update 'upd

fun DBOperation_operation :: "('ins, 'upd) DBOperation \<Rightarrow> string" where
  "DBOperation_operation (Insert _) = ''insert''"
| "DBOperation_operation (Update _) = ''update''"

definition DBOperation_table :: "('ins, 'upd) DBOperation \<Rightarrow> string" where
  "DBOperation_table op = ''default''"

text \<open>\<open>TypedSql::to_field_value_pairs\<close>: the fields pushed onto a stream. \<open>to_json\<close> is
  serde's rendering of the operation, \<open>now\<close> the time stamp.\<close>

definition to_field_value_pairs ::
  "('op \<Rightarrow> string option) \<Rightarrow> int \<Rightarrow> 'op \<Rightarrow> string \<Rightarrow> string \<Rightarrow> (DatabaseError, (string \<times> string) list) result" where
  "to_field_value_pairs to_json now op request_id global_id =
     (case to_json op of
        None \<Rightarrow> Err QueryGenerationFailed
      | Some js \<Rightarrow> Ok [(''typed_sql'', js), (''global_id'', global_id),
                      (''request_id'', request_id), (''pushed_at'', show_int now)])"

section \<open>Decoding a stream entry (types.rs, utils.rs)\<close>

record 'op StreamData =
  request_id :: string
  global_id :: string
  typed_sql :: 'op
  pushed_at :: int

text \<open>The JSON values the two field decoders look at: a number is what \<open>as_i64\<close> says of it.\<close>

datatype JsonValue = JString string | JNumber "int option" | JOther

fun deserialize_i64 :: "JsonValue \<Rightarrow> int option" where
  "deserialize_i64 (JString s) = parse_i64 s"
| "deserialize_i64 (JNumber n) = n"
| "deserialize_i64 JOther = None"

fun deserialize_db_op :: "(string \<Rightarrow> 'op option) \<Rightarrow> JsonValue \<Rightarrow> 'op option" where
  "deserialize_db_op parse_op (JString s) = parse_op s"
| "deserialize_db_op parse_op _ = None"

text \<open>Every field of an entry arrives as a string; a missing field or one that does not decode
  fails the whole struct.\<close>

definition StreamData_from_hashmap ::
  "(string \<Rightarrow> 'op option) \<Rightarrow> (string \<rightharpoonup> string) \<Rightarrow> (ParsingError, 'op StreamData) result" where
  "StreamData_from_hashmap parse_op m =
     (case (m ''request_id'', m ''global_id'',
            Option.bind (m ''typed_sql'') (\<lambda>v. deserialize_db_op parse_op (JString v)),
            Option.bind (m ''pushed_at'') (\<lambda>v. deserialize_i64 (JString v))) of
        (Some r, Some g, Some op, Some t) \<Rightarrow>
          Ok \<lparr>request_id = r, global_id = g, typed_sql = op, pushed_at = t\<rparr>
      | _ \<Rightarrow> Err (StructParseFailure ''StreamData''))"

section \<open>Errors, store and world\<close>

datatype DrainerError =
    ConfigParsingError string
  | RedisError RedisError
  | ConfigurationError string
  | SignalError string
  | ParsingError ParsingError
  | UnexpectedError string
  | IoError string

record 's Store =
  redis_conn :: "'s RedisConnectionPool"
  drainer_stream_name :: string
  drainer_num_partitions :: "8 word"

text \<open>What a drainer process shares: the Redis server, the database, and the two atomic
  counters.\<close>

record ('s, 'd) world =
  w_redis :: 's
  w_db :: 'd
  w_jobs_picked :: "8 word"
  w_active_tasks :: "64 word"

definition on_redis :: "('s, 'e, 'a) eff \<Rightarrow> (('s, 'd) world, 'e, 'a) eff" where
  "on_redis m w = (case m (w_redis w) of (r, s') \<Rightarrow> (r, w\<lparr>w_redis := s'\<rparr>))"

section \<open>Streams (stream.rs)\<close>

definition drainer_stream :: "'s Store \<Rightarrow> string \<Rightarrow> string" where
  "drainer_stream self shard_key = ''{'' @ shard_key @ ''}_'' @ drainer_stream_name self"

definition get_drainer_stream_name :: "'s Store \<Rightarrow> 8 word \<Rightarrow> string" where
  "get_drainer_stream_name self stream_index =
     drainer_stream self (''shard_'' @ show_nat (unat stream_index))"

definition get_stream_key_flag :: "'s Store \<Rightarrow> 8 word \<Rightarrow> string" where
  "get_stream_key_flag self stream_index = get_drainer_stream_name self stream_index @ ''_in_use''"

text \<open>The flag is taken with SET NX; an error counts as not available.\<close>

definition is_stream_available :: "'s Store \<Rightarrow> 8 word \<Rightarrow> 's \<Rightarrow> bool \<times> 's" where
  "is_stream_available self stream_index s =
     (case set_key_if_not_exists_with_expiry (redis_conn self)
             (get_stream_key_flag self stream_index) ''true'' None s of
        (Inr resp, s') \<Rightarrow> (resp = SetnxReply.KeySet, s')
      | (Inl err, s') \<Rightarrow> (False, s'))"

definition make_stream_available :: "'s Store \<Rightarrow> string \<Rightarrow> ('s, DrainerError, unit) eff" where
  "make_stream_available self stream_name_flag =
     ematch (delete_key (redis_conn self) stream_name_flag)
       (\<lambda>err. ethrow (RedisError err))
       (\<lambda>reply. case reply of KeyDeleted \<Rightarrow> ereturn () | KeyNotDeleted \<Rightarrow> ereturn ())"

definition read_from_stream ::
  "'s Store \<Rightarrow> string \<Rightarrow> 64 word \<Rightarrow> ('s, DrainerError, StreamReadResult) eff" where
  "read_from_stream self stream_name max_read_count =
     emap_err RedisError
       (stream_read_entries (redis_conn self) stream_name (XidManual ''0-0'') (Some max_read_count))"

text \<open>XTRIM MINID keeps the given id, which is deleted separately and counted by the
  \<open>+ 1\<close>.\<close>

definition trim_from_stream :: "'s Store \<Rightarrow> string \<Rightarrow> string \<Rightarrow> ('s, DrainerError, nat) eff" where
  "trim_from_stream self stream_name minimum_entry_id =
     ebind (emap_err RedisError
              (stream_trim_entries (redis_conn self) stream_name (MinID, Exact, minimum_entry_id)))
       (\<lambda>trim_result. ebind (emap_err RedisError
              (stream_delete_entries (redis_conn self) stream_name [minimum_entry_id]))
          (\<lambda>_. ereturn (trim_result + 1)))"

section \<open>One drain session (utils.rs, query.rs, handler.rs)\<close>

definition parse_stream_entries ::
  "StreamReadResult \<Rightarrow> string \<Rightarrow> (DrainerError, StreamEntry list) result" where
  "parse_stream_entries read_result stream_name =
     (case read_result stream_name of
        None \<Rightarrow> Err (RedisError RedisError.NotFound)
      | Some es \<Rightarrow> Ok es)"

text \<open>The loop over the entries: it stops at the first entry that does not decode or whose
  query fails, except that a unique violation counts as done. It returns the id of the last
  entry that is done, empty when there is none.\<close>

fun drain_entries ::
  "(string \<Rightarrow> 'op option) \<Rightarrow> ('op \<Rightarrow> ('d, DatabaseError, unit) eff) \<Rightarrow>
   StreamEntry list \<Rightarrow> string \<Rightarrow> 'd \<Rightarrow> string \<times> 'd" where
  "drain_entries parse_op exec [] last_processed_id d = (last_processed_id, d)"
| "drain_entries parse_op exec ((entry_id, entry) # entries) last_processed_id d =
     (case StreamData_from_hashmap parse_op entry of
        Inl err \<Rightarrow> (last_processed_id, d)
      | Inr data \<Rightarrow>
          (case exec (typed_sql data) d of
             (Inr _, d') \<Rightarrow> drain_entries parse_op exec entries entry_id d'
           | (Inl UniqueViolation, d') \<Rightarrow> drain_entries parse_op exec entries entry_id d'
           | (Inl _, d') \<Rightarrow> (last_processed_id, d')))"

definition drainer ::
  "(string \<Rightarrow> 'op option) \<Rightarrow> ('op \<Rightarrow> ('d, DatabaseError, unit) eff) \<Rightarrow>
   's Store \<Rightarrow> 64 word \<Rightarrow> string \<Rightarrow> (('s, 'd) world, DrainerError, unit) eff" where
  "drainer parse_op exec store max_read_count stream_name =
     ematch (on_redis (read_from_stream store stream_name max_read_count))
       (\<lambda>error. if error = RedisError StreamEmptyOrNotAvailable then ereturn () else ethrow error)
       (\<lambda>stream_read w0.
          (let w = w0\<lparr>w_jobs_picked := w_jobs_picked w0 + 1\<rparr> in
           case parse_stream_entries stream_read stream_name of
             Inl e \<Rightarrow> (Err e, w)
           | Inr entries \<Rightarrow>
               (case drain_entries parse_op exec entries [] (w_db w) of
                  (last_processed_id, d') \<Rightarrow>
                    (let w' = w\<lparr>w_db := d'\<rparr> in
                     if last_processed_id \<noteq> []
                     then ebind (on_redis (trim_from_stream store stream_name last_processed_id))
                            (\<lambda>entries_trimmed. ereturn ()) w'
                     else (Ok (), w')))))"

text \<open>The spawned task: it counts itself, drains, logs a drain error, frees the flag.\<close>

definition drainer_handler ::
  "(string \<Rightarrow> 'op option) \<Rightarrow> ('op \<Rightarrow> ('d, DatabaseError, unit) eff) \<Rightarrow>
   's Store \<Rightarrow> 8 word \<Rightarrow> 64 word \<Rightarrow> (('s, 'd) world, DrainerError, unit) eff" where
  "drainer_handler parse_op exec store stream_index max_read_count w =
     (let w1 = w\<lparr>w_active_tasks := w_active_tasks w + 1\<rparr>;
          w2 = snd (drainer parse_op exec store max_read_count
                      (get_drainer_stream_name store stream_index) w1)
      in case on_redis (make_stream_available store (get_stream_key_flag store stream_index)) w2 of
           (output, w3) \<Rightarrow> (output, w3\<lparr>w_active_tasks := w_active_tasks w3 - 1\<rparr>))"

section \<open>Round robin over the shards (utils.rs)\<close>

text \<open>Returns the next index and the new value of \<open>jobs_picked\<close>. The subtraction is on
  \<open>u8\<close>; with no partition it wraps to 255 in a release build (and panics in a debug
  build).\<close>

definition increment_stream_index :: "8 word \<times> 8 word \<Rightarrow> 8 word \<Rightarrow> 8 word \<times> 8 word" where
  "increment_stream_index ij total_streams =
     (case ij of (index, jobs_picked) \<Rightarrow>
        if index = total_streams - 1 then (0, 0) else (index + 1, jobs_picked))"

record DrainerSettings =
  stream_name :: string
  num_partitions :: "8 word"
  max_read_count :: "64 word"
  shutdown_interval :: "32 word"
  loop_interval :: "32 word"

definition DrainerSettings_default :: DrainerSettings where
  "DrainerSettings_default = \<lparr>stream_name = ''DRAINER_STREAM'', num_partitions = 64,
     max_read_count = 100, shutdown_interval = 1000, loop_interval = 100\<rparr>"

definition DrainerSettings_validate :: "DrainerSettings \<Rightarrow> (DrainerError, unit) result" where
  "DrainerSettings_validate self =
     when_pred (is_default_or_empty (stream_name self))
       (Err (ConfigParsingError ''drainer stream name must not be empty''))"

text \<open>One turn of the loop in \<open>Handler::spawn\<close>: whether a handler is started for the
  current shard, and the next shard.\<close>

definition spawn_turn :: "'s Store \<Rightarrow> 8 word \<times> 8 word \<Rightarrow> 's \<Rightarrow> (bool \<times> 8 word \<times> 8 word) \<times> 's" where
  "spawn_turn store ij s =
     (case is_stream_available store (fst ij) s of
        (available, s') \<Rightarrow>
          ((available, increment_stream_index ij (drainer_num_partitions store)), s'))"

end
