(* ===== verification/Secret_Settings.thy ===== *)
theory Secret_Settings
  imports Secret_Managers Drainer
begin

text \<open>
  From stored settings to usable ones: the settings of the drainer and their validation
  (\<open>drainer/src/settings.rs\<close>, without the section for the logger, which it hands on unchanged) and the decryption of
  every secret of the settings at the start of the two services (\<open>data_models/src/configs/secrets_transformers.rs\<close>,
  \<open>drainer/src/secrets_transformers.rs\<close>).

  A container of a secret in either state is its content: the state is a phantom type. A panic carries the message of its \<open>expect\<close>. The concurrent requests of \<open>try_join!\<close> run in order.
\<close>

section \<open>Decrypting the sections\<close>

definition Database_convert_to_raw_secret ::
  "Database \<Rightarrow> 'w secret_client \<Rightarrow> ('w, SecretsManagementError, Database) eff" where
  "Database_convert_to_raw_secret value client =
     ebind (client (db_password value)) (\<lambda>db_password. ereturn (value\<lparr>db_password := db_password\<rparr>))"

record Jwekey =
  vault_encryption_key :: string
  rust_locker_encryption_key :: string
  vault_private_key :: string
  tunnel_private_key :: string

definition Jwekey_convert_to_raw_secret ::
  "Jwekey \<Rightarrow> 'w secret_client \<Rightarrow> ('w, SecretsManagementError, Jwekey) eff" where
  "Jwekey_convert_to_raw_secret value client =
     ebind (client (vault_encryption_key value)) (\<lambda>a.
     ebind (client (rust_locker_encryption_key value)) (\<lambda>b.
     ebind (client (vault_private_key value)) (\<lambda>c.
     ebind (client (tunnel_private_key value)) (\<lambda>d.
       ereturn \<lparr>vault_encryption_key = a, rust_locker_encryption_key = b, vault_private_key = c, tunnel_private_key = d\<rparr>))))"

definition ApiKeys_convert_to_raw_secret ::
  "ApiKeysConfig \<Rightarrow> 'w secret_client \<Rightarrow> ('w, SecretsManagementError, ApiKeysConfig) eff" where
  "ApiKeys_convert_to_raw_secret value client =
     ebind (client (cfg_hash_key value)) (\<lambda>hash_key. ereturn \<lparr>cfg_hash_key = hash_key\<rparr>)"

definition Secrets_convert_to_raw_secret ::
  "Secrets \<Rightarrow> 'w secret_client \<Rightarrow> ('w, SecretsManagementError, Secrets) eff" where
  "Secrets_convert_to_raw_secret value client =
     ebind (client (sec_jwt_secret value)) (\<lambda>a.
     ebind (client (sec_admin_api_key value)) (\<lambda>b.
     ebind (client (sec_recon_admin_api_key value)) (\<lambda>c.
     ebind (client (sec_master_enc_key value)) (\<lambda>d.
       ereturn \<lparr>sec_jwt_secret = a, sec_admin_api_key = b, sec_recon_admin_api_key = c, sec_master_enc_key = d\<rparr>))))"

record FullSettings = Settings +
  st_jwekey :: Jwekey

text \<open>\<open>expect\<close>.\<close>

definition expect :: "string \<Rightarrow> ('w, 'e, 'a) eff \<Rightarrow> ('w, string, 'a) eff" where
  "expect message m = change_context message m"

definition fetch_raw_secrets :: "FullSettings \<Rightarrow> 'w secret_client \<Rightarrow> ('w, string, FullSettings) eff" where
  "fetch_raw_secrets conf client =
     ebind (expect ''Failed to decrypt master database configuration''
              (Database_convert_to_raw_secret (st_master_database conf) client)) (\<lambda>master_database.
     ebind (expect ''Failed to decrypt secrets'' (Secrets_convert_to_raw_secret (st_secrets conf) client)) (\<lambda>secrets.
     ebind (expect ''Failed to decrypt jwekey configs'' (Jwekey_convert_to_raw_secret (st_jwekey conf) client)) (\<lambda>jwekey.
     ebind (expect ''Failed to decrypt api_keys configs'' (ApiKeys_convert_to_raw_secret (st_api_keys conf) client)) (\<lambda>api_keys.
       ereturn (conf\<lparr>st_master_database := master_database, st_secrets := secrets, st_jwekey := jwekey, st_api_keys := api_keys\<rparr>)))))"

section \<open>The settings of the drainer\<close>

record DrainerServer =
  drs_port :: "16 word"
  drs_workers :: nat
  drs_host :: string

definition DrainerServer_default :: DrainerServer where
  "DrainerServer_default = \<lparr>drs_port = 8080, drs_workers = 1, drs_host = ''127.0.0.1''\<rparr>"

record DrainerDatabase =
  drd_username :: string
  drd_password :: string
  drd_host :: string
  drd_port :: "16 word"
  drd_dbname :: string
  drd_pool_size :: "32 word"
  drd_connection_timeout :: "64 word"

definition DrainerDatabase_default :: DrainerDatabase where
  "DrainerDatabase_default = \<lparr>drd_username = [], drd_password = [], drd_host = ''localhost'', drd_port = 5432,
     drd_dbname = [], drd_pool_size = 5, drd_connection_timeout = 10\<rparr>"

record DrainerConf =
  drc_server :: DrainerServer
  drc_master_database :: DrainerDatabase
  drc_redis :: RedisSettings
  drc_drainer :: DrainerSettings
  drc_encryption_management :: EncryptionManagementConfig
  drc_secrets_management :: SecretsManagementConfig

definition config_error :: "bool \<Rightarrow> string \<Rightarrow> (DrainerError, unit) result" where
  "config_error bad message = when_pred bad (Err (ConfigParsingError message))"

definition DrainerServer_validate :: "DrainerServer \<Rightarrow> (DrainerError, unit) result" where
  "DrainerServer_validate self = config_error (is_default_or_empty (drs_host self)) ''server host must not be empty''"

definition DrainerDatabase_validate :: "DrainerDatabase \<Rightarrow> (DrainerError, unit) result" where
  "DrainerDatabase_validate self =
     rbind (config_error (is_default_or_empty (drd_host self)) ''database host must not be empty'') (\<lambda>_.
     rbind (config_error (is_default_or_empty (drd_dbname self)) ''database name must not be empty'') (\<lambda>_.
     rbind (config_error (is_default_or_empty (drd_username self)) ''database user username must not be empty'') (\<lambda>_.
       config_error (is_default_or_empty (drd_password self)) ''database user password must not be empty'')))"

definition relabel :: "string \<Rightarrow> ('e, unit) result \<Rightarrow> (DrainerError, unit) result" where
  "relabel message r = (case r of Inl _ \<Rightarrow> Err (ConfigParsingError message) | Inr u \<Rightarrow> Ok u)"

definition DrainerConf_validate :: "DrainerConf \<Rightarrow> (DrainerError, unit) result" where
  "DrainerConf_validate self =
     rbind (DrainerServer_validate (drc_server self)) (\<lambda>_.
     rbind (DrainerDatabase_validate (drc_master_database self)) (\<lambda>_.
     rbind (relabel ''invalid Redis configuration'' (RedisSettings_validate (drc_redis self))) (\<lambda>_.
     rbind (DrainerSettings_validate (drc_drainer self)) (\<lambda>_.
     rbind (relabel ''invalid secrets management configuration''
              (SecretsManagementConfig_validate (drc_secrets_management self))) (\<lambda>_.
     rbind (relabel ''invalid encryption management configuration''
              (EncryptionManagementConfig_validate (drc_encryption_management self))) (\<lambda>_. Ok ()))))))"

definition DrainerDatabase_convert_to_raw_secret ::
  "DrainerDatabase \<Rightarrow> 'w secret_client \<Rightarrow> ('w, SecretsManagementError, DrainerDatabase) eff" where
  "DrainerDatabase_convert_to_raw_secret value client =
     ebind (client (drd_password value)) (\<lambda>raw_db_password. ereturn (value\<lparr>drd_password := raw_db_password\<rparr>))"

definition drainer_fetch_raw_secrets :: "DrainerConf \<Rightarrow> 'w secret_client \<Rightarrow> ('w, string, DrainerConf) eff" where
  "drainer_fetch_raw_secrets conf client =
     ebind (expect ''Failed to decrypt database password''
              (DrainerDatabase_convert_to_raw_secret (drc_master_database conf) client)) (\<lambda>database.
       ereturn (conf\<lparr>drc_master_database := database\<rparr>))"

record 'w DrainerAppState =
  app_conf :: DrainerConf
  app_encryption_client :: "'w encryption_client"

definition drainer_AppState_new :: "'w cloud \<Rightarrow> DrainerConf \<Rightarrow> ('w, string, 'w DrainerAppState) eff" where
  "drainer_AppState_new cloud conf =
     ebind (expect ''Failed to create secret management client''
              (elift (get_secret_management_client cloud (drc_secrets_management conf)))) (\<lambda>client.
     ebind (drainer_fetch_raw_secrets conf client) (\<lambda>raw_conf.
     ebind (expect ''Failed to create encryption management client''
              (elift (get_encryption_management_client cloud (drc_encryption_management raw_conf)))) (\<lambda>encryption_client.
       ereturn \<lparr>app_conf = raw_conf, app_encryption_client = encryption_client\<rparr>)))"

section \<open>Properties\<close>

text \<open>Validation runs on the settings before they are decrypted. Whatever the client returns, decrypting changes
  the secrets only; a failure of any of them is a panic.\<close>

lemma fetch_raw_secrets_frame:
  assumes "fetch_raw_secrets conf client w = (Ok raw, w')"
  shows "\<exists>d s j a. raw = conf\<lparr>st_master_database := (st_master_database conf)\<lparr>db_password := d\<rparr>, st_secrets := s,
    st_jwekey := j, st_api_keys := a\<rparr>"
  using assms
  by (auto simp: fetch_raw_secrets_def expect_def Database_convert_to_raw_secret_def eff_simps
      split: sum.splits prod.splits)

definition secret_texts :: "FullSettings \<Rightarrow> string list" where
  "secret_texts conf = [db_password (st_master_database conf),
     sec_jwt_secret (st_secrets conf), sec_admin_api_key (st_secrets conf), sec_recon_admin_api_key (st_secrets conf),
     sec_master_enc_key (st_secrets conf), vault_encryption_key (st_jwekey conf), rust_locker_encryption_key (st_jwekey conf),
     vault_private_key (st_jwekey conf), tunnel_private_key (st_jwekey conf), cfg_hash_key (st_api_keys conf)]"

text \<open>Without encryption the settings that pass validation are the ones in use.\<close>

lemma no_encryption_identity:
  assumes "\<forall>s\<in>set (secret_texts conf). utf8_valid s"
  shows "fetch_raw_secrets conf NoEncryption_get_secret w = (Ok conf, w)"
  using assms
  by (simp add: fetch_raw_secrets_def expect_def NoEncryption_get_secret_def NoEncryption_decrypt_def from_utf8_def secret_texts_def
      Database_convert_to_raw_secret_def Secrets_convert_to_raw_secret_def Jwekey_convert_to_raw_secret_def
      ApiKeys_convert_to_raw_secret_def eff_simps)

text \<open>C30: the drainer starts with the decrypted password and nothing else changed. With AWS as the secrets
  manager, settings that hold the base64 text of a ciphertext of the password become settings with the password,
  whatever was encrypted since, and the same in every other field; they were validated before. Settings that hold a text
  which is not base64 make the start panic.\<close>

theorem drainer_starts_with_password:
  assumes service: "kms_service (cl_kms cloud region) (cl_base64 cloud) opens"
    and conf: "drc_secrets_management conf = AwsKms key_id region" "drd_password (drc_master_database conf) = secret"
  shows "(opens w key_id c password \<and> utf8_valid password \<and> secret = b64_encode (cl_base64 cloud) c \<longrightarrow>
      (\<exists>app w'. drainer_AppState_new cloud conf w = (Ok app, w') \<and>
         app_conf app = conf\<lparr>drc_master_database := (drc_master_database conf)\<lparr>drd_password := password\<rparr>\<rparr>)) \<and>
    (b64_decode (cl_base64 cloud) secret = None \<longrightarrow>
      drainer_AppState_new cloud conf w = (Err ''Failed to decrypt database password'', w))"
proof -
  let ?kms = "\<lparr>inner_client = cl_kms cloud region, kms_key_id = key_id\<rparr>"
  note start = drainer_AppState_new_def get_secret_management_client_def drainer_fetch_raw_secrets_def expect_def
    DrainerDatabase_convert_to_raw_secret_def AwsKms_get_secret_def AwsKmsClient_new_def conf eff_simps
  have "\<exists>e. get_encryption_management_client cloud em = Ok e" for em by (cases em) simp_all
  then obtain e where e: "get_encryption_management_client cloud (drc_encryption_management conf) = Ok e" by blast
  have "\<exists>app w'. drainer_AppState_new cloud conf w = (Ok app, w') \<and>
      app_conf app = conf\<lparr>drc_master_database := (drc_master_database conf)\<lparr>drd_password := password\<rparr>\<rparr>"
    if "opens w key_id c password" "utf8_valid password" "secret = b64_encode (cl_base64 cloud) c"
  proof -
    from kms_service.client_decrypt [OF service that(1)] that(2,3) obtain w' where
      "AwsKmsClient_decrypt (cl_base64 cloud) ?kms secret w = (Ok password, w')"
      by (cases "AwsKmsClient_decrypt (cl_base64 cloud) ?kms secret w") (simp add: from_utf8_def)
    then show ?thesis using e by (simp add: start)
  qed
  moreover have "drainer_AppState_new cloud conf w = (Err ''Failed to decrypt database password'', w)"
    if "b64_decode (cl_base64 cloud) secret = None"
    using that by (simp add: start AwsKmsClient_decrypt_def)
  ultimately show ?thesis by blast
qed

definition demo_cloud :: "mem_kms_state cloud" where
  "demo_cloud = \<lparr>cl_base64 = plain_base64, cl_kms = (\<lambda>_. mem_kms), cl_vault = (\<lambda>_ _. Err VaultClientCreationFailed)\<rparr>"

theorem drainer_starts_with_password_witness:
  "\<exists>app w'. drainer_AppState_new demo_cloud
       \<lparr>drc_server = DrainerServer_default, drc_master_database = DrainerDatabase_default\<lparr>drd_password := ''0''\<rparr>,
        drc_redis = RedisSettings_default, drc_drainer = DrainerSettings_default, drc_encryption_management = EmNoEncryption,
        drc_secrets_management = AwsKms ''k'' ''eu''\<rparr> [(''k'', ''pw'')] = (Ok app, w') \<and>
     drd_password (drc_master_database (app_conf app)) = ''pw''"
proof -
  let ?conf = "\<lparr>drc_server = DrainerServer_default, drc_master_database = DrainerDatabase_default\<lparr>drd_password := ''0''\<rparr>,
        drc_redis = RedisSettings_default, drc_drainer = DrainerSettings_default, drc_encryption_management = EmNoEncryption,
        drc_secrets_management = AwsKms ''k'' ''eu''\<rparr>"
  have "kms_service (cl_kms demo_cloud ''eu'') (cl_base64 demo_cloud) mem_opens"
    using mem_service.kms_service_axioms by (simp add: demo_cloud_def)
  from drainer_starts_with_password [OF this, of ?conf "''k''" "''0''" "[(''k'', ''pw'')]" "''0''" "''pw''"]
  show ?thesis
    by (auto simp: demo_cloud_def plain_base64_def mem_opens_def show_nat.simps [of 0] digit_char_def)
qed

end
