(* ===== verification/Kv_Store.thy ===== *)
theory Kv_Store
  imports Drainer
begin

text \<open>
  The key-value path of \<open>crates/storage_impl\<close>: \<open>KVRouterStore\<close> and its drainer streams
  (\<open>lib.rs\<close>), the partition of keys and the wrapper around the Redis operations
  (\<open>redis/kv_store.rs\<close>), and the fall-back to the database (\<open>utils.rs\<close>).

  \<open>crc32fast::hash\<close> is a parameter. serde is the parameters \<open>to_json\<close> (of an
  operation), \<open>ser\<close> and \<open>de\<close> (of a value); the two methods a value's
  \<open>UniqueConstraints\<close> implementation supplies are parameters.
\<close>

section \<open>Partitions (redis/kv\_store.rs)\<close>

datatype PartitionKey =
    MerchantIdPaymentId string string
  | MerchantIdPaymentIdCombination string

fun PartitionKey_to_string :: "PartitionKey \<Rightarrow> string" where
  "PartitionKey_to_string (MerchantIdPaymentId merchant_id payment_id) =
     ''mid_'' @ merchant_id @ ''_pid_'' @ payment_id"
| "PartitionKey_to_string (MerchantIdPaymentIdCombination combination) = combination"

text \<open>A remainder by 0 panics: \<open>None\<close>.\<close>

definition partition_number :: "(string \<Rightarrow> 32 word) \<Rightarrow> PartitionKey \<Rightarrow> 8 word \<Rightarrow> 32 word option" where
  "partition_number crc32 key n_partitions =
     (if n_partitions = 0 then None
      else Some (crc32 (PartitionKey_to_string key) mod ucast n_partitions))"

definition shard_key :: "(string \<Rightarrow> 32 word) \<Rightarrow> PartitionKey \<Rightarrow> 8 word \<Rightarrow> string option" where
  "shard_key crc32 key n_partitions =
     map_option (\<lambda>n. ''shard_'' @ show_nat (unat n)) (partition_number crc32 key n_partitions)"

section \<open>The store (lib.rs)\<close>

record 's KVRouterStore =
  kv_redis_conn :: "'s RedisConnectionPool"
  kv_drainer_stream_name :: string
  kv_drainer_num_partitions :: "8 word"
  ttl_for_kv :: "32 word"
  kv_request_id :: "string option"

text \<open>A panic unwinds through every caller, so it is kept apart from the errors the code
  handles.\<close>

datatype kv_failure = KvPanic | KvError RedisError

definition redis_try :: "('s, RedisError, 'a) eff \<Rightarrow> ('s, kv_failure, 'a) eff" where
  "redis_try m = emap_err KvError m"

definition kv_get_drainer_stream_name :: "'s KVRouterStore \<Rightarrow> string \<Rightarrow> string" where
  "kv_get_drainer_stream_name self shard = ''{'' @ shard @ ''}_'' @ kv_drainer_stream_name self"

definition push_to_drainer_stream ::
  "(string \<Rightarrow> 32 word) \<Rightarrow> ('op \<Rightarrow> string option) \<Rightarrow> int \<Rightarrow> 's KVRouterStore \<Rightarrow> 'op \<Rightarrow> PartitionKey \<Rightarrow>
   ('s, kv_failure, unit) eff" where
  "push_to_drainer_stream crc32 to_json now self redis_entry partition_key =
     (let gid = PartitionKey_to_string partition_key;
          rid = (case kv_request_id self of None \<Rightarrow> [] | Some i \<Rightarrow> i) in
      case shard_key crc32 partition_key (kv_drainer_num_partitions self) of
        None \<Rightarrow> ethrow KvPanic
      | Some shard \<Rightarrow>
          (case to_field_value_pairs to_json now redis_entry rid gid of
             Inl e \<Rightarrow> ethrow (KvError JsonSerializationFailed)
           | Inr pairs \<Rightarrow>
               redis_try (change_context StreamAppendFailed
                 (stream_append_entry (kv_redis_conn self) (kv_get_drainer_stream_name self shard)
                    AutoGeneratedID pairs))))"

text \<open>\<open>UniqueConstraints::check_for_constraints\<close>: the constraints of a value are members of one
  set per table; SADD answers whether exactly one was new.\<close>

definition check_for_constraints ::
  "('v \<Rightarrow> string list) \<Rightarrow> ('v \<Rightarrow> string) \<Rightarrow> 'v \<Rightarrow> 's RedisConnectionPool \<Rightarrow> ('s, RedisError, unit) eff" where
  "check_for_constraints unique_constraints table_name self conn =
     ebind (sadd conn (''unique_constraint:'' @ table_name self) (unique_constraints self))
       (\<lambda>sadd_result. case sadd_result of
          SaddReply.KeyNotSet \<Rightarrow> ethrow SetAddMembersFailed
        | SaddReply.KeySet \<Rightarrow> ereturn ())"

section \<open>Operations (redis/kv\_store.rs)\<close>

datatype ('v, 'op) KvOperation =
    Hset "string \<times> string" 'op
  | SetNx 'v 'op
  | HSetNx string 'v 'op
  | HGet string
  | Get
  | Scan string

datatype 'v KvResult =
    HGetResult 'v
  | GetResult 'v
  | HsetResult
  | SetNxResult SetnxReply
  | HSetNxResult HsetnxReply
  | ScanResult "'v list"

definition kv_redis :: "'s RedisConnectionPool \<Rightarrow> (RedisError, 's RedisConnectionPool) result" where
  "kv_redis conn = (if is_redis_available conn then Ok conn else Err RedisConnectionError)"

definition kv_wrapper ::
  "(string \<Rightarrow> 32 word) \<Rightarrow> ('op \<Rightarrow> string option) \<Rightarrow> ('v \<Rightarrow> string option) \<Rightarrow> (string \<Rightarrow> 'v option) \<Rightarrow>
   ('v \<Rightarrow> string list) \<Rightarrow> ('v \<Rightarrow> string) \<Rightarrow> int \<Rightarrow> 's KVRouterStore \<Rightarrow> ('v, 'op) KvOperation \<Rightarrow> string \<Rightarrow>
   ('s, kv_failure, 'v KvResult) eff" where
  "kv_wrapper crc32 to_json ser de unique_constraints table_name now store op key =
     ebind (redis_try (elift (kv_redis (kv_redis_conn store)))) (\<lambda>conn.
       let ttl = ttl_for_kv store;
           push = (\<lambda>sql. push_to_drainer_stream crc32 to_json now store sql (MerchantIdPaymentIdCombination key))
       in case op of
         Hset value sql \<Rightarrow>
           ebind (redis_try (set_hash_fields conn key [value] (Some (uint ttl))))
             (\<lambda>_. ebind (push sql) (\<lambda>_. ereturn HsetResult))
       | HGet field \<Rightarrow>
           ebind (redis_try (get_hash_field_and_deserialize conn de key field))
             (\<lambda>result. ereturn (HGetResult result))
       | Scan pattern \<Rightarrow>
           ebind (redis_try (hscan_and_deserialize conn de key pattern None))
             (\<lambda>result. if result = [] then ethrow (KvError RedisError.NotFound) else ereturn (ScanResult result))
       | HSetNx field value sql \<Rightarrow>
           ebind (redis_try (check_for_constraints unique_constraints table_name value conn))
             (\<lambda>_. ebind (redis_try (serialize_and_set_hash_field_if_not_exist conn ser key field value (Some ttl)))
                (\<lambda>result. if result = HsetnxReply.KeySet
                   then ebind (push sql) (\<lambda>_. ereturn (HSetNxResult result))
                   else ethrow (KvError SetNxFailed)))
       | SetNx value sql \<Rightarrow>
           ebind (redis_try (serialize_and_set_key_if_not_exist conn ser key value (Some (uint ttl))))
             (\<lambda>result. ebind (redis_try (check_for_constraints unique_constraints table_name value conn))
                (\<lambda>_. if result = SetnxReply.KeySet
                   then ebind (push sql) (\<lambda>_. ereturn (SetNxResult result))
                   else ethrow (KvError SetNxFailed)))
       | Get \<Rightarrow>
           ebind (redis_try (get_and_deserialize_key conn de key)) (\<lambda>result. ereturn (GetResult result)))"

section \<open>Falling back to the database (utils.rs)\<close>

definition try_redis_get_else_try_database_get ::
  "('w, RedisError, 'a) eff \<Rightarrow> ('w, StorageError, 'a) eff \<Rightarrow> ('w, StorageError, 'a) eff" where
  "try_redis_get_else_try_database_get redis_fut database_call_closure =
     ematch redis_fut
       (\<lambda>redis_error. if redis_error = RedisError.NotFound then database_call_closure
          else ethrow (to_redis_failed_response redis_error []))
       ereturn"

section \<open>The streams a store writes are the ones a drainer reads\<close>

lemma unat_mod_8:
  fixes n :: "8 word" and x :: "32 word"
  assumes "n \<noteq> 0"
  shows "unat (x mod ucast n) = unat x mod unat n" and "unat (x mod ucast n) < unat n"
proof -
  have u: "unat (ucast n :: 32 word) = unat n"
  proof -
    have "unat n < 2 ^ 32" using unsigned_less [of n, where 'a = nat] by simp
    then show ?thesis by (simp add: unsigned_ucast_eq take_bit_nat_eq_self)
  qed
  show 1: "unat (x mod ucast n) = unat x mod unat n" by (simp add: unat_mod u)
  show "unat (x mod ucast n) < unat n" unfolding 1 using assms by (simp add: unat_gt_0)
qed

lemma shard_stream_drained:
  assumes "kv_drainer_num_partitions kv \<noteq> 0"
    and "kv_drainer_stream_name kv = drainer_stream_name store"
  shows "\<exists>p shard. partition_number crc32 key (kv_drainer_num_partitions kv) = Some p \<and>
    shard_key crc32 key (kv_drainer_num_partitions kv) = Some shard \<and>
    unat p < unat (kv_drainer_num_partitions kv) \<and>
    kv_get_drainer_stream_name kv shard = get_drainer_stream_name store (ucast p)"
proof -
  let ?n = "kv_drainer_num_partitions kv"
  let ?p = "crc32 (PartitionKey_to_string key) mod ucast ?n"
  note b = unat_mod_8(2) [OF assms(1), of "crc32 (PartitionKey_to_string key)"]
  have "unat ?p < 256" using b unsigned_less [of ?n, where 'a = nat] by simp
  then have "unat (ucast ?p :: 8 word) = unat ?p" by (simp add: unsigned_ucast_eq take_bit_eq_mod)
  with b assms show ?thesis
    by (simp add: partition_number_def shard_key_def kv_get_drainer_stream_name_def
      get_drainer_stream_name_def drainer_stream_def)
qed

text \<open>With at least one partition, the stream an entry is pushed to is the stream the drainer
  of the same configuration drains for the shard whose index is the partition number, and that
  index is below the number of partitions, so the round robin reaches it.\<close>

theorem push_target_is_drained:
  assumes "kv_drainer_num_partitions kv \<noteq> 0"
    and "kv_drainer_stream_name kv = drainer_stream_name store"
  shows "\<exists>p shard. partition_number crc32 key (kv_drainer_num_partitions kv) = Some p \<and>
    shard_key crc32 key (kv_drainer_num_partitions kv) = Some shard \<and>
    unat p < unat (kv_drainer_num_partitions kv) \<and>
    kv_get_drainer_stream_name kv shard = get_drainer_stream_name store (ucast p)"
  using assms by (rule shard_stream_drained)

definition demo_kv :: "mem KVRouterStore" where
  "demo_kv = \<lparr>kv_redis_conn = \<lparr>pool = mem_fred, config = RedisConfig_from RedisSettings_default, is_redis_available = True\<rparr>,
     kv_drainer_stream_name = ''S'', kv_drainer_num_partitions = 2, ttl_for_kv = 900, kv_request_id = None\<rparr>"

definition demo_kv_drainer :: "mem Store" where
  "demo_kv_drainer = \<lparr>redis_conn = kv_redis_conn demo_kv, drainer_stream_name = ''S'', drainer_num_partitions = 2\<rparr>"

theorem push_target_is_drained_witness:
  "\<exists>p shard. partition_number (\<lambda>s. of_nat (length s)) (MerchantIdPaymentId ''m'' ''p'') 2 = Some p \<and>
    shard_key (\<lambda>s. of_nat (length s)) (MerchantIdPaymentId ''m'' ''p'') 2 = Some shard \<and> unat p < unat (2 :: 8 word) \<and>
    kv_get_drainer_stream_name demo_kv shard = get_drainer_stream_name demo_kv_drainer (ucast p)"
  using push_target_is_drained [of demo_kv demo_kv_drainer "\<lambda>s. of_nat (length s)" "MerchantIdPaymentId ''m'' ''p''"]
  by (simp add: demo_kv_def demo_kv_drainer_def)

section \<open>Hashes and sets of the server\<close>

text \<open>The documented effect of HSETNX, SADD, SET NX and EXPIRE on hashes and sets, next to the
  streams and the string keys.\<close>

locale redis_kv = redis_streams R valid stream_view + redis_keys R valid key_view
  for R :: "'s fred" and valid :: "'s \<Rightarrow> bool" and stream_view :: "'s \<Rightarrow> string \<Rightarrow> StreamEntry list"
    and key_view :: "'s \<Rightarrow> string \<rightharpoonup> string" +
  fixes hash_view :: "'s \<Rightarrow> string \<Rightarrow> string \<rightharpoonup> string"
    and set_view :: "'s \<Rightarrow> string \<Rightarrow> string set"
  assumes hsetnx_law: "valid s \<Longrightarrow> fred_hsetnx R k f v s = (h1, s') \<Longrightarrow>
      valid s' \<and> stream_view s' = stream_view s \<and>
      (\<forall>x. h1 = Ok x \<longrightarrow> x = FredInteger (if hash_view s k f = None then 1 else 0) \<and>
         hash_view s' = (if hash_view s k f = None then (hash_view s)(k := (hash_view s k)(f \<mapsto> v)) else hash_view s))"
    and sadd_law: "valid s \<Longrightarrow> fred_sadd R k ms s = (h2, s') \<Longrightarrow>
      valid s' \<and> stream_view s' = stream_view s \<and> hash_view s' = hash_view s \<and>
      (\<forall>j. j \<noteq> k \<longrightarrow> key_view s' j = key_view s j) \<and>
      (\<forall>x. h2 = Ok x \<longrightarrow> x = FredInteger (int (card (set ms - set_view s k))) \<and>
         set_view s' = (set_view s)(k := set_view s k \<union> set ms))"
    and expire_kv: "valid s \<Longrightarrow> 0 < t \<Longrightarrow> fred_expire R k t s = (h3, s') \<Longrightarrow>
      stream_view s' = stream_view s \<and> hash_view s' = hash_view s"
    and setnx_kv: "valid s \<Longrightarrow> fred_set R k v t True s = (h4, s') \<Longrightarrow>
      stream_view s' = stream_view s \<and> set_view s' = set_view s"
    and xadd_kv: "valid s \<Longrightarrow> fred_xadd R k i fvs s = (h5, s') \<Longrightarrow> j \<noteq> k \<Longrightarrow> hash_view s' j = hash_view s j"
begin

lemma check_for_constraints_run:
  assumes R: "pool conn = R" and v: "valid s"
    and run: "check_for_constraints uc tn x conn s = (r, s')"
  shows "valid s' \<and> stream_view s' = stream_view s \<and> hash_view s' = hash_view s \<and>
    (\<forall>j. j \<noteq> ''unique_constraint:'' @ tn x \<longrightarrow> key_view s' j = key_view s j) \<and>
    (r = Ok () \<longrightarrow> card (set (uc x) - set_view s (''unique_constraint:'' @ tn x)) = 1) \<and>
    (\<forall>e. r = Err e \<longrightarrow> e = SetAddMembersFailed)"
proof -
  let ?k = "''unique_constraint:'' @ tn x"
  obtain a s1 where a: "fred_sadd R ?k (uc x) s = (a, s1)" by fastforce
  note l = sadd_law [OF v a]
  from run R a l have "s' = s1" and "r = Ok () \<Longrightarrow> a = Ok (FredInteger 1)" and "\<forall>e. r = Err e \<longrightarrow> e = SetAddMembersFailed"
    by (auto simp: check_for_constraints_def sadd_def eff_simps SaddReply_from_value_def
        split: sum.splits prod.splits SaddReply.splits if_splits)
  with l show ?thesis by auto
qed

text \<open>Pushing an operation: one entry on one stream, or an error.\<close>

lemma push_run:
  assumes R: "pool (kv_redis_conn kv) = R" and v: "valid s"
    and run: "push_to_drainer_stream crc32 to_json now kv op key s = (Ok (), s')"
  shows "\<exists>shard pairs eid. shard_key crc32 key (kv_drainer_num_partitions kv) = Some shard \<and>
    to_field_value_pairs to_json now op (case kv_request_id kv of None \<Rightarrow> [] | Some i \<Rightarrow> i) (PartitionKey_to_string key) = Ok pairs \<and>
    valid s' \<and> (let k = kv_get_drainer_stream_name kv shard in
      stream_view s' = (stream_view s)(k := stream_view s k @ [(eid, map_of pairs)]) \<and>
      (\<forall>j. j \<noteq> k \<longrightarrow> hash_view s' j = hash_view s j))"
proof -
  from run R obtain shard pairs where sk: "shard_key crc32 key (kv_drainer_num_partitions kv) = Some shard"
    and p: "to_field_value_pairs to_json now op (case kv_request_id kv of None \<Rightarrow> [] | Some i \<Rightarrow> i)
      (PartitionKey_to_string key) = Ok pairs"
    and x: "fred_xadd R (kv_get_drainer_stream_name kv shard) XidAuto pairs s = (Ok (), s')"
    by (auto simp: push_to_drainer_stream_def Let_def redis_try_def stream_append_entry_def eff_simps
        split: option.splits sum.splits prod.splits)
  have d: "distinct (map fst pairs)" using p by (auto simp: to_field_value_pairs_def split: option.splits)
  from xadd_law [OF v d x] xadd_kv [OF v x] sk p show ?thesis by (auto simp: Let_def)
qed

text \<open>HSETNX through the wrapper.\<close>

lemma hsetnx_Ok:
  assumes R: "pool (kv_redis_conn kv) = R" and v: "valid s" and ttl: "ttl_for_kv kv \<noteq> 0"
    and run: "kv_wrapper crc32 to_json ser de uc tn now kv (HSetNx f x op) key s = (Ok res, s')"
  shows "res = HSetNxResult HsetnxReply.KeySet \<and> valid s' \<and> hash_view s key f = None \<and>
    (\<exists>b shard pairs eid. ser x = Some b \<and> shard_key crc32 (MerchantIdPaymentIdCombination key) (kv_drainer_num_partitions kv) = Some shard \<and>
      to_field_value_pairs to_json now op (case kv_request_id kv of None \<Rightarrow> [] | Some i \<Rightarrow> i) key = Ok pairs \<and>
      (let k = kv_get_drainer_stream_name kv shard in
       stream_view s' = (stream_view s)(k := stream_view s k @ [(eid, map_of pairs)]) \<and>
       (key \<noteq> k \<longrightarrow> hash_view s' key f = Some b)))"
proof -
  let ?c = "kv_redis_conn kv" and ?pk = "MerchantIdPaymentIdCombination key"
  from run obtain s1 s2 where av: "is_redis_available ?c"
    and c: "check_for_constraints uc tn x ?c s = (Ok (), s1)"
    and h: "serialize_and_set_hash_field_if_not_exist ?c ser key f x (Some (ttl_for_kv kv)) s1 = (Ok HsetnxReply.KeySet, s2)"
    and p: "push_to_drainer_stream crc32 to_json now kv op ?pk s2 = (Ok (), s')"
    and res: "res = HSetNxResult HsetnxReply.KeySet"
    by (auto simp: kv_wrapper_def kv_redis_def redis_try_def Let_def eff_simps split: sum.splits prod.splits if_splits)
  note 1 = check_for_constraints_run [OF R v c]
  then have v1: "valid s1" by blast
  from h R obtain b y s1' where b: "ser x = Some b" and y: "fred_hsetnx R key f b s1 = (Ok y, s1')"
    and set: "HsetnxReply_from_value y = Ok HsetnxReply.KeySet"
    and e: "fred_expire R key (uint (ttl_for_kv kv)) s1' = (Ok (), s2)"
    by (auto simp: serialize_and_set_hash_field_if_not_exist_def encode_to_vec_def set_hash_field_if_not_exist_def
        set_expiry_def eff_simps split: option.splits sum.splits prod.splits)
  note 2 = hsetnx_law [OF v1 y]
  then have v1': "valid s1'" by blast
  have t: "0 < uint (ttl_for_kv kv)" using ttl by (metis le_less uint_0_iff unsigned_greater_eq)
  from 2 set have y1: "hash_view s1 key f = None"
    by (auto simp: HsetnxReply_from_value_def split: if_splits)
  note 3 = expire_law [OF v1' t e] expire_kv [OF v1' t e]
  then have v2: "valid s2" by blast
  from push_run [OF R v2 p] obtain shard pairs eid where
    4: "shard_key crc32 ?pk (kv_drainer_num_partitions kv) = Some shard"
      "to_field_value_pairs to_json now op (case kv_request_id kv of None \<Rightarrow> [] | Some i \<Rightarrow> i) key = Ok pairs" "valid s'"
      "stream_view s' = (stream_view s2)(kv_get_drainer_stream_name kv shard :=
         stream_view s2 (kv_get_drainer_stream_name kv shard) @ [(eid, map_of pairs)])"
      "\<forall>j. j \<noteq> kv_get_drainer_stream_name kv shard \<longrightarrow> hash_view s' j = hash_view s2 j"
    by (auto simp: Let_def)
  have "hash_view s2 key f = Some b" using 2 3 y1 by simp
  moreover have "stream_view s2 = stream_view s" using 1 2 3 by simp
  ultimately show ?thesis using 1 4 y1 res b
    by (intro conjI exI [of _ b] exI [of _ shard] exI [of _ pairs] exI [of _ eid]) (auto simp: Let_def)
qed

lemma setnx_violation:
  assumes R: "pool (kv_redis_conn kv) = R" and v: "valid s" and ttl: "ttl_for_kv kv \<noteq> 0"
    and av: "is_redis_available (kv_redis_conn kv)" and free: "key_view s key = None" and ser: "ser x = Some b"
    and answers: "\<exists>y. fst (fred_set R key b (uint (ttl_for_kv kv)) True s) = Ok y"
    and viol: "set (uc x) \<subseteq> set_view s (''unique_constraint:'' @ tn x)" and key: "key \<noteq> ''unique_constraint:'' @ tn x"
    and run: "kv_wrapper crc32 to_json ser de uc tn now kv (SetNx x op) key s = (r, s')"
  shows "r = Err (KvError SetAddMembersFailed) \<and> key_view s' key = Some b \<and> stream_view s' = stream_view s"
proof -
  let ?c = "kv_redis_conn kv" and ?t = "uint (ttl_for_kv kv)"
  obtain y s1 where y: "fred_set R key b ?t True s = (Ok y, s1)" using answers by (metis prod.collapse)
  note 1 = setnx_absent_law [OF v free y] setnx_kv [OF v y]
  then have v1: "valid s1" by blast
  obtain z s2 where z: "check_for_constraints uc tn x ?c s1 = (z, s2)" by fastforce
  note 2 = check_for_constraints_run [OF R v1 z]
  have "set (uc x) - set_view s1 (''unique_constraint:'' @ tn x) = {}" using viol 1 by auto
  then have "card (set (uc x) - set_view s1 (''unique_constraint:'' @ tn x)) \<noteq> 1" by (metis card.empty zero_neq_one)
  with 2 have ze: "z = Err SetAddMembersFailed" by (cases z) (blast, simp)
  from 1 obtain ok where "y = FredString ok" by blast
  with run av ser R y z ze have "r = Err (KvError SetAddMembersFailed)" and "s' = s2"
    by (auto simp: kv_wrapper_def kv_redis_def redis_try_def serialize_and_set_key_if_not_exist_def encode_to_vec_def
        set_key_if_not_exists_with_expiry_def eff_simps)
  with 1 2 key show ?thesis by auto
qed

end

interpretation mem_kv: redis_kv mem_fred mem_valid mem_streams mem_strings mem_hashes "\<lambda>s k. set (mem_sets s k)"
proof unfold_locales
  fix s k ms h2 s'
  assume v: "mem_valid s" and run: "fred_sadd mem_fred k ms s = (h2, s')"
  have c: "length (remdups (filter (\<lambda>m. m \<notin> set (mem_sets s k)) ms)) = card (set ms - set (mem_sets s k))"
    by (simp add: length_remdups_card_conv set_diff_eq)
  from v run show "mem_valid s' \<and> mem_streams s' = mem_streams s \<and> mem_hashes s' = mem_hashes s \<and>
      (\<forall>j. j \<noteq> k \<longrightarrow> mem_strings s' j = mem_strings s j) \<and>
      (\<forall>x. h2 = Ok x \<longrightarrow> x = FredInteger (int (card (set ms - set (mem_sets s k)))) \<and>
         (\<lambda>k. set (mem_sets s' k)) = (\<lambda>k. set (mem_sets s k))(k := set (mem_sets s k) \<union> set ms))"
    by (auto simp: mem_fred_def mem_sadd_def Let_def c fun_eq_iff intro: mem_valid_streams_eq)
qed (auto simp: mem_fred_def mem_hsetnx_def mem_expire_def mem_set_def mem_xadd_def intro: mem_valid_streams_eq split: if_splits)

end
