(* ===== verification/Store_Setup.thy ===== *)
theory Store_Setup
  imports Secret_Settings Kv_Store
begin

text \<open>
  How the stores come up: \<open>RedisConnectionPool::new\<close> (\<open>redis_interface/src/lib.rs\<close>), \<open>RedisStore\<close>
  (\<open>storage_impl/src/redis.rs\<close>), the connection pools of the database
  (\<open>storage_impl/src/database/store.rs\<close>), \<open>RouterStore\<close> and \<open>KVRouterStore\<close>
  (\<open>storage_impl/src/lib.rs\<close>), and the state of the application built from them (\<open>modules/src/app.rs\<close>).

  The clients of fred and the pools of bb8 are outside: \<open>setup_env\<close> says which of their calls
  succeed. What a start-up leaves behind, the connections it made, the channel it subscribed to and the tasks it
  spawned, is a list of events. The trait \<open>DatabaseStore\<close> is the locale \<open>database_store\<close>, and
  \<open>RouterStore\<close> is opened over any implementation of it.
\<close>

section \<open>Outside\<close>

datatype RespVersion = RESP2 | RESP3

datatype Blocking = BlockingBlock | BlockingError | BlockingInterrupt

record FredConfig =
  fc_url :: string
  fc_version :: RespVersion
  fc_tracing :: bool
  fc_blocking :: Blocking

datatype BackpressurePolicy = Drain | Sleep

record PerformanceConfig =
  pc_auto_pipeline :: bool
  pc_default_command_timeout :: "64 word"
  pc_max_feed_count :: "64 word"
  pc_disable_auto_backpressure :: bool
  pc_max_in_flight_commands :: "64 word"
  pc_policy :: BackpressurePolicy

record PgPool =
  pg_url :: string
  pg_max_size :: "32 word"
  pg_min_idle :: "32 word option"
  pg_queue_strategy :: QueueStrategy
  pg_connection_timeout :: "64 word"
  pg_max_lifetime :: "64 word option"
  pg_test_transaction :: bool

datatype client = Subscriber | Publisher | PoolClient

text \<open>A reconnect policy is constant: the attempts and the delay. The pool of clients has a connection
  timeout as well.\<close>

datatype setup_event =
    Connected client FredConfig PerformanceConfig "32 word \<times> 32 word" "64 word option"
  | PgBuilt PgPool
  | OnErrorSpawned
  | ManageSubscriptions
  | Subscribed string
  | OnMessageSpawned

record setup_env =
  se_from_url :: "string \<Rightarrow> FredConfig option"
  se_connect :: "client \<Rightarrow> FredConfig \<Rightarrow> bool"
  se_pool_new :: "FredConfig \<Rightarrow> nat \<Rightarrow> bool"
  se_subscribe :: "string \<Rightarrow> bool"
  se_build :: "PgPool \<Rightarrow> bool"

type_synonym ('e, 'a) startup = "(setup_event list, 'e, 'a) eff"

definition happens :: "setup_event \<Rightarrow> ('e, unit) startup" where
  "happens e = (\<lambda>log. (Ok (), log @ [e]))"

definition if_it_works :: "bool \<Rightarrow> 'e \<Rightarrow> ('e, unit) startup" where
  "if_it_works b e = (if b then ereturn () else ethrow e)"

section \<open>Redis (redis\_interface/src/lib.rs, storage\_impl/src/redis.rs)\<close>

definition perf_config :: "RedisSettings \<Rightarrow> PerformanceConfig" where
  "perf_config conf = \<lparr>
     pc_auto_pipeline = auto_pipeline conf,
     pc_default_command_timeout = default_command_timeout conf,
     pc_max_feed_count = max_feed_count conf,
     pc_disable_auto_backpressure = disable_auto_backpressure conf,
     pc_max_in_flight_commands = max_in_flight_commands conf,
     pc_policy = Drain\<rparr>"

definition fred_config :: "RedisSettings \<Rightarrow> FredConfig \<Rightarrow> FredConfig" where
  "fred_config conf cfg =
     (if use_legacy_version conf then cfg else cfg\<lparr>fc_version := RESP3\<rparr>)
       \<lparr>fc_tracing := True, fc_blocking := BlockingError\<rparr>"

text \<open>\<open>SubscriberClient::new\<close> and \<open>RedisClient::new\<close>: connect, and wait for the connection.\<close>

definition Client_new ::
  "setup_env \<Rightarrow> client \<Rightarrow> FredConfig \<Rightarrow> 32 word \<times> 32 word \<Rightarrow> PerformanceConfig \<Rightarrow> (RedisError, unit) startup" where
  "Client_new env c cfg reconnect_policy perf =
     ebind (if_it_works (se_connect env c cfg) RedisConnectionError)
       (\<lambda>_. happens (Connected c cfg perf reconnect_policy None))"

definition RedisConnectionPool_new ::
  "setup_env \<Rightarrow> 's fred \<Rightarrow> RedisSettings \<Rightarrow> (RedisError, 's RedisConnectionPool) startup" where
  "RedisConnectionPool_new env R conf =
     ebind (elift (ok_or (se_from_url env (redis_connection_url conf)) RedisConnectionError)) (\<lambda>url_config.
       let cfg = fred_config conf url_config; perf = perf_config conf;
           reconnect_policy = (reconnect_max_attempts conf, reconnect_delay conf) in
       ebind (Client_new env Subscriber cfg reconnect_policy perf) (\<lambda>_.
       ebind (Client_new env Publisher cfg reconnect_policy perf) (\<lambda>_.
       ebind (if_it_works (se_pool_new env cfg (pool_size conf)) RedisConnectionError) (\<lambda>_.
       ebind (if_it_works (se_connect env PoolClient cfg) RedisConnectionError) (\<lambda>_.
       ebind (happens (Connected PoolClient cfg perf reconnect_policy (Some (unresponsive_timeout conf)))) (\<lambda>_.
         ereturn \<lparr>pool = R, config = RedisConfig_from conf, is_redis_available = True\<rparr>))))))"

text \<open>\<open>on_unresponsive\<close> maps over the clients and drops the iterator, which is lazy: no handler is
  registered.\<close>

definition on_unresponsive :: "'c list \<Rightarrow> ('e, unit) startup" where
  "on_unresponsive clients = ereturn ()"

definition RedisStore_new ::
  "setup_env \<Rightarrow> 's fred \<Rightarrow> RedisSettings \<Rightarrow> (RedisError, 's RedisConnectionPool) startup" where
  "RedisStore_new env R conf = RedisConnectionPool_new env R conf"

definition set_error_callback :: "('e, unit) startup" where
  "set_error_callback = happens OnErrorSpawned"

definition subscribe_to_channel :: "setup_env \<Rightarrow> string \<Rightarrow> (RedisError, unit) startup" where
  "subscribe_to_channel env channel =
     ebind (happens ManageSubscriptions) (\<lambda>_.
     ebind (if_it_works (se_subscribe env channel) SubscribeError) (\<lambda>_.
     ebind (happens (Subscribed channel)) (\<lambda>_. happens OnMessageSpawned)))"

section \<open>Database (storage\_impl/src/database/store.rs)\<close>

definition pg_pool_conf :: "Database \<Rightarrow> bool \<Rightarrow> PgPool" where
  "pg_pool_conf database test_transaction = \<lparr>
     pg_url = ''postgres://'' @ db_username database @ '':'' @ db_password database @ ''@'' @ db_host database @ '':'' @
       show_nat (unat (db_port database)) @ ''/'' @ db_dbname database,
     pg_max_size = db_pool_size database,
     pg_min_idle = db_min_idle database,
     pg_queue_strategy = db_queue_strategy database,
     pg_connection_timeout = db_connection_timeout database,
     pg_max_lifetime = db_max_lifetime database,
     pg_test_transaction = test_transaction\<rparr>"

definition diesel_make_pg_pool :: "setup_env \<Rightarrow> Database \<Rightarrow> bool \<Rightarrow> (StorageError, PgPool) startup" where
  "diesel_make_pg_pool env database test_transaction =
     (let p = pg_pool_conf database test_transaction in
      ebind (if_it_works (se_build env p) InitializationError) (\<lambda>_.
      ebind (happens (PgBuilt p)) (\<lambda>_. ereturn p)))"

text \<open>\<open>struct Store\<close>; \<open>Store\<close> is the store of the drainer.\<close>

record PgStore =
  master_pool :: PgPool

definition Store_new :: "setup_env \<Rightarrow> Database \<Rightarrow> bool \<Rightarrow> (StorageError, PgStore) startup" where
  "Store_new env conf test_transaction =
     ebind (diesel_make_pg_pool env conf test_transaction) (\<lambda>p. ereturn \<lparr>master_pool = p\<rparr>)"

definition Store_get_master_pool :: "PgStore \<Rightarrow> PgPool" where
  "Store_get_master_pool self = master_pool self"

definition Store_get_replica_pool :: "PgStore \<Rightarrow> PgPool" where
  "Store_get_replica_pool self = master_pool self"

record ReplicaStore =
  replica_master_pool :: PgPool
  replica_pool :: PgPool

definition ReplicaStore_new :: "setup_env \<Rightarrow> Database \<times> Database \<Rightarrow> bool \<Rightarrow> (StorageError, ReplicaStore) startup" where
  "ReplicaStore_new env conf test_transaction =
     (let (master_config, replica_config) = conf in
      ebind (diesel_make_pg_pool env master_config test_transaction) (\<lambda>m.
      ebind (diesel_make_pg_pool env replica_config test_transaction) (\<lambda>r.
        ereturn \<lparr>replica_master_pool = m, replica_pool = r\<rparr>)))"

definition ReplicaStore_get_master_pool :: "ReplicaStore \<Rightarrow> PgPool" where
  "ReplicaStore_get_master_pool self = replica_master_pool self"

definition ReplicaStore_get_replica_pool :: "ReplicaStore \<Rightarrow> PgPool" where
  "ReplicaStore_get_replica_pool self = replica_pool self"

section \<open>RouterStore and KVRouterStore (storage\_impl/src/lib.rs)\<close>

text \<open>\<open>db_new\<close> is the \<open>new\<close> of the database store the router store is made over.\<close>

type_synonym ('c, 'db) db_new = "'c \<Rightarrow> bool \<Rightarrow> (StorageError, 'db) startup"

record ('s, 'db) OpenedStore =
  db_store :: 'db
  cache_store :: "'s RedisConnectionPool"
  master_encryption_key :: string
  os_request_id :: "string option"

definition RouterStore_from_config ::
  "('c, 'db) db_new \<Rightarrow> setup_env \<Rightarrow> 's fred \<Rightarrow> 'c \<Rightarrow> RedisSettings \<Rightarrow> string \<Rightarrow> string \<Rightarrow>
   (StorageError, ('s, 'db) OpenedStore) startup" where
  "RouterStore_from_config db_new env R db_conf cache_conf encryption_key inmemory_cache_stream =
     ebind (db_new db_conf False) (\<lambda>db.
     ebind (change_context InitializationError (RedisStore_new env R cache_conf)) (\<lambda>cache.
     ebind set_error_callback (\<lambda>_.
     ebind (change_context InitializationError (subscribe_to_channel env inmemory_cache_stream)) (\<lambda>_.
       ereturn \<lparr>db_store = db, cache_store = cache, master_encryption_key = encryption_key, os_request_id = None\<rparr>))))"

definition RouterStore_test_store ::
  "('c, 'db) db_new \<Rightarrow> setup_env \<Rightarrow> 's fred \<Rightarrow> 'c \<Rightarrow> RedisSettings \<Rightarrow> string \<Rightarrow>
   (StorageError, ('s, 'db) OpenedStore) startup" where
  "RouterStore_test_store db_new env R db_conf cache_conf encryption_key =
     ebind (db_new db_conf True) (\<lambda>db.
     ebind (change_context InitializationError (RedisStore_new env R cache_conf)) (\<lambda>cache.
       ereturn \<lparr>db_store = db, cache_store = cache, master_encryption_key = encryption_key, os_request_id = None\<rparr>))"

definition RouterStore_new ::
  "('c, 'db) db_new \<Rightarrow> setup_env \<Rightarrow> 's fred \<Rightarrow> 'c \<times> RedisSettings \<times> string \<times> string \<Rightarrow> bool \<Rightarrow>
   (StorageError, ('s, 'db) OpenedStore) startup" where
  "RouterStore_new db_new env R conf test_transaction =
     (let (db_conf, cache_conf, encryption_key, inmemory_cache_stream) = conf in
      if test_transaction then RouterStore_test_store db_new env R db_conf cache_conf encryption_key
      else RouterStore_from_config db_new env R db_conf cache_conf encryption_key inmemory_cache_stream)"

text \<open>The key-value store keeps the router store; its Redis is the cache store.\<close>

definition KVRouterStore_from_store ::
  "('s, 'db) OpenedStore \<Rightarrow> string \<Rightarrow> 8 word \<Rightarrow> 32 word \<Rightarrow> 's KVRouterStore" where
  "KVRouterStore_from_store store stream partitions ttl = \<lparr>
     kv_redis_conn = cache_store store,
     kv_drainer_stream_name = stream,
     kv_drainer_num_partitions = partitions,
     ttl_for_kv = ttl,
     kv_request_id = os_request_id store\<rparr>"

definition KVRouterStore_new ::
  "('s, 'db) OpenedStore \<times> string \<times> 8 word \<times> 32 word \<Rightarrow> bool \<Rightarrow> (StorageError, 's KVRouterStore) startup" where
  "KVRouterStore_new conf test_transaction =
     (let (router_store, stream, partitions, ttl) = conf in
      ereturn (KVRouterStore_from_store router_store stream partitions ttl))"

section \<open>The state of the application (modules/src/db.rs, modules/src/app.rs)\<close>

datatype StorageImpl = Postgresql | PostgresqlTest | Mock

text \<open>The implementations of \<open>StorageInterface\<close>: the mock, with its Redis and no processes at first, and the store.\<close>

datatype ('s, 'db) StorageInterface = MockDb "'s RedisConnectionPool" | StoreDb "('s, 'db) OpenedStore"

definition MockDb_new :: "setup_env \<Rightarrow> 's fred \<Rightarrow> RedisSettings \<Rightarrow> (StorageError, ('s, 'db) StorageInterface) startup" where
  "MockDb_new env R redis =
     ebind (change_context InitializationError (RedisStore_new env R redis)) (\<lambda>conn. ereturn (MockDb conn))"

fun get_master_key :: "('s, 'db) StorageInterface \<Rightarrow> string" where
  "get_master_key (StoreDb store) = master_encryption_key store"
| "get_master_key (MockDb conn) = map char_of [1 ..< 33 :: nat]"

fun add_request_id :: "('s, 'db) StorageInterface \<Rightarrow> string \<Rightarrow> ('s, 'db) StorageInterface" where
  "add_request_id (StoreDb store) i = StoreDb (store\<lparr>os_request_id := Some i\<rparr>)"
| "add_request_id (MockDb conn) i = MockDb conn"

fun get_request_id :: "('s, 'db) StorageInterface \<Rightarrow> string option" where
  "get_request_id (StoreDb store) = os_request_id store"
| "get_request_id (MockDb conn) = None"

record ('s, 'db) AppState =
  flow_name :: string
  app_store :: "('s, 'db) StorageInterface"
  app_settings :: FullSettings
  app_request_id :: "string option"

text \<open>A panic is an error with the text of the \<open>expect\<close>. Every arm of the match on the storage
  but the mock is commented out, and the wildcard takes them all.\<close>

definition with_storage ::
  "'w cloud \<Rightarrow> setup_env \<Rightarrow> 's fred \<Rightarrow> FullSettings \<Rightarrow> StorageImpl \<Rightarrow>
   ('w \<times> setup_event list, string, ('s, 'db) AppState) eff" where
  "with_storage cloud env R conf storage_impl =
     ebind (on_fst (expect ''Failed to create secret management client''
              (elift (get_secret_management_client cloud (st_secrets_management conf))))) (\<lambda>client.
     ebind (on_fst (fetch_raw_secrets conf client)) (\<lambda>raw_conf.
     ebind (on_snd (expect ''Failed to create mock store'' (MockDb_new env R (st_redis raw_conf)))) (\<lambda>store.
       ereturn \<lparr>flow_name = ''default'', app_store = store, app_settings = raw_conf, app_request_id = None\<rparr>)))"

definition AppState_new ::
  "'w cloud \<Rightarrow> setup_env \<Rightarrow> 's fred \<Rightarrow> FullSettings \<Rightarrow> ('w \<times> setup_event list, string, ('s, 'db) AppState) eff" where
  "AppState_new cloud env R conf = with_storage cloud env R conf Postgresql"

section \<open>What a start-up leaves behind\<close>

lemma ebind_Err:
  "ebind m g s = (Err e, s'') \<longleftrightarrow> m s = (Err e, s'') \<or> (\<exists>a s'. m s = (Ok a, s') \<and> g a s' = (Err e, s''))"
  by (auto simp: ebind_run split: prod.splits sum.splits)

lemma happens_run [eff_simps]: "happens e log = (Ok (), log @ [e])"
  by (simp add: happens_def)

lemma if_it_works_run [eff_simps]: "if_it_works b e log = (if b then Ok () else Err e, log)"
  by (simp add: if_it_works_def)

text \<open>The events of the clients and of the database pools: no tasks and no subscription.\<close>

fun is_connection :: "setup_event \<Rightarrow> bool" where
  "is_connection (Connected c cfg perf reconnect t) = True"
| "is_connection (PgBuilt p) = True"
| "is_connection _ = False"

definition only_logs :: "(setup_event \<Rightarrow> bool) \<Rightarrow> ('e, 'a) startup \<Rightarrow> bool" where
  "only_logs P m \<longleftrightarrow> (\<forall>log. \<exists>es. snd (m log) = log @ es \<and> list_all P es)"

abbreviation only_connects :: "('e, 'a) startup \<Rightarrow> bool" where
  "only_connects \<equiv> only_logs is_connection"

lemma only_logsD: "only_logs P m \<Longrightarrow> m log = (r, log') \<Longrightarrow> \<exists>es. log' = log @ es \<and> list_all P es"
  unfolding only_logs_def by (metis snd_conv)

lemma only_logs_mono: "only_logs P m \<Longrightarrow> (\<And>e. P e \<Longrightarrow> Q e) \<Longrightarrow> only_logs Q m"
  unfolding only_logs_def list_all_iff by blast

lemma only_logs_ereturn [intro, simp]: "only_logs P (ereturn a)"
  by (simp add: only_logs_def)

lemma only_logs_elift [intro, simp]: "only_logs P (elift r)"
  by (simp add: only_logs_def elift_def)

lemma only_logs_if_it_works [intro, simp]: "only_logs P (if_it_works b e)"
  by (simp add: only_logs_def if_it_works_run)

lemma only_logs_happens [intro, simp]: "P e \<Longrightarrow> only_logs P (happens e)"
  by (simp add: only_logs_def happens_run)

lemma only_logs_ebind [intro]:
  assumes m: "only_logs P m" and f: "\<And>a. only_logs P (f a)"
  shows "only_logs P (ebind m f)"
  unfolding only_logs_def
proof
  fix log
  obtain r log' where run: "m log = (r, log')" by (cases "m log")
  with only_logsD [OF m] obtain es where es: "log' = log @ es" "list_all P es" by blast
  show "\<exists>es. snd (ebind m f log) = log @ es \<and> list_all P es"
  proof (cases r)
    case (Inr a)
    from f [of a] obtain fs where "snd (f a log') = log' @ fs" "list_all P fs"
      unfolding only_logs_def by blast
    with run es Inr show ?thesis by (auto simp: ebind_def ematch_def intro!: exI [of _ "es @ fs"])
  qed (use run es in \<open>auto simp: ebind_def ematch_def\<close>)
qed

fun is_client :: "setup_event \<Rightarrow> bool" where
  "is_client (Connected c cfg perf reconnect t) = True"
| "is_client _ = False"

lemma is_client_is_connection: "is_client e \<Longrightarrow> is_connection e"
  by (cases e) simp_all

lemma RedisStore_new_only_clients: "only_logs is_client (RedisStore_new env R conf)"
  unfolding RedisStore_new_def RedisConnectionPool_new_def Client_new_def Let_def
  by (intro only_logs_ebind) auto

lemma RedisStore_new_only_connects: "only_connects (RedisStore_new env R conf)"
  by (rule only_logs_mono [OF RedisStore_new_only_clients is_client_is_connection])

lemma RedisStore_new_Ok:
  "RedisStore_new env R conf log = (Ok conn, log') \<Longrightarrow>
     conn = \<lparr>pool = R, config = RedisConfig_from conf, is_redis_available = True\<rparr>"
  by (simp only: RedisStore_new_def RedisConnectionPool_new_def Let_def ebind_Ok) auto

lemma subscribe_to_channel_run:
  "subscribe_to_channel env channel log =
     (if se_subscribe env channel then (Ok (), log @ [ManageSubscriptions, Subscribed channel, OnMessageSpawned])
      else (Err SubscribeError, log @ [ManageSubscriptions]))"
  by (simp add: subscribe_to_channel_def eff_simps)

lemma diesel_make_pg_pool_only_connects: "only_connects (diesel_make_pg_pool env d t)"
  unfolding diesel_make_pg_pool_def Let_def by (intro only_logs_ebind) auto

lemma diesel_make_pg_pool_run:
  "diesel_make_pg_pool env d t log =
     (if se_build env (pg_pool_conf d t) then (Ok (pg_pool_conf d t), log @ [PgBuilt (pg_pool_conf d t)])
      else (Err InitializationError, log))"
  by (simp add: diesel_make_pg_pool_def Let_def eff_simps)

section \<open>The interface of the database stores\<close>

text \<open>\<open>trait DatabaseStore\<close>: \<open>new\<close> makes the pools of its configuration, fails with one error only, and does
  nothing but connect.\<close>

locale database_store =
  fixes db_new :: "('c, 'db) db_new"
    and get_master :: "'db \<Rightarrow> PgPool" and get_replica :: "'db \<Rightarrow> PgPool"
    and master_conf :: "'c \<Rightarrow> Database" and replica_conf :: "'c \<Rightarrow> Database"
  assumes new_connects: "only_connects (db_new c t)"
    and new_pools: "db_new c t log = (Ok db, log') \<Longrightarrow>
      get_master db = pg_pool_conf (master_conf c) t \<and> get_replica db = pg_pool_conf (replica_conf c) t"
    and new_error: "db_new c t log = (Err e, log') \<Longrightarrow> e = InitializationError"

interpretation single: database_store "Store_new env" Store_get_master_pool Store_get_replica_pool id id
proof
  show "only_connects (Store_new env c t)" for c t
    unfolding Store_new_def by (intro only_logs_ebind diesel_make_pg_pool_only_connects) auto
qed (auto simp: Store_new_def Store_get_master_pool_def Store_get_replica_pool_def diesel_make_pg_pool_run eff_simps
    split: if_splits)

interpretation replicated: database_store "ReplicaStore_new env" ReplicaStore_get_master_pool
  ReplicaStore_get_replica_pool fst snd
proof
  show "only_connects (ReplicaStore_new env c t)" for c t
    unfolding ReplicaStore_new_def
    by (cases c) (auto intro!: only_logs_ebind diesel_make_pg_pool_only_connects)
qed (auto simp: ReplicaStore_new_def ReplicaStore_get_master_pool_def ReplicaStore_get_replica_pool_def
    diesel_make_pg_pool_run eff_simps split: if_splits prod.splits)

definition watches :: "string \<Rightarrow> setup_event list \<Rightarrow> bool" where
  "watches channel log \<longleftrightarrow> OnErrorSpawned \<in> set log \<and> Subscribed channel \<in> set log \<and> OnMessageSpawned \<in> set log"

definition unwatched :: "setup_event list \<Rightarrow> bool" where
  "unwatched log \<longleftrightarrow> list_all is_connection log"

context database_store
begin

lemma db_new_log:
  assumes "db_new c t [] = (r, log)" shows "list_all is_connection log"
  using new_connects [of c t] assms by (auto dest: only_logsD)

lemma redis_new_log:
  assumes "RedisStore_new env R conf log = (r, log')" "list_all is_connection log"
  shows "list_all is_connection log'"
proof -
  from RedisStore_new_only_connects [of env R conf] assms(1) obtain es
    where "log' = log @ es" "list_all is_connection es"
    using only_logsD by blast
  with assms(2) show ?thesis by simp
qed

lemma connection_quiet: "list_all is_connection es \<Longrightarrow> OnMessageSpawned \<notin> set es \<and> OnErrorSpawned \<notin> set es"
  by (auto simp: list_all_iff)

lemma db_quiet: "db_new c t [] = (r, log) \<Longrightarrow> OnMessageSpawned \<notin> set log \<and> OnErrorSpawned \<notin> set log"
  by (rule connection_quiet [OF db_new_log])

lemma redis_quiet:
  "db_new c t [] = (r, log) \<Longrightarrow> RedisStore_new env R conf log = (r', log') \<Longrightarrow>
     OnMessageSpawned \<notin> set log' \<and> OnErrorSpawned \<notin> set log'"
  by (rule connection_quiet [OF redis_new_log [OF _ db_new_log]])

text \<open>The two ways to open the store, on a success: the fields, and what is left running.\<close>

lemma test_store_Ok:
  assumes "RouterStore_test_store db_new env R c conf key [] = (Ok store, log)"
  shows "get_master (db_store store) = pg_pool_conf (master_conf c) True \<and>
    get_replica (db_store store) = pg_pool_conf (replica_conf c) True \<and>
    cache_store store = \<lparr>pool = R, config = RedisConfig_from conf, is_redis_available = True\<rparr> \<and>
    master_encryption_key store = key \<and> os_request_id store = None \<and> unwatched log"
  using assms
  by (simp only: RouterStore_test_store_def ebind_Ok change_context_Ok)
    (auto simp: unwatched_def dest: new_pools RedisStore_new_Ok intro: db_new_log redis_new_log)

lemma from_config_Ok:
  assumes "RouterStore_from_config db_new env R c conf key channel [] = (Ok store, log)"
  shows "get_master (db_store store) = pg_pool_conf (master_conf c) False \<and>
    get_replica (db_store store) = pg_pool_conf (replica_conf c) False \<and>
    cache_store store = \<lparr>pool = R, config = RedisConfig_from conf, is_redis_available = True\<rparr> \<and>
    master_encryption_key store = key \<and> os_request_id store = None \<and> watches channel log"
  using assms
  by (simp only: RouterStore_from_config_def ebind_Ok change_context_Ok set_error_callback_def happens_run
      subscribe_to_channel_run)
    (auto simp: watches_def split: if_splits dest: new_pools RedisStore_new_Ok)

lemma test_store_Err:
  assumes "RouterStore_test_store db_new env R c conf key [] = (Err e, log)"
  shows "e = InitializationError \<and> unwatched log"
  using assms
  unfolding RouterStore_test_store_def ebind_Err change_context_Ok change_context_Err
  by (auto simp: unwatched_def dest: new_error intro: db_new_log redis_new_log)

lemma from_config_Err:
  assumes "RouterStore_from_config db_new env R c conf key channel [] = (Err e, log)"
  shows "e = InitializationError \<and> OnMessageSpawned \<notin> set log \<and>
    (OnErrorSpawned \<in> set log \<longrightarrow> \<not> se_subscribe env channel)"
  using assms
  unfolding RouterStore_from_config_def ebind_Err change_context_Ok change_context_Err set_error_callback_def
    happens_run subscribe_to_channel_run
  by (auto split: if_splits dest: new_error db_quiet redis_quiet)

end



definition open_env :: setup_env where
  "open_env = \<lparr>se_from_url = (\<lambda>url. Some \<lparr>fc_url = url, fc_version = RESP2, fc_tracing = False, fc_blocking = BlockingBlock\<rparr>),
     se_connect = (\<lambda>c cfg. True), se_pool_new = (\<lambda>cfg n. 0 < n), se_subscribe = (\<lambda>channel. True), se_build = (\<lambda>p. True)\<rparr>"


lemma kv_store_shares_redis:
  "\<exists>kv. KVRouterStore_new (store, stream, partitions, ttl) test log = (Ok kv, log) \<and>
     kv_redis (kv_redis_conn kv) = kv_redis (cache_store store) \<and> kv_request_id kv = os_request_id store"
  by (simp add: KVRouterStore_new_def KVRouterStore_from_store_def)

section \<open>The key of the application\<close>

lemma on_fst_Ok: "on_fst m w = (Ok a, w') \<longleftrightarrow> m (fst w) = (Ok a, fst w') \<and> snd w' = snd w"
  by (cases w, cases w') (auto simp: on_fst_run split: prod.splits)

lemma on_snd_Ok: "on_snd m w = (Ok a, w') \<longleftrightarrow> m (snd w) = (Ok a, snd w') \<and> fst w' = fst w"
  by (cases w, cases w') (auto simp: on_snd_run split: prod.splits)

text \<open>C19: The application runs on the mock store, whatever storage is asked for: its master key is the constant of
  the mock and not the configured one, no pool of the database is made, and no task watches Redis for the shutdown
  signal.\<close>

theorem app_state_has_mock_key:
  assumes "with_storage cloud env R conf storage_impl (w, []) = (Ok st, (w', log))"
  shows "get_master_key (app_store st) = map char_of [1 ..< 33 :: nat] \<and>
    (\<forall>p. PgBuilt p \<notin> set log) \<and> OnErrorSpawned \<notin> set log \<and>
    get_request_id (add_request_id (app_store st) i) = None \<and>
    with_storage cloud env R conf storage_impl' (w, []) = (Ok st, (w', log))"
proof -
  from assms have same: "with_storage cloud env R conf storage_impl' (w, []) = (Ok st, (w', log))"
    by (simp add: with_storage_def)
  from assms obtain raw :: FullSettings and conn where
    mock: "RedisStore_new env R (st_redis raw) [] = (Ok conn, log)" and st: "app_store st = MockDb conn"
    unfolding with_storage_def expect_def MockDb_new_def ebind_Ok on_fst_Ok on_snd_Ok change_context_Ok
    by auto
  have "list_all is_client log"
    using only_logsD [OF RedisStore_new_only_clients mock] by simp
  then have "(\<forall>p. PgBuilt p \<notin> set log) \<and> OnErrorSpawned \<notin> set log"
    by (auto simp: list_all_iff)
  with st same show ?thesis by simp
qed

definition demo_full_settings :: FullSettings where
  "demo_full_settings = Settings.extend demo_settings
     (FullSettings.fields \<lparr>vault_encryption_key = [], rust_locker_encryption_key = [], vault_private_key = [], tunnel_private_key = []\<rparr>)"

lemma demo_full_settings_simps:
  "st_redis demo_full_settings = RedisSettings_default" "st_secrets_management demo_full_settings = NoEncryption"
  "set (secret_texts demo_full_settings) = {''p'', ''j'', ''a'', [], ''m'', ''k''}"
  by (auto simp: demo_full_settings_def demo_settings_def Settings.defs FullSettings.defs secret_texts_def)

theorem app_state_has_mock_key_witness:
  "\<exists>st log. (AppState_new demo_cloud open_env mem_fred demo_full_settings ([], []) ::
        (string, (mem, PgStore) AppState) result \<times> (mem_kms_state \<times> setup_event list)) = (Ok st, ([], log)) \<and>
     get_master_key (app_store st) \<noteq> ''m''"
proof -
  let ?run = "with_storage demo_cloud open_env mem_fred demo_full_settings Postgresql ([], []) ::
    (string, (mem, PgStore) AppState) result \<times> (mem_kms_state \<times> setup_event list)"
  have "fetch_raw_secrets demo_full_settings NoEncryption_get_secret ([] :: mem_kms_state) = (Ok demo_full_settings, [])"
    by (rule no_encryption_identity) (auto simp: demo_full_settings_simps)
  moreover obtain conn log where "RedisStore_new open_env mem_fred RedisSettings_default [] = (Ok conn, log)"
    by (simp add: RedisStore_new_def RedisConnectionPool_new_def Client_new_def open_env_def RedisSettings_default_def
        Let_def eff_simps ok_or_def elift_def)
  ultimately obtain st where run: "?run = (Ok st, ([], log))"
    by (simp add: with_storage_def expect_def MockDb_new_def demo_full_settings_simps get_secret_management_client_def
        elift_def eff_simps)
  from app_state_has_mock_key [OF run] have "length (get_master_key (app_store st)) = 32" by simp
  with run show ?thesis by (auto simp: AppState_new_def)
qed

end
