(* ===== verification/Router_Cache.thy ===== *)
theory Router_Cache
  imports Cache Store_Setup
begin

text \<open>
  The caches of the application, \<open>router/src/cache.rs\<close>: the functions of \<open>storage_impl/src/redis/cache.rs\<close> once more,
  over any \<open>StorageInterface\<close>, and the redaction of several keys at once. Both agree, and a process that handles what a
  redaction has published holds none of its keys. The futures of \<open>try_join_all\<close> run in order.
\<close>

section \<open>The functions (cache.rs)\<close>

text \<open>\<open>RedisConnInterface\<close> of the two implementations of \<open>StorageInterface\<close>.\<close>

fun storage_redis_conn :: "('s, 'db) StorageInterface \<Rightarrow> 's RedisConnectionPool" where
  "storage_redis_conn (MockDb conn) = conn"
| "storage_redis_conn (StoreDb store) = cache_store store"

definition storage_get_redis_conn :: "('s, 'db) StorageInterface \<Rightarrow> (RedisError, 's RedisConnectionPool) result" where
  "storage_get_redis_conn store = kv_redis (storage_redis_conn store)"

definition router_redis ::
  "('s, 'db) StorageInterface \<Rightarrow> (('c, 's, 'd) cache_world, StorageError, 's RedisConnectionPool) eff" where
  "router_redis store =
     change_context (StorageError.RedisError RedisConnectionError) (elift (storage_get_redis_conn store))"

definition router_get_or_populate_redis ::
  "('v \<Rightarrow> string option) \<Rightarrow> (string \<Rightarrow> 'v option) \<Rightarrow> ('s, 'db) StorageInterface \<Rightarrow> string \<Rightarrow>
   ('d, StorageError, 'v) eff \<Rightarrow> (('c, 's, 'd) cache_world, StorageError, 'v) eff" where
  "router_get_or_populate_redis ser de store key f =
     ebind (router_redis store) (\<lambda>redis.
       ematch (cw_on_redis (get_and_deserialize_key redis de key))
         (\<lambda>err.
            if err = RedisError.NotFound \<or> err = JsonDeserializationFailed
            then ebind (cw_on_db f) (\<lambda>data.
                 ebind (change_context KVError (cw_on_redis (serialize_and_set_key redis ser key data)))
                   (\<lambda>_. ereturn data))
            else ethrow KVError)
         ereturn)"

definition router_get_or_populate_in_memory ::
  "('c, 'a) moka \<Rightarrow> ('v \<Rightarrow> 'a) \<Rightarrow> ('a \<Rightarrow> 'v option) \<Rightarrow> ('v \<Rightarrow> string option) \<Rightarrow> (string \<Rightarrow> 'v option) \<Rightarrow>
   ('s, 'db) StorageInterface \<Rightarrow> string \<Rightarrow> ('d, StorageError, 'v) eff \<Rightarrow>
   (('c, 's, 'd) cache_world, StorageError, 'v) eff" where
  "router_get_or_populate_in_memory M up down ser de store key f w =
     (case cache_get_val M down key (cw_cache w) of
        (Some val, c') \<Rightarrow> (Ok val, w\<lparr>cw_cache := c'\<rparr>)
      | (None, c') \<Rightarrow>
          ebind (router_get_or_populate_redis ser de store key f)
            (\<lambda>val w'. (Ok val, w'\<lparr>cw_cache := cache_push M up key val (cw_cache w')\<rparr>))
            (w\<lparr>cw_cache := c'\<rparr>))"

definition router_redact_cache ::
  "('c, 'a) moka \<Rightarrow> ('s, 'db) StorageInterface \<Rightarrow> string \<Rightarrow> ('d, StorageError, 't) eff \<Rightarrow> bool \<Rightarrow>
   (('c, 's, 'd) cache_world, StorageError, 't) eff" where
  "router_redact_cache M store key f in_memory =
     ebind (cw_on_db f) (\<lambda>data w.
       ebind (router_redis store) (\<lambda>conn.
         ebind (change_context KVError (cw_on_redis (delete_key conn key))) (\<lambda>_. ereturn data))
         (if in_memory then w\<lparr>cw_cache := moka_invalidate M key (cw_cache w)\<rparr> else w))"

definition ROUTER_PUB_SUB_CHANNEL :: string where
  "ROUTER_PUB_SUB_CHANNEL = ''hyperswitch_invalidate''"

fun try_join_publish ::
  "'s RedisConnectionPool \<Rightarrow> CacheKind list \<Rightarrow> (('c, 's, 'd) cache_world, StorageError, nat list) eff" where
  "try_join_publish conn [] = ereturn []"
| "try_join_publish conn (key # keys) =
     ebind (change_context KVError (cw_on_redis (publish conn ROUTER_PUB_SUB_CHANNEL key))) (\<lambda>n.
     ebind (try_join_publish conn keys) (\<lambda>ns. ereturn (n # ns)))"

definition router_publish_into_redact_channel ::
  "('s, 'db) StorageInterface \<Rightarrow> CacheKind list \<Rightarrow> (('c, 's, 'd) cache_world, StorageError, nat) eff" where
  "router_publish_into_redact_channel store keys =
     ebind (router_redis store) (\<lambda>conn.
     ebind (try_join_publish conn keys) (\<lambda>ns. ereturn (sum_list ns)))"

definition publish_and_redact_multiple ::
  "('s, 'db) StorageInterface \<Rightarrow> CacheKind list \<Rightarrow> ('d, StorageError, 't) eff \<Rightarrow>
   (('c, 's, 'd) cache_world, StorageError, 't) eff" where
  "publish_and_redact_multiple store keys f =
     ebind (cw_on_db f) (\<lambda>data. ebind (router_publish_into_redact_channel store keys) (\<lambda>_. ereturn data))"

definition router_publish_and_redact ::
  "('s, 'db) StorageInterface \<Rightarrow> CacheKind \<Rightarrow> ('d, StorageError, 't) eff \<Rightarrow>
   (('c, 's, 'd) cache_world, StorageError, 't) eff" where
  "router_publish_and_redact store key f =
     ebind (cw_on_db f) (\<lambda>data. ebind (router_publish_into_redact_channel store [key]) (\<lambda>_. ereturn data))"

section \<open>Agreement with the functions of the store\<close>

lemma router_redis_eq: "router_redis store = elift (cache_redis (storage_redis_conn store))"
  by (rule ext)
    (simp add: router_redis_def storage_get_redis_conn_def cache_redis_def kv_redis_def elift_def eff_simps)

lemma router_get_or_populate_redis_eq:
  "router_get_or_populate_redis ser de store = get_or_populate_redis ser de (storage_redis_conn store)"
  by (intro ext) (simp add: router_get_or_populate_redis_def get_or_populate_redis_def router_redis_eq Let_def)

lemma router_get_or_populate_in_memory_eq:
  "router_get_or_populate_in_memory M up down ser de store =
     get_or_populate_in_memory M up down ser de (storage_redis_conn store)"
  unfolding fun_eq_iff router_get_or_populate_in_memory_def get_or_populate_in_memory_def
    router_get_or_populate_redis_eq by simp

lemma router_redact_cache_eq: "router_redact_cache M store = redact_cache M (storage_redis_conn store)"
  by (intro ext) (simp add: router_redact_cache_def redact_cache_def router_redis_eq Let_def)

lemma router_publish_one_eq:
  "router_publish_into_redact_channel store [key] = publish_into_redact_channel (storage_redis_conn store) key"
  by (rule ext)
    (simp add: router_publish_into_redact_channel_def publish_into_redact_channel_def router_redis_eq
      PUB_SUB_CHANNEL_def ROUTER_PUB_SUB_CHANNEL_def ebind_assoc del: ereturn_run)

lemma router_publish_and_redact_eq:
  "router_publish_and_redact store = publish_and_redact (storage_redis_conn store)"
  by (intro ext) (simp add: router_publish_and_redact_def publish_and_redact_def router_publish_one_eq)

section \<open>Channels\<close>

text \<open>A server that publishes: a message goes to the end of its channel, and on a failure it may or may not
  have gone there.\<close>

locale redis_pubsub =
  fixes R :: "'s fred" and valid :: "'s \<Rightarrow> bool" and channels :: "'s \<Rightarrow> string \<Rightarrow> FredValue list"
  assumes publish_law: "valid s \<Longrightarrow> fred_publish R c v s = (r, s') \<Longrightarrow>
      valid s' \<and> same_or (channels s) ((channels s)(c := channels s c @ [v])) (channels s') \<and>
      (\<forall>n. r = Ok n \<longrightarrow> channels s' = (channels s)(c := channels s c @ [v]))"
begin

lemma try_join_publish_Ok:
  assumes "pool conn = R" "valid (cw_redis w)" "try_join_publish conn keys w = (Ok ns, w')"
  shows "valid (cw_redis w') \<and> cw_cache w' = cw_cache w \<and> cw_db w' = cw_db w \<and>
    channels (cw_redis w') ROUTER_PUB_SUB_CHANNEL =
      channels (cw_redis w) ROUTER_PUB_SUB_CHANNEL @ map RedisValue_from keys"
  using assms(2,3)
proof (induction keys arbitrary: w ns)
  case (Cons key keys)
  from Cons.prems(2) obtain n ns' w1 where
    one: "cw_on_redis (publish conn ROUTER_PUB_SUB_CHANNEL key) w = (Ok n, w1)" and
    more: "try_join_publish conn keys w1 = (Ok ns', w')"
    by (auto simp: ebind_Ok change_context_Ok)
  from one obtain s1 where pub: "fred_publish R ROUTER_PUB_SUB_CHANNEL (RedisValue_from key) (cw_redis w) = (Ok n, s1)"
    and w1: "w1 = w\<lparr>cw_redis := s1\<rparr>"
    by (auto simp: cw_on_redis_def publish_def assms(1) change_context_Ok split: prod.splits)
  from publish_law [OF Cons.prems(1) pub] have s1: "valid s1"
    "channels s1 = (channels (cw_redis w))(ROUTER_PUB_SUB_CHANNEL :=
       channels (cw_redis w) ROUTER_PUB_SUB_CHANNEL @ [RedisValue_from key])" by auto
  from Cons.IH [OF _ more] s1 w1 show ?case by simp
qed simp

end

interpretation mem_pubsub: redis_pubsub mem_fred mem_valid mem_channels
  by unfold_locales (auto simp: mem_fred_def same_or_def intro: mem_valid_streams_eq)

section \<open>What a subscriber holds\<close>

text \<open>The keys of a kind are gone from the caches it names.\<close>

fun gone :: "('c \<Rightarrow> string \<rightharpoonup> 'a) \<Rightarrow> 'c \<times> 'c \<Rightarrow> CacheKind \<Rightarrow> bool" where
  "gone held (config_cache, accounts_cache) (Config k) \<longleftrightarrow> held config_cache k = None"
| "gone held (config_cache, accounts_cache) (Accounts k) \<longleftrightarrow> held accounts_cache k = None"
| "gone held (config_cache, accounts_cache) (CacheKind.All k) \<longleftrightarrow> held config_cache k = None \<and> held accounts_cache k = None"

context moka_cache
begin

lemma invalidate_keeps_none: "held c k = None \<Longrightarrow> held (moka_invalidate M j c) k = None"
  using invalidate_held [of j c] by (auto simp: map_le_def dom_def fun_upd_apply split: if_splits)

lemma handle_message_gone:
  assumes "\<And>s. as_string (FredString s) = Some s"
  shows "gone held (fst (handle_message M as_string conn (RedisValue_from kind) st)) kind"
  using cache_kind_roundtrip [OF assms, of kind] invalidated
  by (cases st; cases kind) (auto simp: handle_message_def)

lemma handle_message_keeps:
  assumes "gone held (fst st) kind"
  shows "gone held (fst (handle_message M as_string conn message st)) kind"
proof (cases "CacheKind_try_from as_string message")
  case (Inr other)
  obtain cc ac s where st: "st = ((cc, ac), s)" by (metis prod.exhaust)
  show ?thesis
    using assms Inr invalidate_keeps_none by (cases kind; cases other) (auto simp: handle_message_def st)
qed (use assms in \<open>simp add: handle_message_def\<close>)

lemma on_message_gone:
  assumes "\<And>s. as_string (FredString s) = Some s" "kind \<in> set kinds"
  shows "gone held (fst (on_message M as_string conn (map RedisValue_from kinds) st)) kind"
proof -
  have keep: "gone held (fst (fold (handle_message M as_string conn) ms st)) kind" if "gone held (fst st) kind" for ms st
    using that by (induction ms arbitrary: st) (simp_all add: handle_message_keeps)
  show ?thesis
    using assms(2) unfolding on_message_def
  proof (induction kinds arbitrary: st)
    case (Cons k kinds)
    then show ?case
      using keep handle_message_gone [OF assms(1), of conn kind st] by (cases "kind = k") simp_all
  qed simp
qed

end

text \<open>C17: What is redacted for several keys at once is gone from every process that has handled the messages. Where
  \<open>publish_and_redact_multiple\<close> succeeds it has run its function and put one message for each key, in order, on
  the channel; a process that handles the messages published since then holds none of the keys in
  the caches they name, whatever it held and whichever store they share.\<close>

theorem redaction_reaches_subscribers:
  assumes M: "moka_cache M held" and R: "redis_pubsub R valid channels"
    and store: "pool (storage_redis_conn store) = R" and v: "valid (cw_redis w)"
    and str: "\<And>s. as_string (FredString s) = Some s"
    and run: "publish_and_redact_multiple store kinds f w = (Ok data, w')"
    and messages: "channels (cw_redis w') ROUTER_PUB_SUB_CHANNEL = channels (cw_redis w) ROUTER_PUB_SUB_CHANNEL @ new"
  shows "f (cw_db w) = (Ok data, cw_db w') \<and> length new = length kinds \<and>
    (\<forall>kind\<in>set kinds. gone held (fst (on_message M as_string conn new caches)) kind)"
proof -
  from run obtain w1 ns where f: "cw_on_db f w = (Ok data, w1)" and av: "is_redis_available (storage_redis_conn store)"
    and pub: "try_join_publish (storage_redis_conn store) kinds w1 = (Ok ns, w')"
    by (auto simp: publish_and_redact_multiple_def router_publish_into_redact_channel_def router_redis_eq ebind_Ok
        elift_def cache_redis_def split: if_splits)
  from f have w1: "f (cw_db w) = (Ok data, cw_db w1)" "cw_redis w1 = cw_redis w"
    by (auto simp: cw_on_db_def split: prod.splits)
  from redis_pubsub.try_join_publish_Ok [OF R store _ pub] v w1(2) messages
  have new: "new = map RedisValue_from kinds" and db: "cw_db w' = cw_db w1" by auto
  from w1(1) db show ?thesis by (auto simp: new intro: moka_cache.on_message_gone [OF M str])
qed

definition demo_storage :: "(mem, PgStore) StorageInterface" where
  "demo_storage = MockDb demo_cache_pool"

theorem redaction_reaches_subscribers_witness:
  "\<exists>w'. publish_and_redact_multiple demo_storage [Config ''k'', Accounts ''a,b''] (\<lambda>d. (Ok (), ''new'')) demo_cache_world
      = (Ok (), w') \<and> cw_db w' = ''new'' \<and>
    gone (\<lambda>c. c) (fst (on_message map_moka mem_as_string demo_cache_pool
      (mem_channels (cw_redis w') ROUTER_PUB_SUB_CHANNEL)
      (([''k'' \<mapsto> ''old''], [''a,b'' \<mapsto> ''old'', ''k'' \<mapsto> ''kept'']), mem_init))) (Accounts ''a,b'')"
proof -
  let ?kinds = "[Config ''k'', Accounts ''a,b'']"
  let ?f = "\<lambda>d :: string. (Ok (), ''new'') :: (StorageError, unit) result \<times> string"
  obtain r w' where run': "publish_and_redact_multiple demo_storage ?kinds ?f demo_cache_world = (r, w')"
    by (cases "publish_and_redact_multiple demo_storage ?kinds ?f demo_cache_world")
  then have "r = Ok ()"
    by (auto simp: publish_and_redact_multiple_def router_publish_into_redact_channel_def router_redis_eq demo_storage_def
        demo_cache_pool_def cache_redis_def cw_on_db_def cw_on_redis_def publish_def mem_fred_def elift_def eff_simps)
  with run' have run: "publish_and_redact_multiple demo_storage ?kinds ?f demo_cache_world = (Ok (), w')" by simp
  have v: "mem_valid (cw_redis demo_cache_world)" by (simp add: demo_cache_world_def)
  have empty: "mem_channels (cw_redis demo_cache_world) ROUTER_PUB_SUB_CHANNEL = []"
    by (simp add: demo_cache_world_def mem_init_def)
  have pool: "pool (storage_redis_conn demo_storage) = mem_fred"
    by (simp add: demo_storage_def demo_cache_pool_def)
  have str: "mem_as_string (FredString s) = Some s" for s
    by (simp add: mem_as_string_def)
  from redaction_reaches_subscribers [OF map_cache.moka_cache_axioms mem_pubsub.redis_pubsub_axioms pool v str run,
      of "mem_channels (cw_redis w') ROUTER_PUB_SUB_CHANNEL" demo_cache_pool
        "(([''k'' \<mapsto> ''old''], [''a,b'' \<mapsto> ''old'', ''k'' \<mapsto> ''kept'']), mem_init)"]
  show ?thesis using run empty by auto
qed

end
