(* ===== verification/Drainer_Props.thy ===== *)
theory Drainer_Props
  imports Drainer "HOL-Library.Multiset"
begin

text \<open>
  What the drainer guarantees: the loop against its specification \<open>drain_spec\<close>, the effect
  of a session on its stream for every outcome of the Redis commands, progress when Redis and
  the database work, the round robin over the shards, the freeing of the flag, and the
  round trip of a queued operation.
\<close>

section \<open>The loop and its specification\<close>

text \<open>\<open>entry_done parse_op exec e d\<close> is the database after entry \<open>e\<close> when the entry
  counts as done: it decodes, and its query succeeds or violates a unique constraint.\<close>

definition entry_done ::
  "(string \<Rightarrow> 'op option) \<Rightarrow> ('op \<Rightarrow> ('d, DatabaseError, unit) eff) \<Rightarrow> StreamEntry \<Rightarrow> 'd \<Rightarrow> 'd option" where
  "entry_done parse_op exec e d =
     (case StreamData_from_hashmap parse_op (snd e) of
        Inl err \<Rightarrow> None
      | Inr data \<Rightarrow> (case exec (typed_sql data) d of
          (Inr _, d') \<Rightarrow> Some d'
        | (Inl err, d') \<Rightarrow> if err = UniqueViolation then Some d' else None))"

text \<open>The number of entries of the longest prefix that is done entry by entry.\<close>

fun drain_spec ::
  "(string \<Rightarrow> 'op option) \<Rightarrow> ('op \<Rightarrow> ('d, DatabaseError, unit) eff) \<Rightarrow> StreamEntry list \<Rightarrow> 'd \<Rightarrow> nat" where
  "drain_spec parse_op exec [] d = 0"
| "drain_spec parse_op exec (e # es) d =
     (case entry_done parse_op exec e d of None \<Rightarrow> 0 | Some d' \<Rightarrow> Suc (drain_spec parse_op exec es d'))"

lemma drain_spec_le: "drain_spec parse_op exec es d \<le> length es"
  by (induction es arbitrary: d) (auto split: option.splits)

lemma drain_entries_spec:
  "fst (drain_entries parse_op exec es lid d) =
     (let k = drain_spec parse_op exec es d in if k = 0 then lid else fst (es ! (k - 1)))"
proof (induction es arbitrary: lid d)
  case Nil
  then show ?case by simp
next
  case (Cons e es)
  obtain eid m where e: "e = (eid, m)" by (cases e)
  show ?case
  proof (cases "entry_done parse_op exec e d")
    case None
    then show ?thesis
      by (auto simp: e entry_done_def split: sum.splits prod.splits DatabaseError.splits if_splits)
  next
    case (Some d')
    then have "drain_entries parse_op exec (e # es) lid d = drain_entries parse_op exec es eid d'"
      by (auto simp: e entry_done_def split: sum.splits prod.splits DatabaseError.splits if_splits)
    with Cons.IH [of eid d'] Some show ?thesis
      by (auto simp: e Let_def nth_Cons split: nat.splits)
  qed
qed

text \<open>Every entry of the prefix is done in the database left by the ones before it, and the
  entry after it is not.\<close>

fun db_after ::
  "(string \<Rightarrow> 'op option) \<Rightarrow> ('op \<Rightarrow> ('d, DatabaseError, unit) eff) \<Rightarrow> StreamEntry list \<Rightarrow> 'd \<Rightarrow> 'd option" where
  "db_after parse_op exec [] d = Some d"
| "db_after parse_op exec (e # es) d = Option.bind (entry_done parse_op exec e d) (db_after parse_op exec es)"

lemma drain_spec_prefix:
  "db_after parse_op exec (take (drain_spec parse_op exec es d) es) d \<noteq> None"
  by (induction es arbitrary: d) (auto split: option.splits)

lemma drain_spec_maximal:
  "k \<le> length es \<Longrightarrow> db_after parse_op exec (take k es) d \<noteq> None \<Longrightarrow> k \<le> drain_spec parse_op exec es d"
proof (induction es arbitrary: d k)
  case Nil
  then show ?case by simp
next
  case (Cons e es)
  then show ?case
    by (cases k; cases "entry_done parse_op exec e d") auto
qed

text \<open>A batch whose entries can all be done is processed to its end, and leaves the database of
  the last query.\<close>

lemma drain_all:
  "db_after parse_op exec es d = Some d' \<Longrightarrow>
     snd (drain_entries parse_op exec es lid d) = d' \<and> drain_spec parse_op exec es d = length es"
proof (induction es arbitrary: d lid)
  case Nil
  then show ?case by simp
next
  case (Cons e es)
  obtain eid m where e: "e = (eid, m)" by (cases e)
  from Cons.prems obtain d1 where d1: "entry_done parse_op exec e d = Some d1" "db_after parse_op exec es d1 = Some d'"
    by (auto simp: bind_eq_Some_conv)
  from d1(1) have "drain_entries parse_op exec (e # es) lid d = drain_entries parse_op exec es eid d1"
    by (auto simp: e entry_done_def split: sum.splits prod.splits DatabaseError.splits if_splits)
  with d1 Cons.IH [OF d1(2), of eid] show ?case by simp
qed

lemma db_after_append:
  "db_after parse_op exec (es @ fs) d = Option.bind (db_after parse_op exec es d) (db_after parse_op exec fs)"
  by (induction es arbitrary: d) (auto split: option.splits bind_splits)

text \<open>The drain loop returns the id of the last entry of the longest prefix of the batch
  whose entries are done one after the other, or the empty id when there is none. Nothing after
  an entry that failed counts as processed.\<close>

theorem drain_entries_longest_prefix:
  "\<exists>k \<le> length es.
     fst (drain_entries parse_op exec es [] d) = (if k = 0 then [] else fst (es ! (k - 1))) \<and>
     db_after parse_op exec (take k es) d \<noteq> None \<and>
     (\<forall>j \<le> length es. db_after parse_op exec (take j es) d \<noteq> None \<longrightarrow> j \<le> k)"
proof (intro exI [of _ "drain_spec parse_op exec es d"] conjI allI impI)
  show "drain_spec parse_op exec es d \<le> length es" by (rule drain_spec_le)
  show "fst (drain_entries parse_op exec es [] d) =
      (if drain_spec parse_op exec es d = 0 then [] else fst (es ! (drain_spec parse_op exec es d - 1)))"
    by (simp add: drain_entries_spec Let_def)
  show "db_after parse_op exec (take (drain_spec parse_op exec es d) es) d \<noteq> None"
    by (rule drain_spec_prefix)
  fix j
  assume "j \<le> length es" and "db_after parse_op exec (take j es) d \<noteq> None"
  then show "j \<le> drain_spec parse_op exec es d" by (rule drain_spec_maximal)
qed

theorem drain_entries_longest_prefix_witness:
  "\<exists>k \<le> length [(''1-0'', Map.empty :: string \<rightharpoonup> string)].
     fst (drain_entries Some (\<lambda>op d. (Ok (), d)) [(''1-0'', Map.empty)] [] ()) =
       (if k = 0 then [] else fst ([(''1-0'', Map.empty :: string \<rightharpoonup> string)] ! (k - 1)))"
  using drain_entries_longest_prefix [of "[(''1-0'', Map.empty)]" Some "\<lambda>op d. (Ok (), d)" "()"] by blast

section \<open>Reading and trimming a stream\<close>

lemma drop_nth_filter:
  assumes "distinct (map fst xs)" and "i < length xs"
  shows "filter (\<lambda>e. fst e \<notin> set [fst (xs ! i)]) (drop i xs) = drop (Suc i) xs"
proof -
  from assms(2) have d: "drop i xs = xs ! i # drop (Suc i) xs"
    by (simp add: Cons_nth_drop_Suc)
  have "\<forall>e \<in> set (drop (Suc i) xs). fst e \<noteq> fst (xs ! i)"
  proof -
    have "distinct (map fst (drop i xs))"
      using assms(1) by (simp flip: drop_map)
    then show ?thesis unfolding d by (auto simp: image_iff)
  qed
  then show ?thesis unfolding d by (simp add: filter_id_conv)
qed

context redis_streams
begin

lemma trim_from_stream_cases:
  assumes R: "pool (redis_conn store) = R" and v: "valid s"
    and i: "i < length (stream_view s k)" and mid: "fst (stream_view s k ! i) = mid"
    and run: "trim_from_stream store k mid s = (r, s')"
  shows "valid s' \<and>
    (\<exists>j \<le> Suc i. stream_view s' = (stream_view s)(k := drop j (stream_view s k))) \<and>
    (\<forall>n. r = Ok n \<longrightarrow> n = Suc i \<and> stream_view s' = (stream_view s)(k := drop (Suc i) (stream_view s k)))"
proof -
  let ?xs = "stream_view s k"
  obtain rt s1 where t: "fred_xtrim R k (MinID, Exact, mid) s = (rt, s1)" by fastforce
  note tl = xtrim_law [OF v i mid t]
  show ?thesis
  proof (cases rt)
    case (Inl e)
    with run R t have "s' = s1" "\<exists>e. r = Err e"
      by (auto simp: trim_from_stream_def stream_trim_entries_def eff_simps)
    moreover have "\<exists>j \<le> Suc i. stream_view s1 = (stream_view s)(k := drop j ?xs)"
    proof -
      from tl consider "stream_view s1 = stream_view s" | "stream_view s1 = (stream_view s)(k := drop i ?xs)"
        by (auto simp: same_or_def)
      then show ?thesis
      proof cases
        case 1
        then show ?thesis by (intro exI [of _ 0]) auto
      next
        case 2
        then show ?thesis by (intro exI [of _ i]) auto
      qed
    qed
    ultimately show ?thesis using tl by auto
  next
    case (Inr n)
    with tl have n: "n = i" and v1: "valid s1" and vw: "stream_view s1 = (stream_view s)(k := drop i ?xs)"
      by auto
    obtain rd s2 where d: "fred_xdel R k [mid] s1 = (rd, s2)" by fastforce
    note dl = xdel_law [OF v1 d]
    have flt: "filter (\<lambda>e. fst e \<notin> set [mid]) (stream_view s1 k) = drop (Suc i) ?xs"
      using drop_nth_filter [OF ids_distinct [OF v] i] mid vw by simp
    have upd: "(stream_view s1)(k := filter (\<lambda>e. fst e \<notin> set [mid]) (stream_view s1 k)) =
        (stream_view s)(k := drop (Suc i) ?xs)"
      unfolding flt unfolding vw by simp
    note dl' = dl [unfolded upd, unfolded vw]
    then have "\<exists>j \<le> Suc i. stream_view s2 = (stream_view s)(k := drop j ?xs)"
      by (auto simp: same_or_def intro: exI [of _ i] exI [of _ "Suc i"])
    with dl' run R t d Inr n show ?thesis
      by (auto simp: trim_from_stream_def stream_trim_entries_def stream_delete_entries_def eff_simps
          split: sum.splits)
  qed
qed

lemma read_from_stream_cases:
  assumes R: "pool (redis_conn store) = R" and v: "valid s" and n: "n \<noteq> 0"
    and run: "read_from_stream store k n s = (r, s')"
  shows "valid s' \<and> stream_view s' = stream_view s \<and>
    (\<forall>m. r = Ok m \<longrightarrow> (m = [k \<mapsto> take (unat n) (stream_view s k)]) \<or> (m = Map.empty \<and> stream_view s k = []))"
proof -
  obtain x s1 where x: "fred_xread_map R (Some n) None k (XidManual ''0-0'') s = (x, s1)" by fastforce
  from xread_law [OF v n x] run R x show ?thesis
    by (auto simp: read_from_stream_def stream_read_entries_def eff_simps split: sum.splits option.splits)
qed

lemma drainer_stream_cases:
  assumes R: "pool (redis_conn store) = R" and v: "valid (w_redis w)" and n: "n \<noteq> 0"
    and run: "drainer parse_op exec store n k w = (r, w')"
  defines "xs \<equiv> stream_view (w_redis w) k"
  defines "m \<equiv> drain_spec parse_op exec (take (unat n) xs) (w_db w)"
  shows "valid (w_redis w') \<and>
    (\<exists>j \<le> m. stream_view (w_redis w') = (stream_view (w_redis w))(k := drop j xs)) \<and>
    (r = Ok () \<and> w_jobs_picked w' \<noteq> w_jobs_picked w \<longrightarrow>
       stream_view (w_redis w') = (stream_view (w_redis w))(k := drop m xs) \<and>
       w_db w' = snd (drain_entries parse_op exec (take (unat n) xs) [] (w_db w)))"
proof -
  let ?s = "w_redis w"
  let ?es = "take (unat n) xs"
  obtain rr s1 where rd: "read_from_stream store k n ?s = (rr, s1)" by fastforce
  note rl = read_from_stream_cases [OF R v n rd]
  have unch: "(stream_view ?s)(k := drop 0 xs) = stream_view ?s" by (simp add: xs_def)
  show ?thesis
  proof (cases rr)
    case (Inl e)
    with run rd have "w_redis w' = s1" "w_jobs_picked w' = w_jobs_picked w"
      by (auto simp: drainer_def ematch_run on_redis_def split: if_splits)
    with rl unch show ?thesis by (auto intro!: exI [of _ "0::nat"])
  next
    case (Inr res)
    show ?thesis
    proof (cases "res = Map.empty")
      case True
      with Inr run rd have "w_redis w' = s1" "r = Err (RedisError RedisError.NotFound)"
        by (auto simp: drainer_def ematch_run on_redis_def parse_stream_entries_def)
      with rl unch show ?thesis by (auto intro!: exI [of _ "0::nat"])
    next
      case False
      with rl Inr have res: "res = [k \<mapsto> ?es]" by (auto simp: xs_def)
      obtain lid d' where de: "drain_entries parse_op exec ?es [] (w_db w) = (lid, d')" by fastforce
      have lid: "lid = (if m = 0 then [] else fst (?es ! (m - 1)))"
        using drain_entries_spec [of parse_op exec ?es "[]" "w_db w"] de by (simp add: m_def Let_def)
      let ?w1 = "w\<lparr>w_redis := s1, w_jobs_picked := w_jobs_picked w + 1, w_db := d'\<rparr>"
      have step: "drainer parse_op exec store n k w =
          (if lid \<noteq> [] then ebind (on_redis (trim_from_stream store k lid)) (\<lambda>_. ereturn ()) ?w1 else (Ok (), ?w1))"
        by (simp add: drainer_def ematch_run on_redis_def rd Inr res parse_stream_entries_def de)
      have m_le: "m \<le> length xs"
        using drain_spec_le [of parse_op exec ?es "w_db w"] by (simp add: m_def)
      show ?thesis
      proof (cases "m = 0")
        case True
        with lid step run have "r = Ok ()" "w' = ?w1" by auto
        with rl unch True de show ?thesis by auto
      next
        case pos: False
        then have i: "m - 1 < length xs" and es: "?es ! (m - 1) = xs ! (m - 1)"
          using m_le drain_spec_le [of parse_op exec ?es "w_db w"] by (auto simp: m_def)
        have ne: "lid \<noteq> []"
          using lid pos es ids_not_Nil [OF v, of "xs ! (m - 1)" k] i by (auto simp: xs_def)
        have v1: "valid s1" and vw1: "stream_view s1 = stream_view ?s" using rl by auto
        obtain rt s2 where t: "trim_from_stream store k lid s1 = (rt, s2)" by fastforce
        have "m - 1 < length (stream_view s1 k)" "fst (stream_view s1 k ! (m - 1)) = lid"
          using i lid pos es vw1 by (auto simp: xs_def)
        from trim_from_stream_cases [OF R v1 this t] pos vw1
        have tc: "valid s2" "\<exists>j \<le> m. stream_view s2 = (stream_view ?s)(k := drop j xs)"
          "\<forall>n. rt = Ok n \<longrightarrow> stream_view s2 = (stream_view ?s)(k := drop m xs)"
          by (auto simp: xs_def)
        have "w' = ?w1\<lparr>w_redis := s2\<rparr>" "r = Ok () \<longleftrightarrow> (\<exists>n. rt = Ok n)"
          using run step ne t by (auto simp: ebind_run on_redis_def split: sum.splits)
        with tc de show ?thesis by auto
      qed
    qed
  qed
qed

end

text \<open>A server whose stream commands do not fail: an empty stream is answered as empty and
  every other read, trim and delete succeeds.\<close>

locale redis_streams_reliable = redis_streams +
  assumes xread_answers: "valid s \<Longrightarrow> n \<noteq> 0 \<Longrightarrow> stream_view s k \<noteq> [] \<Longrightarrow>
      \<exists>es. fst (fred_xread_map R (Some n) None k (XidManual ''0-0'') s) = Ok (Some es)"
    and xread_empty: "valid s \<Longrightarrow> n \<noteq> 0 \<Longrightarrow> stream_view s k = [] \<Longrightarrow>
      fst (fred_xread_map R (Some n) None k (XidManual ''0-0'') s) \<in> {Err NotFoundKind, Err ParseKind}"
    and xtrim_answers: "valid s \<Longrightarrow> e \<in> set (stream_view s k) \<Longrightarrow>
      \<exists>n. fst (fred_xtrim R k (MinID, Exact, fst e) s) = Ok n"
    and xdel_answers: "valid s \<Longrightarrow> \<exists>n. fst (fred_xdel R k ids s) = Ok n"
begin

lemma trim_from_stream_Ok:
  assumes R: "pool (redis_conn store) = R" and v: "valid s"
    and i: "i < length (stream_view s k)" and mid: "fst (stream_view s k ! i) = mid"
  shows "fst (trim_from_stream store k mid s) = Ok (Suc i)"
proof -
  obtain rt s1 where t: "fred_xtrim R k (MinID, Exact, mid) s = (rt, s1)" by fastforce
  obtain rd s2 where d: "fred_xdel R k [mid] s1 = (rd, s2)" by fastforce
  have "\<exists>n. rt = Ok n"
    using xtrim_answers [OF v nth_mem [OF i]] mid t by auto
  moreover have "\<exists>n. rd = Ok n"
    using xdel_answers [of s1 k "[mid]"] xtrim_law [OF v i mid t] d by auto
  ultimately have "\<exists>n. fst (trim_from_stream store k mid s) = Ok n"
    using t d R
    by (auto simp: trim_from_stream_def stream_trim_entries_def stream_delete_entries_def eff_simps)
  moreover obtain r s' where "trim_from_stream store k mid s = (r, s')" by fastforce
  ultimately show ?thesis
    using trim_from_stream_cases [OF R v i mid] by auto
qed

lemma drainer_Ok:
  assumes R: "pool (redis_conn store) = R" and v: "valid (w_redis w)" and n: "n \<noteq> 0"
  shows "fst (drainer parse_op exec store n k w) = Ok () \<and>
    (stream_view (w_redis w) k \<noteq> [] \<longrightarrow>
       w_jobs_picked (snd (drainer parse_op exec store n k w)) = w_jobs_picked w + 1)"
proof -
  let ?s = "w_redis w" and ?xs = "stream_view (w_redis w) k"
  obtain x s1 where x: "fred_xread_map R (Some n) None k (XidManual ''0-0'') ?s = (x, s1)" by fastforce
  note xl = xread_law [OF v n x]
  show ?thesis
  proof (cases "?xs = []")
    case True
    with xread_empty [OF v n True] x R show ?thesis
      by (auto simp: drainer_def ematch_run on_redis_def read_from_stream_def stream_read_entries_def eff_simps)
  next
    case False
    with xread_answers [OF v n False] x obtain es where es: "x = Ok (Some es)" by auto
    with xl have es': "es = take (unat n) ?xs" and v1: "valid s1" and vw: "stream_view s1 = stream_view ?s"
      by auto
    have rd: "read_from_stream store k n ?s = (Ok [k \<mapsto> es], s1)"
      using x R es by (simp add: read_from_stream_def stream_read_entries_def eff_simps)
    obtain lid d' where de: "drain_entries parse_op exec es [] (w_db w) = (lid, d')" by fastforce
    let ?w1 = "w\<lparr>w_redis := s1, w_jobs_picked := w_jobs_picked w + 1, w_db := d'\<rparr>"
    have step: "drainer parse_op exec store n k w =
        (if lid \<noteq> [] then ebind (on_redis (trim_from_stream store k lid)) (\<lambda>_. ereturn ()) ?w1 else (Ok (), ?w1))"
      by (simp add: drainer_def ematch_run on_redis_def rd parse_stream_entries_def de)
    show ?thesis
    proof (cases "lid = []")
      case True
      with step show ?thesis by simp
    next
      case ne: False
      let ?m = "drain_spec parse_op exec es (w_db w)"
      have "lid = fst (es ! (?m - 1))" "?m \<noteq> 0"
        using ne de drain_entries_spec [of parse_op exec es "[]" "w_db w"]
        by (auto simp: Let_def split: if_splits)
      moreover have "?m - 1 < length es"
        using \<open>?m \<noteq> 0\<close> drain_spec_le [of parse_op exec es "w_db w"] by linarith
      ultimately have "?m - 1 < length (stream_view s1 k)" "fst (stream_view s1 k ! (?m - 1)) = lid"
        using es' vw by auto
      from trim_from_stream_Ok [OF R v1 this] obtain s2 where
        "trim_from_stream store k lid s1 = (Ok (Suc (?m - 1)), s2)"
        by (metis prod.collapse)
      with step ne show ?thesis by (simp add: ebind_run on_redis_def)
    qed
  qed
qed

lemma drainer_exact:
  fixes k :: string
  assumes R: "pool (redis_conn store) = R" and v: "valid (w_redis w)" and n: "n \<noteq> 0"
  defines "xs \<equiv> stream_view (w_redis w) k"
  shows "stream_view (w_redis (snd (drainer parse_op exec store n k w))) =
    (stream_view (w_redis w))(k := drop (drain_spec parse_op exec (take (unat n) xs) (w_db w)) xs)"
proof -
  obtain r w' where run: "drainer parse_op exec store n k w = (r, w')" by fastforce
  note c = drainer_stream_cases [OF R v n run]
  show ?thesis
  proof (cases "xs = []")
    case True
    with c run show ?thesis by (auto simp: xs_def)
  next
    case False
    then have "r = Ok ()" "w_jobs_picked w' = w_jobs_picked w + 1"
      using drainer_Ok [OF R v n, of parse_op exec k] run by (auto simp: xs_def)
    with c run show ?thesis by (auto simp: xs_def)
  qed
qed

text \<open>A session over a whole stream that can be done leaves the stream empty and the database of
  the last query.\<close>

lemma drainer_all:
  fixes k :: string
  assumes R: "pool (redis_conn store) = R" and v: "valid (w_redis w)" and n: "n \<noteq> 0"
    and len: "length (stream_view (w_redis w) k) \<le> unat n" and ne: "stream_view (w_redis w) k \<noteq> []"
    and all: "db_after parse_op exec (stream_view (w_redis w) k) (w_db w) = Some d'"
    and run: "drainer parse_op exec store n k w = (r, w')"
  shows "r = Ok () \<and> w_db w' = d' \<and> stream_view (w_redis w') = (stream_view (w_redis w))(k := [])"
proof -
  have "r = Ok ()" "w_jobs_picked w' = w_jobs_picked w + 1"
    using drainer_Ok [OF R v n, of parse_op exec k] run ne by auto
  with drainer_stream_cases [OF R v n run] drain_all [OF all, of "[]"] len show ?thesis by simp
qed

lemma drainer_idle:
  assumes R: "pool (redis_conn store) = R" and v: "valid (w_redis w)" and n: "n \<noteq> 0"
    and xs: "stream_view (w_redis w) k = []" and run: "drainer parse_op exec store n k w = (r, w')"
  shows "w_db w' = w_db w"
proof -
  obtain x s1 where x: "fred_xread_map R (Some n) None k (XidManual ''0-0'') (w_redis w) = (x, s1)" by fastforce
  with xread_empty [OF v n xs] R run show ?thesis
    by (auto simp: drainer_def ematch_run on_redis_def read_from_stream_def stream_read_entries_def eff_simps)
qed

text \<open>Executing part of the stream and trimming it does not change what the whole stream, executed
  on the database, leads to.\<close>

lemma drainer_keeps_outcome:
  fixes k :: string
  assumes R: "pool (redis_conn store) = R" and v: "valid (w_redis w)" and n: "n \<noteq> 0"
    and all: "db_after parse_op exec (stream_view (w_redis w) k) (w_db w) = Some d'"
    and run: "drainer parse_op exec store n k w = (r, w')"
  shows "r = Ok () \<and> valid (w_redis w') \<and> db_after parse_op exec (stream_view (w_redis w') k) (w_db w') = Some d'"
proof (cases "stream_view (w_redis w) k = []")
  case True
  with drainer_idle [OF R v n True run] drainer_stream_cases [OF R v n run] drainer_Ok [OF R v n, of parse_op exec k] run all
  show ?thesis by auto
next
  case False
  let ?xs = "stream_view (w_redis w) k"
  obtain d1 where d1: "db_after parse_op exec (take (unat n) ?xs) (w_db w) = Some d1"
    and rest: "db_after parse_op exec (drop (unat n) ?xs) d1 = Some d'"
    using all db_after_append [of parse_op exec "take (unat n) ?xs" "drop (unat n) ?xs" "w_db w"]
    by (cases "db_after parse_op exec (take (unat n) ?xs) (w_db w)") simp_all
  have "r = Ok ()" "w_jobs_picked w' = w_jobs_picked w + 1"
    using drainer_Ok [OF R v n, of parse_op exec k] run False by auto
  with drainer_stream_cases [OF R v n run] drain_all [OF d1, of "[]"]
  have "valid (w_redis w')" "w_db w' = d1" "stream_view (w_redis w') k = drop (length (take (unat n) ?xs)) ?xs" by auto
  with rest \<open>r = Ok ()\<close> show ?thesis by (cases "length ?xs \<le> unat n") (simp_all add: min_def)
qed

end

interpretation mem_reliable: redis_streams_reliable mem_fred mem_valid mem_streams
  by unfold_locales (auto simp: mem_fred_def mem_xread_def mem_xtrim_def mem_xdel_def Let_def)

section \<open>Sessions\<close>

text \<open>A store and a world to run on: an in-memory server with three queued operations, and a
  database that is the list of operations it has executed and refuses \<open>bad\<close>.\<close>

definition demo_pool :: "mem RedisConnectionPool" where
  "demo_pool = \<lparr>pool = mem_fred, config = RedisConfig_from RedisSettings_default, is_redis_available = True\<rparr>"

definition demo_store :: "mem Store" where
  "demo_store = \<lparr>redis_conn = demo_pool, drainer_stream_name = ''S'', drainer_num_partitions = 2\<rparr>"

definition demo_exec :: "string \<Rightarrow> (string list, DatabaseError, unit) eff" where
  "demo_exec op d = (if op = ''bad'' then (Err Others, d) else (Ok (), d @ [op]))"

definition demo_entry :: "string \<Rightarrow> (string \<times> string) list" where
  "demo_entry op = [(''typed_sql'', op), (''global_id'', ''g''), (''request_id'', ''r''), (''pushed_at'', ''7'')]"

definition demo_redis :: "string list \<Rightarrow> mem" where
  "demo_redis ops = fold (\<lambda>op s. snd (mem_xadd ''k'' XidAuto (demo_entry op) s)) ops mem_init"

definition demo_world :: "string list \<Rightarrow> (mem, string list) world" where
  "demo_world ops = \<lparr>w_redis = demo_redis ops, w_db = [], w_jobs_picked = 0, w_active_tasks = 0\<rparr>"

lemma demo_redis_valid: "mem_valid (demo_redis ops)"
proof -
  have "mem_valid s \<Longrightarrow> mem_valid (fold (\<lambda>op s. snd (mem_xadd ''k'' XidAuto (demo_entry op) s)) ops s)" for s
    by (induction ops arbitrary: s) (auto simp: mem_xadd_def mem_valid_xadd)
  then show ?thesis by (simp add: demo_redis_def)
qed

lemma demo_simps [simp]:
  "pool (redis_conn demo_store) = mem_fred" "w_redis (demo_world ops) = demo_redis ops"
  by (simp_all add: demo_store_def demo_pool_def demo_world_def)

text \<open>C6: whatever the Redis commands answer, errors included, a drain session removes from its
  stream only entries of the prefix that was processed: the stream afterwards is the stream
  before without its first \<open>j\<close> entries, where \<open>j\<close> is at most the number of entries
  done. Other streams are unchanged. No queued write is lost.\<close>

theorem drainer_never_drops_unprocessed:
  assumes "redis_streams R valid stream_view" and "pool (redis_conn store) = R"
    and "valid (w_redis w)" and "n \<noteq> 0"
  shows "\<exists>j \<le> drain_spec parse_op exec (take (unat n) (stream_view (w_redis w) k)) (w_db w).
    stream_view (w_redis (snd (drainer parse_op exec store n k w))) =
      (stream_view (w_redis w))(k := drop j (stream_view (w_redis w) k))"
  using redis_streams.drainer_stream_cases [OF assms, of parse_op exec k] by (metis prod.collapse)

theorem drainer_never_drops_unprocessed_witness:
  "\<exists>j \<le> drain_spec Some demo_exec (take 2 (mem_streams (demo_redis [''a'', ''bad'', ''b'']) ''k'')) [].
    mem_streams (w_redis (snd (drainer Some demo_exec demo_store 2 ''k'' (demo_world [''a'', ''bad'', ''b''])))) =
      (mem_streams (demo_redis [''a'', ''bad'', ''b'']))
        (''k'' := drop j (mem_streams (demo_redis [''a'', ''bad'', ''b'']) ''k''))"
  using drainer_never_drops_unprocessed [OF mem_streams.redis_streams_axioms, of demo_store
      "demo_world [''a'', ''bad'', ''b'']" 2 Some demo_exec "''k''"]
  by (simp add: demo_redis_valid demo_world_def)

text \<open>C3: on a server that answers, a session succeeds and removes exactly the processed
  prefix of the batch it read: every entry that was executed is gone and every other entry is
  still queued, in order.\<close>

theorem drainer_session_exact:
  assumes "redis_streams_reliable R valid stream_view" and "pool (redis_conn store) = R"
    and "valid (w_redis w)" and "n \<noteq> 0"
  shows "fst (drainer parse_op exec store n k w) = Ok () \<and>
    stream_view (w_redis (snd (drainer parse_op exec store n k w))) = (stream_view (w_redis w))
      (k := drop (drain_spec parse_op exec (take (unat n) (stream_view (w_redis w) k)) (w_db w))
              (stream_view (w_redis w) k))"
  using redis_streams_reliable.drainer_Ok [OF assms, of parse_op exec k]
    redis_streams_reliable.drainer_exact [OF assms, of parse_op exec k]
  by (intro conjI) blast+

fun demo_stream :: "nat \<Rightarrow> string list \<Rightarrow> StreamEntry list" where
  "demo_stream n [] = []"
| "demo_stream n (op # ops) = (mem_id n, map_of (demo_entry op)) # demo_stream (Suc n) ops"

lemma demo_redis_streams: "mem_streams (demo_redis ops) ''k'' = demo_stream 1 ops"
proof -
  have "mem_streams (fold (\<lambda>op s. snd (mem_xadd ''k'' XidAuto (demo_entry op) s)) ops s) ''k'' =
      mem_streams s ''k'' @ demo_stream (mem_next s) ops" for s
    by (induction ops arbitrary: s) (auto simp: mem_xadd_def)
  from this [of mem_init] show ?thesis by (simp add: demo_redis_def mem_init_def)
qed

lemma demo_entry_decodes:
  "StreamData_from_hashmap Some (map_of (demo_entry op)) =
     Ok \<lparr>request_id = ''r'', global_id = ''g'', typed_sql = op, pushed_at = 7\<rparr>"
  by (simp add: StreamData_from_hashmap_def demo_entry_def parse_i64_def parse_nat_def digit_val_def in_i64_def)

theorem drainer_session_exact_witness:
  "fst (drainer Some demo_exec demo_store 100 ''k'' (demo_world [''a'', ''bad'', ''b''])) = Ok () \<and>
   length (mem_streams (w_redis (snd (drainer Some demo_exec demo_store 100 ''k''
      (demo_world [''a'', ''bad'', ''b''])))) ''k'') = 2"
  using drainer_session_exact [OF mem_reliable.redis_streams_reliable_axioms, of demo_store
      "demo_world [''a'', ''bad'', ''b'']" 100 Some demo_exec "''k''"]
  by (simp add: demo_redis_valid demo_redis_streams demo_world_def entry_done_def demo_entry_decodes
      demo_exec_def)

text \<open>Progress: sessions on entries that can all be done empty the stream.\<close>

lemma drain_spec_all:
  "(\<And>e d. e \<in> set es \<Longrightarrow> entry_done parse_op exec e d \<noteq> None) \<Longrightarrow> drain_spec parse_op exec es d = length es"
proof (induction es arbitrary: d)
  case Nil
  then show ?case by simp
next
  case (Cons e es)
  from Cons.prems [of e d] obtain d' where "entry_done parse_op exec e d = Some d'" by auto
  with Cons show ?case by simp
qed

text \<open>C8: when every queued entry decodes and its query can be done in every database state,
  repeating sessions of \<open>n\<close> entries empties a stream of at most \<open>m * n\<close> entries after
  \<open>m\<close> sessions, on a server that answers.\<close>

theorem drainer_drains_stream:
  assumes rel: "redis_streams_reliable R valid stream_view" and R: "pool (redis_conn store) = R"
    and n: "n \<noteq> 0"
  shows "valid (w_redis w) \<Longrightarrow>
    (\<And>e d. e \<in> set (stream_view (w_redis w) k) \<Longrightarrow> entry_done parse_op exec e d \<noteq> None) \<Longrightarrow>
    length (stream_view (w_redis w) k) \<le> m * unat n \<Longrightarrow>
    stream_view (w_redis (((\<lambda>w. snd (drainer parse_op exec store n k w)) ^^ m) w)) k = []"
proof (induction m arbitrary: w)
  case 0
  then show ?case by simp
next
  case (Suc m)
  let ?xs = "stream_view (w_redis w) k" and ?w = "snd (drainer parse_op exec store n k w)"
  have "redis_streams R valid stream_view"
    using rel by (simp add: redis_streams_reliable_def)
  then have v: "valid (w_redis ?w)"
    using redis_streams.drainer_stream_cases [of R valid stream_view store w n parse_op exec k
        "fst (drainer parse_op exec store n k w)" ?w] R Suc.prems(1) n by simp
  have "drain_spec parse_op exec (take (unat n) ?xs) (w_db w) = length (take (unat n) ?xs)"
    by (rule drain_spec_all) (use Suc.prems(2) in \<open>auto dest: in_set_takeD\<close>)
  then have view: "stream_view (w_redis ?w) k = drop (min (length ?xs) (unat n)) ?xs"
    using redis_streams_reliable.drainer_exact [OF rel R Suc.prems(1) n, of parse_op exec k] by simp
  have "stream_view (w_redis (((\<lambda>w. snd (drainer parse_op exec store n k w)) ^^ m) ?w)) k = []"
  proof (rule Suc.IH [OF v])
    show "entry_done parse_op exec e d \<noteq> None" if "e \<in> set (stream_view (w_redis ?w) k)" for e d
    proof -
      from that view have "e \<in> set ?xs" by (metis in_set_dropD)
      then show ?thesis by (rule Suc.prems(2))
    qed
    show "length (stream_view (w_redis ?w) k) \<le> m * unat n"
      using Suc.prems(3) view by auto
  qed
  then show ?case by (simp only: funpow_Suc_right comp_def)
qed

theorem drainer_drains_stream_witness:
  "mem_streams (w_redis (((\<lambda>w. snd (drainer Some demo_exec demo_store 2 ''k'' w)) ^^ 2)
     (demo_world [''a'', ''b'', ''c'']))) ''k'' = []"
  by (rule drainer_drains_stream [OF mem_reliable.redis_streams_reliable_axioms])
    (auto simp: demo_redis_valid demo_redis_streams entry_done_def demo_entry_decodes demo_exec_def)

section \<open>The in-use flag\<close>

lemma stream_name_inject:
  "get_drainer_stream_name store i = get_drainer_stream_name store j \<longleftrightarrow> i = j"
proof
  assume "get_drainer_stream_name store i = get_drainer_stream_name store j"
  then have "show_nat (unat i) @ ''}_'' @ drainer_stream_name store =
      show_nat (unat j) @ ''}_'' @ drainer_stream_name store"
    by (simp add: get_drainer_stream_name_def drainer_stream_def)
  then have "show_nat (unat i) = show_nat (unat j)"
    by (simp only: append_same_eq)
  then show "i = j" by (simp add: word_unat_eq_iff)
qed simp

lemma flag_inject [simp]: "get_stream_key_flag store i = get_stream_key_flag store j \<longleftrightarrow> i = j"
  by (simp add: get_stream_key_flag_def stream_name_inject)

lemma flag_not_stream: "get_stream_key_flag store i \<noteq> get_drainer_stream_name store i"
  by (simp add: get_stream_key_flag_def)

context redis_keys
begin

lemma setnx_keeps:
  assumes R: "pool p = R" and v: "valid s"
    and run: "set_key_if_not_exists_with_expiry p k x t s = (r, s')"
  shows "valid s' \<and> (\<forall>j. key_view s j \<noteq> None \<longrightarrow> key_view s' j \<noteq> None)"
proof -
  let ?t = "case t of None \<Rightarrow> uint (cfg_default_ttl (config p)) | Some t \<Rightarrow> t"
  obtain rr s1 where st: "fred_set R k x ?t True s = (rr, s1)" by fastforce
  with run R have "s' = s1"
    by (auto simp: set_key_if_not_exists_with_expiry_def eff_simps split: sum.splits)
  moreover have "valid s1 \<and> (\<forall>j. key_view s j \<noteq> None \<longrightarrow> key_view s1 j \<noteq> None)"
  proof (cases "key_view s k")
    case None
    from setnx_absent_law [OF v None st] show ?thesis by (auto simp: same_or_def)
  next
    case (Some w)
    from setnx_present_law [OF v Some st] show ?thesis by auto
  qed
  ultimately show ?thesis by simp
qed

lemma is_stream_available_True:
  assumes R: "pool (redis_conn store) = R" and v: "valid s"
    and run: "is_stream_available store i s = (True, s')"
  shows "valid s' \<and> key_view s (get_stream_key_flag store i) = None \<and>
    key_view s' = (key_view s)(get_stream_key_flag store i \<mapsto> ''true'')"
proof -
  from run have
    "set_key_if_not_exists_with_expiry (redis_conn store) (get_stream_key_flag store i) ''true'' None s =
       (Ok SetnxReply.KeySet, s')"
    by (auto simp: is_stream_available_def split: prod.splits sum.splits)
  from set_if_not_exists [OF R v this] show ?thesis by simp
qed

lemma is_stream_available_keeps:
  assumes R: "pool (redis_conn store) = R" and v: "valid s"
    and run: "is_stream_available store i s = (b, s')"
  shows "valid s' \<and> (\<forall>j. key_view s j \<noteq> None \<longrightarrow> key_view s' j \<noteq> None)"
proof -
  obtain r where
    "set_key_if_not_exists_with_expiry (redis_conn store) (get_stream_key_flag store i) ''true'' None s = (r, s')"
    using run by (auto simp: is_stream_available_def split: prod.splits sum.splits)
  from setnx_keeps [OF R v this] show ?thesis .
qed

lemma make_stream_available_view:
  assumes R: "pool (redis_conn store) = R" and v: "valid s"
    and run: "make_stream_available store k s = (r, s')"
  shows "valid s' \<and> (\<forall>j. j \<noteq> k \<longrightarrow> key_view s' j = key_view s j) \<and>
    (r = Ok () \<longrightarrow> key_view s' k = None)"
proof -
  obtain rd s1 where d: "fred_del R k s = (rd, s1)" by fastforce
  from del_law [OF v d] have "same_or (key_view s) ((key_view s)(k := None)) (key_view s1)" by blast
  then have "\<forall>j. j \<noteq> k \<longrightarrow> key_view s1 j = key_view s j" by (auto simp: same_or_def)
  with del_law [OF v d] run R d show ?thesis
    by (auto simp: make_stream_available_def delete_key_def eff_simps
        split: prod.splits sum.splits DelReply.splits)
qed

end

text \<open>
  Any number of drainer processes on one server, as steps on the server and the multiset of
  shards with a running handler. A process that finds the shard available starts a handler; one
  that does not, goes on; a handler that ends frees its flag. Every other step of any process or
  client is covered by \<open>other\<close>: it may change the server in any way that leaves the flags
  alone. A flag that expires while its handler runs is not such a step: the property below is
  about runs in which handlers end within the flag's time to live.
\<close>

inductive lock_step ::
  "'s Store \<Rightarrow> ('s \<Rightarrow> bool) \<Rightarrow> ('s \<Rightarrow> string \<rightharpoonup> string) \<Rightarrow>
   's \<times> 8 word multiset \<Rightarrow> 's \<times> 8 word multiset \<Rightarrow> bool"
  for store valid key_view where
  acquire: "is_stream_available store i s = (True, s') \<Longrightarrow>
     lock_step store valid key_view (s, H) (s', add_mset i H)"
| refused: "is_stream_available store i s = (False, s') \<Longrightarrow>
     lock_step store valid key_view (s, H) (s', H)"
| release: "i \<in># H \<Longrightarrow> make_stream_available store (get_stream_key_flag store i) s = (r, s') \<Longrightarrow>
     lock_step store valid key_view (s, H) (s', H - {#i#})"
| other: "valid s' \<Longrightarrow> \<forall>i. key_view s' (get_stream_key_flag store i) = key_view s (get_stream_key_flag store i) \<Longrightarrow>
     lock_step store valid key_view (s, H) (s', H)"

inductive_cases lock_stepE: "lock_step store valid key_view (s, H) t"

definition lock_inv :: "'s Store \<Rightarrow> ('s \<Rightarrow> bool) \<Rightarrow> ('s \<Rightarrow> string \<rightharpoonup> string) \<Rightarrow> 's \<times> 8 word multiset \<Rightarrow> bool" where
  "lock_inv store valid key_view c \<longleftrightarrow> valid (fst c) \<and>
     (\<forall>i. count (snd c) i \<le> 1 \<and> (i \<in># snd c \<longrightarrow> key_view (fst c) (get_stream_key_flag store i) \<noteq> None))"

lemma lock_step_inv:
  assumes "redis_keys R valid key_view" and "pool (redis_conn store) = R"
    and "lock_step store valid key_view c c'" and "lock_inv store valid key_view c"
  shows "lock_inv store valid key_view c'"
  using assms(3,4)
proof (induction rule: lock_step.induct)
  case (acquire i s s' H)
  then have v: "valid s" by (simp add: lock_inv_def)
  from redis_keys.is_stream_available_True [OF assms(1,2) v acquire(1)] acquire(2) show ?case
    by (auto simp: lock_inv_def count_eq_zero_iff)
next
  case (refused i s s' H)
  then have v: "valid s" by (simp add: lock_inv_def)
  from redis_keys.is_stream_available_keeps [OF assms(1,2) v refused(1)] refused(2) show ?case
    by (auto simp: lock_inv_def)
next
  case (release i H s r s')
  then have v: "valid s" by (simp add: lock_inv_def)
  note m = redis_keys.make_stream_available_view [OF assms(1,2) v release(2)]
  have "i \<notin># H - {#i#}"
    using release(1,3) by (auto simp: lock_inv_def in_diff_count not_less)
  with m release(3) show ?case
    by (auto simp: lock_inv_def dest: in_diffD intro: le_trans [OF diff_le_self])
next
  case (other s' s H)
  then show ?case by (auto simp: lock_inv_def)
qed

text \<open>C7: at most one handler works on a shard at any time, over any number of processes and
  any interleaving of their Redis commands, failures included, as long as no flag expires under
  a running handler.\<close>

theorem drainer_mutual_exclusion:
  assumes "redis_keys R valid key_view" and "pool (redis_conn store) = R" and "valid s0"
    and "(lock_step store valid key_view)\<^sup>*\<^sup>* (s0, {#}) (s, H)"
  shows "count H i \<le> 1"
proof -
  have "lock_inv store valid key_view (s, H)"
    using assms(4)
  proof (induction rule: rtranclp_induct)
    case base
    show ?case using assms(3) by (simp add: lock_inv_def)
  next
    case (step c c')
    then show ?case using lock_step_inv [OF assms(1,2)] by blast
  qed
  then show ?thesis by (simp add: lock_inv_def)
qed

lemma demo_acquire:
  "is_stream_available demo_store 0 mem_init =
     (True, mem_init\<lparr>mem_strings := [get_stream_key_flag demo_store 0 \<mapsto> ''true'']\<rparr>)"
  by (simp add: is_stream_available_def set_key_if_not_exists_with_expiry_def eff_simps mem_fred_def
      mem_set_def mem_init_def)

theorem drainer_mutual_exclusion_witness:
  "(lock_step demo_store mem_valid mem_strings)\<^sup>*\<^sup>* (mem_init, {#})
     (mem_init\<lparr>mem_strings := [get_stream_key_flag demo_store 0 \<mapsto> ''true'']\<rparr>, {#0#}) \<and>
   count {#0 :: 8 word#} 0 \<le> 1"
proof -
  have run: "(lock_step demo_store mem_valid mem_strings)\<^sup>*\<^sup>* (mem_init, {#})
     (mem_init\<lparr>mem_strings := [get_stream_key_flag demo_store 0 \<mapsto> ''true'']\<rparr>, {#0#})"
    by (rule r_into_rtranclp) (rule lock_step.acquire [OF demo_acquire])
  from drainer_mutual_exclusion [OF mem_keys.redis_keys_axioms _ _ run, of 0] run show ?thesis
    by simp
qed

section \<open>The handler and the round robin\<close>

lemma drainer_active_tasks [simp]:
  "w_active_tasks (snd (drainer parse_op exec store n k w)) = w_active_tasks w"
  by (auto simp: drainer_def ematch_run ebind_run on_redis_def Let_def
      split: prod.splits sum.splits if_splits)

lemma on_redis_active_tasks [simp]: "w_active_tasks (snd (on_redis m w)) = w_active_tasks w"
  by (simp add: on_redis_def split: prod.splits)

lemma snd_on_redis [simp]: "w_redis (snd (on_redis m w)) = snd (m (w_redis w))"
  by (simp add: on_redis_def split: prod.splits)

lemma fst_on_redis [simp]: "fst (on_redis m w) = fst (m (w_redis w))"
  by (simp add: on_redis_def split: prod.splits)

text \<open>A handler leaves the number of active tasks as it found it on every path, also when
  the drain session or the freeing of the flag fails, so the shutdown loop that waits for zero
  sees finished handlers.\<close>

theorem drainer_handler_active_tasks:
  "w_active_tasks (snd (drainer_handler parse_op exec store i n w)) = w_active_tasks w"
proof -
  let ?w2 = "snd (drainer parse_op exec store n (get_drainer_stream_name store i)
    (w\<lparr>w_active_tasks := w_active_tasks w + 1\<rparr>))"
  obtain out w3 where o: "on_redis (make_stream_available store (get_stream_key_flag store i)) ?w2 = (out, w3)"
    by fastforce
  from on_redis_active_tasks [of "make_stream_available store (get_stream_key_flag store i)" ?w2]
  have "w_active_tasks w3 = w_active_tasks w + 1" by (simp add: o)
  then show ?thesis by (simp add: drainer_handler_def Let_def o)
qed

text \<open>The round robin of \<open>Handler::spawn\<close> over \<open>n\<close> shards, \<open>n\<close> at least one,
  is at shard \<open>t mod n\<close> after \<open>t\<close> turns from shard 0: every shard is visited once in any
  \<open>n\<close> consecutive turns and no index reaches \<open>n\<close>.\<close>

theorem increment_stream_index_round_robin:
  assumes "partitions \<noteq> 0"
  shows "unat (fst (((\<lambda>ij. increment_stream_index ij partitions) ^^ t) (0, jobs))) = t mod unat partitions"
proof (induction t)
  case 0
  then show ?case by simp
next
  case (Suc t)
  let ?f = "\<lambda>ij. increment_stream_index ij partitions"
  obtain i j where ij: "(?f ^^ t) (0, jobs) = (i, j)" by fastforce
  have pos: "0 < unat partitions" using assms by (simp add: unat_gt_0)
  from Suc ij have i: "unat i = t mod unat partitions" by simp
  have last: "i = partitions - 1 \<longleftrightarrow> Suc (unat i) = unat partitions"
  proof -
    have "unat (partitions - 1) = unat partitions - 1" using assms by (simp add: unat_minus_one)
    with pos show ?thesis by (auto simp: word_unat_eq_iff)
  qed
  show ?case
  proof (cases "i = partitions - 1")
    case True
    with last i have "Suc (t mod unat partitions) = unat partitions" by simp
    with True ij show ?thesis by (simp add: increment_stream_index_def mod_Suc)
  next
    case False
    with last i pos have lt: "Suc (unat i) < unat partitions"
      by (metis Suc_lessI mod_less_divisor)
    also have "unat partitions < 2 ^ LENGTH(8)" by (rule unsigned_less)
    finally have "unat (i + 1) = Suc (unat i)"
      by (simp add: unat_word_ariths)
    with False ij i lt show ?thesis by (simp add: increment_stream_index_def mod_Suc)
  qed
qed

theorem increment_stream_index_round_robin_witness:
  "unat (fst (((\<lambda>ij. increment_stream_index ij 3) ^^ 7) (0, 0))) = 1"
  using increment_stream_index_round_robin [of 3 7 0] by simp

lemma stream_data_decodes:
  assumes "\<And>js. to_json op = Some js \<Longrightarrow> parse_op js = Some op" and "in_i64 now"
    and "to_field_value_pairs to_json now op rid gid = Ok fvs"
  shows "StreamData_from_hashmap parse_op (map_of fvs) =
    Ok \<lparr>request_id = rid, global_id = gid, typed_sql = op, pushed_at = now\<rparr>"
  using assms
  by (auto simp: to_field_value_pairs_def StreamData_from_hashmap_def parse_i64_show_int
      split: option.splits)

text \<open>An operation queued by \<open>to_field_value_pairs\<close> decodes to itself: what the store
  pushes onto a drainer stream is what the drainer executes, with the same ids and time stamp,
  provided serde reads back the JSON it wrote.\<close>

theorem stream_data_roundtrip:
  assumes "\<And>js. to_json op = Some js \<Longrightarrow> parse_op js = Some op" and "in_i64 now"
    and "to_field_value_pairs to_json now op rid gid = Ok fvs"
  shows "StreamData_from_hashmap parse_op (map_of fvs) =
    Ok \<lparr>request_id = rid, global_id = gid, typed_sql = op, pushed_at = now\<rparr>"
  using assms by (rule stream_data_decodes)

theorem stream_data_roundtrip_witness:
  "\<exists>fvs. to_field_value_pairs Some 42 ''op'' ''rid'' ''gid'' = Ok fvs \<and>
     StreamData_from_hashmap Some (map_of fvs) =
       Ok \<lparr>request_id = ''rid'', global_id = ''gid'', typed_sql = ''op'', pushed_at = 42\<rparr>"
proof -
  obtain fvs where f: "to_field_value_pairs Some 42 ''op'' ''rid'' ''gid'' = (Ok fvs :: (DatabaseError, _) result)"
    by (simp add: to_field_value_pairs_def)
  from stream_data_roundtrip [of Some "''op''" Some, OF _ _ f] f show ?thesis
    by (simp add: in_i64_def)
qed

end
