(* ===== verification/Kv_Props.thy ===== *)
theory Kv_Props
  imports Kv_Store Drainer_Props
begin

text \<open>
  What the key-value wrapper guarantees over any Redis server that meets \<open>redis_kv\<close>, and how
  it treats unique constraints. The path from a write through the wrapper to the database, across
  the drainer, is \<open>kv_write_reaches_database\<close>.
\<close>

text \<open>When HSETNX through the wrapper succeeds, the field was free and now holds the
  serialized value, and exactly one entry was appended, to the drainer stream of the key's shard: the
  operation with the key as its global id. Nothing else changes in any stream.\<close>

theorem kv_hsetnx_sets_and_queues:
  assumes "redis_kv R valid stream_view key_view hash_view set_view"
    and "pool (kv_redis_conn kv) = R" and "valid s" and "ttl_for_kv kv \<noteq> 0"
    and "kv_wrapper crc32 to_json ser de uc tn now kv (HSetNx f x op) key s = (Ok res, s')"
  shows "hash_view s key f = None \<and>
    (\<exists>b shard pairs eid. ser x = Some b \<and>
      shard_key crc32 (MerchantIdPaymentIdCombination key) (kv_drainer_num_partitions kv) = Some shard \<and>
      to_field_value_pairs to_json now op (case kv_request_id kv of None \<Rightarrow> [] | Some i \<Rightarrow> i) key = Ok pairs \<and>
      stream_view s' = (stream_view s)(kv_get_drainer_stream_name kv shard :=
        stream_view s (kv_get_drainer_stream_name kv shard) @ [(eid, map_of pairs)]) \<and>
      (key \<noteq> kv_get_drainer_stream_name kv shard \<longrightarrow> hash_view s' key f = Some b))"
  using redis_kv.hsetnx_Ok [OF assms] by (auto simp: Let_def)

lemma demo_kv_run:
  "\<exists>res s'. kv_wrapper (\<lambda>s. of_nat (length s)) Some Some Some (\<lambda>v. [v]) (\<lambda>v. ''t'') 7 demo_kv
     (HSetNx ''f'' ''v'' ''op'') ''key'' mem_init = (Ok res, s')"
  by (simp add: kv_wrapper_def kv_redis_def redis_try_def demo_kv_def check_for_constraints_def sadd_def mem_fred_def
    mem_sadd_def mem_init_def SaddReply_from_value_def eff_simps Let_def serialize_and_set_hash_field_if_not_exist_def
    encode_to_vec_def set_hash_field_if_not_exist_def mem_hsetnx_def HsetnxReply_from_value_def set_expiry_def
    mem_expire_def push_to_drainer_stream_def shard_key_def partition_number_def to_field_value_pairs_def
    stream_append_entry_def mem_xadd_def)

theorem kv_hsetnx_sets_and_queues_witness:
  "\<exists>s' eid pairs shard. mem_streams s' (kv_get_drainer_stream_name demo_kv shard) = [(eid, map_of pairs)] \<and>
     s' = snd (kv_wrapper (\<lambda>s. of_nat (length s)) Some Some Some (\<lambda>v. [v]) (\<lambda>v. ''t'') 7 demo_kv
       (HSetNx ''f'' ''v'' ''op'') ''key'' mem_init)"
proof -
  obtain res s' where run: "kv_wrapper (\<lambda>s. of_nat (length s)) Some Some Some (\<lambda>v. [v]) (\<lambda>v. ''t'') 7 demo_kv
     (HSetNx ''f'' ''v'' ''op'') ''key'' mem_init = (Ok res, s')" using demo_kv_run by blast
  have "pool (kv_redis_conn demo_kv) = mem_fred" "ttl_for_kv demo_kv \<noteq> 0" by (simp_all add: demo_kv_def)
  from kv_hsetnx_sets_and_queues [OF mem_kv.redis_kv_axioms this(1) mem_valid_init this(2) run]
  obtain eid pairs shard where "mem_streams s' = (mem_streams mem_init)(kv_get_drainer_stream_name demo_kv shard :=
      mem_streams mem_init (kv_get_drainer_stream_name demo_kv shard) @ [(eid, map_of pairs)])" by blast
  then have "mem_streams s' (kv_get_drainer_stream_name demo_kv shard) = [(eid, map_of pairs)]"
    by (simp add: mem_init_def)
  with run show ?thesis by (metis snd_conv)
qed

text \<open>SETNX sets the key before it checks the unique constraints, so a value that violates
  one is refused and yet stays stored under its key, with nothing queued for the database.\<close>

theorem kv_setnx_keeps_refused_value:
  assumes "redis_kv R valid stream_view key_view hash_view set_view"
    and "pool (kv_redis_conn kv) = R" and "valid s" and "ttl_for_kv kv \<noteq> 0"
    and "is_redis_available (kv_redis_conn kv)" and "key_view s key = None" and "ser x = Some b"
    and "\<exists>y. fst (fred_set R key b (uint (ttl_for_kv kv)) True s) = Ok y"
    and "set (uc x) \<subseteq> set_view s (''unique_constraint:'' @ tn x)" and "key \<noteq> ''unique_constraint:'' @ tn x"
    and "kv_wrapper crc32 to_json ser de uc tn now kv (SetNx x op) key s = (r, s')"
  shows "r = Err (KvError SetAddMembersFailed) \<and> key_view s' key = Some b \<and> stream_view s' = stream_view s"
  by (rule redis_kv.setnx_violation [OF assms])

theorem kv_setnx_keeps_refused_value_witness:
  "mem_strings (snd (kv_wrapper (\<lambda>s. of_nat (length s)) Some Some Some (\<lambda>v. [v]) (\<lambda>v. ''t'') 7 demo_kv
     (SetNx ''v'' ''op'') ''key'' (mem_init\<lparr>mem_sets := (\<lambda>_. [''v''])\<rparr>))) ''key'' = Some ''v''"
proof -
  let ?s = "mem_init\<lparr>mem_sets := (\<lambda>_. [''v''])\<rparr>"
  obtain r s' where run: "kv_wrapper (\<lambda>s. of_nat (length s)) Some Some Some (\<lambda>v. [v]) (\<lambda>v. ''t'') 7 demo_kv
     (SetNx ''v'' ''op'') ''key'' ?s = (r, s')" by fastforce
  have "r = Err (KvError SetAddMembersFailed) \<and> mem_strings s' ''key'' = Some ''v'' \<and> mem_streams s' = mem_streams ?s"
    by (rule kv_setnx_keeps_refused_value [OF mem_kv.redis_kv_axioms _ _ _ _ _ _ _ _ _ run])
      (simp_all add: demo_kv_def mem_valid_def mem_init_def mem_fred_def mem_set_def)
  with run show ?thesis by simp
qed

text \<open>The check of unique constraints accepts a value only when exactly one of its
  constraints is new: a value with two or more constraints that nobody holds is refused as a
  duplicate.\<close>

theorem constraints_accept_one_new_member:
  assumes "redis_kv R valid stream_view key_view hash_view set_view" and "pool conn = R" and "valid s"
    and "check_for_constraints uc tn x conn s = (Ok (), s')"
  shows "card (set (uc x) - set_view s (''unique_constraint:'' @ tn x)) = 1"
  using redis_kv.check_for_constraints_run [OF assms] by blast

theorem constraints_accept_one_new_member_witness:
  "fst (check_for_constraints (\<lambda>v. [v]) (\<lambda>v. ''t'') ''v'' (kv_redis_conn demo_kv) mem_init) = Ok () \<and>
   card (set [''v''] - set (mem_sets mem_init (''unique_constraint:'' @ ''t''))) = 1"
proof -
  obtain s' where run: "check_for_constraints (\<lambda>v. [v]) (\<lambda>v. ''t'') ''v'' (kv_redis_conn demo_kv) mem_init = (Ok (), s')"
    by (simp add: check_for_constraints_def sadd_def demo_kv_def mem_fred_def mem_sadd_def mem_init_def
      SaddReply_from_value_def eff_simps Let_def)
  have "pool (kv_redis_conn demo_kv) = mem_fred" by (simp add: demo_kv_def)
  from constraints_accept_one_new_member [OF mem_kv.redis_kv_axioms this mem_valid_init run] run
  show ?thesis by (simp only: fst_conv simp_thms)
qed

text \<open>The fall-back reads the database exactly when Redis answers that the value is not
  found; a value in Redis is returned without a database call and any other Redis error stops the
  read.\<close>

lemma fallback_reads_database_only_on_miss:
  "redis_fut w = (Ok a, w') \<Longrightarrow> try_redis_get_else_try_database_get redis_fut db w = (Ok a, w')"
  "redis_fut w = (Err RedisError.NotFound, w') \<Longrightarrow> try_redis_get_else_try_database_get redis_fut db w = db w'"
  "redis_fut w = (Err e, w') \<Longrightarrow> e \<noteq> RedisError.NotFound \<Longrightarrow>
     \<exists>e'. try_redis_get_else_try_database_get redis_fut db w = (Err e', w')"
  by (simp_all add: try_redis_get_else_try_database_get_def eff_simps)

end
