(* ===== verification/Kv_Drain.thy ===== *)
theory Kv_Drain
  imports Drainer_Props Kv_Props
begin

text \<open>
  The key-value store and the drainer together, on one shard: clients write through the wrapper
  (\<open>storage_impl/src/redis/kv_store.rs\<close>) and sessions of the drainer
  (\<open>drainer/src/handler.rs\<close>, \<open>lib.rs\<close>) run in any order. The abstract specification is a
  database in which every accepted write is executed at once and a session does nothing; the concrete state
  is related to it by executing what is still queued.
\<close>

section \<open>The abstract database\<close>

text \<open>A query counts as done when it succeeds or reports a unique violation.\<close>

definition op_done :: "('op \<Rightarrow> ('d, DatabaseError, unit) eff) \<Rightarrow> 'op \<Rightarrow> 'd \<Rightarrow> 'd option" where
  "op_done exec op d = (case exec op d of
     (Inr _, d') \<Rightarrow> Some d' | (Inl err, d') \<Rightarrow> if err = UniqueViolation then Some d' else None)"

fun run_ops :: "('op \<Rightarrow> ('d, DatabaseError, unit) eff) \<Rightarrow> 'op list \<Rightarrow> 'd \<Rightarrow> 'd option" where
  "run_ops exec [] d = Some d"
| "run_ops exec (op # ops) d = Option.bind (op_done exec op d) (run_ops exec ops)"

lemma run_ops_append:
  "run_ops exec (ops @ [op]) d = Option.bind (run_ops exec ops d) (op_done exec op)"
proof (induction ops arbitrary: d)
  case Nil
  then show ?case by (cases "op_done exec op d") simp_all
next
  case (Cons o1 ops)
  then show ?case by (cases "op_done exec o1 d") simp_all
qed

section \<open>Interleaved runs\<close>

text \<open>A run from \<open>w0\<close> with the accepted writes in order: a successful \<open>HSetNx\<close> of a key of
  partition \<open>p\<close>, at any time and with any field and value, or a drain session of the partition's stream
  with any batch size.\<close>

inductive kv_run ::
  "(string \<Rightarrow> 32 word) \<Rightarrow> ('op \<Rightarrow> string option) \<Rightarrow> ('v \<Rightarrow> string option) \<Rightarrow> (string \<Rightarrow> 'v option) \<Rightarrow>
   ('v \<Rightarrow> string list) \<Rightarrow> ('v \<Rightarrow> string) \<Rightarrow> 's KVRouterStore \<Rightarrow> 's Store \<Rightarrow>
   (string \<Rightarrow> 'op option) \<Rightarrow> ('op \<Rightarrow> ('d, DatabaseError, unit) eff) \<Rightarrow> 32 word \<Rightarrow>
   ('s, 'd) world \<Rightarrow> 'op list \<Rightarrow> ('s, 'd) world \<Rightarrow> bool"
  for crc32 to_json ser de uc tn kv store parse_op exec p w0 where
  run_start: "kv_run crc32 to_json ser de uc tn kv store parse_op exec p w0 [] w0"
| run_write: "kv_run crc32 to_json ser de uc tn kv store parse_op exec p w0 ops w \<Longrightarrow> in_i64 now \<Longrightarrow>
    partition_number crc32 (MerchantIdPaymentIdCombination key) (kv_drainer_num_partitions kv) = Some p \<Longrightarrow>
    kv_wrapper crc32 to_json ser de uc tn now kv (HSetNx f x op) key (w_redis w) = (Ok res, s') \<Longrightarrow>
    kv_run crc32 to_json ser de uc tn kv store parse_op exec p w0 (ops @ [op]) (w\<lparr>w_redis := s'\<rparr>)"
| run_drain: "kv_run crc32 to_json ser de uc tn kv store parse_op exec p w0 ops w \<Longrightarrow> n \<noteq> 0 \<Longrightarrow>
    drainer parse_op exec store n (get_drainer_stream_name store (ucast p)) w = (r, w') \<Longrightarrow>
    kv_run crc32 to_json ser de uc tn kv store parse_op exec p w0 ops w'"

section \<open>The write step\<close>

lemma write_appends_outcome:
  assumes kv: "redis_kv R valid stream_view key_view hash_view set_view"
    and R: "pool (kv_redis_conn kv) = R" and v: "valid s"
    and cfg: "ttl_for_kv kv \<noteq> 0" "kv_drainer_num_partitions kv \<noteq> 0" "kv_drainer_stream_name kv = drainer_stream_name store"
    and codec: "\<And>js. to_json op = Some js \<Longrightarrow> parse_op js = Some op" and now: "in_i64 now"
    and put: "kv_wrapper crc32 to_json ser de uc tn now kv (HSetNx f x op) key s = (Ok res, s')"
    and shard: "partition_number crc32 (MerchantIdPaymentIdCombination key) (kv_drainer_num_partitions kv) = Some p"
    and k: "k = get_drainer_stream_name store (ucast p)"
  shows "valid s' \<and> length (stream_view s' k) = Suc (length (stream_view s k)) \<and>
    db_after parse_op exec (stream_view s' k) d = Option.bind (db_after parse_op exec (stream_view s k) d) (op_done exec op)"
proof -
  obtain shard pairs eid where sk: "shard_key crc32 (MerchantIdPaymentIdCombination key) (kv_drainer_num_partitions kv) = Some shard"
    and pairs: "to_field_value_pairs to_json now op (case kv_request_id kv of None \<Rightarrow> [] | Some i \<Rightarrow> i) key = Ok pairs"
    and sv: "stream_view s' = (stream_view s)(kv_get_drainer_stream_name kv shard :=
      stream_view s (kv_get_drainer_stream_name kv shard) @ [(eid, map_of pairs)])" and v': "valid s'"
    using redis_kv.hsetnx_Ok [OF kv R v cfg(1) put] by (auto simp: Let_def)
  have name: "kv_get_drainer_stream_name kv shard = k"
    using shard_stream_drained [OF cfg(2,3), of crc32 "MerchantIdPaymentIdCombination key"] shard sk k by auto
  have "entry_done parse_op exec (eid, map_of pairs) = op_done exec op"
    using stream_data_decodes [of to_json op parse_op, OF codec now pairs] by (simp add: entry_done_def op_done_def fun_eq_iff)
  then have "db_after parse_op exec [(eid, map_of pairs)] = op_done exec op"
    by (auto simp: fun_eq_iff split: bind_splits)
  then show ?thesis using v' by (simp add: sv name db_after_append)
qed

end
