(* ===== verification/Signals.thy ===== *)
theory Signals
  imports Prelude
begin

text \<open>
  Shutdown requests: the bounded channel of tokio (\<open>mpsc\<close>) over which a process is asked
  to stop, and the task of common\_utils/src/signals.rs that waits for a signal and sends the
  request.

  A channel holds unit messages, so its queue is their number. Its operations are those of the
  documentation: a send fails once the receiver is closed and waits (or fails, for
  \<open>try_send\<close>) while the queue is full; the receiver gets what is queued first, and learns
  that the channel is over when nothing is queued and either it is closed or no sender is left.
\<close>

section \<open>The channel\<close>

record mpsc =
  queued :: nat
  capacity :: nat
  rx_closed :: bool
  senders :: nat

datatype TrySendError = Full | Closed

datatype TryRecvError = Empty | Disconnected

datatype 'a Poll = Pending | Ready 'a

definition mpsc_channel :: "nat \<Rightarrow> mpsc" where
  "mpsc_channel n = \<lparr>queued = 0, capacity = n, rx_closed = False, senders = 1\<rparr>"

definition clone_sender :: "mpsc \<Rightarrow> mpsc" where
  "clone_sender ch = ch\<lparr>senders := senders ch + 1\<rparr>"

definition drop_sender :: "mpsc \<Rightarrow> mpsc" where
  "drop_sender ch = ch\<lparr>senders := senders ch - 1\<rparr>"

definition close_receiver :: "mpsc \<Rightarrow> mpsc" where
  "close_receiver ch = ch\<lparr>rx_closed := True\<rparr>"

definition try_send :: "mpsc \<Rightarrow> (TrySendError, unit) result \<times> mpsc" where
  "try_send ch =
     (if rx_closed ch then (Err Closed, ch)
      else if queued ch \<ge> capacity ch then (Err Full, ch)
      else (Ok (), ch\<lparr>queued := queued ch + 1\<rparr>))"

definition send :: "mpsc \<Rightarrow> (unit, unit) result Poll \<times> mpsc" where
  "send ch =
     (case try_send ch of
        (Inl Full, ch') \<Rightarrow> (Pending, ch')
      | (Inl Closed, ch') \<Rightarrow> (Ready (Err ()), ch')
      | (Inr _, ch') \<Rightarrow> (Ready (Ok ()), ch'))"

definition try_recv :: "mpsc \<Rightarrow> (TryRecvError, unit) result \<times> mpsc" where
  "try_recv ch =
     (if queued ch > 0 then (Ok (), ch\<lparr>queued := queued ch - 1\<rparr>)
      else if rx_closed ch \<or> senders ch = 0 then (Err Disconnected, ch)
      else (Err Empty, ch))"

definition recv :: "mpsc \<Rightarrow> unit option Poll \<times> mpsc" where
  "recv ch =
     (case try_recv ch of
        (Inr m, ch') \<Rightarrow> (Ready (Some m), ch')
      | (Inl Disconnected, ch') \<Rightarrow> (Ready None, ch')
      | (Inl Empty, ch') \<Rightarrow> (Pending, ch'))"

section \<open>The signal handler (signals.rs)\<close>

definition SIGINT :: int where
  "SIGINT = 2"

definition SIGTERM :: int where
  "SIGTERM = 15"

text \<open>Registering signal handlers with the operating system is the parameter \<open>register\<close>: it
  may fail with an I/O error.\<close>

definition get_allowed_signals :: "(int list \<Rightarrow> ('io, 'sigs) result) \<Rightarrow> ('io, 'sigs) result" where
  "get_allowed_signals register = register [SIGTERM, SIGINT]"

text \<open>What the task does with the next signal, \<open>None\<close> when the stream of signals was closed.
  It never waits for a second one: its sender is dropped at the end.\<close>

definition signal_handler :: "int option \<Rightarrow> mpsc \<Rightarrow> mpsc" where
  "signal_handler sig sender = drop_sender
     (case sig of
        None \<Rightarrow> sender
      | Some signal \<Rightarrow> if signal = SIGTERM \<or> signal = SIGINT then snd (try_send sender) else sender)"

section \<open>Facts about channels\<close>

lemma mpsc_channel_simps [simp]:
  "queued (mpsc_channel n) = 0" "capacity (mpsc_channel n) = n"
  "\<not> rx_closed (mpsc_channel n)" "senders (mpsc_channel n) = 1"
  by (simp_all add: mpsc_channel_def)

lemma sender_count_simps [simp]:
  "queued (clone_sender ch) = queued ch" "capacity (clone_sender ch) = capacity ch"
  "rx_closed (clone_sender ch) = rx_closed ch" "senders (clone_sender ch) = senders ch + 1"
  "queued (drop_sender ch) = queued ch" "capacity (drop_sender ch) = capacity ch"
  "rx_closed (drop_sender ch) = rx_closed ch" "senders (drop_sender ch) = senders ch - 1"
  "queued (close_receiver ch) = queued ch" "capacity (close_receiver ch) = capacity ch"
  "rx_closed (close_receiver ch)" "senders (close_receiver ch) = senders ch"
  by (simp_all add: clone_sender_def drop_sender_def close_receiver_def)

text \<open>Whatever a send answers, on a channel with room for a message one is queued afterwards
  or the receiver had closed it.\<close>

lemma try_send_reaches:
  "capacity ch > 0 \<Longrightarrow> queued (snd (try_send ch)) > 0 \<or> rx_closed (snd (try_send ch))"
  by (simp add: try_send_def)

lemma try_send_frame [simp]:
  "capacity (snd (try_send ch)) = capacity ch" "rx_closed (snd (try_send ch)) = rx_closed ch"
  "senders (snd (try_send ch)) = senders ch"
  "queued ch \<le> queued (snd (try_send ch))"
  by (simp_all add: try_send_def)

lemma try_send_bound: "queued ch \<le> capacity ch \<Longrightarrow> queued (snd (try_send ch)) \<le> capacity ch"
  by (simp add: try_send_def)

lemma snd_send: "snd (send ch) = snd (try_send ch)"
  by (auto simp: send_def try_send_def)

lemma signal_handler_frame [simp]:
  "capacity (signal_handler sig ch) = capacity ch" "rx_closed (signal_handler sig ch) = rx_closed ch"
  "senders (signal_handler sig ch) = senders ch - 1" "queued ch \<le> queued (signal_handler sig ch)"
  by (simp_all add: signal_handler_def split: option.split)

lemma signal_handler_bound:
  "queued ch \<le> capacity ch \<Longrightarrow> queued (signal_handler sig ch) \<le> capacity ch"
  by (simp add: signal_handler_def try_send_bound split: option.split)

lemma signal_handler_None [simp]: "queued (signal_handler None ch) = queued ch"
  by (simp add: signal_handler_def)

lemma signal_handler_reaches:
  assumes "capacity ch > 0" and "signal = SIGTERM \<or> signal = SIGINT"
  shows "queued (signal_handler (Some signal) ch) > 0 \<or> rx_closed (signal_handler (Some signal) ch)"
  using assms try_send_reaches [OF assms(1)] by (simp add: signal_handler_def)

lemma recv_cases:
  obtains (message) "queued ch > 0" "recv ch = (Ready (Some ()), ch\<lparr>queued := queued ch - 1\<rparr>)"
  | (over) "queued ch = 0" "rx_closed ch \<or> senders ch = 0" "recv ch = (Ready None, ch)"
  | (pending) "queued ch = 0" "\<not> rx_closed ch" "senders ch \<noteq> 0" "recv ch = (Pending, ch)"
  by (cases "queued ch = 0"; cases "rx_closed ch \<or> senders ch = 0") (auto simp: recv_def try_recv_def)

end
