(* ===== verification/Drainer_Shutdown.thy ===== *)
theory Drainer_Shutdown
  imports Drainer_Props Signals
begin

text \<open>
  The drainer process as concurrent tasks: \<open>start_drainer\<close> (drainer/src/lib.rs) with the loop
  of \<open>Handler::spawn\<close>, the handlers it spawns, \<open>shutdown_listener\<close>, the signal task,
  the monitor of the Redis connection (\<open>on_error\<close>, redis\_interface/src/lib.rs) and
  \<open>redis_error_receiver\<close> (drainer/src/handler.rs).

  Each task is a step function on the state they share, one step per atomic access or await;
  a run interleaves them in any order. The counter of active tasks is the 64-bit one of the world
  of theory \<open>Drainer\<close>. A sleep is a point where any other task may run, so the intervals do
  not appear in the steps. When \<open>start_drainer\<close> returns, the process ends and no task takes
  another step.
\<close>

section \<open>State\<close>

record 's HandlerInner =
  h_shutdown_interval :: nat
  h_loop_interval :: nat
  h_conf :: DrainerSettings
  h_store :: "'s Store"
  h_running :: bool

datatype SignalTask = AwaitSignal | SignalEnded "int option"

datatype MonitorTask = Monitoring | Reporting | MonitorEnded

datatype ErrorReceiver = AwaitReport | SendShutdown | ReceiverEnded

datatype ListenerTask = Receiving | AwaitTasks | Closing | ListenerEnded

datatype SpawnLoop = CheckRunning | Turn | JoinSignals | Returned

datatype HandlerTask = Spawned | Draining | Releasing | Finishing

record ('s, 'd) drainer_run =
  dr_handler :: "'s HandlerInner"
  dr_world :: "('s, 'd) world"
  dr_stream_index :: "8 word"
  dr_channel :: mpsc
  dr_oneshot :: "(unit, unit) result option"
  dr_redis_available :: bool
  dr_signals_closed :: bool
  dr_signal_task :: SignalTask
  dr_monitor :: MonitorTask
  dr_receiver :: ErrorReceiver
  dr_listener :: ListenerTask
  dr_loop :: SpawnLoop
  dr_tasks :: "(8 word \<times> HandlerTask) list"

text \<open>The counter \<open>active_tasks\<close> that \<open>from_conf\<close> creates is the one of the world.\<close>

definition Handler_from_conf ::
  "DrainerSettings \<Rightarrow> 's Store \<Rightarrow> ('s, 'd) world \<Rightarrow> 's HandlerInner \<times> ('s, 'd) world" where
  "Handler_from_conf conf store w =
     (\<lparr>h_shutdown_interval = unat (shutdown_interval conf), h_loop_interval = unat (loop_interval conf),
       h_conf = conf, h_store = store, h_running = True\<rparr>,
      w\<lparr>w_active_tasks := 0\<rparr>)"

definition Handler_close :: "'s HandlerInner \<Rightarrow> 's HandlerInner" where
  "Handler_close self = self\<lparr>h_running := False\<rparr>"

text \<open>\<open>start_drainer\<close> up to its first await: the channel for one request with its two
  senders, the spawned tasks, and the spawn loop about to start with \<open>jobs_picked\<close> at 0.\<close>

definition start_drainer ::
  "(int list \<Rightarrow> ('io, 'sigs) result) \<Rightarrow> 's Store \<Rightarrow> DrainerSettings \<Rightarrow> ('s, 'd) world \<Rightarrow>
   (DrainerError, ('s, 'd) drainer_run) result" where
  "start_drainer register store conf w0 =
     (case Handler_from_conf conf store w0 of
        (inner, w) \<Rightarrow>
          (case get_allowed_signals register of
             Inl _ \<Rightarrow> Err (SignalError ''Failed while getting allowed signals'')
           | Inr signal \<Rightarrow> Ok
               \<lparr>dr_handler = inner,
                dr_world = w\<lparr>w_jobs_picked := 0\<rparr>,
                dr_stream_index = 0,
                dr_channel = clone_sender (mpsc_channel 1),
                dr_oneshot = None,
                dr_redis_available = True,
                dr_signals_closed = False,
                dr_signal_task = AwaitSignal,
                dr_monitor = Monitoring,
                dr_receiver = AwaitReport,
                dr_listener = Receiving,
                dr_loop = CheckRunning,
                dr_tasks = []\<rparr>))"

section \<open>The tasks\<close>

text \<open>The loop of \<open>Handler::spawn\<close> and the end of \<open>start_drainer\<close>: which handler
  the step spawned, and the state after it; \<open>None\<close> while the task waits. After the loop the
  stream of signals is closed and the signal task is joined.\<close>

definition spawn_step :: "('s, 'd) drainer_run \<Rightarrow> (8 word option \<times> ('s, 'd) drainer_run) option" where
  "spawn_step r =
     (case dr_loop r of
        CheckRunning \<Rightarrow>
          if h_running (dr_handler r) then Some (None, r\<lparr>dr_loop := Turn\<rparr>)
          else Some (None, r\<lparr>dr_signals_closed := True, dr_loop := JoinSignals\<rparr>)
      | Turn \<Rightarrow>
          (case spawn_turn (h_store (dr_handler r)) (dr_stream_index r, w_jobs_picked (dr_world r))
                  (w_redis (dr_world r)) of
             ((available, i, jobs), s) \<Rightarrow>
               Some (if available then Some (dr_stream_index r) else None,
                 r\<lparr>dr_world := (dr_world r)\<lparr>w_redis := s, w_jobs_picked := jobs\<rparr>,
                   dr_stream_index := i,
                   dr_tasks := dr_tasks r @ (if available then [(dr_stream_index r, Spawned)] else []),
                   dr_loop := CheckRunning\<rparr>))
      | JoinSignals \<Rightarrow>
          (case dr_signal_task r of
             AwaitSignal \<Rightarrow> None
           | SignalEnded _ \<Rightarrow> Some (None, r\<lparr>dr_loop := Returned\<rparr>))
      | Returned \<Rightarrow> None)"

text \<open>\<open>shutdown_listener\<close>: it takes a request, closes the channel, waits until the counter
  reads zero, stops the loop, and goes back to the channel, which is over once it is empty.\<close>

definition listener_step :: "('s, 'd) drainer_run \<Rightarrow> ('s, 'd) drainer_run option" where
  "listener_step r =
     (case dr_listener r of
        Receiving \<Rightarrow>
          (case recv (dr_channel r) of
             (Pending, _) \<Rightarrow> None
           | (Ready (Some _), ch) \<Rightarrow> Some (r\<lparr>dr_channel := close_receiver ch, dr_listener := AwaitTasks\<rparr>)
           | (Ready None, ch) \<Rightarrow> Some (r\<lparr>dr_channel := ch, dr_listener := ListenerEnded\<rparr>))
      | AwaitTasks \<Rightarrow> Some (if w_active_tasks (dr_world r) \<noteq> 0 then r else r\<lparr>dr_listener := Closing\<rparr>)
      | Closing \<Rightarrow> Some (r\<lparr>dr_handler := Handler_close (dr_handler r), dr_listener := Receiving\<rparr>)
      | ListenerEnded \<Rightarrow> None)"

text \<open>The signal task: the stream of signals yields one of the registered signals, or ends
  after \<open>handle.close()\<close>.\<close>

definition signal_step :: "int option \<Rightarrow> ('s, 'd) drainer_run \<Rightarrow> ('s, 'd) drainer_run option" where
  "signal_step sig r =
     (if dr_signal_task r = AwaitSignal \<and>
         (case sig of None \<Rightarrow> dr_signals_closed r | Some signal \<Rightarrow> signal \<in> {SIGTERM, SIGINT})
      then Some (r\<lparr>dr_channel := signal_handler sig (dr_channel r), dr_signal_task := SignalEnded sig\<rparr>)
      else None)"

text \<open>\<open>on_error\<close>: an error is reported once, when the pool is disconnected; the answer of
  the \<open>oneshot\<close> send is only logged. The availability flag is cleared after the report.\<close>

definition on_error_step :: "bool \<Rightarrow> ('s, 'd) drainer_run \<Rightarrow> ('s, 'd) drainer_run option" where
  "on_error_step disconnected r =
     (case dr_monitor r of
        Monitoring \<Rightarrow>
          Some (if disconnected then r\<lparr>dr_oneshot := Some (Ok ()), dr_monitor := Reporting\<rparr> else r)
      | Reporting \<Rightarrow> Some (r\<lparr>dr_redis_available := False, dr_monitor := MonitorEnded\<rparr>)
      | MonitorEnded \<Rightarrow> None)"

definition redis_error_receiver_step :: "('s, 'd) drainer_run \<Rightarrow> ('s, 'd) drainer_run option" where
  "redis_error_receiver_step r =
     (case dr_receiver r of
        AwaitReport \<Rightarrow>
          (case dr_oneshot r of
             None \<Rightarrow> None
           | Some (Inr _) \<Rightarrow> Some (r\<lparr>dr_receiver := SendShutdown\<rparr>)
           | Some (Inl _) \<Rightarrow> Some (r\<lparr>dr_channel := drop_sender (dr_channel r), dr_receiver := ReceiverEnded\<rparr>))
      | SendShutdown \<Rightarrow>
          (case send (dr_channel r) of
             (Pending, _) \<Rightarrow> None
           | (Ready _, ch) \<Rightarrow> Some (r\<lparr>dr_channel := drop_sender ch, dr_receiver := ReceiverEnded\<rparr>))
      | ReceiverEnded \<Rightarrow> None)"

text \<open>\<open>execute_query\<close> of query.rs takes a connection from the pool with
  \<open>pg_connection\<close>, which panics when there is none: \<open>connect d\<close> is whether the pool has
  one in the database state \<open>d\<close>, and \<open>None\<close> is the panic. The loop over the entries and
  the session are those of theory \<open>Drainer\<close>, except for this panic, which leaves what was
  executed so far and skips the rest.\<close>

definition execute_query ::
  "('d \<Rightarrow> bool) \<Rightarrow> ('op \<Rightarrow> ('d, DatabaseError, unit) eff) \<Rightarrow> 'op \<Rightarrow> 'd \<Rightarrow>
   ((DatabaseError, unit) result \<times> 'd) option" where
  "execute_query connect exec operation d = (if connect d then Some (exec operation d) else None)"

fun drain_loop ::
  "('d \<Rightarrow> bool) \<Rightarrow> (string \<Rightarrow> 'op option) \<Rightarrow> ('op \<Rightarrow> ('d, DatabaseError, unit) eff) \<Rightarrow>
   StreamEntry list \<Rightarrow> string \<Rightarrow> 'd \<Rightarrow> ('d, string \<times> 'd) result" where
  "drain_loop connect parse_op exec [] last_processed_id d = Ok (last_processed_id, d)"
| "drain_loop connect parse_op exec ((entry_id, entry) # entries) last_processed_id d =
     (case StreamData_from_hashmap parse_op entry of
        Inl err \<Rightarrow> Ok (last_processed_id, d)
      | Inr data \<Rightarrow>
          (case execute_query connect exec (typed_sql data) d of
             None \<Rightarrow> Err d
           | Some (Inr _, d') \<Rightarrow> drain_loop connect parse_op exec entries entry_id d'
           | Some (Inl UniqueViolation, d') \<Rightarrow> drain_loop connect parse_op exec entries entry_id d'
           | Some (Inl _, d') \<Rightarrow> Ok (last_processed_id, d')))"

definition drainer_session ::
  "('d \<Rightarrow> bool) \<Rightarrow> (string \<Rightarrow> 'op option) \<Rightarrow> ('op \<Rightarrow> ('d, DatabaseError, unit) eff) \<Rightarrow>
   's Store \<Rightarrow> 64 word \<Rightarrow> string \<Rightarrow> ('s, 'd) world \<Rightarrow> bool \<times> ('s, 'd) world" where
  "drainer_session connect parse_op exec store n k w =
     (let completed = (False, snd (drainer parse_op exec store n k w)) in
      case on_redis (read_from_stream store k n) w of
        (Inl _, _) \<Rightarrow> completed
      | (Inr stream_read, w0) \<Rightarrow>
          (case parse_stream_entries stream_read k of
             Inl _ \<Rightarrow> completed
           | Inr entries \<Rightarrow>
               (case drain_loop connect parse_op exec entries [] (w_db w0) of
                  Inr _ \<Rightarrow> completed
                | Inl d \<Rightarrow> (True, w0\<lparr>w_jobs_picked := w_jobs_picked w0 + 1, w_db := d\<rparr>))))"

text \<open>A spawned \<open>drainer_handler\<close>, at the atomic accesses to the counter: counting itself,
  draining, freeing the flag, and uncounting itself. A panic ends the task where it is; the
  runtime catches it and nobody joins the task.\<close>

datatype HandlerNext = Goes HandlerTask | Ends | Panics

fun handler_step ::
  "('d \<Rightarrow> bool) \<Rightarrow> (string \<Rightarrow> 'op option) \<Rightarrow> ('op \<Rightarrow> ('d, DatabaseError, unit) eff) \<Rightarrow> 's Store \<Rightarrow> 64 word \<Rightarrow>
   8 word \<Rightarrow> HandlerTask \<Rightarrow> ('s, 'd) world \<Rightarrow> HandlerNext \<times> ('s, 'd) world" where
  "handler_step connect parse_op exec store n i Spawned w =
     (Goes Draining, w\<lparr>w_active_tasks := w_active_tasks w + 1\<rparr>)"
| "handler_step connect parse_op exec store n i Draining w =
     (case drainer_session connect parse_op exec store n (get_drainer_stream_name store i) w of
        (panicked, w') \<Rightarrow> (if panicked then Panics else Goes Releasing, w'))"
| "handler_step connect parse_op exec store n i Releasing w =
     (Goes Finishing, snd (on_redis (make_stream_available store (get_stream_key_flag store i)) w))"
| "handler_step connect parse_op exec store n i Finishing w =
     (Ends, w\<lparr>w_active_tasks := w_active_tasks w - 1\<rparr>)"

text \<open>Steps of the process, labelled with what moved. Whether the pool has a connection is up to
  the database, anew at each step.\<close>

datatype action =
    ASignal "int option" | ARedisError bool | AErrorReceiver | AListener
  | ALoop | ASpawn "8 word" | AHandler "8 word" | APanic "8 word"

fun loop_action :: "8 word option \<Rightarrow> action" where
  "loop_action None = ALoop"
| "loop_action (Some i) = ASpawn i"

fun handler_action :: "8 word \<Rightarrow> HandlerNext \<Rightarrow> action" where
  "handler_action i Panics = APanic i"
| "handler_action i (Goes pc) = AHandler i"
| "handler_action i Ends = AHandler i"

fun remaining :: "8 word \<Rightarrow> HandlerNext \<Rightarrow> (8 word \<times> HandlerTask) list" where
  "remaining i (Goes pc) = [(i, pc)]"
| "remaining i Panics = []"
| "remaining i Ends = []"

inductive drainer_step ::
  "(string \<Rightarrow> 'op option) \<Rightarrow> ('op \<Rightarrow> ('d, DatabaseError, unit) eff) \<Rightarrow>
   ('s, 'd) drainer_run \<Rightarrow> action \<Rightarrow> ('s, 'd) drainer_run \<Rightarrow> bool"
  for parse_op exec where
  signal: "dr_loop r \<noteq> Returned \<Longrightarrow> signal_step sig r = Some r' \<Longrightarrow>
     drainer_step parse_op exec r (ASignal sig) r'"
| redis_error: "dr_loop r \<noteq> Returned \<Longrightarrow> on_error_step disconnected r = Some r' \<Longrightarrow>
     drainer_step parse_op exec r (ARedisError disconnected) r'"
| error_receiver: "dr_loop r \<noteq> Returned \<Longrightarrow> redis_error_receiver_step r = Some r' \<Longrightarrow>
     drainer_step parse_op exec r AErrorReceiver r'"
| listener: "dr_loop r \<noteq> Returned \<Longrightarrow> listener_step r = Some r' \<Longrightarrow>
     drainer_step parse_op exec r AListener r'"
| spawn_loop: "spawn_step r = Some (sp, r') \<Longrightarrow> drainer_step parse_op exec r (loop_action sp) r'"
| handler: "dr_loop r \<noteq> Returned \<Longrightarrow> dr_tasks r = xs @ (i, pc) # ys \<Longrightarrow>
     handler_step connect parse_op exec (h_store (dr_handler r)) (max_read_count (h_conf (dr_handler r))) i pc
       (dr_world r) = (nxt, w') \<Longrightarrow>
     drainer_step parse_op exec r (handler_action i nxt)
       (r\<lparr>dr_world := w', dr_tasks := xs @ remaining i nxt @ ys\<rparr>)"

inductive drainer_runs ::
  "(string \<Rightarrow> 'op option) \<Rightarrow> ('op \<Rightarrow> ('d, DatabaseError, unit) eff) \<Rightarrow>
   ('s, 'd) drainer_run \<Rightarrow> action list \<Rightarrow> ('s, 'd) drainer_run \<Rightarrow> bool"
  for parse_op exec where
  stop: "drainer_runs parse_op exec r [] r"
| go: "drainer_step parse_op exec r a r' \<Longrightarrow> drainer_runs parse_op exec r' as r'' \<Longrightarrow>
     drainer_runs parse_op exec r (a # as) r''"

end
