(* ===== verification/Drainer_Shutdown_Props.thy ===== *)
theory Drainer_Shutdown_Props
  imports Drainer_Shutdown
begin

text \<open>
  What holds of every interleaving of the tasks of a drainer process: the invariant of the shutdown
  protocol, that a requested shutdown can complete, and the two ways in which it does not do what it
  means to (a spawned handler that has not counted itself is abandoned, and a handler that panics
  blocks every later shutdown).
\<close>

section \<open>Runs\<close>

lemma drainer_runs_append:
  "drainer_runs parse_op exec r as r' \<Longrightarrow> drainer_runs parse_op exec r' bs r'' \<Longrightarrow>
   drainer_runs parse_op exec r (as @ bs) r''"
  by (induction rule: drainer_runs.induct) (auto intro: drainer_runs.intros)

lemma drainer_runs_single: "drainer_step parse_op exec r a r' \<Longrightarrow> drainer_runs parse_op exec r [a] r'"
  by (blast intro: drainer_runs.intros)

lemma drainer_runs_keep:
  assumes "drainer_runs parse_op exec r as r'" and "P r"
    and "\<And>r a r'. drainer_step parse_op exec r a r' \<Longrightarrow> P r \<Longrightarrow> P r'"
  shows "P r'"
  using assms by (induction rule: drainer_runs.induct) blast+

text \<open>With a connection at every query the loop is \<open>drain_entries\<close>, and the four steps of a
  handler are the sequential \<open>drainer_handler\<close> of theory \<open>Drainer\<close>.\<close>

lemma drain_loop_Ok:
  "drain_loop connect parse_op exec es l d = Ok x \<Longrightarrow> x = drain_entries parse_op exec es l d"
  by (induction connect parse_op exec es l d rule: drain_loop.induct)
    (auto simp: execute_query_def split: sum.splits option.splits prod.splits if_splits DatabaseError.splits)

lemma drain_loop_connected: "drain_loop (\<lambda>_. True) parse_op exec es l d = Ok (drain_entries parse_op exec es l d)"
  by (induction parse_op exec es l d rule: drain_entries.induct)
    (auto simp: execute_query_def split: sum.splits prod.splits DatabaseError.splits)

lemma drainer_session_connected:
  "drainer_session (\<lambda>_. True) parse_op exec store n k w = (False, snd (drainer parse_op exec store n k w))"
  by (simp add: drainer_session_def drain_loop_connected Let_def split: prod.split sum.split)

lemma drainer_session_completes:
  "fst (drainer_session connect parse_op exec store n k w) = False \<Longrightarrow>
   snd (drainer_session connect parse_op exec store n k w) = snd (drainer parse_op exec store n k w)"
  by (auto simp: drainer_session_def Let_def split: prod.splits sum.splits)

fun handler_alone ::
  "(string \<Rightarrow> 'op option) \<Rightarrow> ('op \<Rightarrow> ('d, DatabaseError, unit) eff) \<Rightarrow> 's Store \<Rightarrow> 64 word \<Rightarrow>
   8 word \<Rightarrow> nat \<Rightarrow> HandlerNext \<times> ('s, 'd) world \<Rightarrow> HandlerNext \<times> ('s, 'd) world" where
  "handler_alone parse_op exec store n i (Suc k) (Goes pc, w) =
     handler_alone parse_op exec store n i k (handler_step (\<lambda>_. True) parse_op exec store n i pc w)"
| "handler_alone parse_op exec store n i k nw = nw"

lemma handler_alone_is_drainer_handler:
  "handler_alone parse_op exec store n i 4 (Goes Spawned, w) =
     (Ends, snd (drainer_handler parse_op exec store i n w))"
proof -
  let ?w = "snd (drainer parse_op exec store n (get_drainer_stream_name store i)
    (w\<lparr>w_active_tasks := w_active_tasks w + 1\<rparr>))"
  obtain x w' where o: "on_redis (make_stream_available store (get_stream_key_flag store i)) ?w = (x, w')"
    by force
  from on_redis_active_tasks [of "make_stream_available store (get_stream_key_flag store i)" ?w]
  have "w_active_tasks w' = w_active_tasks w + 1" by (simp add: o)
  then show ?thesis
    by (simp add: eval_nat_numeral drainer_handler_def drainer_session_connected Let_def o)
qed

section \<open>The invariant\<close>

definition counted :: "8 word \<times> HandlerTask \<Rightarrow> bool" where
  "counted t \<longleftrightarrow> snd t \<noteq> Spawned"

text \<open>A shutdown was requested: a signal arrived, or the loss of the Redis connection was
  passed on.\<close>

fun signal_arrived :: "SignalTask \<Rightarrow> bool" where
  "signal_arrived AwaitSignal = False"
| "signal_arrived (SignalEnded sig) = (sig \<noteq> None)"

definition requested :: "('s, 'd) drainer_run \<Rightarrow> bool" where
  "requested r \<longleftrightarrow> signal_arrived (dr_signal_task r) \<or> dr_receiver r = ReceiverEnded"

text \<open>The invariant, in four parts over the fields they speak of: the channel carries every
  request until the receiver is closed; the report of the monitor; how the flags and the places
  of the tasks agree; and the counter is the number of handlers that have counted themselves and
  of the \<open>p\<close> handlers that have panicked.\<close>

definition channel_inv :: "mpsc \<Rightarrow> SignalTask \<Rightarrow> ErrorReceiver \<Rightarrow> bool" where
  "channel_inv ch sig rc \<longleftrightarrow>
     capacity ch = 1 \<and> queued ch \<le> 1 \<and>
     senders ch = (if sig = AwaitSignal then 1 else 0) + (if rc = ReceiverEnded then 0 else 1) \<and>
     (signal_arrived sig \<or> rc = ReceiverEnded \<longleftrightarrow> queued ch > 0 \<or> rx_closed ch)"

definition report_inv :: "(unit, unit) result option \<Rightarrow> MonitorTask \<Rightarrow> ErrorReceiver \<Rightarrow> bool" where
  "report_inv os mon rc \<longleftrightarrow> os = (if mon = Monitoring then None else Some (Ok ())) \<and>
     (rc \<noteq> AwaitReport \<longrightarrow> os \<noteq> None)"

definition control_inv :: "mpsc \<Rightarrow> SignalTask \<Rightarrow> ListenerTask \<Rightarrow> SpawnLoop \<Rightarrow> bool \<Rightarrow> bool \<Rightarrow> bool" where
  "control_inv ch sig lis lp running sclosed \<longleftrightarrow>
     (rx_closed ch \<longleftrightarrow> lis \<in> {AwaitTasks, Closing} \<or> \<not> running) \<and>
     (lis = ListenerEnded \<longrightarrow> \<not> running \<and> queued ch = 0) \<and>
     (sclosed \<longleftrightarrow> lp \<in> {JoinSignals, Returned}) \<and>
     (sclosed \<longrightarrow> \<not> running) \<and>
     (sig = SignalEnded None \<longrightarrow> sclosed) \<and>
     (lp = Returned \<longrightarrow> sig \<noteq> AwaitSignal)"

definition counter_inv :: "64 word \<Rightarrow> (8 word \<times> HandlerTask) list \<Rightarrow> nat \<Rightarrow> bool" where
  "counter_inv active tasks p \<longleftrightarrow> active = of_nat (length (filter counted tasks) + p)"

definition shutdown_inv :: "nat \<Rightarrow> ('s, 'd) drainer_run \<Rightarrow> bool" where
  "shutdown_inv p r \<longleftrightarrow>
     channel_inv (dr_channel r) (dr_signal_task r) (dr_receiver r) \<and>
     report_inv (dr_oneshot r) (dr_monitor r) (dr_receiver r) \<and>
     control_inv (dr_channel r) (dr_signal_task r) (dr_listener r) (dr_loop r)
       (h_running (dr_handler r)) (dr_signals_closed r) \<and>
     counter_inv (w_active_tasks (dr_world r)) (dr_tasks r) p"

lemma start_drainer_inv: "start_drainer register store conf w = Ok r \<Longrightarrow> shutdown_inv 0 r"
  by (auto simp: start_drainer_def Handler_from_conf_def shutdown_inv_def channel_inv_def report_inv_def
      control_inv_def counter_inv_def split: sum.splits)

text \<open>A request is put on the channel: the parts about it, for the signal task and for the
  receiver of the report alike.\<close>

lemma channel_inv_signal:
  assumes "channel_inv ch AwaitSignal rc" and "sig \<noteq> None \<Longrightarrow> the sig \<in> {SIGTERM, SIGINT}"
  shows "channel_inv (signal_handler sig ch) (SignalEnded sig) rc"
  using assms signal_handler_bound [of ch sig] signal_handler_reaches [of ch "the sig"]
    signal_handler_frame(4) [of ch sig]
  by (cases sig) (auto simp: channel_inv_def)

lemma queued_when_closed:
  "rx_closed ch \<Longrightarrow> queued (snd (try_send ch)) = queued ch"
  "rx_closed ch \<Longrightarrow> queued (signal_handler sig ch) = queued ch"
  by (simp_all add: try_send_def signal_handler_def split: option.split)

lemma signal_step_inv:
  assumes "signal_step sig r = Some r'" and "shutdown_inv p r"
  shows "shutdown_inv p r'"
proof -
  let ?ch = "signal_handler sig (dr_channel r)"
  from assms(1) have t: "dr_signal_task r = AwaitSignal"
    and r': "r' = r\<lparr>dr_channel := ?ch, dr_signal_task := SignalEnded sig\<rparr>"
    and g: "case sig of None \<Rightarrow> dr_signals_closed r | Some signal \<Rightarrow> signal \<in> {SIGTERM, SIGINT}"
    by (simp_all add: signal_step_def split: if_splits)
  from assms(2) g t have "channel_inv ?ch (SignalEnded sig) (dr_receiver r)"
    by (intro channel_inv_signal) (auto simp: shutdown_inv_def split: option.splits)
  moreover from assms(2) g t have "control_inv ?ch (SignalEnded sig) (dr_listener r) (dr_loop r)
      (h_running (dr_handler r)) (dr_signals_closed r)"
    by (auto simp: shutdown_inv_def control_inv_def queued_when_closed)
  ultimately show ?thesis using assms(2) by (simp add: shutdown_inv_def r')
qed

lemma on_error_step_inv: "on_error_step d r = Some r' \<Longrightarrow> shutdown_inv p r \<Longrightarrow> shutdown_inv p r'"
  by (auto simp: shutdown_inv_def on_error_step_def report_inv_def split: if_splits MonitorTask.splits)

lemma redis_error_receiver_step_inv:
  assumes "redis_error_receiver_step r = Some r'" and "shutdown_inv p r"
  shows "shutdown_inv p r'"
proof (cases "dr_receiver r")
  case AwaitReport
  from assms(2) have "dr_oneshot r = None \<or> dr_oneshot r = Some (Ok ())"
    by (simp add: shutdown_inv_def report_inv_def)
  with assms(1) AwaitReport have r': "r' = r\<lparr>dr_receiver := SendShutdown\<rparr>" "dr_oneshot r = Some (Ok ())"
    by (auto simp: redis_error_receiver_step_def)
  moreover have "channel_inv ch sig SendShutdown = channel_inv ch sig AwaitReport" for ch sig
    by (simp add: channel_inv_def)
  moreover have "report_inv (Some (Ok ())) m SendShutdown = report_inv (Some (Ok ())) m AwaitReport" for m
    by (simp add: report_inv_def)
  ultimately show ?thesis using assms(2) AwaitReport by (simp add: shutdown_inv_def)
next
  case SendShutdown
  let ?ch = "drop_sender (snd (try_send (dr_channel r)))"
  from assms(1) SendShutdown have r': "r' = r\<lparr>dr_channel := ?ch, dr_receiver := ReceiverEnded\<rparr>"
    by (auto simp: redis_error_receiver_step_def snd_send [symmetric] split: prod.splits Poll.splits)
  from assms(2) SendShutdown have "channel_inv ?ch (dr_signal_task r) ReceiverEnded"
    using try_send_reaches [of "dr_channel r"] try_send_bound [of "dr_channel r"]
    by (auto simp: shutdown_inv_def channel_inv_def)
  moreover from assms(2) have "control_inv ?ch (dr_signal_task r) (dr_listener r) (dr_loop r)
      (h_running (dr_handler r)) (dr_signals_closed r)"
    by (auto simp: shutdown_inv_def control_inv_def queued_when_closed)
  ultimately show ?thesis using assms(2) SendShutdown
    by (auto simp: shutdown_inv_def r' report_inv_def)
next
  case ReceiverEnded
  with assms(1) show ?thesis by (simp add: redis_error_receiver_step_def)
qed

text \<open>A request is taken and the channel closed, or the channel is over.\<close>

lemma take_request_inv:
  assumes "queued ch > 0" and "channel_inv ch sig rc" and "control_inv ch sig Receiving lp running sc"
  defines "ch' \<equiv> close_receiver (ch\<lparr>queued := queued ch - 1\<rparr>)"
  shows "channel_inv ch' sig rc" and "control_inv ch' sig AwaitTasks lp running sc"
proof -
  have ch': "queued ch' = queued ch - 1" "capacity ch' = capacity ch" "rx_closed ch'" "senders ch' = senders ch"
    by (simp_all add: ch'_def)
  from assms(1,2) show "channel_inv ch' sig rc" by (simp add: channel_inv_def ch')
  from assms(3) show "control_inv ch' sig AwaitTasks lp running sc" by (auto simp: control_inv_def ch')
qed

lemma channel_over_inv:
  assumes "queued ch = 0" and "rx_closed ch \<or> senders ch = 0"
    and "channel_inv ch sig rc" and "control_inv ch sig Receiving lp running sc"
  shows "control_inv ch sig ListenerEnded lp running sc"
  using assms by (cases sig) (auto simp: channel_inv_def control_inv_def split: if_splits)

lemma control_inv_places:
  "control_inv ch sig Closing lp running sc = control_inv ch sig AwaitTasks lp running sc"
  "control_inv ch sig lis Turn running sc = control_inv ch sig lis CheckRunning running sc"
  by (auto simp: control_inv_def)

lemma control_inv_close:
  "control_inv ch sig Closing lp running sc \<Longrightarrow> control_inv ch sig Receiving lp False sc"
  by (auto simp: control_inv_def)

lemma control_inv_join:
  "control_inv ch sig lis CheckRunning False sc \<Longrightarrow> control_inv ch sig lis JoinSignals False True"
  by (auto simp: control_inv_def)

lemma control_inv_return:
  "control_inv ch (SignalEnded s) lis JoinSignals running sc \<Longrightarrow> control_inv ch (SignalEnded s) lis Returned running sc"
  by (auto simp: control_inv_def)

lemma listener_step_inv:
  assumes "listener_step r = Some r'" and "shutdown_inv p r"
  shows "shutdown_inv p r'"
proof (cases "dr_listener r")
  case Receiving
  show ?thesis
  proof (cases rule: recv_cases [of "dr_channel r"])
    case message
    with assms(1) Receiving have "r' = r\<lparr>dr_channel := close_receiver ((dr_channel r)
        \<lparr>queued := queued (dr_channel r) - 1\<rparr>), dr_listener := AwaitTasks\<rparr>"
      by (simp add: listener_step_def)
    moreover from assms(2) Receiving have "channel_inv (dr_channel r) (dr_signal_task r) (dr_receiver r)"
      and "control_inv (dr_channel r) (dr_signal_task r) Receiving (dr_loop r) (h_running (dr_handler r))
        (dr_signals_closed r)"
      by (simp_all add: shutdown_inv_def)
    note take_request_inv [OF message(1) this]
    ultimately show ?thesis using assms(2) by (simp add: shutdown_inv_def)
  next
    case over
    with assms(1) Receiving have "r' = r\<lparr>dr_listener := ListenerEnded\<rparr>" by (simp add: listener_step_def)
    moreover from assms(2) Receiving over(1,2)
    have "control_inv (dr_channel r) (dr_signal_task r) ListenerEnded (dr_loop r) (h_running (dr_handler r))
        (dr_signals_closed r)"
      by (intro channel_over_inv [of _ _ "dr_receiver r"]) (simp_all add: shutdown_inv_def)
    ultimately show ?thesis using assms(2) by (simp add: shutdown_inv_def)
  next
    case pending
    with assms Receiving show ?thesis by (simp add: listener_step_def)
  qed
next
  case AwaitTasks
  with assms show ?thesis by (auto simp: listener_step_def shutdown_inv_def control_inv_places split: if_splits)
next
  case Closing
  with assms(1) have "r' = r\<lparr>dr_handler := Handler_close (dr_handler r), dr_listener := Receiving\<rparr>"
    by (simp add: listener_step_def)
  with assms(2) Closing show ?thesis
    by (auto simp: shutdown_inv_def Handler_close_def intro: control_inv_close)
next
  case ListenerEnded
  with assms(1) show ?thesis by (simp add: listener_step_def)
qed

lemma counter_inv_spawn: "counter_inv n (ts @ [(i, Spawned)]) p = counter_inv n ts p"
  by (simp add: counter_inv_def counted_def)

lemma spawn_step_inv:
  assumes "spawn_step r = Some (sp, r')" and "shutdown_inv p r"
  shows "shutdown_inv p r'"
proof (cases "dr_loop r")
  case CheckRunning
  show ?thesis
  proof (cases "h_running (dr_handler r)")
    case True
    with assms CheckRunning show ?thesis by (auto simp: spawn_step_def shutdown_inv_def control_inv_places)
  next
    case False
    with assms(1) CheckRunning have "r' = r\<lparr>dr_signals_closed := True, dr_loop := JoinSignals\<rparr>"
      by (simp add: spawn_step_def)
    with assms(2) CheckRunning False show ?thesis
      by (auto simp: shutdown_inv_def intro: control_inv_join)
  qed
next
  case Turn
  obtain av i jobs s where "spawn_turn (h_store (dr_handler r))
      (dr_stream_index r, w_jobs_picked (dr_world r)) (w_redis (dr_world r)) = ((av, i, jobs), s)"
    by (metis prod.collapse)
  with assms(1) Turn have "r' = r\<lparr>dr_world := (dr_world r)\<lparr>w_redis := s, w_jobs_picked := jobs\<rparr>, dr_stream_index := i,
      dr_tasks := dr_tasks r @ (if av then [(dr_stream_index r, Spawned)] else []), dr_loop := CheckRunning\<rparr>"
    by (simp add: spawn_step_def)
  with assms(2) Turn show ?thesis by (simp add: shutdown_inv_def control_inv_places counter_inv_spawn)
next
  case JoinSignals
  with assms show ?thesis
    by (cases "dr_signal_task r") (auto simp: spawn_step_def shutdown_inv_def intro: control_inv_return)
next
  case Returned
  with assms(1) show ?thesis by (simp add: spawn_step_def)
qed

fun is_panic :: "action \<Rightarrow> bool" where
  "is_panic (APanic i) = True"
| "is_panic _ = False"

lemma drainer_session_active_tasks [simp]:
  "w_active_tasks (snd (drainer_session connect parse_op exec store n k w)) = w_active_tasks w"
  using on_redis_active_tasks [of "read_from_stream store k n" w]
  by (auto simp: drainer_session_def Let_def simp del: on_redis_active_tasks split: prod.splits sum.splits)

lemma handler_step_counter:
  assumes "handler_step connect parse_op exec store n i pc w = (nxt, w')"
  shows "w_active_tasks w' + of_bool (counted (i, pc)) =
    w_active_tasks w + of_nat (length (filter counted (remaining i nxt))) + of_bool (is_panic (handler_action i nxt))"
proof (cases pc)
  case Draining
  obtain b w1 where d: "drainer_session connect parse_op exec store n (get_drainer_stream_name store i) w = (b, w1)"
    by force
  with drainer_session_active_tasks [of connect parse_op exec store n "get_drainer_stream_name store i" w]
  have "w_active_tasks w1 = w_active_tasks w" by simp
  with assms Draining d show ?thesis by (cases b) (auto simp: counted_def)
qed (use assms in \<open>auto simp: counted_def\<close>)

lemma is_panic_loop_action [simp]: "\<not> is_panic (loop_action sp)"
  by (cases sp) simp_all

lemma drainer_step_inv:
  assumes "drainer_step parse_op exec r a r'" and "shutdown_inv p r"
  shows "shutdown_inv (p + of_bool (is_panic a)) r'"
  using assms
proof (induction rule: drainer_step.induct)
  case (handler r xs i pc ys connect nxt w')
  then have "counter_inv (w_active_tasks (dr_world r)) (dr_tasks r) p" by (simp add: shutdown_inv_def)
  with handler_step_counter [OF handler(3)] handler(2)
  have "counter_inv (w_active_tasks w') (xs @ remaining i nxt @ ys) (p + of_bool (is_panic (handler_action i nxt)))"
    by (cases "counted (i, pc)") (auto simp: counter_inv_def algebra_simps)
  with handler(4) show ?case by (simp add: shutdown_inv_def)
qed (auto intro: signal_step_inv on_error_step_inv redis_error_receiver_step_inv listener_step_inv
    spawn_step_inv)

lemma drainer_runs_inv:
  "drainer_runs parse_op exec r as r' \<Longrightarrow> shutdown_inv p r \<Longrightarrow> shutdown_inv (p + length (filter is_panic as)) r'"
proof (induction arbitrary: p rule: drainer_runs.induct)
  case (go r a r' as r'')
  from go(3) [OF drainer_step_inv [OF go(1,4)]] show ?case by (cases "is_panic a") simp_all
qed simp

text \<open>Actions of the process itself, with the database available.\<close>

fun own_action :: "action \<Rightarrow> bool" where
  "own_action (ASignal (Some signal)) = False"
| "own_action (ARedisError d) = False"
| "own_action (APanic i) = False"
| "own_action _ = True"

lemma own_no_panic: "list_all own_action as \<Longrightarrow> filter is_panic as = []"
  by (induction as) (auto elim!: is_panic.elims)

lemma drainer_runs_inv_own:
  "drainer_runs parse_op exec r as r' \<Longrightarrow> shutdown_inv p r \<Longrightarrow> list_all own_action as \<Longrightarrow> shutdown_inv p r'"
  using drainer_runs_inv [of parse_op exec r as r' p] by (simp add: own_no_panic)

lemma drainer_step_inv_own:
  "drainer_step parse_op exec r a r' \<Longrightarrow> shutdown_inv p r \<Longrightarrow> own_action a \<Longrightarrow> shutdown_inv p r'"
  using drainer_runs_inv_own [OF drainer_runs_single] by simp

section \<open>After the loop is stopped\<close>

fun is_spawn :: "action \<Rightarrow> bool" where
  "is_spawn (ASpawn i) = True"
| "is_spawn _ = False"

lemma listener_step_frame:
  "listener_step r = Some r' \<Longrightarrow>
   dr_loop r' = dr_loop r \<and> (\<not> h_running (dr_handler r) \<longrightarrow> \<not> h_running (dr_handler r'))"
  by (cases rule: recv_cases [of "dr_channel r"])
    (auto simp: listener_step_def Handler_close_def split: ListenerTask.splits if_splits)

lemma spawn_step_stopped:
  "spawn_step r = Some (sp, r') \<Longrightarrow> \<not> h_running (dr_handler r) \<Longrightarrow>
   \<not> h_running (dr_handler r') \<and>
   of_bool (is_spawn (loop_action sp)) + of_bool (dr_loop r' = Turn) \<le> (of_bool (dr_loop r = Turn) :: nat)"
  by (auto simp: spawn_step_def split: SpawnLoop.splits SignalTask.splits prod.splits if_splits)

lemma drainer_step_stopped:
  assumes "drainer_step parse_op exec r a r'" and "\<not> h_running (dr_handler r)"
  shows "\<not> h_running (dr_handler r') \<and>
    of_bool (is_spawn a) + of_bool (dr_loop r' = Turn) \<le> (of_bool (dr_loop r = Turn) :: nat)"
  using assms
proof (induction rule: drainer_step.induct)
  case (listener r r')
  then show ?case using listener_step_frame [of r r'] by simp
next
  case (spawn_loop r sp r')
  then show ?case using spawn_step_stopped by blast
next
  case (error_receiver r r')
  then show ?case
    by (auto simp: redis_error_receiver_step_def split: ErrorReceiver.splits option.splits sum.splits
        prod.splits Poll.splits)
next
  case (handler r xs i pc ys connect nxt w')
  then show ?case by (cases nxt) simp_all
qed (auto simp: signal_step_def on_error_step_def split: if_splits MonitorTask.splits)

lemma spawns_after_close:
  assumes "drainer_runs parse_op exec r as r'" and "\<not> h_running (dr_handler r)"
  shows "length (filter is_spawn as) + of_bool (dr_loop r' = Turn) \<le> (of_bool (dr_loop r = Turn) :: nat)"
  using assms
proof (induction rule: drainer_runs.induct)
  case (go r a r' as r'')
  from drainer_step_stopped [OF go(1,4)] go(3) show ?case
    by (auto simp: of_bool_def split: if_splits)
qed simp

section \<open>After a handler has panicked\<close>

lemma drainer_step_tasks:
  assumes "drainer_step parse_op exec r a r'"
  shows "length (dr_tasks r') + of_bool (is_panic a) \<le> length (dr_tasks r) + of_bool (is_spawn a)"
  using assms
proof (induction rule: drainer_step.induct)
  case (listener r r')
  then show ?case
    by (cases rule: recv_cases [of "dr_channel r"])
      (auto simp: listener_step_def split: ListenerTask.splits if_splits)
next
  case (error_receiver r r')
  then show ?case
    by (auto simp: redis_error_receiver_step_def split: ErrorReceiver.splits option.splits sum.splits
        prod.splits Poll.splits)
next
  case (spawn_loop r sp r')
  then show ?case
    by (auto simp: spawn_step_def split: SpawnLoop.splits SignalTask.splits prod.splits if_splits)
next
  case (handler r xs i pc ys connect nxt w')
  then show ?case by (cases nxt) simp_all
qed (auto simp: signal_step_def on_error_step_def split: if_splits MonitorTask.splits)

lemma drainer_runs_tasks:
  assumes "drainer_runs parse_op exec r as r'"
  shows "length (dr_tasks r') + length (filter is_panic as) \<le> length (dr_tasks r) + length (filter is_spawn as)"
  using assms
proof (induction rule: drainer_runs.induct)
  case (go r a r' as r'')
  from drainer_step_tasks [OF go(1)] go(3) show ?case by (auto simp: of_bool_def split: if_splits)
qed simp

lemma of_nat_not_zero: "0 < n \<Longrightarrow> n < 2 ^ 64 \<Longrightarrow> (of_nat n :: 64 word) \<noteq> 0"
  by (auto simp: word_of_nat_eq_0_iff dest: nat_dvd_not_less)

text \<open>The counter never reads zero again, so the listener never stops the loop.\<close>

lemma stuck_step:
  assumes "drainer_step parse_op exec r a r'" and "w_active_tasks (dr_world r) \<noteq> 0"
    and "h_running (dr_handler r)" and "dr_listener r \<noteq> Closing"
  shows "h_running (dr_handler r') \<and> dr_listener r' \<noteq> Closing"
  using assms
proof (induction rule: drainer_step.induct)
  case (listener r r')
  then show ?case
    by (cases rule: recv_cases [of "dr_channel r"])
      (auto simp: listener_step_def split: ListenerTask.splits)
next
  case (error_receiver r r')
  then show ?case
    by (auto simp: redis_error_receiver_step_def split: ErrorReceiver.splits option.splits sum.splits
        prod.splits Poll.splits)
next
  case (spawn_loop r sp r')
  then show ?case
    by (auto simp: spawn_step_def split: SpawnLoop.splits SignalTask.splits prod.splits if_splits)
qed (auto simp: signal_step_def on_error_step_def split: if_splits MonitorTask.splits)

lemma stuck_run:
  assumes "drainer_runs parse_op exec r bs r'" and "shutdown_inv p r" and "0 < p"
    and "length (dr_tasks r) + p + length (filter is_spawn bs) < 2 ^ 64"
    and "h_running (dr_handler r)" and "dr_listener r \<noteq> Closing"
  shows "h_running (dr_handler r')"
  using assms
proof (induction arbitrary: p rule: drainer_runs.induct)
  case (go r a r' bs r'')
  let ?n = "length (filter counted (dr_tasks r)) + p"
  have "?n < 2 ^ 64" using go(6) length_filter_le [of counted "dr_tasks r"] by linarith
  with go(5) have "(of_nat ?n :: 64 word) \<noteq> 0" by (intro of_nat_not_zero) simp_all
  moreover have "w_active_tasks (dr_world r) = of_nat ?n"
    using go(4) by (simp add: shutdown_inv_def counter_inv_def)
  ultimately have "w_active_tasks (dr_world r) \<noteq> 0" by metis
  note st = stuck_step [OF go(1) this go(7,8)]
  have "length (dr_tasks r') + (p + of_bool (is_panic a)) + length (filter is_spawn bs) < 2 ^ 64"
    using drainer_step_tasks [OF go(1)] go(6) by (auto simp: of_bool_def split: if_splits)
  with go(3) [OF drainer_step_inv [OF go(1,4)]] go(5) st show ?case by blast
qed simp

section \<open>A way to the end\<close>

lemma own_loop_action [simp]: "own_action (loop_action sp)"
  by (cases sp) simp_all

text \<open>A handler that is in progress can be run to its end, alone.\<close>

fun handler_rank :: "HandlerTask \<Rightarrow> nat" where
  "handler_rank Spawned = 3" | "handler_rank Draining = 2" | "handler_rank Releasing = 1" | "handler_rank Finishing = 0"

lemma handler_runs_out:
  assumes "dr_loop r \<noteq> Returned" and "dr_tasks r = (i, pc) # ys"
  shows "\<exists>k w. drainer_runs parse_op exec r (replicate k (AHandler i)) (r\<lparr>dr_world := w, dr_tasks := ys\<rparr>)"
  using assms
proof (induction "handler_rank pc" arbitrary: r pc rule: less_induct)
  case less
  let ?h = "handler_step (\<lambda>_. True) parse_op exec (h_store (dr_handler r))
    (max_read_count (h_conf (dr_handler r))) i pc (dr_world r)"
  obtain nxt w' where h: "?h = (nxt, w')" by force
  have ok: "nxt \<noteq> Panics" using h by (cases pc) (auto simp: drainer_session_connected)
  have step: "drainer_step parse_op exec r (AHandler i) (r\<lparr>dr_world := w', dr_tasks := remaining i nxt @ ys\<rparr>)"
    using drainer_step.handler [of r "[]" i pc ys "\<lambda>_. True" parse_op exec nxt w'] less(2,3) h ok
    by (cases nxt) simp_all
  show ?case
  proof (cases nxt)
    case Ends
    with drainer_runs_single [OF step]
    have "drainer_runs parse_op exec r (replicate 1 (AHandler i)) (r\<lparr>dr_world := w', dr_tasks := ys\<rparr>)"
      by simp
    then show ?thesis by blast
  next
    case (Goes p)
    let ?r = "r\<lparr>dr_world := w', dr_tasks := (i, p) # ys\<rparr>"
    from h Goes have "handler_rank p < handler_rank pc"
      by (cases pc) (auto simp: drainer_session_connected)
    from less(1) [OF this, of ?r] less(2) obtain k w where
      "drainer_runs parse_op exec ?r (replicate k (AHandler i)) (?r\<lparr>dr_world := w, dr_tasks := ys\<rparr>)"
      by auto
    with step Goes have "drainer_runs parse_op exec r (replicate (Suc k) (AHandler i))
        (r\<lparr>dr_world := w, dr_tasks := ys\<rparr>)"
      by (auto intro: drainer_runs.go)
    then show ?thesis by blast
  qed (use ok in simp)
qed

lemma handlers_run_out:
  assumes "dr_loop r \<noteq> Returned"
  shows "\<exists>as w. drainer_runs parse_op exec r as (r\<lparr>dr_world := w, dr_tasks := []\<rparr>) \<and> list_all own_action as"
  using assms
proof (induction "dr_tasks r" arbitrary: r)
  case Nil
  then have "r\<lparr>dr_world := dr_world r, dr_tasks := []\<rparr> = r" by (cases r) simp
  then show ?case
    by (intro exI [of _ "[]"] exI [of _ "dr_world r"]) (simp add: drainer_runs.stop)
next
  case (Cons t ys)
  obtain i pc where t: "t = (i, pc)" by force
  with Cons(2,3) handler_runs_out [of r i pc ys parse_op exec] obtain k w where
    run: "drainer_runs parse_op exec r (replicate k (AHandler i)) (r\<lparr>dr_world := w, dr_tasks := ys\<rparr>)"
    by auto
  from Cons(1) [of "r\<lparr>dr_world := w, dr_tasks := ys\<rparr>"] Cons(3) obtain as w' where
    "drainer_runs parse_op exec (r\<lparr>dr_world := w, dr_tasks := ys\<rparr>) as (r\<lparr>dr_world := w', dr_tasks := []\<rparr>)"
    and own: "list_all own_action as"
    by auto
  from drainer_runs_append [OF run this(1)] own show ?case
    by (intro exI [of _ "replicate k (AHandler i) @ as"] exI [of _ w']) (auto simp: list_all_iff)
qed

text \<open>With no handler left, the listener takes a pending request through to stopping the loop.\<close>

lemma listener_stops_loop:
  assumes "shutdown_inv 0 r" and "requested r" and "dr_tasks r = []" and "dr_loop r \<noteq> Returned"
  shows "\<exists>k r'. drainer_runs parse_op exec r (replicate k AListener) r' \<and> \<not> h_running (dr_handler r') \<and>
    dr_tasks r' = [] \<and> dr_loop r' = dr_loop r"
proof (cases "h_running (dr_handler r)")
  case False
  with assms show ?thesis by (intro exI [of _ 0] exI [of _ r]) (simp add: drainer_runs.stop)
next
  case True
  have active: "w_active_tasks (dr_world r) = 0"
    using assms(1,3) by (simp add: shutdown_inv_def counter_inv_def)
  let ?done = "\<lambda>q k. \<exists>r'. drainer_runs parse_op exec q (replicate k AListener) r' \<and>
    \<not> h_running (dr_handler r') \<and> dr_tasks r' = [] \<and> dr_loop r' = dr_loop r"
  have next_step: "?done q (Suc k)"
    if "listener_step q = Some q'" "?done q' k" "dr_loop q = dr_loop r" for q q' k
    using that assms(4) by (auto intro!: drainer_runs.go drainer_step.listener)
  have closing: "?done q 1"
    if "dr_listener q = Closing" "dr_tasks q = []" "dr_loop q = dr_loop r" for q
  proof -
    let ?q = "q\<lparr>dr_handler := Handler_close (dr_handler q), dr_listener := Receiving\<rparr>"
    have "?done ?q 0"
      using that by (intro exI [of _ ?q]) (simp add: drainer_runs.stop Handler_close_def)
    with next_step [of q ?q 0] that show ?thesis by (simp add: listener_step_def)
  qed
  have awaiting: "?done q 2"
    if "dr_listener q = AwaitTasks" "dr_tasks q = []" "dr_loop q = dr_loop r"
      "w_active_tasks (dr_world q) = 0" for q
    using next_step [of q "q\<lparr>dr_listener := Closing\<rparr>" 1] closing [of "q\<lparr>dr_listener := Closing\<rparr>"] that
    by (simp add: listener_step_def numeral_2_eq_2)
  show ?thesis
  proof (cases "dr_listener r")
    case Receiving
    with assms(1,2) True have "queued (dr_channel r) > 0"
      by (auto simp: shutdown_inv_def channel_inv_def control_inv_def requested_def)
    then obtain ch where "listener_step r = Some (r\<lparr>dr_channel := ch, dr_listener := AwaitTasks\<rparr>)"
      using Receiving by (cases rule: recv_cases [of "dr_channel r"]) (auto simp: listener_step_def)
    from next_step [OF this awaiting] assms(3) active show ?thesis by auto
  next
    case ListenerEnded
    with assms(1) True show ?thesis by (simp add: shutdown_inv_def control_inv_def)
  qed (use awaiting [of r] closing [of r] assms(3) active in blast)+
qed

text \<open>A turn of the loop that is in progress ends, possibly with one more handler; once the
  loop is stopped, \<open>start_drainer\<close> can return.\<close>

lemma turn_ends:
  assumes "dr_loop r = Turn"
  shows "\<exists>sp r'. drainer_step parse_op exec r (loop_action sp) r' \<and> dr_loop r' = CheckRunning"
proof -
  obtain av i jobs s where "spawn_turn (h_store (dr_handler r))
      (dr_stream_index r, w_jobs_picked (dr_world r)) (w_redis (dr_world r)) = ((av, i, jobs), s)"
    by (metis prod.collapse)
  with assms obtain sp r' where "spawn_step r = Some (sp, r')" "dr_loop r' = CheckRunning"
    by (simp add: spawn_step_def)
  then show ?thesis using drainer_step.spawn_loop by blast
qed

lemma joining_finishes:
  assumes "shutdown_inv 0 r" and "dr_loop r = JoinSignals"
  shows "\<exists>as r'. drainer_runs parse_op exec r as r' \<and> list_all own_action as \<and>
    dr_loop r' = Returned \<and> dr_tasks r' = []"
proof -
  from handlers_run_out [of r parse_op exec] assms(2) obtain as w where
    run: "drainer_runs parse_op exec r as (r\<lparr>dr_world := w, dr_tasks := []\<rparr>)" "list_all own_action as"
    by auto
  let ?r = "r\<lparr>dr_world := w, dr_tasks := []\<rparr>"
  from assms have closed: "dr_signals_closed r" by (simp add: shutdown_inv_def control_inv_def)
  obtain bs r2 where r2: "drainer_runs parse_op exec ?r bs r2" "list_all own_action bs" "dr_tasks r2 = []"
    "dr_loop r2 = JoinSignals" "dr_signal_task r2 \<noteq> AwaitSignal"
  proof (cases "dr_signal_task r")
    case AwaitSignal
    let ?s = "?r\<lparr>dr_channel := signal_handler None (dr_channel r), dr_signal_task := SignalEnded None\<rparr>"
    have "drainer_step parse_op exec ?r (ASignal None) ?s"
      by (rule drainer_step.signal) (simp_all add: signal_step_def AwaitSignal closed assms(2))
    from that [OF drainer_runs_single [OF this]] assms(2) show thesis by simp
  next
    case (SignalEnded sig)
    with that [OF drainer_runs.stop] assms(2) show thesis by simp
  qed
  have "drainer_step parse_op exec r2 ALoop (r2\<lparr>dr_loop := Returned\<rparr>)"
    using drainer_step.spawn_loop [of r2 None "r2\<lparr>dr_loop := Returned\<rparr>" parse_op exec] r2(4,5)
    by (cases "dr_signal_task r2") (simp_all add: spawn_step_def)
  from drainer_runs_append [OF run(1) drainer_runs_append [OF r2(1) drainer_runs_single [OF this]]]
  show ?thesis using run(2) r2(2,3)
    by (intro exI [of _ "as @ bs @ [ALoop]"] exI [of _ "r2\<lparr>dr_loop := Returned\<rparr>"]) simp
qed

lemma stopped_loop_finishes:
  assumes "shutdown_inv 0 r" and "\<not> h_running (dr_handler r)" and "dr_loop r = CheckRunning"
  shows "\<exists>as r'. drainer_runs parse_op exec r as r' \<and> list_all own_action as \<and>
    dr_loop r' = Returned \<and> dr_tasks r' = []"
proof -
  let ?r1 = "r\<lparr>dr_signals_closed := True, dr_loop := JoinSignals\<rparr>"
  from assms(2,3) have step: "drainer_step parse_op exec r ALoop ?r1"
    using drainer_step.spawn_loop [of r None ?r1 parse_op exec] by (simp add: spawn_step_def)
  from joining_finishes [OF drainer_step_inv_own [OF step assms(1)], of parse_op exec] obtain as r' where
    "drainer_runs parse_op exec ?r1 as r'" "list_all own_action as" "dr_loop r' = Returned" "dr_tasks r' = []"
    by auto
  with drainer_runs.go [OF step] show ?thesis by (intro exI [of _ "ALoop # as"] exI [of _ r']) simp
qed

lemma requested_run_finishes:
  assumes "shutdown_inv 0 r" and "requested r" and "dr_loop r \<noteq> Returned"
  shows "\<exists>as r'. drainer_runs parse_op exec r as r' \<and> list_all own_action as \<and>
    dr_loop r' = Returned \<and> dr_tasks r' = []"
proof -
  let ?fin = "\<lambda>q. \<exists>as r'. drainer_runs parse_op exec q as r' \<and> list_all own_action as \<and>
    dr_loop r' = Returned \<and> dr_tasks r' = []"
  have prepend: "?fin q" if "drainer_runs parse_op exec q as q'" "list_all own_action as" "?fin q'" for q q' as
    using that drainer_runs_append [of parse_op exec q as q'] by (metis list_all_append)
  from handlers_run_out [OF assms(3), of parse_op exec] obtain as w where
    run: "drainer_runs parse_op exec r as (r\<lparr>dr_world := w, dr_tasks := []\<rparr>)" "list_all own_action as"
    by auto
  let ?r = "r\<lparr>dr_world := w, dr_tasks := []\<rparr>"
  have inv: "shutdown_inv 0 ?r" using drainer_runs_inv_own [OF run(1) assms(1) run(2)] .
  from listener_stops_loop [OF inv, of parse_op exec] assms(2,3) obtain k r2 where
    r2: "drainer_runs parse_op exec ?r (replicate k AListener) r2" "\<not> h_running (dr_handler r2)"
      "dr_loop r2 = dr_loop r"
    by (auto simp: requested_def)
  have inv2: "shutdown_inv 0 r2" using drainer_runs_inv_own [OF r2(1) inv] by (simp add: list_all_iff)
  have "?fin r2"
  proof (cases "dr_loop r2")
    case CheckRunning
    with stopped_loop_finishes [OF inv2 r2(2)] show ?thesis by blast
  next
    case Turn
    from turn_ends [OF this, of parse_op exec] obtain sp r3 where
      r3: "drainer_step parse_op exec r2 (loop_action sp) r3" "dr_loop r3 = CheckRunning" by blast
    from stopped_loop_finishes [OF drainer_step_inv_own [OF r3(1) inv2 own_loop_action] _ r3(2)]
      drainer_step_stopped [OF r3(1) r2(2)] have "?fin r3" by blast
    with prepend [OF drainer_runs_single [OF r3(1)]] show ?thesis by simp
  next
    case JoinSignals
    with joining_finishes [OF inv2] show ?thesis by blast
  next
    case Returned
    with r2(3) assms(3) show ?thesis by simp
  qed
  from prepend [OF r2(1) _ this] have "?fin ?r" by (simp add: list_all_iff)
  from prepend [OF run this] show ?thesis .
qed

lemma spawn_turn_available:
  "is_stream_available store (fst ij) s = (True, s') \<Longrightarrow> \<exists>i jobs. spawn_turn store ij s = ((True, i, jobs), s')"
  by (simp add: spawn_turn_def)

section \<open>Properties\<close>

text \<open>A process on an empty in-memory server, as it starts and after SIGTERM.\<close>

definition demo_start :: "(mem, string list) drainer_run" where
  "demo_start = projr (start_drainer (\<lambda>_. Ok () :: (unit, unit) result) demo_store DrainerSettings_default
     (demo_world []))"

definition demo_signalled :: "(mem, string list) drainer_run" where
  "demo_signalled = the (signal_step (Some SIGTERM) demo_start)"

lemma demo_start_Ok:
  "start_drainer (\<lambda>_. Ok () :: (unit, unit) result) demo_store DrainerSettings_default (demo_world []) =
     Ok demo_start"
  by (simp add: demo_start_def start_drainer_def get_allowed_signals_def split: prod.split)

lemma demo_start_simps [simp]:
  "dr_loop demo_start = CheckRunning" "dr_signal_task demo_start = AwaitSignal"
  "h_running (dr_handler demo_start)"
  by (simp_all add: demo_start_def start_drainer_def Handler_from_conf_def get_allowed_signals_def)

lemma demo_signalled_run: "drainer_runs Some demo_exec demo_start [ASignal (Some SIGTERM)] demo_signalled"
  by (intro drainer_runs_single drainer_step.signal) (simp_all add: demo_signalled_def signal_step_def)

lemma demo_signalled_simps [simp]:
  "requested demo_signalled" "dr_loop demo_signalled = CheckRunning" "h_running (dr_handler demo_signalled)"
  by (simp_all add: demo_signalled_def signal_step_def requested_def)


text \<open>C10: in every state a drainer process can reach, the counter of active tasks is the number
  of handlers that have counted themselves and not yet uncounted themselves, and of those that have
  panicked; the loop is stopped only after a shutdown was requested, and a request is never lost: as
  long as the loop runs, it waits on the channel or the listener is working on it. After the loop is
  stopped at most one more handler is started.\<close>

theorem drainer_shutdown_invariant:
  assumes "start_drainer register store conf w = Ok r0" and "drainer_runs parse_op exec r0 as r"
  shows "w_active_tasks (dr_world r) =
      of_nat (length (filter counted (dr_tasks r)) + length (filter is_panic as)) \<and>
    (if h_running (dr_handler r)
     then requested r = (queued (dr_channel r) > 0 \<or> dr_listener r = AwaitTasks \<or> dr_listener r = Closing)
     else requested r \<and>
       (\<forall>bs r'. drainer_runs parse_op exec r bs r' \<longrightarrow> length (filter is_spawn bs) \<le> 1))"
proof -
  have inv: "shutdown_inv (length (filter is_panic as)) r"
    using drainer_runs_inv [OF assms(2) start_drainer_inv [OF assms(1)]] by simp
  have "length (filter is_spawn bs) \<le> 1"
    if "drainer_runs parse_op exec r bs r'" "\<not> h_running (dr_handler r)" for bs r'
    using spawns_after_close [OF that] by (auto simp: of_bool_def split: if_splits)
  with inv show ?thesis
    by (auto simp: shutdown_inv_def counter_inv_def channel_inv_def control_inv_def requested_def)
qed

theorem drainer_shutdown_invariant_witness:
  "queued (dr_channel demo_signalled) > 0 \<or> dr_listener demo_signalled = AwaitTasks \<or>
   dr_listener demo_signalled = Closing"
  using drainer_shutdown_invariant [OF demo_start_Ok demo_signalled_run] by simp

text \<open>C11: whatever a drainer process has done so far, once a shutdown is requested it can finish
  without another signal or Redis error, as long as no handler has panicked and the database is
  there: the handlers in progress run to their end, the listener stops the loop, and
  \<open>start_drainer\<close> returns with no handler left.\<close>

theorem drainer_can_shut_down:
  assumes "start_drainer register store conf w = Ok r0" and "drainer_runs parse_op exec r0 as r"
    and "filter is_panic as = []" and "requested r" and "dr_loop r \<noteq> Returned"
  shows "\<exists>bs r'. drainer_runs parse_op exec r bs r' \<and> list_all own_action bs \<and>
    dr_loop r' = Returned \<and> dr_tasks r' = []"
proof -
  have "shutdown_inv 0 r"
    using drainer_runs_inv [OF assms(2) start_drainer_inv [OF assms(1)]] assms(3) by simp
  then show ?thesis by (rule requested_run_finishes) (rule assms(4,5))+
qed

theorem drainer_can_shut_down_witness:
  "\<exists>bs r'. drainer_runs Some demo_exec demo_signalled bs r' \<and> list_all own_action bs \<and>
    dr_loop r' = Returned \<and> dr_tasks r' = []"
  using drainer_can_shut_down [OF demo_start_Ok demo_signalled_run] by simp

text \<open>C15: but it need not: a handler counts itself only when it first runs, so the listener can
  read zero while a handler is already spawned. Whenever the first shard is available, a process
  that gets SIGTERM can return while the handler of that shard is about to drain: the process ends,
  the handler with it, and the flag it took stays set.\<close>

theorem drainer_shutdown_abandons_handler:
  assumes "start_drainer register store conf w = Ok r0"
    and "is_stream_available store 0 (w_redis w) = (True, s')"
  shows "\<exists>as r. drainer_runs parse_op exec r0 as r \<and> dr_loop r = Returned \<and>
    dr_tasks r = [(0, Draining)] \<and> w_redis (dr_world r) = s'"
proof -
  from assms(1) have r0: "dr_loop r0 = CheckRunning" "h_running (dr_handler r0)" "dr_tasks r0 = []"
    "dr_listener r0 = Receiving" "dr_signal_task r0 = AwaitSignal" "dr_stream_index r0 = 0"
    "h_store (dr_handler r0) = store" "w_redis (dr_world r0) = w_redis w" "w_active_tasks (dr_world r0) = 0"
    "dr_channel r0 = clone_sender (mpsc_channel 1)"
    by (auto simp: start_drainer_def Handler_from_conf_def split: sum.splits)
  obtain i jobs where t: "spawn_turn store (0, w_jobs_picked (dr_world r0)) (w_redis w) = ((True, i, jobs), s')"
    using spawn_turn_available [of store "(0, w_jobs_picked (dr_world r0))"] assms(2)
    by fastforce
  let ?r2 = "r0\<lparr>dr_world := (dr_world r0)\<lparr>w_redis := s', w_jobs_picked := jobs\<rparr>, dr_stream_index := i,
    dr_tasks := [(0, Spawned)], dr_loop := CheckRunning\<rparr>"
  let ?ch = "signal_handler (Some SIGTERM) (dr_channel r0)"
  let ?r3 = "?r2\<lparr>dr_channel := ?ch, dr_signal_task := SignalEnded (Some SIGTERM)\<rparr>"
  let ?r4 = "?r3\<lparr>dr_channel := close_receiver (?ch\<lparr>queued := 0\<rparr>), dr_listener := AwaitTasks\<rparr>"
  let ?r5 = "?r4\<lparr>dr_listener := Closing\<rparr>"
  let ?r6 = "?r5\<lparr>dr_world := (dr_world ?r5)\<lparr>w_active_tasks := 1\<rparr>, dr_tasks := [(0, Draining)]\<rparr>"
  let ?r7 = "?r6\<lparr>dr_handler := Handler_close (dr_handler r0), dr_listener := Receiving\<rparr>"
  let ?r8 = "?r7\<lparr>dr_signals_closed := True, dr_loop := JoinSignals\<rparr>"
  let ?r9 = "?r8\<lparr>dr_loop := Returned\<rparr>"
  let ?step = "drainer_step parse_op exec"
  have q: "queued ?ch = 1" "\<not> rx_closed ?ch"
    by (simp_all add: r0 signal_handler_def try_send_def)
  have s1: "?step r0 ALoop (r0\<lparr>dr_loop := Turn\<rparr>)"
    using drainer_step.spawn_loop [of r0 None "r0\<lparr>dr_loop := Turn\<rparr>" parse_op exec] r0 by (simp add: spawn_step_def)
  have s2: "?step (r0\<lparr>dr_loop := Turn\<rparr>) (ASpawn 0) ?r2"
    using drainer_step.spawn_loop [of "r0\<lparr>dr_loop := Turn\<rparr>" "Some 0" ?r2 parse_op exec] r0 t
    by (simp add: spawn_step_def)
  have s3: "?step ?r2 (ASignal (Some SIGTERM)) ?r3"
    by (rule drainer_step.signal) (simp_all add: signal_step_def r0)
  have s4: "?step ?r3 AListener ?r4"
    by (rule drainer_step.listener) (simp_all add: listener_step_def recv_def try_recv_def q r0(1,4))
  have s5: "?step ?r4 AListener ?r5"
    by (rule drainer_step.listener) (simp_all add: listener_step_def r0)
  have s6: "?step ?r5 (AHandler 0) ?r6"
    using drainer_step.handler [of ?r5 "[]" 0 Spawned "[]" "\<lambda>_. True" parse_op exec] by (simp add: r0)
  have s7: "?step ?r6 AListener ?r7"
    by (rule drainer_step.listener) (simp_all add: listener_step_def r0)
  have s8: "?step ?r7 ALoop ?r8"
    using drainer_step.spawn_loop [of ?r7 None ?r8 parse_op exec] by (simp add: spawn_step_def Handler_close_def)
  have s9: "?step ?r8 ALoop ?r9"
    using drainer_step.spawn_loop [of ?r8 None ?r9 parse_op exec] by (simp add: spawn_step_def)
  note run = drainer_runs.go [OF s1 drainer_runs.go [OF s2 drainer_runs.go [OF s3 drainer_runs.go [OF s4
    drainer_runs.go [OF s5 drainer_runs.go [OF s6 drainer_runs.go [OF s7 drainer_runs.go [OF s8
    drainer_runs_single [OF s9]]]]]]]]]
  show ?thesis by (intro exI conjI) (rule run, simp_all)
qed

theorem drainer_shutdown_abandons_handler_witness:
  "\<exists>as r. drainer_runs Some demo_exec demo_start as r \<and> dr_loop r = Returned \<and>
    dr_tasks r = [(0, Draining)] \<and>
    w_redis (dr_world r) = mem_init\<lparr>mem_strings := [get_stream_key_flag demo_store 0 \<mapsto> ''true'']\<rparr>"
  using drainer_shutdown_abandons_handler [OF demo_start_Ok, of _ Some demo_exec] demo_acquire
  by (simp add: demo_redis_def)

text \<open>C14: a handler that panics, as every handler does that cannot get a database connection,
  is never uncounted: from then on no sequence of events stops the process, whatever signals it
  gets, unless the listener had already read zero. (Before \<open>2 ^ 64\<close> handlers are spawned.)\<close>

theorem drainer_panic_blocks_shutdown:
  assumes "start_drainer register store conf w = Ok r0" and "drainer_runs parse_op exec r0 as r"
    and "filter is_panic as \<noteq> []" and "h_running (dr_handler r)" and "dr_listener r \<noteq> Closing"
    and "drainer_runs parse_op exec r bs r'" and "length (filter is_spawn (as @ bs)) < 2 ^ 64"
  shows "h_running (dr_handler r') \<and> dr_loop r' \<noteq> Returned"
proof -
  let ?p = "length (filter is_panic as)"
  have inv: "shutdown_inv ?p r" using drainer_runs_inv [OF assms(2) start_drainer_inv [OF assms(1)]] by simp
  have "dr_tasks r0 = []" using assms(1) by (auto simp: start_drainer_def split: prod.splits sum.splits)
  with drainer_runs_tasks [OF assms(2)] assms(7)
  have "length (dr_tasks r) + ?p + length (filter is_spawn bs) < 2 ^ 64" by simp
  with stuck_run [OF assms(6) inv _ _ assms(4,5)] assms(3) have "h_running (dr_handler r')" by simp
  moreover have "shutdown_inv (?p + length (filter is_panic bs)) r'" using drainer_runs_inv [OF assms(6) inv] .
  ultimately show ?thesis by (auto simp: shutdown_inv_def control_inv_def)
qed

text \<open>A process with one queued operation on its first shard and a database that is down.\<close>

definition demo_busy_redis :: mem where
  "demo_busy_redis = snd (mem_xadd (get_drainer_stream_name demo_store 0) XidAuto (demo_entry ''a'') mem_init)"

definition demo_busy :: "(mem, string list) drainer_run" where
  "demo_busy = projr (start_drainer (\<lambda>_. Ok () :: (unit, unit) result) demo_store DrainerSettings_default
     ((demo_world [])\<lparr>w_redis := demo_busy_redis\<rparr>))"

lemma demo_busy_Ok:
  "start_drainer (\<lambda>_. Ok () :: (unit, unit) result) demo_store DrainerSettings_default
     ((demo_world [])\<lparr>w_redis := demo_busy_redis\<rparr>) = Ok demo_busy"
  by (simp add: demo_busy_def start_drainer_def get_allowed_signals_def split: prod.split)

lemma demo_busy_simps [simp]:
  "dr_loop demo_busy = CheckRunning" "dr_signal_task demo_busy = AwaitSignal" "dr_listener demo_busy = Receiving"
  "h_running (dr_handler demo_busy)" "dr_tasks demo_busy = []" "h_store (dr_handler demo_busy) = demo_store"
  "max_read_count (h_conf (dr_handler demo_busy)) = 100" "dr_stream_index demo_busy = 0"
  "w_redis (dr_world demo_busy) = demo_busy_redis" "w_active_tasks (dr_world demo_busy) = 0" "w_db (dr_world demo_busy) = []"
  by (simp_all add: demo_busy_def start_drainer_def Handler_from_conf_def get_allowed_signals_def
      DrainerSettings_default_def demo_world_def)

text \<open>Its first handler is spawned, counts itself and panics at the first query.\<close>

lemma demo_busy_available:
  "is_stream_available demo_store 0 demo_busy_redis =
     (True, demo_busy_redis\<lparr>mem_strings := [get_stream_key_flag demo_store 0 \<mapsto> ''true'']\<rparr>)"
  by (simp add: is_stream_available_def set_key_if_not_exists_with_expiry_def eff_simps mem_fred_def
      mem_set_def mem_init_def demo_busy_redis_def mem_xadd_def)

lemma demo_busy_session:
  assumes "mem_streams (w_redis w) = mem_streams demo_busy_redis"
  shows "\<exists>w'. drainer_session (\<lambda>_. False) Some demo_exec demo_store 100 (get_drainer_stream_name demo_store 0) w =
    (True, w')"
  using assms demo_entry_decodes [of "''a''"]
  by (simp add: drainer_session_def read_from_stream_def stream_read_entries_def eff_simps on_redis_def mem_fred_def
      mem_xread_def demo_busy_redis_def mem_xadd_def mem_init_def parse_stream_entries_def execute_query_def Let_def)

lemma demo_busy_panics:
  "\<exists>as r. drainer_runs Some demo_exec demo_busy as r \<and> filter is_panic as \<noteq> [] \<and> h_running (dr_handler r) \<and>
    dr_listener r = Receiving \<and> dr_signal_task r = AwaitSignal \<and> dr_loop r = CheckRunning \<and>
    length (filter is_spawn as) = 1"
proof -
  let ?step = "drainer_step Some demo_exec"
  obtain i jobs where t: "spawn_turn demo_store (0, w_jobs_picked (dr_world demo_busy)) demo_busy_redis =
      ((True, i, jobs), demo_busy_redis\<lparr>mem_strings := [get_stream_key_flag demo_store 0 \<mapsto> ''true'']\<rparr>)"
    using spawn_turn_available [of demo_store "(0, w_jobs_picked (dr_world demo_busy))"] demo_busy_available
    by fastforce
  let ?r1 = "demo_busy\<lparr>dr_loop := Turn\<rparr>"
  let ?r2 = "demo_busy\<lparr>dr_world := (dr_world demo_busy)\<lparr>w_redis := demo_busy_redis\<lparr>mem_strings :=
      [get_stream_key_flag demo_store 0 \<mapsto> ''true'']\<rparr>, w_jobs_picked := jobs\<rparr>, dr_stream_index := i,
    dr_tasks := [(0, Spawned)], dr_loop := CheckRunning\<rparr>"
  let ?r3 = "?r2\<lparr>dr_world := (dr_world ?r2)\<lparr>w_active_tasks := 1\<rparr>, dr_tasks := [(0, Draining)]\<rparr>"
  obtain w4 where w4: "drainer_session (\<lambda>_. False) Some demo_exec demo_store 100
      (get_drainer_stream_name demo_store 0) (dr_world ?r3) = (True, w4)"
    using demo_busy_session [of "dr_world ?r3"] by fastforce
  let ?r4 = "?r3\<lparr>dr_world := w4, dr_tasks := []\<rparr>"
  have s1: "?step demo_busy ALoop ?r1"
    using drainer_step.spawn_loop [of demo_busy None ?r1 Some demo_exec] by (simp add: spawn_step_def)
  have s2: "?step ?r1 (ASpawn 0) ?r2"
    using drainer_step.spawn_loop [of ?r1 "Some 0" ?r2 Some demo_exec] t by (simp add: spawn_step_def)
  have s3: "?step ?r2 (AHandler 0) ?r3"
    using drainer_step.handler [of ?r2 "[]" 0 Spawned "[]" "\<lambda>_. True" Some demo_exec] by simp
  have s4: "?step ?r3 (APanic 0) ?r4"
    using drainer_step.handler [of ?r3 "[]" 0 Draining "[]" "\<lambda>_. False" Some demo_exec Panics w4] w4 by simp
  note run = drainer_runs.go [OF s1 drainer_runs.go [OF s2 drainer_runs.go [OF s3 drainer_runs_single [OF s4]]]]
  show ?thesis by (intro exI conjI) (rule run, simp_all)
qed

theorem drainer_panic_blocks_shutdown_witness:
  "\<exists>as r r'. drainer_runs Some demo_exec demo_busy as r \<and> filter is_panic as \<noteq> [] \<and>
    drainer_runs Some demo_exec r [ASignal (Some SIGTERM)] r' \<and> h_running (dr_handler r') \<and> dr_loop r' \<noteq> Returned"
proof -
  obtain as r where r: "drainer_runs Some demo_exec demo_busy as r" "filter is_panic as \<noteq> []"
    "h_running (dr_handler r)" "dr_listener r = Receiving" "dr_signal_task r = AwaitSignal"
    "dr_loop r = CheckRunning" "length (filter is_spawn as) = 1"
    using demo_busy_panics by blast
  obtain r' where "signal_step (Some SIGTERM) r = Some r'" using r(5) by (simp add: signal_step_def)
  then have sig: "drainer_runs Some demo_exec r [ASignal (Some SIGTERM)] r'"
    using r(6) by (intro drainer_runs_single drainer_step.signal) simp_all
  from drainer_panic_blocks_shutdown [OF demo_busy_Ok r(1-3) _ sig] r(4,7) have
    "h_running (dr_handler r') \<and> dr_loop r' \<noteq> Returned" by simp
  with r(1,2) sig show ?thesis by blast
qed

end
