(* ===== verification/Scheduler_Store.thy ===== *)
theory Scheduler_Store
  imports Scheduler "HOL-Library.Sublist"
begin

text \<open>
  What the scheduler's flows rely on of its store, and that the model of \<open>Store\<close> provides it:
  the effect of every trait method on three views of the world, the task table, the streams
  and the string keys, for every outcome of the underlying commands. The locale
  \<open>scheduler_store\<close> joins the interfaces of Redis and of the database; it is interpreted on
  the in-memory server and table.
\<close>

section \<open>Relations between task tables\<close>

text \<open>What a status update to \<open>Processing\<close> does to a row.\<close>

definition mark :: "int \<Rightarrow> 'j ProcessTracker \<Rightarrow> 'j ProcessTracker" where
  "mark t r = r\<lparr>pt_status := Processing, pt_updated_at := t\<rparr>"

lemma mark_mark [simp]: "mark t (mark u r) = mark t r"
  by (simp add: mark_def)

lemma mark_simps [simp]: "pt_id (mark t r) = pt_id r" "pt_status (mark t r) = Processing"
  by (simp_all add: mark_def)

definition marks :: "string set \<Rightarrow> (string \<rightharpoonup> 'j ProcessTracker) \<Rightarrow> (string \<rightharpoonup> 'j ProcessTracker) \<Rightarrow> bool" where
  "marks ids T T' \<longleftrightarrow> (\<forall>i. T' i = T i \<or> i \<in> ids \<and> (\<exists>t. T' i = map_option (mark t) (T i)))"

definition all_processing :: "string set \<Rightarrow> (string \<rightharpoonup> 'j ProcessTracker) \<Rightarrow> bool" where
  "all_processing ids T \<longleftrightarrow> (\<forall>i \<in> ids. \<forall>r. T i = Some r \<longrightarrow> pt_status r = Processing)"

lemma marks_refl [simp, intro]: "marks ids T T"
  by (simp add: marks_def)

lemma marks_mono: "marks ids T T' \<Longrightarrow> ids \<subseteq> ids' \<Longrightarrow> marks ids' T T'"
  unfolding marks_def by blast

lemma marks_trans:
  assumes "marks ids T T'" and "marks ids' T' T''"
  shows "marks (ids \<union> ids') T T''"
  unfolding marks_def
proof
  fix i
  from assms(1) have 1: "T' i = T i \<or> i \<in> ids \<and> (\<exists>t. T' i = map_option (mark t) (T i))"
    unfolding marks_def by blast
  from assms(2) have 2: "T'' i = T' i \<or> i \<in> ids' \<and> (\<exists>t. T'' i = map_option (mark t) (T' i))"
    unfolding marks_def by blast
  show "T'' i = T i \<or> i \<in> ids \<union> ids' \<and> (\<exists>t. T'' i = map_option (mark t) (T i))"
    using 1 2 by (cases "T i") (auto simp: option.map_comp comp_def)
qed

lemma all_processing_marks: "all_processing ids T \<Longrightarrow> marks ids' T T' \<Longrightarrow> all_processing ids T'"
  unfolding all_processing_def marks_def
  by (metis map_option_eq_Some mark_simps(2))

lemma all_processing_Un: "all_processing (A \<union> B) T \<longleftrightarrow> all_processing A T \<and> all_processing B T"
  unfolding all_processing_def by blast

lemma marks_update_rows:
  assumes "\<And>i r. T i = Some r \<Longrightarrow> pt_id r = i"
  shows "marks (set ids) T (update_rows (\<lambda>r. pt_id r \<in> set ids) (mark t) T)"
    and "all_processing (set ids) (update_rows (\<lambda>r. pt_id r \<in> set ids) (mark t) T)"
proof -
  have "update_rows (\<lambda>r. pt_id r \<in> set ids) (mark t) T i =
      (if i \<in> set ids then map_option (mark t) (T i) else T i)" for i
    using assms [of i] by (cases "T i") (auto simp: update_rows_def)
  then show "marks (set ids) T (update_rows (\<lambda>r. pt_id r \<in> set ids) (mark t) T)"
    and "all_processing (set ids) (update_rows (\<lambda>r. pt_id r \<in> set ids) (mark t) T)"
    by (auto simp: marks_def all_processing_def)
qed

lemma apply_mark:
  "apply_update (ProcessTrackerUpdateInternal_from t (StatusUpdate Processing None)) = mark t"
  by (rule ext) (simp add: apply_StatusUpdate mark_def or_old_def)

text \<open>A stream entry that carries a batch, and the ids of a batch.\<close>

definition encodes :: "('j ProcessTracker list \<Rightarrow> string option) \<Rightarrow> StreamEntry \<Rightarrow> 'j ProcessTrackerBatch \<Rightarrow> bool" where
  "encodes ser e b \<longleftrightarrow> (\<exists>fvs. to_redis_field_value_pairs ser b = Ok fvs \<and> snd e = map_of fvs)"

definition batch_ids :: "'j ProcessTrackerBatch \<Rightarrow> string set" where
  "batch_ids b = set (map pt_id (batch_trackers b))"

lemma to_redis_field_value_pairs_distinct:
  "to_redis_field_value_pairs ser b = Ok fvs \<Longrightarrow> distinct (map fst fvs)"
  by (auto simp: to_redis_field_value_pairs_def split: option.splits)

text \<open>The tasks a producer turn is to take: due in its window and not yet picked up.\<close>

definition due_tasks :: "int \<Rightarrow> SchedulerSettings \<Rightarrow> (string \<rightharpoonup> 'j ProcessTracker) \<Rightarrow> 'j ProcessTracker set" where
  "due_tasks now settings T =
     {t \<in> ran T. scheduled_between (now - lower_fetch_limit (sched_producer settings) * 1000000)
                   (now + upper_fetch_limit (sched_producer settings) * 1000000) t \<and>
                (pt_status t = New \<or> pt_status t = Pending)}"

text \<open>Batches of a list of tasks.\<close>

lemma divide_into_batches_Ok:
  assumes "divide_into_batches uuid n tasks now conf = Ok bs"
  shows "0 < n" and "concat (map batch_trackers bs) = tasks"
    and "\<forall>b \<in> set bs. batch_stream_name b = sched_stream conf \<and> batch_trackers b \<noteq> [] \<and> length (batch_trackers b) \<le> n"
proof -
  show n: "0 < n" using assms by (simp add: divide_into_batches_def split: if_splits)
  from assms n have bs: "map batch_trackers bs = chunks n tasks" "\<forall>b \<in> set bs. batch_stream_name b = sched_stream conf"
    by (auto simp: divide_into_batches_def comp_def)
  then show "concat (map batch_trackers bs) = tasks" using concat_chunks [OF n] by simp
  have "batch_trackers b \<noteq> [] \<and> length (batch_trackers b) \<le> n" if "b \<in> set bs" for b
  proof -
    from that bs(1) have "batch_trackers b \<in> set (chunks n tasks)" by (metis image_eqI list.set_map)
    from chunks_length [OF this] show ?thesis by auto
  qed
  with bs(2) show "\<forall>b \<in> set bs. batch_stream_name b = sched_stream conf \<and> batch_trackers b \<noteq> [] \<and> length (batch_trackers b) \<le> n"
    by blast
qed

lemma subseq_set: "subseq xs ys \<Longrightarrow> set xs \<subseteq> set ys"
  by (induction rule: list_emb.induct) auto

lemma subseq_concat_distinct:
  "subseq bs' bs \<Longrightarrow> distinct (concat (map f bs)) \<Longrightarrow> distinct (concat (map f bs'))"
proof (induction rule: list_emb.induct)
  case (list_emb_Cons2 x y xs ys)
  then show ?case using subseq_set [OF list_emb_Cons2(2)] by auto
qed auto

text \<open>What one turn of the producer leaves behind, over a view \<open>sv\<close> of the streams and a view
  \<open>tv\<close> of the task table: rows change only by being marked, and only due ones; the stream
  grows by entries that encode \<open>bs\<close>; no task is in two of these batches, each batch is
  non-empty and at most of the configured size, and all its tasks are marked.\<close>

definition turn_effect ::
  "('s \<Rightarrow> string \<Rightarrow> StreamEntry list) \<Rightarrow> ('d \<Rightarrow> string \<rightharpoonup> 'j ProcessTracker) \<Rightarrow>
   ('j ProcessTracker list \<Rightarrow> string option) \<Rightarrow> SchedulerSettings \<Rightarrow> ('s, 'd) pt_world \<Rightarrow> ('s, 'd) pt_world \<Rightarrow>
   'j ProcessTrackerBatch list \<Rightarrow> bool" where
  "turn_effect sv tv ser settings w w' bs \<longleftrightarrow>
     (let due = due_tasks (wd_clock w 0) settings (tv (wd_db w)); k = sched_stream settings in
      marks (pt_id ` due) (tv (wd_db w)) (tv (wd_db w')) \<and>
      (\<exists>es. list_all2 (encodes ser) es bs \<and> sv (wd_redis w') k = sv (wd_redis w) k @ es) \<and>
      (\<forall>j. j \<noteq> k \<longrightarrow> j \<noteq> lock_key (sched_producer settings) \<longrightarrow> sv (wd_redis w') j = sv (wd_redis w) j) \<and>
      distinct (map pt_id (concat (map batch_trackers bs))) \<and>
      (\<forall>b \<in> set bs. batch_trackers b \<noteq> [] \<and> length (batch_trackers b) \<le> batch_size (sched_producer settings) \<and>
         set (batch_trackers b) \<subseteq> due \<and> all_processing (batch_ids b) (tv (wd_db w'))))"

lemma lock_acquire_release_run:
  assumes "acquire_pt_lock (sched_queue state) ''PRODUCER_LOCK'' (lock_key (sched_producer settings)) ''LOCKED''
      (lock_ttl (sched_producer settings)) w = (Ok True, w1)"
    and "callback w1 = (x, w2)" and "x \<noteq> Err Panicked"
    and "release_pt_lock (sched_queue state) ''PRODUCER_LOCK'' (lock_key (sched_producer settings)) w2 = (Ok y, w3)"
  shows "lock_acquire_release state settings callback w = (x, w3)"
  using assms
  by (auto simp: lock_acquire_release_def Let_def eff_simps split: sum.splits ProcessTrackerError.splits)

section \<open>The store behind the scheduler\<close>

locale scheduler_store =
  redis_streams R valid stream_view + redis_keys R valid key_view + db_table D pt_id dvalid tbl
  for R :: "'s fred" and valid :: "'s \<Rightarrow> bool" and stream_view :: "'s \<Rightarrow> string \<Rightarrow> StreamEntry list"
    and key_view :: "'s \<Rightarrow> string \<rightharpoonup> string" and D :: "('d, 'j) pt_conn" and dvalid :: "'d \<Rightarrow> bool"
    and tbl :: "'d \<Rightarrow> string \<rightharpoonup> 'j ProcessTracker" +
  fixes st :: "('s, 'd, 'j) RouterStore"
  assumes pool_R: "pool (st_redis_conn st) = R"
    and pool_law: "dvalid d \<Longrightarrow> st_pool st d = (c, d') \<Longrightarrow>
      dvalid d' \<and> tbl d' = tbl d \<and> (\<forall>conn. c = Ok conn \<longrightarrow> conn = D)"
    and setnx_streams: "valid s \<Longrightarrow> fred_set R k v t True s = (y1, s') \<Longrightarrow> stream_view s' = stream_view s"
    and expire_streams: "valid s \<Longrightarrow> 0 < t \<Longrightarrow> fred_expire R k t s = (y2, s') \<Longrightarrow> stream_view s' = stream_view s"
    and xadd_keys: "valid s \<Longrightarrow> fred_xadd R k i fvs s = (y3, s') \<Longrightarrow> j \<noteq> k \<Longrightarrow> key_view s' j = key_view s j"
begin

text \<open>The views of a world.\<close>

abbreviation wvalid :: "('s, 'd) pt_world \<Rightarrow> bool" where
  "wvalid w \<equiv> valid (wd_redis w) \<and> dvalid (wd_db w)"

abbreviation tasks_of :: "('s, 'd) pt_world \<Rightarrow> string \<rightharpoonup> 'j ProcessTracker" where
  "tasks_of w \<equiv> tbl (wd_db w)"

abbreviation streams_of :: "('s, 'd) pt_world \<Rightarrow> string \<Rightarrow> StreamEntry list" where
  "streams_of w \<equiv> stream_view (wd_redis w)"

abbreviation keys_of :: "('s, 'd) pt_world \<Rightarrow> string \<rightharpoonup> string" where
  "keys_of w \<equiv> key_view (wd_redis w)"

lemma with_write_connection:
  assumes "wvalid w" and "ebind (in_db (pg_connection_write st)) f w = (r, w')"
  obtains (failed) "r = Err StorageError.DatabaseConnectionError" and "wvalid w'"
      and "tasks_of w' = tasks_of w" and "wd_redis w' = wd_redis w" and "wd_clock w' = wd_clock w"
  | (conn) w1 where "wvalid w1" and "tasks_of w1 = tasks_of w" and "wd_redis w1 = wd_redis w"
      and "wd_clock w1 = wd_clock w" and "f D w1 = (r, w')"
proof -
  obtain c d' where c: "st_pool st (wd_db w) = (c, d')" by fastforce
  note l = pool_law [OF conjunct2 [OF assms(1)] c]
  show thesis
  proof (cases c)
    case (Inl e)
    with c assms(2) have "r = Err StorageError.DatabaseConnectionError \<and> w' = w\<lparr>wd_db := d'\<rparr>"
      by (auto simp: pg_connection_write_def eff_simps in_db_def)
    with failed l assms(1) show thesis by simp
  next
    case (Inr conn')
    with l have D: "conn' = D" by simp
    with Inr c assms(2) have "f D (w\<lparr>wd_db := d'\<rparr>) = (r, w')"
      by (auto simp: pg_connection_write_def eff_simps in_db_def)
    with conn [of "w\<lparr>wd_db := d'\<rparr>"] l assms(1) show thesis by simp
  qed
qed

lemma pg_connection_read_write: "pg_connection_read st = pg_connection_write st"
  by (simp add: pg_connection_read_def pg_connection_write_def)

text \<open>A status update: the rows named are updated or, when it fails, perhaps not. Redis is not
  touched.\<close>

lemma update_status_by_ids:
  assumes w: "wvalid w"
    and run: "process_tracker_update_process_status_by_ids (sched_pt (as_scheduler de st)) ids (StatusUpdate q b) w = (r, w')"
  shows "wvalid w' \<and> wd_redis w' = wd_redis w \<and>
    (\<exists>t. let f = apply_update (ProcessTrackerUpdateInternal_from t (StatusUpdate q b)) in
       same_or (tasks_of w) (update_rows (\<lambda>r. pt_id r \<in> set ids) f (tasks_of w)) (tasks_of w') \<and>
       (\<forall>n. r = Ok n \<longrightarrow> tasks_of w' = update_rows (\<lambda>r. pt_id r \<in> set ids) f (tasks_of w)))"
proof -
  from run have "ebind (in_db (pg_connection_write st)) (\<lambda>conn. ebind date_time_now
      (\<lambda>now. emap_err StorageError.DatabaseError
         (in_db (pt_update_process_status_by_ids conn now ids (StatusUpdate q b))))) w = (r, w')"
    by (simp add: as_scheduler_def Store_ProcessTrackerInterface_def
      store_process_tracker_update_process_status_by_ids_def)
  from w this show ?thesis
  proof (cases rule: with_write_connection)
    case failed
    then show ?thesis by (auto simp: Let_def)
  next
    case (conn w1)
    let ?t = "wd_clock w1 0"
    let ?f = "apply_update (ProcessTrackerUpdateInternal_from ?t (StatusUpdate q b))"
    obtain x d' where x: "generic_update D (\<lambda>r. pt_id r \<in> set ids) (Some ?f) (wd_db w1) = (x, d')" by fastforce
    with conn(5) have r: "wd_db w' = d'" "wd_redis w' = wd_redis w1" "\<And>n. r = Ok n \<Longrightarrow> x = Ok n"
      by (auto simp: eff_simps date_time_now_def in_db_def pt_update_process_status_by_ids_def
          split: sum.splits prod.splits)
    from conn(1) have v: "dvalid (wd_db w1)" by simp
    note u = generic_update_cases [OF v _ x]
    from r u conn(1-3) w show ?thesis
      by (intro conjI exI [of _ ?t]) (auto simp: Let_def)
  qed
qed

lemma mark_processing:
  assumes w: "wvalid w"
    and run: "process_tracker_update_process_status_by_ids (sched_pt (as_scheduler de st)) ids (StatusUpdate Processing None) w = (r, w')"
  shows "wvalid w' \<and> wd_redis w' = wd_redis w \<and> marks (set ids) (tasks_of w) (tasks_of w') \<and>
    (\<forall>n. r = Ok n \<longrightarrow> all_processing (set ids) (tasks_of w'))"
proof -
  have key: "\<And>i r. tasks_of w i = Some r \<Longrightarrow> pt_id r = i" using key_law w by blast
  note m = marks_update_rows [of "tasks_of w" ids, OF key]
  from update_status_by_ids [OF w run, unfolded Let_def apply_mark] obtain t where
    u: "wvalid w' \<and> wd_redis w' = wd_redis w"
      "same_or (tasks_of w) (update_rows (\<lambda>r. pt_id r \<in> set ids) (mark t) (tasks_of w)) (tasks_of w')"
      "\<forall>n. r = Ok n \<longrightarrow> tasks_of w' = update_rows (\<lambda>r. pt_id r \<in> set ids) (mark t) (tasks_of w)"
    by (elim conjE exE) (rule that, (simp only: simp_thms)+)
  moreover from u(2) m(1) have "marks (set ids) (tasks_of w) (tasks_of w')"
    by (auto simp: same_or_def)
  ultimately show ?thesis using m(2) by auto
qed

lemma find_by_time_status:
  assumes w: "wvalid w"
    and run: "find_processes_by_time_status (sched_pt (as_scheduler de st)) lo hi q limit w = (r, w')"
  shows "wvalid w' \<and> wd_redis w' = wd_redis w \<and> tasks_of w' = tasks_of w \<and> wd_clock w' = wd_clock w \<and>
    (\<forall>l. r = Ok l \<longrightarrow> distinct (map pt_id l) \<and>
       set l \<subseteq> {t \<in> ran (tasks_of w). scheduled_between lo hi t \<and> pt_status t = q} \<and>
       (limit = None \<longrightarrow> set l = {t \<in> ran (tasks_of w). scheduled_between lo hi t \<and> pt_status t = q}))"
proof -
  from run have "ebind (in_db (pg_connection_write st)) (\<lambda>conn. emap_err StorageError.DatabaseError
      (in_db (pt_find_processes_by_time_status conn lo hi q limit))) w = (r, w')"
    by (simp add: as_scheduler_def Store_ProcessTrackerInterface_def
      store_find_processes_by_time_status_def pg_connection_read_write)
  from w this show ?thesis
  proof (cases rule: with_write_connection)
    case failed
    with w show ?thesis by simp
  next
    case (conn w1)
    let ?P = "\<lambda>t. scheduled_between lo hi t \<and> pt_status t = q"
    obtain x d' where x: "generic_filter D ?P limit None None (wd_db w1) = (x, d')" by fastforce
    with conn(5) have r: "w' = w1\<lparr>wd_db := d'\<rparr>" "\<And>n. r = Ok n \<Longrightarrow> x = Ok n"
      by (auto simp: eff_simps in_db_def pt_find_processes_by_time_status_def split: sum.splits prod.splits)
    from conn(1) have v: "dvalid (wd_db w1)" by simp
    from generic_filter_cases [OF v x] r conn(1-4) show ?thesis by auto
  qed
qed

lemma append_entry:
  assumes w: "wvalid w" and d: "distinct (map fst fvs)"
    and run: "q_stream_append_entry (sched_queue (as_scheduler de st)) k AutoGeneratedID fvs w = (r, w')"
  shows "wvalid w' \<and> wd_db w' = wd_db w \<and> (\<forall>j. j \<noteq> k \<longrightarrow> keys_of w' j = keys_of w j) \<and>
    (\<exists>eid. same_or (streams_of w) ((streams_of w)(k := streams_of w k @ [(eid, map_of fvs)])) (streams_of w') \<and>
      (r = Ok () \<longrightarrow> streams_of w' = (streams_of w)(k := streams_of w k @ [(eid, map_of fvs)])))"
proof (cases "is_redis_available (st_redis_conn st)")
  case False
  with run w show ?thesis
    by (auto simp: as_scheduler_def Store_QueueInterface_def store_stream_append_entry_def get_redis_conn_def eff_simps)
next
  case True
  obtain x s' where x: "fred_xadd R k XidAuto fvs (wd_redis w) = (x, s')" by fastforce
  with run True pool_R have r: "w' = w\<lparr>wd_redis := s'\<rparr>" "r = Ok () \<Longrightarrow> x = Ok ()"
    by (auto simp: as_scheduler_def Store_QueueInterface_def store_stream_append_entry_def get_redis_conn_def
        stream_append_entry_def in_redis_def eff_simps split: sum.splits prod.splits)
  from w have v: "valid (wd_redis w)" by simp
  from xadd_law [OF v d x] xadd_keys [OF v x] r w show ?thesis by auto
qed

text \<open>The producer lock: taking it never touches the tasks or the streams; it answers true only
  when the key was free, and then the key holds the caller's value.\<close>

lemma acquire_lock:
  assumes w: "wvalid w" and ttl: "0 < ttl"
    and run: "acquire_pt_lock (sched_queue (as_scheduler de st)) tag key v ttl w = (r, w')"
  shows "wd_db w' = wd_db w \<and> wd_clock w' = wd_clock w \<and> wvalid w' \<and>
    (\<forall>j. j \<noteq> key \<longrightarrow> streams_of w' j = streams_of w j) \<and> (keys_of w key \<noteq> None \<longrightarrow> streams_of w' = streams_of w) \<and>
    (r = Ok True \<longrightarrow> keys_of w key = None \<and> keys_of w' = (keys_of w)(key \<mapsto> v) \<and> streams_of w' = streams_of w)"
proof (cases "is_redis_available (st_redis_conn st)")
  case False
  with run w show ?thesis
    by (auto simp: as_scheduler_def Store_QueueInterface_def store_acquire_pt_lock_def get_redis_conn_def eff_simps)
next
  case True
  let ?p = "st_redis_conn st"
  from w have vs: "valid (wd_redis w)" by simp
  let ?t = "uint (cfg_default_ttl (config ?p))"
  obtain x s1 where x: "fred_set R key v ?t True (wd_redis w) = (x, s1)" by fastforce
  obtain y s2 where y: "fred_expire R key ttl s1 = (y, s2)" by fastforce
  obtain z s3 where z: "fred_del R key s2 = (z, s3)" by fastforce
  have v1: "valid s1"
    using setnx_absent_law [OF vs _ x] setnx_present_law [OF vs _ x] by (cases "key_view (wd_redis w) key") auto
  have st1: "stream_view s1 = streams_of w" by (rule setnx_streams [OF vs x])
  have v2: "valid s2" and k2: "key_view s2 = key_view s1" using expire_law [OF v1 ttl y] by auto
  have st2: "stream_view s2 = stream_view s1" by (rule expire_streams [OF v1 ttl y])
  have v3: "valid s3" and st3: "\<forall>j. j \<noteq> key \<longrightarrow> stream_view s3 j = stream_view s2 j"
    using del_stream_law [OF v2 z] by auto
  note defs = as_scheduler_def Store_QueueInterface_def store_acquire_pt_lock_def get_redis_conn_def
    set_key_if_not_exists_with_expiry_def set_expiry_def delete_key_def in_redis_def eff_simps
  show ?thesis
  proof (cases "\<exists>ok. x = Ok (FredString ok)")
    case ok: True
    have free: "keys_of w key = None" using setnx_present_law [OF vs _ x] ok by fastforce
    have k1: "key_view s1 = (keys_of w)(key \<mapsto> v)" using setnx_absent_law [OF vs free x] ok by auto
    from run True ok x y z pool_R have "w' = w\<lparr>wd_redis := s2\<rparr> \<and> r = Ok True \<or> w' = w\<lparr>wd_redis := s3\<rparr> \<and> r = Ok False"
      by (auto simp: defs split: sum.splits prod.splits)
    then show ?thesis using w v2 v3 st1 st2 st3 free k1 k2 by auto
  next
    case False
    from run True False x pool_R have "w' = w\<lparr>wd_redis := s1\<rparr>" and "r \<noteq> Ok True"
      by (auto simp: defs split: sum.splits prod.splits SetnxReply.splits elim!: SetnxReply_from_value.elims)
    then show ?thesis using w v1 st1 by auto
  qed
qed

lemma release_lock:
  assumes w: "wvalid w"
    and run: "release_pt_lock (sched_queue (as_scheduler de st)) tag key w = (r, w')"
  shows "wd_db w' = wd_db w \<and> wvalid w' \<and> (\<forall>j. j \<noteq> key \<longrightarrow> streams_of w' j = streams_of w j) \<and>
    (r = Ok True \<longrightarrow> keys_of w' key = None)"
proof (cases "is_redis_available (st_redis_conn st)")
  case False
  with run w show ?thesis
    by (auto simp: as_scheduler_def Store_QueueInterface_def store_release_pt_lock_def get_redis_conn_def eff_simps)
next
  case True
  from w have vs: "valid (wd_redis w)" by simp
  obtain x s1 where x: "fred_del R key (wd_redis w) = (x, s1)" by fastforce
  from run True x pool_R have r: "w' = w\<lparr>wd_redis := s1\<rparr>" "r = Ok True \<Longrightarrow> \<exists>v. x = Ok v"
    by (auto simp: as_scheduler_def Store_QueueInterface_def store_release_pt_lock_def get_redis_conn_def
        delete_key_def in_redis_def eff_simps split: sum.splits prod.splits)
  from del_law [OF vs x] del_stream_law [OF vs x] r w show ?thesis by auto
qed

subsection \<open>Appending batches\<close>

lemma append_one:
  assumes w: "wvalid w" and k: "batch_stream_name b = k"
    and run: "update_status_and_append ser (as_scheduler de st) Producer b w = (r, w')"
  shows "wvalid w' \<and> marks (batch_ids b) (tasks_of w) (tasks_of w') \<and>
    (\<forall>j. j \<noteq> k \<longrightarrow> keys_of w' j = keys_of w j) \<and>
    (streams_of w' = streams_of w \<and> r \<noteq> Ok () \<or>
     (\<exists>e. encodes ser e b \<and> streams_of w' = (streams_of w)(k := streams_of w k @ [e]) \<and>
        all_processing (batch_ids b) (tasks_of w')))"
  using run unfolding update_status_and_append_def Let_def SchedulerFlow.case
proof (cases rule: ebindE)
  case (err e)
  from err(1) obtain e' where e': "process_tracker_update_process_status_by_ids (sched_pt (as_scheduler de st))
      (map pt_id (batch_trackers b)) (StatusUpdate Processing None) w = (Err e', w')"
    by (auto elim: ematchE)
  from mark_processing [OF w e'] err(2) show ?thesis by (auto simp: batch_ids_def)
next
  case (ok u w1)
  from ok(1) obtain n where n: "process_tracker_update_process_status_by_ids (sched_pt (as_scheduler de st))
      (map pt_id (batch_trackers b)) (StatusUpdate Processing None) w = (Ok n, w1)"
    by (auto elim: ematchE)
  note 1 = mark_processing [OF w n]
  from ok(2) show ?thesis
  proof (cases rule: ebindE)
    case (err e)
    with 1 show ?thesis by (auto simp: batch_ids_def)
  next
    case fvs: (ok fvs w1')
    then have w1': "w1' = w1" and f: "to_redis_field_value_pairs ser b = Ok fvs" by auto
    note d = to_redis_field_value_pairs_distinct [OF f]
    have e: "encodes ser (eid, map_of fvs) b" for eid using f by (auto simp: encodes_def)
    from fvs(2) show ?thesis unfolding w1'
    proof (cases rule: ematchE)
      case (ok a w2)
      then have a: "q_stream_append_entry (sched_queue (as_scheduler de st)) k AutoGeneratedID fvs w1 = (Ok (), w')"
        and "r = Ok ()" using k by (auto simp: change_context_Ok)
      from append_entry [OF _ d a] 1 obtain eid where
        "streams_of w' = (streams_of w)(k := streams_of w k @ [(eid, map_of fvs)])" by auto
      moreover have "wvalid w'" "tasks_of w' = tasks_of w1" "\<forall>j. j \<noteq> k \<longrightarrow> keys_of w' j = keys_of w j"
        using append_entry [OF _ d a] 1 by auto
      ultimately show ?thesis using 1 e [of eid] by (auto simp: batch_ids_def)
    next
      case (err e2 w2)
      then obtain e3 where a: "q_stream_append_entry (sched_queue (as_scheduler de st)) k AutoGeneratedID fvs w1 = (Err e3, w2)"
        using k by (auto simp: change_context_Err)
      from err(2) obtain x where m: "process_tracker_update_process_status_by_ids (sched_pt (as_scheduler de st))
          (map pt_id (batch_trackers b)) (StatusUpdate Processing None) w2 = (x, w')" and "r = Err e2"
        by (auto elim: ematchE)
      have w2: "wvalid w2" and t2: "tasks_of w2 = tasks_of w1" and "\<forall>j. j \<noteq> k \<longrightarrow> keys_of w2 j = keys_of w j"
        using 1 append_entry [OF _ d a] by auto
      moreover obtain eid where s2: "same_or (streams_of w) ((streams_of w)(k := streams_of w k @ [(eid, map_of fvs)])) (streams_of w2)"
        using 1 append_entry [OF _ d a] by auto
      moreover note 3 = mark_processing [OF w2 m]
      have "marks (batch_ids b) (tasks_of w) (tasks_of w')"
        using marks_trans [of "batch_ids b" _ "tasks_of w1" "batch_ids b" "tasks_of w'"] 1 3 t2 by (simp add: batch_ids_def)
      moreover have "all_processing (batch_ids b) (tasks_of w')"
        using all_processing_marks [of "batch_ids b" "tasks_of w1" "batch_ids b" "tasks_of w'"] 1 3 t2 by (simp add: batch_ids_def)
      ultimately show ?thesis using 3 e [of eid] \<open>r = Err e2\<close> by (auto simp: same_or_def)
    qed
  qed
qed

lemma append_all:
  assumes "wvalid w" and "\<forall>b \<in> set bs. batch_stream_name b = k"
    and "append_batches ser (as_scheduler de st) Producer bs w = (r, w')"
  shows "r = Ok () \<and> wvalid w' \<and> marks (\<Union> (batch_ids ` set bs)) (tasks_of w) (tasks_of w') \<and>
    (\<forall>j. j \<noteq> k \<longrightarrow> keys_of w' j = keys_of w j) \<and>
    (\<exists>es bs'. subseq bs' bs \<and> list_all2 (encodes ser) es bs' \<and>
       streams_of w' = (streams_of w)(k := streams_of w k @ es) \<and>
       (\<forall>b \<in> set bs'. all_processing (batch_ids b) (tasks_of w')) \<and>
       ((\<forall>b \<in> set bs. \<forall>v. wvalid v \<longrightarrow> fst (update_status_and_append ser (as_scheduler de st) Producer b v) = Ok ()) \<longrightarrow>
          bs' = bs))"
  using assms
proof (induction bs arbitrary: w)
  case Nil
  then show ?case by (auto intro!: exI [of _ "[]"])
next
  case (Cons b bs)
  obtain x w1 where x: "update_status_and_append ser (as_scheduler de st) Producer b w = (x, w1)" by fastforce
  have k: "batch_stream_name b = k" using Cons.prems(2) by simp
  note 1 = append_one [OF Cons.prems(1) k x]
  from x Cons.prems(3) have rest: "append_batches ser (as_scheduler de st) Producer bs w1 = (r, w')"
    by (auto simp: ematch_run split: sum.splits)
  have w1: "wvalid w1" using 1 by blast
  from Cons.IH [OF w1 _ rest] Cons.prems(2) obtain es bs' where
    2: "r = Ok ()" "wvalid w'" "marks (\<Union> (batch_ids ` set bs)) (tasks_of w1) (tasks_of w')"
      "\<forall>j. j \<noteq> k \<longrightarrow> keys_of w' j = keys_of w1 j" and
    es: "subseq bs' bs" "list_all2 (encodes ser) es bs'"
      "streams_of w' = (streams_of w1)(k := streams_of w1 k @ es)"
      "\<forall>b \<in> set bs'. all_processing (batch_ids b) (tasks_of w')" and
    all: "(\<forall>b \<in> set bs. \<forall>v. wvalid v \<longrightarrow> fst (update_status_and_append ser (as_scheduler de st) Producer b v) = Ok ()) \<Longrightarrow> bs' = bs"
    by (fastforce simp del: append_batches.simps)
  have m: "marks (\<Union> (batch_ids ` set (b # bs))) (tasks_of w) (tasks_of w')"
    using marks_trans [OF _ 2(3), of "batch_ids b" "tasks_of w"] 1 by simp
  from 1 consider (no) "streams_of w1 = streams_of w" "x \<noteq> Ok ()"
    | (yes) e where "encodes ser e b" "streams_of w1 = (streams_of w)(k := streams_of w k @ [e])"
        "all_processing (batch_ids b) (tasks_of w1)" by blast
  then show ?case
  proof cases
    case no
    with x Cons.prems(1) have "\<not> (\<forall>v. wvalid v \<longrightarrow> fst (update_status_and_append ser (as_scheduler de st) Producer b v) = Ok ())"
      by (metis fst_conv)
    with no 1 2 es m show ?thesis
      by (intro conjI exI [of _ es] exI [of _ bs']) auto
  next
    case yes
    then have "all_processing (batch_ids b) (tasks_of w')" using all_processing_marks 2(3) by blast
    with yes 1 2 es m all show ?thesis
      by (intro conjI exI [of _ "e # es"] exI [of _ "b # bs'"]) auto
  qed
qed

subsection \<open>The producer\<close>

lemma fetch_tasks:
  assumes w: "wvalid w" and run: "fetch_producer_tasks (as_scheduler de st) settings w = (r, w')"
  shows "wvalid w' \<and> wd_redis w' = wd_redis w \<and> tasks_of w' = tasks_of w \<and>
    (\<forall>l. r = Ok l \<longrightarrow> distinct (map pt_id l) \<and> set l = due_tasks (wd_clock w 0) settings (tasks_of w))"
proof -
  let ?now = "wd_clock w 0"
  let ?hi = "?now + upper_fetch_limit (sched_producer settings) * 1000000"
  let ?lo = "?now - lower_fetch_limit (sched_producer settings) * 1000000"
  let ?w1 = "w\<lparr>wd_clock := \<lambda>n. wd_clock w (Suc n)\<rparr>"
  obtain x w2 where x: "find_processes_by_time_status (sched_pt (as_scheduler de st)) ?lo ?hi New None ?w1 = (x, w2)" by fastforce
  obtain y w3 where y: "find_processes_by_time_status (sched_pt (as_scheduler de st)) ?lo ?hi Pending None w2 = (y, w3)" by fastforce
  from w have w1: "wvalid ?w1" by simp
  note 1 = find_by_time_status [OF w1 x]
  then have w2: "wvalid w2" by blast
  note 2 = find_by_time_status [OF w2 y]
  from run x y consider (bad) "w' = ?w1" "\<forall>l. r \<noteq> Ok l" | (e1) "w' = w2" "\<forall>l. r \<noteq> Ok l"
    | (e2) "w' = w3" "\<forall>l. r \<noteq> Ok l" | (ok) a b where "w' = w3" "x = Ok a" "y = Ok b" "r = Ok (a @ b)"
    by (auto simp: fetch_producer_tasks_def Let_def eff_simps date_time_now_def checked_time_def
        split: sum.splits prod.splits if_splits)
  then show ?thesis
  proof cases
    case ok
    from 1 2 ok have a: "distinct (map pt_id a)" "set a = {t \<in> ran (tasks_of w). scheduled_between ?lo ?hi t \<and> pt_status t = New}"
      and b: "distinct (map pt_id b)" "set b = {t \<in> ran (tasks_of w). scheduled_between ?lo ?hi t \<and> pt_status t = Pending}"
      by auto
    have "pt_id t \<noteq> pt_id u" if "t \<in> set a" "u \<in> set b" for t u
    proof
      assume "pt_id t = pt_id u"
      moreover from that a(2) b(2) have "t \<in> ran (tasks_of w)" "u \<in> ran (tasks_of w)" by auto
      ultimately have "t = u" using key_law [of "wd_db w"] w by (fastforce simp: ran_def)
      with that a(2) b(2) show False by auto
    qed
    with a b have "distinct (map pt_id (a @ b))" by auto
    moreover have "set (a @ b) = due_tasks ?now settings (tasks_of w)" using a b by (auto simp: due_tasks_def)
    ultimately show ?thesis using ok 1 2 by auto
  qed (use 1 2 w in auto)
qed

lemma producer_callback:
  assumes w: "wvalid w" and run: "ebind (fetch_producer_tasks (as_scheduler de st) settings)
     (\<lambda>tasks. divide_and_append_tasks ser uuid (as_scheduler de st) Producer tasks settings) w = (r, w')"
  shows "wvalid w' \<and> marks (pt_id ` due_tasks (wd_clock w 0) settings (tasks_of w)) (tasks_of w) (tasks_of w') \<and>
    (\<forall>j. j \<noteq> sched_stream settings \<longrightarrow> keys_of w' j = keys_of w j) \<and>
    (\<exists>es bs. list_all2 (encodes ser) es bs \<and>
       streams_of w' = (streams_of w)(sched_stream settings := streams_of w (sched_stream settings) @ es) \<and>
       distinct (map pt_id (concat (map batch_trackers bs))) \<and>
       (\<forall>b \<in> set bs. batch_trackers b \<noteq> [] \<and> length (batch_trackers b) \<le> batch_size (sched_producer settings) \<and>
          set (batch_trackers b) \<subseteq> due_tasks (wd_clock w 0) settings (tasks_of w) \<and>
          all_processing (batch_ids b) (tasks_of w')) \<and>
       (r = Ok () \<longrightarrow>
          (\<forall>b v. wvalid v \<longrightarrow> batch_stream_name b = sched_stream settings \<longrightarrow>
             fst (update_status_and_append ser (as_scheduler de st) Producer b v) = Ok ()) \<longrightarrow>
          set (concat (map batch_trackers bs)) = due_tasks (wd_clock w 0) settings (tasks_of w)))"
  using run
proof (cases rule: ebindE)
  case (err e)
  from fetch_tasks [OF w err(1)] err(2) show ?thesis
    by (auto intro!: exI [of _ "[]"])
next
  case (ok tasks w1)
  let ?k = "sched_stream settings"
  note 1 = fetch_tasks [OF w ok(1)]
  then have tasks: "distinct (map pt_id tasks)" "set tasks = due_tasks (wd_clock w 0) settings (tasks_of w)" by auto
  let ?w2 = "w1\<lparr>wd_clock := \<lambda>n. wd_clock w1 (Suc n)\<rparr>"
  show ?thesis
  proof (cases "divide_into_batches uuid (batch_size (sched_producer settings)) tasks (wd_clock w1 0) settings")
    case (Inl e)
    with ok(2) have "w' = ?w2" "r = Err e"
      by (auto simp: divide_and_append_tasks_def divide_tasks_def eff_simps date_time_now_def)
    with 1 w show ?thesis
      by (intro conjI exI [of _ "[] :: StreamEntry list"] exI [of _ "[] :: 'j ProcessTrackerBatch list"]) simp_all
  next
    case (Inr all)
    note d = divide_into_batches_Ok [OF Inr]
    from ok(2) Inr have a: "append_batches ser (as_scheduler de st) Producer all ?w2 = (r, w')"
      by (auto simp: divide_and_append_tasks_def divide_tasks_def eff_simps date_time_now_def)
    from 1 w have w2: "wvalid ?w2" by simp
    have k: "\<forall>b \<in> set all. batch_stream_name b = ?k" using d(3) by blast
    from append_all [OF w2 k a] 1 obtain es bs where
      2: "r = Ok ()" "wvalid w'" "marks (\<Union> (batch_ids ` set all)) (tasks_of w) (tasks_of w')"
        "\<forall>j. j \<noteq> ?k \<longrightarrow> keys_of w' j = keys_of w j" and
      es: "subseq bs all" "list_all2 (encodes ser) es bs"
        "streams_of w' = (streams_of w)(?k := streams_of w ?k @ es)"
        "\<forall>b \<in> set bs. all_processing (batch_ids b) (tasks_of w')" and
      full: "(\<forall>b \<in> set all. \<forall>v. wvalid v \<longrightarrow> fst (update_status_and_append ser (as_scheduler de st) Producer b v) = Ok ()) \<Longrightarrow> bs = all"
      by auto
    have sub: "set bs \<subseteq> set all" by (rule subseq_set [OF es(1)])
    have ids: "\<Union> (batch_ids ` set all) = pt_id ` set tasks"
      unfolding d(2) [symmetric] by (simp add: batch_ids_def image_UN)
    have "distinct (map pt_id (concat (map batch_trackers bs)))"
      using subseq_concat_distinct [OF es(1), of "\<lambda>b. map pt_id (batch_trackers b)"] tasks(1) d(2)
      by (auto simp: map_concat comp_def)
    moreover have "set (batch_trackers b) \<subseteq> set tasks" if "b \<in> set all" for b
      using that d(2) by auto
    then have "\<forall>b \<in> set bs. batch_trackers b \<noteq> [] \<and> length (batch_trackers b) \<le> batch_size (sched_producer settings) \<and>
        set (batch_trackers b) \<subseteq> set tasks \<and> all_processing (batch_ids b) (tasks_of w')"
      using sub d(3) es(4) by blast
    moreover have "set (concat (map batch_trackers bs)) = set tasks"
      if "\<forall>b v. wvalid v \<longrightarrow> batch_stream_name b = ?k \<longrightarrow>
             fst (update_status_and_append ser (as_scheduler de st) Producer b v) = Ok ()"
    proof -
      have "bs = all" by (rule full) (use that k in blast)
      then show ?thesis using d(2) by simp
    qed
    ultimately show ?thesis using 2 es(2,3) unfolding ids tasks(2) by blast
  qed
qed

lemma turn_effect_same:
  "tasks_of w' = tasks_of w \<Longrightarrow> \<forall>j. j \<noteq> lock_key (sched_producer settings) \<longrightarrow> streams_of w' j = streams_of w j \<Longrightarrow>
   sched_stream settings \<noteq> lock_key (sched_producer settings) \<Longrightarrow> turn_effect stream_view tbl ser settings w w' []"
  by (simp add: turn_effect_def Let_def)

lemma producer_turn:
  assumes w: "wvalid w" and ttl: "0 < lock_ttl (sched_producer settings)"
    and k: "sched_stream settings \<noteq> lock_key (sched_producer settings)"
    and run: "run_producer_flow ser uuid (as_scheduler de st) settings w = (r, w')"
  shows "wvalid w'" and "\<exists>bs. turn_effect stream_view tbl ser settings w w' bs"
    and "keys_of w (lock_key (sched_producer settings)) \<noteq> None \<Longrightarrow>
      tasks_of w' = tasks_of w \<and> streams_of w' = streams_of w"
proof -
  let ?k = "sched_stream settings" and ?l = "lock_key (sched_producer settings)"
  have "wvalid w' \<and> (\<exists>bs. turn_effect stream_view tbl ser settings w w' bs) \<and>
      (keys_of w ?l \<noteq> None \<longrightarrow> tasks_of w' = tasks_of w \<and> streams_of w' = streams_of w)"
    using run unfolding run_producer_flow_def lock_acquire_release_def Let_def
  proof (cases rule: ebindE)
    case (err e)
    then obtain e' where a: "acquire_pt_lock (sched_queue (as_scheduler de st)) ''PRODUCER_LOCK'' ?l ''LOCKED''
        (lock_ttl (sched_producer settings)) w = (Err e', w')"
      by (auto simp: change_context_Err)
    from acquire_lock [OF w ttl a] turn_effect_same [of w' w settings ser] k show ?thesis by auto
  next
    case (ok acquired w1)
    then have a: "acquire_pt_lock (sched_queue (as_scheduler de st)) ''PRODUCER_LOCK'' ?l ''LOCKED''
        (lock_ttl (sched_producer settings)) w = (Ok acquired, w1)"
      by (auto simp: change_context_Ok)
    note 1 = acquire_lock [OF w ttl a]
    then have w1: "wvalid w1" by blast
    show ?thesis
    proof (cases acquired)
      case False
      with ok(2) have "w' = w1" by simp
      with 1 turn_effect_same [of w' w settings ser] k show ?thesis by auto
    next
      case True
      with 1 have free: "keys_of w ?l = None" and s1: "streams_of w1 = streams_of w"
        and t1: "tasks_of w1 = tasks_of w" and c1: "wd_clock w1 = wd_clock w" by auto
      obtain x w2 where x: "ebind (fetch_producer_tasks (as_scheduler de st) settings)
         (\<lambda>tasks. divide_and_append_tasks ser uuid (as_scheduler de st) Producer tasks settings) w1 = (x, w2)" by fastforce
      note 2 = producer_callback [OF w1 x]
      then obtain es bs where bs: "list_all2 (encodes ser) es bs"
        "streams_of w2 = (streams_of w)(?k := streams_of w ?k @ es)"
        "distinct (map pt_id (concat (map batch_trackers bs)))"
        "\<forall>b \<in> set bs. batch_trackers b \<noteq> [] \<and> length (batch_trackers b) \<le> batch_size (sched_producer settings) \<and>
          set (batch_trackers b) \<subseteq> due_tasks (wd_clock w 0) settings (tasks_of w) \<and>
          all_processing (batch_ids b) (tasks_of w2)" unfolding s1 t1 c1 by blast
      have w2: "wvalid w2" and m2: "marks (pt_id ` due_tasks (wd_clock w 0) settings (tasks_of w)) (tasks_of w) (tasks_of w2)"
        using 2 unfolding t1 c1 by blast+
      have "wvalid w' \<and> tasks_of w' = tasks_of w2 \<and> (\<forall>j. j \<noteq> ?l \<longrightarrow> streams_of w' j = streams_of w2 j)"
      proof (cases "x = Err Panicked")
        case True
        with ok(2) x \<open>acquired\<close> have "w' = w2" by simp
        with w2 show ?thesis by simp
      next
        case False
        obtain y w3 where y: "release_pt_lock (sched_queue (as_scheduler de st)) ''PRODUCER_LOCK'' ?l w2 = (y, w3)" by fastforce
        with ok(2) x \<open>acquired\<close> False have "w' = w3"
          by (auto simp: eff_simps split: sum.splits prod.splits ProcessTrackerError.splits)
        with release_lock [OF w2 y] show ?thesis by auto
      qed
      moreover from this bs m2 k have "turn_effect stream_view tbl ser settings w w' bs"
        unfolding turn_effect_def Let_def by auto
      ultimately show ?thesis using free by auto
    qed
  qed
  then show "wvalid w'" and "\<exists>bs. turn_effect stream_view tbl ser settings w w' bs"
    and "keys_of w ?l \<noteq> None \<Longrightarrow> tasks_of w' = tasks_of w \<and> streams_of w' = streams_of w" by auto
qed

end

section \<open>A store that answers\<close>

locale scheduler_reliable = scheduler_store +
  assumes available: "is_redis_available (st_redis_conn st)"
    and pool_answers: "dvalid d \<Longrightarrow> \<exists>c. fst (st_pool st d) = Ok c"
    and update_answers: "dvalid d \<Longrightarrow> \<exists>n. fst (d_update D P (Some f) d) = Ok n"
    and filter_answers: "dvalid d \<Longrightarrow> \<exists>l. fst (d_filter D P None None None d) = Ok l"
    and xadd_answers: "valid s \<Longrightarrow> fst (fred_xadd R k XidAuto fvs s) = Ok ()"
    and setnx_answers: "valid s \<Longrightarrow> \<exists>x. fst (fred_set R k v t True s) = Ok x"
    and expire_answers: "valid s \<Longrightarrow> fst (fred_expire R k t s) = Ok ()"
    and del_answers: "valid s \<Longrightarrow> \<exists>x. fst (fred_del R k s) = Ok x"
begin

lemma write_connection_Ok:
  assumes "wvalid w"
  shows "\<exists>d'. dvalid d' \<and> tbl d' = tasks_of w \<and>
    ebind (in_db (pg_connection_write st)) f w = f D (w\<lparr>wd_db := d'\<rparr>)"
proof -
  obtain c d' where c: "st_pool st (wd_db w) = (c, d')" by fastforce
  with pool_answers [of "wd_db w"] assms obtain conn where "c = Ok conn" by auto
  with pool_law [OF _ c] assms c show ?thesis
    by (intro exI [of _ d']) (auto simp: pg_connection_write_def eff_simps in_db_def)
qed

lemma update_status_Ok:
  assumes "wvalid w"
  shows "\<exists>n. fst (process_tracker_update_process_status_by_ids (sched_pt (as_scheduler de st)) ids (StatusUpdate q b) w) = Ok n"
proof -
  obtain d' where d': "dvalid d'" and c: "process_tracker_update_process_status_by_ids (sched_pt (as_scheduler de st)) ids (StatusUpdate q b) w =
      ebind date_time_now (\<lambda>now. emap_err StorageError.DatabaseError
        (in_db (pt_update_process_status_by_ids D now ids (StatusUpdate q b)))) (w\<lparr>wd_db := d'\<rparr>)"
    using write_connection_Ok [OF assms] by (fastforce simp: as_scheduler_def Store_ProcessTrackerInterface_def
      store_process_tracker_update_process_status_by_ids_def)
  let ?f = "apply_update (ProcessTrackerUpdateInternal_from (wd_clock w 0) (StatusUpdate q b))"
  obtain n where "fst (d_update D (\<lambda>r. pt_id r \<in> set ids) (Some ?f) d') = Ok n"
    using update_answers [OF d'] by blast
  then show ?thesis unfolding c
    by (auto simp: eff_simps date_time_now_def in_db_def pt_update_process_status_by_ids_def generic_update_def
      split: prod.splits sum.splits)
qed

lemma find_by_time_status_Ok:
  assumes "wvalid w"
  shows "\<exists>l. fst (find_processes_by_time_status (sched_pt (as_scheduler de st)) lo hi q None w) = Ok l"
proof -
  obtain d' where d': "dvalid d'" and c: "find_processes_by_time_status (sched_pt (as_scheduler de st)) lo hi q None w =
      emap_err StorageError.DatabaseError (in_db (pt_find_processes_by_time_status D lo hi q None)) (w\<lparr>wd_db := d'\<rparr>)"
    using write_connection_Ok [OF assms] by (fastforce simp: as_scheduler_def Store_ProcessTrackerInterface_def
      store_find_processes_by_time_status_def pg_connection_read_write)
  obtain l where "fst (d_filter D (\<lambda>r. scheduled_between lo hi r \<and> pt_status r = q) None None None d') = Ok l"
    using filter_answers [OF d'] by blast
  then show ?thesis unfolding c
    by (auto simp: eff_simps in_db_def pt_find_processes_by_time_status_def generic_filter_def
      split: prod.splits sum.splits)
qed

lemma append_one_Ok:
  assumes w: "wvalid w" and ser: "ser (batch_trackers b) \<noteq> None"
  shows "fst (update_status_and_append ser (as_scheduler de st) Producer b w) = Ok ()"
proof -
  obtain n w1 where n: "process_tracker_update_process_status_by_ids (sched_pt (as_scheduler de st))
      (map pt_id (batch_trackers b)) (StatusUpdate Processing None) w = (Ok n, w1)"
    using update_status_Ok [OF w] by (metis prod.collapse)
  have "valid (wd_redis w1)" using mark_processing [OF w n] by blast
  note x = xadd_answers [OF this]
  from ser obtain fvs where "to_redis_field_value_pairs ser b = Ok fvs"
    by (auto simp: to_redis_field_value_pairs_def)
  with n x [of "batch_stream_name b" fvs] available pool_R show ?thesis
    by (auto simp: update_status_and_append_def eff_simps as_scheduler_def Store_QueueInterface_def
      store_stream_append_entry_def get_redis_conn_def stream_append_entry_def in_redis_def
      split: prod.splits sum.splits)
qed

lemma fetch_tasks_Ok:
  assumes w: "wvalid w"
    and hi: "in_datetime (wd_clock w 0 + upper_fetch_limit (sched_producer settings) * 1000000)"
    and lo: "in_datetime (wd_clock w 0 - lower_fetch_limit (sched_producer settings) * 1000000)"
  shows "\<exists>l. fst (fetch_producer_tasks (as_scheduler de st) settings w) = Ok l"
proof -
  let ?hi = "wd_clock w 0 + upper_fetch_limit (sched_producer settings) * 1000000"
  let ?lo = "wd_clock w 0 - lower_fetch_limit (sched_producer settings) * 1000000"
  let ?w1 = "w\<lparr>wd_clock := \<lambda>n. wd_clock w (Suc n)\<rparr>"
  from w have w1: "wvalid ?w1" by simp
  obtain a w2 where a: "find_processes_by_time_status (sched_pt (as_scheduler de st)) ?lo ?hi New None ?w1 = (Ok a, w2)"
    using find_by_time_status_Ok [OF w1] by (metis prod.collapse)
  have w2: "wvalid w2" using find_by_time_status [OF w1 a] by blast
  obtain b w3 where b: "find_processes_by_time_status (sched_pt (as_scheduler de st)) ?lo ?hi Pending None w2 = (Ok b, w3)"
    using find_by_time_status_Ok [OF w2] by (metis prod.collapse)
  from a b hi lo show ?thesis
    by (simp add: fetch_producer_tasks_def Let_def eff_simps date_time_now_def checked_time_def)
qed

lemma callback_Ok:
  assumes w: "wvalid w" and n: "0 < batch_size (sched_producer settings)"
    and hi: "in_datetime (wd_clock w 0 + upper_fetch_limit (sched_producer settings) * 1000000)"
    and lo: "in_datetime (wd_clock w 0 - lower_fetch_limit (sched_producer settings) * 1000000)"
  shows "fst (ebind (fetch_producer_tasks (as_scheduler de st) settings)
     (\<lambda>tasks. divide_and_append_tasks ser uuid (as_scheduler de st) Producer tasks settings) w) = Ok ()"
proof -
  obtain l w1 where l: "fetch_producer_tasks (as_scheduler de st) settings w = (Ok l, w1)"
    using fetch_tasks_Ok [OF w hi lo] by (metis prod.collapse)
  then have w1: "wvalid (w1\<lparr>wd_clock := \<lambda>n. wd_clock w1 (Suc n)\<rparr>)" using fetch_tasks [OF w l] w by simp
  obtain bs where bs: "divide_into_batches uuid (batch_size (sched_producer settings)) l (wd_clock w1 0) settings = Ok bs"
    using n by (auto simp: divide_into_batches_def)
  obtain r w' where r: "append_batches ser (as_scheduler de st) Producer bs (w1\<lparr>wd_clock := \<lambda>n. wd_clock w1 (Suc n)\<rparr>) = (r, w')"
    by fastforce
  have "r = Ok ()" using append_all [OF w1 _ r, of "sched_stream settings"] divide_into_batches_Ok(3) [OF bs] by blast
  with l bs r show ?thesis
    by (simp add: eff_simps divide_and_append_tasks_def divide_tasks_def date_time_now_def)
qed

lemma acquire_Ok:
  assumes w: "wvalid w" and free: "keys_of w key = None" and ttl: "0 < ttl"
  shows "fst (acquire_pt_lock (sched_queue (as_scheduler de st)) tag key v ttl w) = Ok True"
proof -
  from w have vs: "valid (wd_redis w)" by simp
  let ?t = "uint (cfg_default_ttl (config (st_redis_conn st)))"
  obtain x s1 where x: "fred_set R key v ?t True (wd_redis w) = (Ok x, s1)"
    using setnx_answers [OF vs] by (metis prod.collapse)
  from setnx_absent_law [OF vs free x] obtain ok where ok: "x = FredString ok" and v1: "valid s1" by auto
  from expire_answers [OF v1, of key ttl] x ok available pool_R show ?thesis
    by (auto simp: as_scheduler_def Store_QueueInterface_def store_acquire_pt_lock_def get_redis_conn_def
      set_key_if_not_exists_with_expiry_def set_expiry_def in_redis_def eff_simps split: prod.splits sum.splits)
qed

lemma release_Ok:
  assumes w: "wvalid w"
  shows "fst (release_pt_lock (sched_queue (as_scheduler de st)) tag key w) = Ok True"
proof -
  from w have vs: "valid (wd_redis w)" by simp
  obtain x s1 where x: "fred_del R key (wd_redis w) = (Ok x, s1)"
    using del_answers [OF vs] by (metis prod.collapse)
  from del_law [OF vs x] have "x = FredInteger 0 \<or> x = FredInteger 1" by auto
  with x available pool_R show ?thesis
    by (auto simp: as_scheduler_def Store_QueueInterface_def store_release_pt_lock_def get_redis_conn_def
      delete_key_def DelReply_from_value_def in_redis_def eff_simps split: prod.splits sum.splits)
qed

text \<open>With a free lock, a turn takes every due task and frees the lock again.\<close>

lemma producer_turn_complete:
  assumes w: "wvalid w" and ttl: "0 < lock_ttl (sched_producer settings)"
    and k: "sched_stream settings \<noteq> lock_key (sched_producer settings)"
    and n: "0 < batch_size (sched_producer settings)"
    and hi: "in_datetime (wd_clock w 0 + upper_fetch_limit (sched_producer settings) * 1000000)"
    and lo: "in_datetime (wd_clock w 0 - lower_fetch_limit (sched_producer settings) * 1000000)"
    and free: "keys_of w (lock_key (sched_producer settings)) = None"
    and ser: "\<forall>ts. ser ts \<noteq> None"
    and run: "run_producer_flow ser uuid (as_scheduler de st) settings w = (r, w')"
  shows "r = Ok () \<and> keys_of w' (lock_key (sched_producer settings)) = None \<and>
    (\<exists>bs. turn_effect stream_view tbl ser settings w w' bs \<and>
       set (concat (map batch_trackers bs)) = due_tasks (wd_clock w 0) settings (tasks_of w))"
proof -
  let ?k = "sched_stream settings" and ?l = "lock_key (sched_producer settings)"
  obtain w1 where a: "acquire_pt_lock (sched_queue (as_scheduler de st)) ''PRODUCER_LOCK'' ?l ''LOCKED''
      (lock_ttl (sched_producer settings)) w = (Ok True, w1)"
    using acquire_Ok [OF w free ttl] by (metis prod.collapse)
  note 1 = acquire_lock [OF w ttl a]
  then have w1: "wvalid w1" and s1: "streams_of w1 = streams_of w"
    and t1: "tasks_of w1 = tasks_of w" and c1: "wd_clock w1 = wd_clock w" by auto
  obtain w2 where x: "ebind (fetch_producer_tasks (as_scheduler de st) settings)
      (\<lambda>tasks. divide_and_append_tasks ser uuid (as_scheduler de st) Producer tasks settings) w1 = (Ok (), w2)"
    using callback_Ok [OF w1 n] hi lo c1 by (metis prod.collapse)
  have all: "\<forall>b v. wvalid v \<longrightarrow> batch_stream_name b = ?k \<longrightarrow>
      fst (update_status_and_append ser (as_scheduler de st) Producer b v) = Ok ()"
    using append_one_Ok ser by blast
  note 2 = producer_callback [OF w1 x]
  then obtain es bs where bs: "list_all2 (encodes ser) es bs"
    "streams_of w2 = (streams_of w)(?k := streams_of w ?k @ es)"
    "distinct (map pt_id (concat (map batch_trackers bs)))"
    "\<forall>b \<in> set bs. batch_trackers b \<noteq> [] \<and> length (batch_trackers b) \<le> batch_size (sched_producer settings) \<and>
      set (batch_trackers b) \<subseteq> due_tasks (wd_clock w 0) settings (tasks_of w) \<and>
      all_processing (batch_ids b) (tasks_of w2)"
    "set (concat (map batch_trackers bs)) = due_tasks (wd_clock w 0) settings (tasks_of w)"
    using all unfolding s1 t1 c1 by blast
  have w2: "wvalid w2" and m2: "marks (pt_id ` due_tasks (wd_clock w 0) settings (tasks_of w)) (tasks_of w) (tasks_of w2)"
    using 2 unfolding t1 c1 by blast+
  obtain w3 where y: "release_pt_lock (sched_queue (as_scheduler de st)) ''PRODUCER_LOCK'' ?l w2 = (Ok True, w3)"
    using release_Ok [OF w2] by (metis prod.collapse)
  have "run_producer_flow ser uuid (as_scheduler de st) settings w = (Ok (), w3)"
    unfolding run_producer_flow_def by (rule lock_acquire_release_run [OF a _ _ y]) (rule x, simp)
  with run have r: "r = Ok ()" "w' = w3" by simp_all
  note 3 = release_lock [OF w2 y]
  have "turn_effect stream_view tbl ser settings w w' bs"
    using bs m2 k 3 r(2) unfolding turn_effect_def Let_def by auto
  moreover have "keys_of w' ?l = None" using 3 r(2) by simp
  ultimately show ?thesis using bs(5) r(1) by blast
qed

end

section \<open>The store in memory\<close>

text \<open>The in-memory server and table joined to a store.\<close>

definition mem_store :: "(mem, 'j ProcessTracker list, 'j) RouterStore" where
  "mem_store = \<lparr>st_pool = ereturn (mem_diesel pt_id),
     st_redis_conn = \<lparr>pool = mem_fred, config = RedisConfig_from RedisSettings_default, is_redis_available = True\<rparr>\<rparr>"

interpretation mem_scheduler: scheduler_reliable mem_fred mem_valid mem_streams mem_strings
  "mem_diesel pt_id" "mem_unique pt_id" "mem_rows pt_id" mem_store
  by unfold_locales (auto simp: mem_store_def mem_fred_def mem_diesel_def mem_set_def mem_expire_def mem_xadd_def
    mem_del_def split: if_splits option.splits)

end
