(* ===== verification/Scheduler_Consumer.thy ===== *)
theory Scheduler_Consumer
  imports Scheduler_Store
begin

text \<open>
  The consumer side of the scheduler: the interface of Redis consumer groups, the fetch of one
  batch for every outcome of the commands, and what becomes of the tasks of the batch.
\<close>

section \<open>Consumer groups\<close>

text \<open>\<open>group_view s k g\<close> is the part of stream \<open>k\<close> not yet delivered to group \<open>g\<close>,
  \<open>None\<close> when there is no such group.\<close>

locale redis_groups = redis_streams R valid stream_view
  for R :: "'s fred" and valid :: "'s \<Rightarrow> bool" and stream_view :: "'s \<Rightarrow> string \<Rightarrow> StreamEntry list" +
  fixes group_view :: "'s \<Rightarrow> string \<Rightarrow> string \<Rightarrow> StreamEntry list option"
  assumes group_in_stream: "valid s \<Longrightarrow> group_view s k g = Some es \<Longrightarrow> set es \<subseteq> set (stream_view s k)"
    and xreadgroup_law: "valid s \<Longrightarrow> n \<noteq> 0 \<Longrightarrow>
      fred_xreadgroup_map R g c (Some n) None k XidNewInGroup s = (g1, s') \<Longrightarrow>
      valid s' \<and> stream_view s' = stream_view s \<and>
      (\<forall>resp. g1 = Ok resp \<longrightarrow> (\<exists>es. group_view s k g = Some es \<and> es \<noteq> [] \<and>
         resp = [(k, map (\<lambda>(i, m). (i, map_option Some \<circ> m)) (take (unat n) es))] \<and>
         group_view s' k g = Some (drop (unat n) es)))"
    and xreadgroup_answers: "valid s \<Longrightarrow> n \<noteq> 0 \<Longrightarrow> group_view s k g = Some es \<Longrightarrow> es \<noteq> [] \<Longrightarrow>
      \<exists>resp. fst (fred_xreadgroup_map R g c (Some n) None k XidNewInGroup s) = Ok resp"
    and xack_law: "valid s \<Longrightarrow> fred_xack R k g ids s = (g2, s') \<Longrightarrow>
      valid s' \<and> stream_view s' = stream_view s \<and> group_view s' = group_view s"
    and xack_answers: "valid s \<Longrightarrow> \<exists>n. fst (fred_xack R k g ids s) = Ok n"
    and xdel_group_law: "valid s \<Longrightarrow> fred_xdel R k ids s = (Ok m, s') \<Longrightarrow>
      group_view s' k g = map_option (filter (\<lambda>e. fst e \<notin> set ids)) (group_view s k g)"
    and xdel_group_answers: "valid s \<Longrightarrow> \<exists>n. fst (fred_xdel R k ids s) = Ok n"
begin

text \<open>Reading one batch that decodes: it is acknowledged and deleted.\<close>

lemma get_batches_one:
  assumes R: "pool conn = R" and v: "valid s" and g: "group_view s k g = Some (e # es)"
    and dec: "from_redis_stream_entry de (map_option Some \<circ> snd e) = Ok b"
    and run: "get_batches de conn k g c s = (r, s')"
  shows "r = Ok [b] \<and> valid s' \<and>
    stream_view s' = (stream_view s)(k := filter (\<lambda>x. fst x \<noteq> fst e) (stream_view s k)) \<and>
    group_view s' k g = Some (filter (\<lambda>x. fst x \<noteq> fst e) es)"
proof -
  obtain resp s1 where resp: "fred_xreadgroup_map R g c (Some 1) None k XidNewInGroup s = (Ok resp, s1)"
    using xreadgroup_answers [OF v _ g, of 1 c] by (metis list.distinct(1) prod.collapse zero_neq_one)
  from xreadgroup_law [OF v _ resp] g have
    1: "valid s1" "stream_view s1 = stream_view s" "resp = [(k, [(fst e, map_option Some \<circ> snd e)])]"
      "group_view s1 k g = Some es"
    by (auto simp: case_prod_beta)
  obtain n2 s2 where a: "fred_xack R k g [fst e] s1 = (Ok n2, s2)"
    using xack_answers [OF 1(1)] by (metis prod.collapse)
  note 2 = xack_law [OF 1(1) a]
  then have v2: "valid s2" by blast
  obtain n3 s3 where d: "fred_xdel R k [fst e] s2 = (Ok n3, s3)"
    using xdel_group_answers [OF v2] by (metis prod.collapse)
  note 3 = xdel_law [OF v2 d] and gd = xdel_group_law [OF v2 d, of g]
  from run R resp a d dec 1(3) have "r = Ok [b]" "s' = s3"
    by (auto simp: get_batches_def stream_read_with_options_def stream_acknowledge_entries_def
        stream_delete_entries_def eff_simps try_fold_entries_def Let_def)
  with 1 2 3 gd show ?thesis by auto
qed

text \<open>When the group has nothing to deliver the answer is an error or nothing; nothing changes in
  the stream.\<close>

lemma get_batches_Err:
  assumes R: "pool conn = R" and v: "valid s"
    and read: "fred_xreadgroup_map R g c (Some 1) None k XidNewInGroup s = (Err x, s1)"
  shows "get_batches de conn k g c s =
    ((if x = NotFoundKind \<or> x = ParseKind then Ok [] else Err BatchNotFound), s1)"
  using read R by (cases x) (auto simp: get_batches_def stream_read_with_options_def eff_simps)

end

section \<open>The round trip of a batch\<close>

definition to_seconds :: "'j ProcessTrackerBatch \<Rightarrow> 'j ProcessTrackerBatch" where
  "to_seconds b = b\<lparr>batch_created_time := unix_timestamp (batch_created_time b) * 1000000\<rparr>"

lemma timestamp_in_i64: "in_datetime t \<Longrightarrow> in_i64 (unix_timestamp t)"
  by (simp add: in_datetime_def in_i64_def min_timestamp_def max_timestamp_def)

lemma parse_created_time_show:
  "in_datetime t \<Longrightarrow> parse_created_time (show_int (unix_timestamp t)) = Ok (unix_timestamp t * 1000000)"
  by (simp add: parse_created_time_def parse_i64_show_int timestamp_in_i64 from_unix_timestamp_def in_datetime_def)

lemma batch_decode:
  assumes codec: "\<And>str. ser (batch_trackers b) = Some str \<Longrightarrow> de str = Some (batch_trackers b)"
    and t: "in_datetime (batch_created_time b)"
    and enc: "to_redis_field_value_pairs ser b = Ok fvs"
  shows "from_redis_stream_entry de (map_option Some \<circ> map_of fvs) = Ok (to_seconds b)"
proof -
  from enc obtain str where str: "ser (batch_trackers b) = Some str"
    and fvs: "fvs = [(''id'', batch_id b), (''group_name'', batch_group_name b), (''stream_name'', batch_stream_name b),
      (''connection_name'', batch_connection_name b), (''created_time'', show_int (unix_timestamp (batch_created_time b))),
      (''rule'', batch_rule b), (''trackers'', str)]"
    by (auto simp: to_redis_field_value_pairs_def split: option.splits)
  show ?thesis
    unfolding fvs
    by (simp add: from_redis_stream_entry_def required_field_def parse_created_time_show [OF t] codec [OF str] to_seconds_def)
qed

section \<open>Fetching tasks\<close>

text \<open>The tasks of a batch the consumer runs.\<close>

definition runnable :: "'j ProcessTrackerBatch \<Rightarrow> 'j ProcessTracker list" where
  "runnable b = filter (\<lambda>t. pt_business_status t = ''Pending'') (batch_trackers b)"

lemma runnable_valid:
  "filter (\<lambda>t. is_valid_business_status t valid_business_statuses) (batch_trackers b) = runnable b"
  by (simp add: runnable_def is_valid_business_status_def valid_business_statuses_def eq_commute)

lemma apply_started:
  "apply_update (ProcessTrackerUpdateInternal_from t (StatusUpdate ProcessStarted None)) =
     (\<lambda>r. r\<lparr>pt_status := ProcessStarted, pt_updated_at := t\<rparr>)"
  by (rule ext) (simp add: apply_StatusUpdate or_old_def)

locale scheduler_consumer =
  scheduler_reliable R valid stream_view key_view D dvalid tbl st + redis_groups R valid stream_view group_view
  for R :: "'s fred" and valid and stream_view and key_view and D :: "('d, 'j) pt_conn" and dvalid and tbl
    and st :: "('s, 'd, 'j) RouterStore" and group_view
begin

lemma fetch_one_batch:
  assumes w: "wvalid w" and g: "group_view (wd_redis w) k g = Some (e # es)"
    and dec: "from_redis_stream_entry de (map_option Some \<circ> snd e) = Ok b"
    and run: "q_fetch_consumer_tasks (sched_queue (as_scheduler de st)) k g c w = (r, w')"
  shows "r = Ok (map (\<lambda>x. x\<lparr>pt_status := ProcessStarted\<rparr>) (runnable b)) \<and> wvalid w' \<and>
    streams_of w' = (streams_of w)(k := filter (\<lambda>x. fst x \<noteq> fst e) (streams_of w k)) \<and>
    (\<exists>t. tasks_of w' = update_rows (\<lambda>r. pt_id r \<in> pt_id ` set (runnable b))
            (\<lambda>r. r\<lparr>pt_status := ProcessStarted, pt_updated_at := t\<rparr>) (tasks_of w))"
proof -
  obtain x s1 where x: "get_batches de (st_redis_conn st) k g c (wd_redis w) = (x, s1)" by fastforce
  from w have vs: "valid (wd_redis w)" by simp
  note 1 = get_batches_one [OF pool_R vs g dec x]
  let ?w1 = "w\<lparr>wd_redis := s1\<rparr>"
  from 1 w have w1: "wvalid ?w1" by simp
  let ?ids = "map pt_id (runnable b)"
  obtain n w2 where u: "process_tracker_update_process_status_by_ids (sched_pt (as_scheduler de st)) ?ids
      (StatusUpdate ProcessStarted None) ?w1 = (Ok n, w2)"
    using update_status_Ok [OF w1] by (metis prod.collapse)
  note 2 = update_status_by_ids [OF w1 u, unfolded Let_def apply_started]
  from run x 1 u available have "r = Ok (map (\<lambda>x. x\<lparr>pt_status := ProcessStarted\<rparr>) (runnable b))" and "w' = w2"
    by (auto simp: as_scheduler_def Store_QueueInterface_def store_fetch_consumer_tasks_def fetch_consumer_tasks_def
        get_redis_conn_def in_redis_def eff_simps runnable_valid Let_def)
  with 1 2 show ?thesis by auto
qed

end

section \<open>Groups of the in-memory server\<close>

definition mem_groups :: "mem \<Rightarrow> string \<Rightarrow> string \<Rightarrow> StreamEntry list option" where
  "mem_groups s k g = map_option (\<lambda>d. filter (\<lambda>e. d < mem_id_num (fst e)) (mem_streams s k)) (mem_delivered s (k, g))"

lemma mem_valid_ids:
  assumes "mem_valid s"
  obtains ns where "map fst (mem_streams s k) = map mem_id ns" and "sorted_wrt (<) ns"
  using assms unfolding mem_valid_def by blast

lemma filter_sorted_drop:
  fixes f :: "'a \<Rightarrow> nat"
  assumes "sorted_wrt (<) (map f xs)" and "n \<le> length xs" and "n \<noteq> 0"
  shows "filter (\<lambda>x. f (xs ! (n - 1)) < f x) xs = drop n xs"
proof -
  have "f x \<le> f (xs ! (n - 1))" if "x \<in> set (take n xs)" for x
  proof -
    from that obtain i where i: "i < n" "i < length xs" "x = xs ! i" by (auto simp: in_set_conv_nth)
    have "i \<le> n - 1" "n - 1 < length xs" using i assms by auto
    then show ?thesis
      using sorted_wrt_nth_less [OF assms(1), of i "n - 1"] i by (cases "i = n - 1") auto
  qed
  then have t: "filter (\<lambda>x. f (xs ! (n - 1)) < f x) (take n xs) = []"
    by (auto simp: filter_empty_conv not_less)
  have "f (xs ! (n - 1)) < f x" if "x \<in> set (drop n xs)" for x
  proof -
    from that obtain j where j: "j < length xs - n" "x = xs ! (n + j)" by (auto simp: in_set_conv_nth)
    then show ?thesis
      using sorted_wrt_nth_less [OF assms(1), of "n - 1" "n + j"] assms by auto
  qed
  then have d: "filter (\<lambda>x. f (xs ! (n - 1)) < f x) (drop n xs) = drop n xs" by simp
  show ?thesis by (subst append_take_drop_id [of n xs, symmetric], subst filter_append) (simp only: t d append_Nil)
qed

lemma filter_after_last:
  fixes f :: "'a \<Rightarrow> nat"
  assumes s: "sorted_wrt (<) (map f xs)" and new: "new = filter (\<lambda>x. d < f x) xs"
    and es: "es = take n new" "es \<noteq> []"
  shows "filter (\<lambda>x. f (last es) < f x) xs = drop n new"
proof -
  let ?m = "min n (length new)"
  have m: "?m \<noteq> 0" "?m \<le> length new" and l: "last es = new ! (?m - 1)"
    using es by (auto simp: last_conv_nth min_def)
  have "new ! (?m - 1) \<in> set new" using m by (intro nth_mem) linarith
  then have d: "d < f (last es)" unfolding l by (auto simp: new)
  have sn: "sorted_wrt (<) (map f new)"
    using s unfolding new by (simp add: sorted_wrt_map sorted_wrt_filter)
  have "filter (\<lambda>x. f (last es) < f x) xs = filter (\<lambda>x. f (last es) < f x) new"
    unfolding new filter_filter using d by (intro filter_cong) auto
  also have "\<dots> = drop ?m new" unfolding l by (rule filter_sorted_drop [OF sn m(2,1)])
  also have "\<dots> = drop n new" by (simp add: min_def)
  finally show ?thesis .
qed

lemma mem_ids_sorted: "mem_valid s \<Longrightarrow> sorted_wrt (<) (map (\<lambda>e. mem_id_num (fst e)) (mem_streams s k))"
proof -
  assume "mem_valid s"
  then obtain ns where ns: "map fst (mem_streams s k) = map mem_id ns" "sorted_wrt (<) ns"
    by (rule mem_valid_ids)
  have "map (\<lambda>e. mem_id_num (fst e)) (mem_streams s k) = map mem_id_num (map fst (mem_streams s k))" by simp
  also have "\<dots> = ns" unfolding ns(1) by (simp add: comp_def)
  finally show ?thesis using ns(2) by simp
qed

lemma mem_xreadgroup_run:
  assumes "mem_valid s" and "n \<noteq> 0" and "fred_xreadgroup_map mem_fred g c (Some n) None k XidNewInGroup s = (r, s')"
  shows "mem_valid s' \<and> mem_streams s' = mem_streams s \<and>
    (\<forall>resp. r = Ok resp \<longrightarrow> (\<exists>es. mem_groups s k g = Some es \<and> es \<noteq> [] \<and>
       resp = [(k, map (\<lambda>(i, m). (i, map_option Some \<circ> m)) (take (unat n) es))] \<and>
       mem_groups s' k g = Some (drop (unat n) es)))"
proof (cases "mem_delivered s (k, g)")
  case None
  with assms show ?thesis by (auto simp: mem_fred_def mem_xreadgroup_def)
next
  case (Some d)
  let ?new = "filter (\<lambda>e. d < mem_id_num (fst e)) (mem_streams s k)"
  let ?es = "take (unat n) ?new"
  show ?thesis
  proof (cases "?es = []")
    case True
    with Some assms show ?thesis by (auto simp: mem_fred_def mem_xreadgroup_def Let_def)
  next
    case False
    with Some assms have r: "r = Ok [(k, map (\<lambda>(j, m). (j, map_option Some \<circ> m)) ?es)]"
      and s': "s' = s\<lparr>mem_delivered := (mem_delivered s)((k, g) \<mapsto> mem_id_num (fst (last ?es)))\<rparr>"
      by (auto simp: mem_fred_def mem_xreadgroup_def Let_def)
    note f = filter_after_last [OF mem_ids_sorted [OF assms(1), of k] refl refl False]
    have "mem_valid s'" using assms(1) s' by (auto intro: mem_valid_streams_eq)
    with r s' f Some False show ?thesis by (auto simp: mem_groups_def)
  qed
qed

interpretation mem_group: redis_groups mem_fred mem_valid mem_streams mem_groups
proof unfold_locales
  fix s k g es
  assume "mem_valid s"
  show "mem_groups s k g = Some es \<Longrightarrow> set es \<subseteq> set (mem_streams s k)"
    by (auto simp: mem_groups_def)
next
  fix s n g c k g1 s'
  assume "mem_valid s" and "n \<noteq> 0" and "fred_xreadgroup_map mem_fred g c (Some n) None k XidNewInGroup s = (g1, s')"
  then show "mem_valid s' \<and> mem_streams s' = mem_streams s \<and>
      (\<forall>resp. g1 = Ok resp \<longrightarrow> (\<exists>es. mem_groups s k g = Some es \<and> es \<noteq> [] \<and>
         resp = [(k, map (\<lambda>(i, m). (i, map_option Some \<circ> m)) (take (unat n) es))] \<and>
         mem_groups s' k g = Some (drop (unat n) es)))"
    by (rule mem_xreadgroup_run)
next
  fix s and n :: "64 word" and k g es c
  assume "mem_valid s" and "n \<noteq> 0" and "mem_groups s k g = Some es" and "es \<noteq> []"
  then show "\<exists>resp. fst (fred_xreadgroup_map mem_fred g c (Some n) None k XidNewInGroup s) = Ok resp"
    by (auto simp: mem_groups_def mem_fred_def mem_xreadgroup_def Let_def unat_eq_zero)
next
  fix s k ids m s' g
  assume "mem_valid s" and "fred_xdel mem_fred k ids s = (Ok m, s')"
  then show "mem_groups s' k g = map_option (filter (\<lambda>e. fst e \<notin> set ids)) (mem_groups s k g)"
    by (auto simp: mem_fred_def mem_xdel_def mem_groups_def Let_def option.map_comp comp_def filter_filter
      intro!: option.map_cong0 filter_cong)
qed (auto simp: mem_fred_def mem_xdel_def Let_def)

interpretation mem_consumer: scheduler_consumer mem_fred mem_valid mem_streams mem_strings
  "mem_diesel pt_id" "mem_unique pt_id" "mem_rows pt_id" mem_store mem_groups
  by unfold_locales

end
