(* ===== verification/Scheduler_Props.thy ===== *)
theory Scheduler_Props
  imports Scheduler_Consumer
begin

text \<open>
  What the scheduler guarantees, over any Redis server and database that meet the interfaces
  \<open>scheduler_store\<close>, \<open>scheduler_reliable\<close> and \<open>scheduler_consumer\<close>, with runs on the
  in-memory store: how tasks are divided, what a producer turn may and does do, the lock, the
  hand-over to a consumer, the updates of single tasks, and three behaviours at the edges.
\<close>

section \<open>Batches\<close>

text \<open>Dividing tasks into batches keeps every task, in order and once: the batches concatenate
  to the tasks, none is empty or larger than the batch size, and all but the last are full.\<close>

theorem divide_into_batches_partition:
  assumes "0 < n"
  shows "\<exists>bs. divide_into_batches uuid n tasks now conf = Ok bs \<and>
    concat (map batch_trackers bs) = tasks \<and>
    (\<forall>b \<in> set bs. 0 < length (batch_trackers b) \<and> length (batch_trackers b) \<le> n) \<and>
    (\<forall>b \<in> set (butlast bs). length (batch_trackers b) = n)"
proof -
  obtain bs where bs: "divide_into_batches uuid n tasks now conf = Ok bs"
    using assms by (simp add: divide_into_batches_def)
  then have "map batch_trackers bs = chunks n tasks"
    using assms by (auto simp: divide_into_batches_def comp_def)
  then have full: "map batch_trackers (butlast bs) = butlast (chunks n tasks)" by (simp add: map_butlast)
  have "length (batch_trackers b) = n" if "b \<in> set (butlast bs)" for b
  proof -
    from that have "batch_trackers b \<in> set (butlast (chunks n tasks))"
      unfolding full [symmetric] by simp
    then show ?thesis by (rule chunks_butlast_full)
  qed
  with divide_into_batches_Ok [OF bs] bs show ?thesis by auto
qed

definition demo_task :: "string \<Rightarrow> int \<Rightarrow> ProcessTrackerStatus \<Rightarrow> unit ProcessTracker" where
  "demo_task i t q = \<lparr>pt_id = i, pt_name = None, pt_tag = [], pt_runner = None, pt_retry_count = 0,
     pt_schedule_time = Some t, pt_rule = [], pt_tracking_data = (), pt_business_status = ''Pending'',
     pt_status = q, pt_event = [], pt_created_at = 0, pt_updated_at = 0\<rparr>"

theorem divide_into_batches_partition_witness:
  "\<exists>bs. divide_into_batches ''u'' 2 [demo_task ''a'' 1 New, demo_task ''b'' 2 New, demo_task ''c'' 3 New] 7
      SchedulerSettings_default = Ok bs \<and>
    concat (map batch_trackers bs) = [demo_task ''a'' 1 New, demo_task ''b'' 2 New, demo_task ''c'' 3 New]"
  using divide_into_batches_partition [of 2 "''u''" "[demo_task ''a'' 1 New, demo_task ''b'' 2 New, demo_task ''c'' 3 New]"
      7 SchedulerSettings_default] by force

text \<open>A batch written to the stream by a producer is read back by a consumer as the same
  batch, with its creation time cut to whole seconds.\<close>

theorem batch_roundtrip:
  assumes "\<And>str. ser (batch_trackers b) = Some str \<Longrightarrow> de str = Some (batch_trackers b)"
    and "in_datetime (batch_created_time b)" and "to_redis_field_value_pairs ser b = Ok fvs"
  shows "from_redis_stream_entry de (map_option Some \<circ> map_of fvs) =
    Ok (b\<lparr>batch_created_time := unix_timestamp (batch_created_time b) * 1000000\<rparr>)"
  using batch_decode [OF assms] by (simp add: to_seconds_def)

text \<open>A codec for lists of demo tasks: their ids, separated by commas.\<close>

definition demo_ser :: "unit ProcessTracker list \<Rightarrow> string option" where
  "demo_ser ts = Some (concat (map (\<lambda>t. pt_id t @ '','') ts))"

definition demo_batch :: "unit ProcessTrackerBatch" where
  "demo_batch = \<lparr>batch_id = ''u'', batch_group_name = ''g'', batch_stream_name = ''s'', batch_connection_name = [],
     batch_created_time = 1500000, batch_rule = [], batch_trackers = [demo_task ''a'' 1 New]\<rparr>"

definition demo_de :: "string \<Rightarrow> unit ProcessTracker list option" where
  "demo_de str = (if str = ''a,'' then Some [demo_task ''a'' 1 New] else None)"

theorem batch_roundtrip_witness:
  "\<exists>fvs. to_redis_field_value_pairs demo_ser demo_batch = Ok fvs \<and>
     from_redis_stream_entry demo_de (map_option Some \<circ> map_of fvs) = Ok (demo_batch\<lparr>batch_created_time := 1000000\<rparr>)"
proof -
  obtain fvs where fvs: "to_redis_field_value_pairs demo_ser demo_batch = Ok fvs"
    by (simp add: to_redis_field_value_pairs_def demo_ser_def)
  have "from_redis_stream_entry demo_de (map_option Some \<circ> map_of fvs) =
      Ok (demo_batch\<lparr>batch_created_time := unix_timestamp (batch_created_time demo_batch) * 1000000\<rparr>)"
    by (rule batch_roundtrip [OF _ _ fvs])
      (auto simp: demo_ser_def demo_de_def demo_batch_def demo_task_def in_datetime_def unix_timestamp_def
        min_timestamp_def max_timestamp_def)
  with fvs show ?thesis by (simp add: demo_batch_def unix_timestamp_def)
qed

section \<open>The producer\<close>

text \<open>C2: whatever Redis and the database answer, a producer turn changes rows only by setting
  due New or Pending tasks to Processing, and appends to the scheduler's stream only entries that
  encode batches of such tasks, each task in at most one of them and each already marked Processing
  in the table. No other stream is touched.\<close>

theorem producer_turn_safe:
  assumes "scheduler_store R valid stream_view key_view D dvalid tbl st"
    and "valid (wd_redis w)" and "dvalid (wd_db w)" and "0 < lock_ttl (sched_producer settings)"
    and "sched_stream settings \<noteq> lock_key (sched_producer settings)"
  shows "\<exists>bs. turn_effect stream_view tbl ser settings w
    (snd (run_producer_flow ser uuid (as_scheduler de st) settings w)) bs"
  using scheduler_store.producer_turn(2) [OF assms(1) _ assms(4,5), of w ser uuid de] assms(2,3)
  by (metis prod.collapse)

definition demo_sched_world :: "unit ProcessTracker list \<Rightarrow> (mem, unit ProcessTracker list) pt_world" where
  "demo_sched_world rows = \<lparr>wd_redis = mem_init, wd_db = rows, wd_clock = (\<lambda>n. 1000000)\<rparr>"

definition demo_settings :: SchedulerSettings where
  "demo_settings = SchedulerSettings_default\<lparr>sched_producer := ProducerSettings_default\<lparr>batch_size := 1\<rparr>\<rparr>"

lemma demo_settings_simps [simp]:
  "lock_key (sched_producer demo_settings) = ''PRODUCER_LOCKING_KEY''" "sched_stream demo_settings = ''SCHEDULER_STREAM''"
  "lock_ttl (sched_producer demo_settings) = 160" "batch_size (sched_producer demo_settings) = 1"
  "upper_fetch_limit (sched_producer demo_settings) = 0" "lower_fetch_limit (sched_producer demo_settings) = 1800"
  by (simp_all add: demo_settings_def SchedulerSettings_default_def ProducerSettings_default_def)

lemma mem_strings_init: "mem_strings mem_init = Map.empty"
  by (simp add: mem_init_def)

theorem producer_turn_safe_witness:
  "\<exists>bs. turn_effect mem_streams (mem_rows pt_id) demo_ser demo_settings (demo_sched_world [demo_task ''a'' 0 New])
    (snd (run_producer_flow demo_ser ''u'' (as_scheduler demo_de mem_store) demo_settings
      (demo_sched_world [demo_task ''a'' 0 New]))) bs"
  by (rule producer_turn_safe [OF mem_scheduler.scheduler_store_axioms])
    (simp_all add: demo_sched_world_def mem_unique_def)

text \<open>C4: with the lock free and Redis and the database answering, a producer turn returns
  Ok, takes every due task, each exactly once, and leaves the lock free.\<close>

theorem producer_takes_all_due:
  assumes "scheduler_reliable R valid stream_view key_view D dvalid tbl st"
    and "valid (wd_redis w)" and "dvalid (wd_db w)" and "0 < lock_ttl (sched_producer settings)"
    and "sched_stream settings \<noteq> lock_key (sched_producer settings)" and "0 < batch_size (sched_producer settings)"
    and "in_datetime (wd_clock w 0 + upper_fetch_limit (sched_producer settings) * 1000000)"
    and "in_datetime (wd_clock w 0 - lower_fetch_limit (sched_producer settings) * 1000000)"
    and "key_view (wd_redis w) (lock_key (sched_producer settings)) = None" and "\<forall>ts. ser ts \<noteq> None"
    and "run_producer_flow ser uuid (as_scheduler de st) settings w = (r, w')"
  shows "r = Ok () \<and> key_view (wd_redis w') (lock_key (sched_producer settings)) = None \<and>
    (\<exists>bs. turn_effect stream_view tbl ser settings w w' bs \<and>
       set (concat (map batch_trackers bs)) = due_tasks (wd_clock w 0) settings (tbl (wd_db w)))"
  by (rule scheduler_reliable.producer_turn_complete [OF assms(1) _ assms(4-11)]) (simp add: assms(2,3))

theorem producer_takes_all_due_witness:
  "fst (run_producer_flow demo_ser ''u'' (as_scheduler demo_de mem_store) demo_settings
     (demo_sched_world [demo_task ''a'' 0 New, demo_task ''b'' 5000000 New])) = Ok ()"
proof -
  let ?w = "demo_sched_world [demo_task ''a'' 0 New, demo_task ''b'' 5000000 New]"
  obtain r w' where run: "run_producer_flow demo_ser ''u'' (as_scheduler demo_de mem_store) demo_settings ?w = (r, w')"
    by fastforce
  have "r = Ok () \<and> mem_strings (wd_redis w') (lock_key (sched_producer demo_settings)) = None \<and>
    (\<exists>bs. turn_effect mem_streams (mem_rows pt_id) demo_ser demo_settings ?w w' bs \<and>
       set (concat (map batch_trackers bs)) = due_tasks (wd_clock ?w 0) demo_settings (mem_rows pt_id (wd_db ?w)))"
    by (rule producer_takes_all_due [OF mem_scheduler.scheduler_reliable_axioms _ _ _ _ _ _ _ _ _ run])
      (simp_all add: demo_sched_world_def mem_unique_def demo_task_def in_datetime_def unix_timestamp_def
        min_timestamp_def max_timestamp_def mem_strings_init demo_ser_def)
  with run show ?thesis by simp
qed

text \<open>C35: while another process holds the producer lock, a turn changes neither the task table
  nor any stream.\<close>

theorem producer_respects_lock:
  assumes "scheduler_store R valid stream_view key_view D dvalid tbl st"
    and "valid (wd_redis w)" and "dvalid (wd_db w)" and "0 < lock_ttl (sched_producer settings)"
    and "sched_stream settings \<noteq> lock_key (sched_producer settings)"
    and "key_view (wd_redis w) (lock_key (sched_producer settings)) \<noteq> None"
    and "run_producer_flow ser uuid (as_scheduler de st) settings w = (r, w')"
  shows "tbl (wd_db w') = tbl (wd_db w) \<and> stream_view (wd_redis w') = stream_view (wd_redis w)"
  by (rule scheduler_store.producer_turn(3) [OF assms(1) _ assms(4,5,7,6)]) (simp add: assms(2,3))

theorem producer_respects_lock_witness:
  "mem_rows pt_id (wd_db (snd (run_producer_flow demo_ser ''u'' (as_scheduler demo_de mem_store) demo_settings
      ((demo_sched_world [demo_task ''a'' 0 New])\<lparr>wd_redis := mem_init\<lparr>mem_strings := [''PRODUCER_LOCKING_KEY'' \<mapsto> ''LOCKED'']\<rparr>\<rparr>)))) ''a''
   = Some (demo_task ''a'' 0 New)"
proof -
  let ?w = "(demo_sched_world [demo_task ''a'' 0 New])\<lparr>wd_redis := mem_init\<lparr>mem_strings := [''PRODUCER_LOCKING_KEY'' \<mapsto> ''LOCKED'']\<rparr>\<rparr>"
  obtain r w' where run: "run_producer_flow demo_ser ''u'' (as_scheduler demo_de mem_store) demo_settings ?w = (r, w')"
    by fastforce
  have "mem_rows pt_id (wd_db w') = mem_rows pt_id (wd_db ?w) \<and> mem_streams (wd_redis w') = mem_streams (wd_redis ?w)"
    by (rule producer_respects_lock [OF mem_scheduler.scheduler_store_axioms _ _ _ _ _ run])
      (simp_all add: demo_sched_world_def mem_unique_def mem_valid_def mem_init_def)
  with run show ?thesis by (simp add: demo_sched_world_def mem_rows_def demo_task_def)
qed

section \<open>The consumer\<close>


definition demo_queue :: mem where
  "demo_queue = mem_init\<lparr>mem_streams := (\<lambda>_. [])(''s'' := [(mem_id 1, map_of [(''id'', ''u''), (''group_name'', ''g''),
     (''stream_name'', ''s''), (''connection_name'', []), (''created_time'', ''1''), (''rule'', []), (''trackers'', ''a,'')])]),
     mem_next := 2, mem_delivered := [(''s'', ''g'') \<mapsto> 0]\<rparr>"

lemma demo_queue_valid: "mem_valid demo_queue"
proof -
  have "\<exists>ns. map fst (mem_streams demo_queue k) = map mem_id ns \<and> sorted_wrt (<) ns \<and> (\<forall>n \<in> set ns. n < mem_next demo_queue)" for k
    by (cases "k = ''s''") (auto simp: demo_queue_def intro: exI [of _ "[1]"])
  then show ?thesis by (simp add: mem_valid_def)
qed


text \<open>A batch is acknowledged and deleted before its tasks are marked, so when the
  database is down at that moment the entry is gone from the stream and from the group, while the
  tasks stay as the producer left them.\<close>

theorem consumer_loses_batch_when_database_is_down:
  assumes "redis_groups R valid stream_view group_view" and "pool conn = R" and "valid (wd_redis w)"
    and "group_view (wd_redis w) k g = Some (e # es)"
    and "from_redis_stream_entry de (map_option Some \<circ> snd e) = Ok b"
    and "\<And>ids u v. process_tracker_update_process_status_by_ids db ids u v = (Err StorageError.DatabaseConnectionError, v)"
    and "fetch_consumer_tasks de db conn k g c w = (r, w')"
  shows "r = Err ProcessFetchingFailed \<and> wd_db w' = wd_db w \<and>
    stream_view (wd_redis w') k = filter (\<lambda>x. fst x \<noteq> fst e) (stream_view (wd_redis w) k) \<and>
    group_view (wd_redis w') k g = Some (filter (\<lambda>x. fst x \<noteq> fst e) es)"
proof -
  obtain x s1 where x: "get_batches de conn k g c (wd_redis w) = (x, s1)" by fastforce
  note 1 = redis_groups.get_batches_one [OF assms(1-5) x]
  with x assms(6,7) show ?thesis
    by (auto simp: fetch_consumer_tasks_def in_redis_def eff_simps Let_def)
qed

definition demo_down :: "((mem, unit ProcessTracker list) pt_world, unit) ProcessTrackerInterface" where
  "demo_down = Store_ProcessTrackerInterface (mem_store\<lparr>st_pool := ethrow ()\<rparr>)"

definition demo_conn :: "mem RedisConnectionPool" where
  "demo_conn = \<lparr>pool = mem_fred, config = RedisConfig_from RedisSettings_default, is_redis_available = True\<rparr>"

theorem consumer_loses_batch_when_database_is_down_witness:
  "fst (fetch_consumer_tasks demo_de demo_down demo_conn ''s'' ''g'' ''c''
     ((demo_sched_world [demo_task ''a'' 1 Processing])\<lparr>wd_redis := demo_queue\<rparr>)) = Err ProcessFetchingFailed"
proof -
  let ?w = "(demo_sched_world [demo_task ''a'' 1 Processing])\<lparr>wd_redis := demo_queue\<rparr>"
  obtain r w' where run: "fetch_consumer_tasks demo_de demo_down demo_conn ''s'' ''g'' ''c'' ?w = (r, w')"
    by fastforce
  let ?m = "map_of [(''id'', ''u''), (''group_name'', ''g''), (''stream_name'', ''s''), (''connection_name'', []),
     (''created_time'', ''1''), (''rule'', []), (''trackers'', ''a,'')]"
  have g: "mem_groups (wd_redis ?w) ''s'' ''g'' = Some [(mem_id 1, ?m)]"
    by (simp add: mem_groups_def demo_queue_def)
  have dec: "from_redis_stream_entry demo_de (map_option Some \<circ> snd (mem_id 1, ?m)) = Ok (demo_batch\<lparr>batch_created_time := 1000000\<rparr>)"
    by (simp add: from_redis_stream_entry_def required_field_def parse_created_time_def parse_i64_def parse_nat_def
      digit_val_def in_i64_def from_unix_timestamp_def min_timestamp_def max_timestamp_def demo_de_def demo_batch_def)
  have "r = Err ProcessFetchingFailed"
    by (rule consumer_loses_batch_when_database_is_down [OF mem_group.redis_groups_axioms _ _ g dec _ run, THEN conjunct1])
      (simp_all add: demo_conn_def demo_queue_valid demo_down_def Store_ProcessTrackerInterface_def
        store_process_tracker_update_process_status_by_ids_def pg_connection_write_def in_db_def eff_simps)
  with run show ?thesis by simp
qed

section \<open>Single tasks\<close>

context scheduler_store
begin

lemma update_one:
  assumes w: "wvalid w" and c: "\<And>t. as_changeset (ProcessTrackerUpdateInternal_from t u) =
      Some (apply_update (ProcessTrackerUpdateInternal_from t u))"
    and run: "store_update_process st this u w = (r, w')"
  shows "wvalid w' \<and> wd_redis w' = wd_redis w \<and>
    (\<forall>y. r = Ok y \<longrightarrow> (\<exists>row t. tasks_of w (pt_id this) = Some row \<and>
       tasks_of w' = (tasks_of w)(pt_id this \<mapsto> apply_update (ProcessTrackerUpdateInternal_from t u) row)))"
  using w run unfolding store_update_process_def
proof (cases rule: with_write_connection)
  case failed
  then show ?thesis using w by auto
next
  case (conn w1)
  let ?f = "apply_update (ProcessTrackerUpdateInternal_from (wd_clock w1 0) u)"
  obtain x d' where x: "generic_update_by_id D (pt_id this) (Some ?f) (wd_db w1) = (x, d')" by fastforce
  from conn(1) have v: "dvalid (wd_db w1)" by simp
  have 1: "dvalid d' \<and> same_or (tasks_of w1) ((tasks_of w1)(pt_id this := map_option ?f (tasks_of w1 (pt_id this)))) (tbl d') \<and>
     (\<forall>y. x = Ok y \<longrightarrow> (\<exists>r. tasks_of w1 (pt_id this) = Some r \<and> y = ?f r \<and> tbl d' = (tasks_of w1)(pt_id this \<mapsto> ?f r))) \<and>
     (x = Err DatabaseError.NotFound \<longrightarrow> tasks_of w1 (pt_id this) = None) \<and> x \<noteq> Err NoFieldsToUpdate"
    by (rule generic_update_by_id_cases [OF v _ x]) simp
  with conn(5) x c have r: "wd_db w' = d'" "wd_redis w' = wd_redis w1" "\<And>y. r = Ok y \<Longrightarrow> x = Ok y"
    by (auto simp: eff_simps date_time_now_def in_db_def pt_update_def split: sum.splits prod.splits if_splits)
  show ?thesis
  proof (intro conjI allI impI)
    fix y assume "r = Ok y"
    with r(3) 1 obtain row where "tasks_of w1 (pt_id this) = Some row" "tbl d' = (tasks_of w1)(pt_id this \<mapsto> ?f row)"
      by blast
    with conn(2) r(1) show "\<exists>row t. tasks_of w (pt_id this) = Some row \<and>
       tasks_of w' = (tasks_of w)(pt_id this \<mapsto> apply_update (ProcessTrackerUpdateInternal_from t u) row)"
      by auto
  qed (use 1 r conn w in auto)
qed

end

text \<open>A retry that succeeds sets exactly the row of the task to Pending, with the retry count
  after the one the caller holds and the new schedule time; no other row and no other field but the
  time of the update changes. A finish sets status and business status and keeps the count.\<close>

theorem retry_and_finish_update_one_row:
  assumes "scheduler_store R valid stream_view key_view D dvalid tbl st"
    and "valid (wd_redis w)" and "dvalid (wd_db w)" and "in_i32 (pt_retry_count this + 1)"
  shows "(store_retry_process st this t w = (Ok (), w') \<longrightarrow> (\<exists>row u. tbl (wd_db w) (pt_id this) = Some row \<and>
      tbl (wd_db w') = (tbl (wd_db w))(pt_id this \<mapsto> row\<lparr>pt_status := Pending,
        pt_retry_count := pt_retry_count this + 1, pt_schedule_time := Some t, pt_updated_at := u\<rparr>))) \<and>
    (store_finish_process_with_business_status st this b w = (Ok (), w') \<longrightarrow>
      (\<exists>row u. tbl (wd_db w) (pt_id this) = Some row \<and>
      tbl (wd_db w') = (tbl (wd_db w))(pt_id this \<mapsto> row\<lparr>pt_status := Finish,
        pt_business_status := b, pt_updated_at := u\<rparr>)))"
proof (intro conjI impI)
  have w: "valid (wd_redis w) \<and> dvalid (wd_db w)" using assms by simp
  note up = scheduler_store.update_one [OF assms(1) w]
  note count = wrap_i32_id [OF assms(4)]
  {
    assume "store_retry_process st this t w = (Ok (), w')"
    then obtain y where "store_update_process st this (StatusRetryUpdate Pending (pt_retry_count this + 1) t) w = (Ok y, w')"
      by (auto simp: store_retry_process_def count Let_def elim: ebindE)
    from up [OF _ this] show "\<exists>row u. tbl (wd_db w) (pt_id this) = Some row \<and>
      tbl (wd_db w') = (tbl (wd_db w))(pt_id this \<mapsto> row\<lparr>pt_status := Pending,
        pt_retry_count := pt_retry_count this + 1, pt_schedule_time := Some t, pt_updated_at := u\<rparr>)"
      by (auto simp: apply_StatusRetryUpdate)
  next
    assume "store_finish_process_with_business_status st this b w = (Ok (), w')"
    then obtain y where "store_update_process st this (StatusUpdate Finish (Some b)) w = (Ok y, w')"
      by (auto simp: store_finish_process_with_business_status_def elim: ebindE)
    from up [OF _ this] show "\<exists>row u. tbl (wd_db w) (pt_id this) = Some row \<and>
      tbl (wd_db w') = (tbl (wd_db w))(pt_id this \<mapsto> row\<lparr>pt_status := Finish,
        pt_business_status := b, pt_updated_at := u\<rparr>)"
      by (auto simp: apply_StatusUpdate or_old_def)
  }
qed

lemma demo_retry_run:
  "store_retry_process mem_store (demo_task ''a'' 1 ProcessStarted) 9 (demo_sched_world [demo_task ''a'' 1 ProcessStarted]) =
    (Ok (), (demo_sched_world [(demo_task ''a'' 1 ProcessStarted)\<lparr>pt_status := Pending, pt_retry_count := 1,
       pt_schedule_time := Some 9, pt_updated_at := 1000000\<rparr>]))"
  by (simp add: store_retry_process_def store_update_process_def pg_connection_write_def mem_store_def in_db_def
    eff_simps date_time_now_def pt_update_def generic_update_by_id_def mem_diesel_def demo_sched_world_def mem_rows_def
    demo_task_def mem_update_rows_def apply_StatusRetryUpdate wrap_i32_def Let_def)

theorem retry_and_finish_update_one_row_witness:
  "\<exists>row u. mem_rows pt_id [demo_task ''a'' 1 ProcessStarted] ''a'' = Some row \<and>
     mem_rows pt_id (wd_db (snd (store_retry_process mem_store (demo_task ''a'' 1 ProcessStarted) 9
       (demo_sched_world [demo_task ''a'' 1 ProcessStarted])))) ''a'' =
     Some (row\<lparr>pt_status := Pending, pt_retry_count := 1, pt_schedule_time := Some 9, pt_updated_at := u\<rparr>)"
proof -
  let ?t = "demo_task ''a'' 1 ProcessStarted"
  let ?w = "demo_sched_world [?t]"
  obtain w' where run: "store_retry_process mem_store ?t 9 ?w = (Ok (), w')" using demo_retry_run by blast
  have i: "pt_id ?t = ''a''" "pt_retry_count ?t = 0" by (simp_all add: demo_task_def)
  have "\<exists>row u. mem_rows pt_id (wd_db ?w) (pt_id ?t) = Some row \<and>
      mem_rows pt_id (wd_db w') = (mem_rows pt_id (wd_db ?w))(pt_id ?t \<mapsto> row\<lparr>pt_status := Pending,
        pt_retry_count := pt_retry_count ?t + 1, pt_schedule_time := Some 9, pt_updated_at := u\<rparr>)"
    by (rule retry_and_finish_update_one_row [OF mem_scheduler.scheduler_store_axioms, THEN conjunct1, THEN mp, OF _ _ _ run])
      (simp_all add: demo_sched_world_def mem_unique_def i in_i32_def)
  with run show ?thesis by (auto simp: i demo_sched_world_def)
qed

text \<open>Running a workflow always returns Ok; and when both the workflow and its own
  error handler fail and the last update succeeds, the task ends as Finish with business status
  GLOBAL_FAILURE.\<close>

theorem failed_workflow_is_finished:
  assumes "scheduler_store R valid stream_view key_view D dvalid tbl st"
    and "wf_execute_workflow operation process w = (Err e1, w1)"
    and "wf_error_handler operation process e1 w1 = (Err e2, w2)"
    and "valid (wd_redis w2)" and "dvalid (wd_db w2)"
    and "store_finish_process_with_business_status st process ''GLOBAL_FAILURE'' w2 = (Ok (), w')"
  shows "execute_workflow operation (as_scheduler de st) process w = (Ok (), w') \<and>
    (\<exists>row u. tbl (wd_db w2) (pt_id process) = Some row \<and>
      tbl (wd_db w') = (tbl (wd_db w2))(pt_id process \<mapsto> row\<lparr>pt_status := Finish,
        pt_business_status := ''GLOBAL_FAILURE'', pt_updated_at := u\<rparr>))"
proof
  show "execute_workflow operation (as_scheduler de st) process w = (Ok (), w')"
    using assms(2,3,6)
    by (simp add: execute_workflow_def eff_simps as_scheduler_def Store_ProcessTrackerInterface_def)
  have w2: "valid (wd_redis w2) \<and> dvalid (wd_db w2)" using assms by simp
  from assms(6) obtain y where "store_update_process st process (StatusUpdate Finish (Some ''GLOBAL_FAILURE'')) w2 = (Ok y, w')"
    by (auto simp: store_finish_process_with_business_status_def elim: ebindE)
  from scheduler_store.update_one [OF assms(1) w2 _ this]
  show "\<exists>row u. tbl (wd_db w2) (pt_id process) = Some row \<and>
      tbl (wd_db w') = (tbl (wd_db w2))(pt_id process \<mapsto> row\<lparr>pt_status := Finish,
        pt_business_status := ''GLOBAL_FAILURE'', pt_updated_at := u\<rparr>)"
    by (auto simp: apply_StatusUpdate or_old_def)
qed

theorem failed_workflow_is_finished_witness:
  "fst (execute_workflow default_workflow (as_scheduler demo_de mem_store) (demo_task ''a'' 1 ProcessStarted)
     (demo_sched_world [demo_task ''a'' 1 ProcessStarted])) = Ok () \<and>
   (\<exists>row u. mem_rows pt_id (wd_db (snd (execute_workflow default_workflow (as_scheduler demo_de mem_store)
       (demo_task ''a'' 1 ProcessStarted) (demo_sched_world [demo_task ''a'' 1 ProcessStarted])))) ''a'' =
     Some (row\<lparr>pt_status := Finish, pt_business_status := ''GLOBAL_FAILURE'', pt_updated_at := u\<rparr>))"
proof -
  let ?t = "demo_task ''a'' 1 ProcessStarted"
  let ?w = "demo_sched_world [?t]"
  obtain w' where run: "store_finish_process_with_business_status mem_store ?t ''GLOBAL_FAILURE'' ?w = (Ok (), w')"
    by (simp add: store_finish_process_with_business_status_def store_update_process_def pg_connection_write_def
      mem_store_def in_db_def eff_simps date_time_now_def pt_update_def generic_update_by_id_def mem_diesel_def
      demo_sched_world_def mem_rows_def demo_task_def)
  have "execute_workflow default_workflow (as_scheduler demo_de mem_store) ?t ?w = (Ok (), w') \<and>
    (\<exists>row u. mem_rows pt_id (wd_db ?w) (pt_id ?t) = Some row \<and>
      mem_rows pt_id (wd_db w') = (mem_rows pt_id (wd_db ?w))(pt_id ?t \<mapsto> row\<lparr>pt_status := Finish,
        pt_business_status := ''GLOBAL_FAILURE'', pt_updated_at := u\<rparr>))"
    by (rule failed_workflow_is_finished [OF mem_scheduler.scheduler_store_axioms _ _ _ _ run])
      (simp_all add: default_workflow_def demo_sched_world_def mem_unique_def)
  then obtain row u where "execute_workflow default_workflow (as_scheduler demo_de mem_store) ?t ?w = (Ok (), w')"
    and "mem_rows pt_id (wd_db w') (pt_id ?t) = Some (row\<lparr>pt_status := Finish,
        pt_business_status := ''GLOBAL_FAILURE'', pt_updated_at := u\<rparr>)" by auto
  moreover have "pt_id ?t = ''a''" by (simp add: demo_task_def)
  ultimately show ?thesis by (intro conjI exI [of _ row] exI [of _ u]) simp_all
qed

section \<open>At the edges\<close>


text \<open>A store whose Redis connection is marked unavailable: every append fails.\<close>

definition demo_full :: "(mem, unit ProcessTracker list, unit) RouterStore" where
  "demo_full = mem_store\<lparr>st_redis_conn := demo_conn\<lparr>is_redis_available := False\<rparr>\<rparr>"

interpretation demo_full: scheduler_store mem_fred mem_valid mem_streams mem_strings
  "mem_diesel pt_id" "mem_unique pt_id" "mem_rows pt_id" demo_full
  by unfold_locales (auto simp: demo_full_def demo_conn_def mem_store_def mem_fred_def mem_set_def mem_expire_def
    mem_xadd_def split: if_splits)


text \<open>A batch size of 0, which the settings accept, makes a producer turn panic between
  taking the lock and releasing it: the lock stays held until it expires.\<close>

theorem zero_batch_size_keeps_lock:
  assumes "scheduler_reliable R valid stream_view key_view D dvalid tbl st"
    and "valid (wd_redis w)" and "dvalid (wd_db w)" and "0 < lock_ttl (sched_producer settings)"
    and "sched_stream settings \<noteq> lock_key (sched_producer settings)" and "batch_size (sched_producer settings) = 0"
    and "in_datetime (wd_clock w 0 + upper_fetch_limit (sched_producer settings) * 1000000)"
    and "in_datetime (wd_clock w 0 - lower_fetch_limit (sched_producer settings) * 1000000)"
    and "key_view (wd_redis w) (lock_key (sched_producer settings)) = None"
    and "run_producer_flow ser uuid (as_scheduler de st) settings w = (r, w')"
  shows "r = Err Panicked \<and> key_view (wd_redis w') (lock_key (sched_producer settings)) = Some ''LOCKED''"
proof -
  let ?S = "as_scheduler de st" and ?l = "lock_key (sched_producer settings)"
  have w: "valid (wd_redis w) \<and> dvalid (wd_db w)" using assms by simp
  have st: "scheduler_store R valid stream_view key_view D dvalid tbl st"
    using assms(1) unfolding scheduler_reliable_def by blast
  obtain w1 where a: "acquire_pt_lock (sched_queue ?S) ''PRODUCER_LOCK'' ?l ''LOCKED'' (lock_ttl (sched_producer settings)) w = (Ok True, w1)"
    using scheduler_reliable.acquire_Ok [OF assms(1) w assms(9,4)] by (metis prod.collapse)
  note 1 = scheduler_store.acquire_lock [OF st w assms(4) a]
  then have w1: "valid (wd_redis w1) \<and> dvalid (wd_db w1)" and c1: "wd_clock w1 = wd_clock w"
    and k1: "key_view (wd_redis w1) ?l = Some ''LOCKED''" by auto
  obtain l w2 where l: "fetch_producer_tasks ?S settings w1 = (Ok l, w2)"
    using scheduler_reliable.fetch_tasks_Ok [OF assms(1) w1, of settings de] assms(7,8) c1 by (metis prod.collapse)
  have "wd_redis w2 = wd_redis w1" using scheduler_store.fetch_tasks [OF st w1 l] by blast
  moreover from l assms(6) obtain w3 where
    "ebind (fetch_producer_tasks ?S settings) (\<lambda>tasks. divide_and_append_tasks ser uuid ?S Producer tasks settings) w1 =
      (Err Panicked, w3)" and "wd_redis w3 = wd_redis w2"
    by (auto simp: ebind_run divide_and_append_tasks_def divide_tasks_def date_time_now_def divide_into_batches_def)
  ultimately show ?thesis using assms(10) a k1
    by (simp add: run_producer_flow_def lock_acquire_release_def Let_def ebind_run [of "change_context _ _"]
      change_context_run)
qed

theorem zero_batch_size_keeps_lock_witness:
  "fst (run_producer_flow demo_ser ''u'' (as_scheduler demo_de mem_store)
     (demo_settings\<lparr>sched_producer := ProducerSettings_default\<lparr>batch_size := 0\<rparr>\<rparr>) (demo_sched_world [])) = Err Panicked"
proof -
  let ?s = "demo_settings\<lparr>sched_producer := ProducerSettings_default\<lparr>batch_size := 0\<rparr>\<rparr>"
  obtain r w' where run: "run_producer_flow demo_ser ''u'' (as_scheduler demo_de mem_store) ?s (demo_sched_world []) = (r, w')"
    by fastforce
  have "r = Err Panicked \<and> mem_strings (wd_redis w') (lock_key (sched_producer ?s)) = Some ''LOCKED''"
    by (rule zero_batch_size_keeps_lock [OF mem_scheduler.scheduler_reliable_axioms _ _ _ _ _ _ _ _ run])
      (simp_all add: demo_sched_world_def mem_unique_def ProducerSettings_default_def in_datetime_def unix_timestamp_def
        min_timestamp_def max_timestamp_def mem_strings_init)
  with run show ?thesis by simp
qed

end
