(* ===== verification/Scheduler_Loops.thy ===== *)
theory Scheduler_Loops
  imports Scheduler_Props Signals
begin

text \<open>
  The two processes of the scheduler: \<open>start_producer\<close> (producer.rs), \<open>start_consumer\<close>
  (consumer.rs) and the choice between them, \<open>start_process_tracker\<close> (scheduler.rs).

  Each is one loop that polls the shutdown channel, waits for the next tick and runs a turn to
  its end. What happens outside is a script with one entry for each poll: whether the signal task
  got a signal before it, and what others (the clock, other processes on the same Redis and
  database) did to the world by the tick after it. A loop that has used up its script is still
  running: its value is \<open>None\<close>. Nothing but the loop itself touches the counter of the
  consumer, so the wait for it to reach zero either ends at once or never.
\<close>

section \<open>The loops\<close>

type_synonym 'w script = "(int option option \<times> ('w \<Rightarrow> 'w)) list"

fun signal_task :: "int option option \<Rightarrow> mpsc \<Rightarrow> mpsc" where
  "signal_task None ch = ch"
| "signal_task (Some sig) ch = signal_handler sig ch"

text \<open>A turn that fails is logged; one that panics (\<open>Panicked\<close>) unwinds the loop.\<close>

fun producer_loop ::
  "('j ProcessTracker list \<Rightarrow> string option) \<Rightarrow> (nat \<Rightarrow> string) \<Rightarrow> ('s, 'd, 'j) scheduler \<Rightarrow> SchedulerSettings \<Rightarrow>
   nat \<Rightarrow> mpsc \<Rightarrow> ('s, 'd) pt_world script \<Rightarrow> ('s, 'd) pt_world \<Rightarrow>
   ((ProcessTrackerError, unit) result \<times> ('s, 'd) pt_world) option" where
  "producer_loop ser uuid state settings n rx [] w = None"
| "producer_loop ser uuid state settings n rx ((ev, tick) # script) w =
     (case try_recv (signal_task ev rx) of
        (Inl Empty, rx') \<Rightarrow>
          (case run_producer_flow ser (uuid n) state settings (tick w) of
             (Inl Panicked, w') \<Rightarrow> Some (Err Panicked, w')
           | (_, w') \<Rightarrow> producer_loop ser uuid state settings (Suc n) rx' script w')
      | (Inr _, rx') \<Rightarrow> Some (Ok (), w)
      | (Inl Disconnected, rx') \<Rightarrow> Some (Ok (), w))"

text \<open>Joining the signal task is the parameter \<open>join\<close>: it fails when that task panicked.\<close>

definition start_producer ::
  "(int list \<Rightarrow> ('io, 'sigs) result) \<Rightarrow> ('je, unit) result \<Rightarrow> ('j ProcessTracker list \<Rightarrow> string option) \<Rightarrow>
   (nat \<Rightarrow> string) \<Rightarrow> ('s, 'd, 'j) scheduler \<Rightarrow> SchedulerSettings \<Rightarrow> mpsc \<Rightarrow> ('s, 'd) pt_world script \<Rightarrow>
   ('s, 'd) pt_world \<Rightarrow> ((ProcessTrackerError, unit) result \<times> ('s, 'd) pt_world) option" where
  "start_producer register join ser uuid state settings ch script w =
     (case get_allowed_signals register of
        Inl _ \<Rightarrow> Some (Err ConfigurationError, w)
      | Inr signal \<Rightarrow>
          (case producer_loop ser uuid state settings 0 ch script w of
             None \<Rightarrow> None
           | Some (Inl e, w') \<Rightarrow> Some (Err e, w')
           | Some (Inr _, w') \<Rightarrow> Some (case join of Inl _ \<Rightarrow> Err UnexpectedFlow | Inr _ \<Rightarrow> Ok (), w')))"

text \<open>The wait of the consumer for its running operations.\<close>

partial_function (option) await_idle :: "64 word \<Rightarrow> unit option" where
  "await_idle active_tasks = (if active_tasks = 0 then Some () else await_idle active_tasks)"

fun consumer_loop ::
  "(nat \<Rightarrow> string) \<Rightarrow> ('s, 'd, 'j) scheduler \<Rightarrow> SchedulerSettings \<Rightarrow>
   ('j ProcessTracker \<Rightarrow> (('s, 'd) pt_world, ProcessTrackerError, unit) eff) \<Rightarrow>
   nat \<Rightarrow> mpsc \<Rightarrow> ('s, 'd) pt_world script \<Rightarrow> 64 word \<times> ('s, 'd) pt_world \<Rightarrow> ('s, 'd) pt_world option" where
  "consumer_loop uuid state settings trigger_workflow n rx [] cw = None"
| "consumer_loop uuid state settings trigger_workflow n rx ((ev, tick) # script) cw =
     (case try_recv (signal_task ev rx) of
        (Inl Empty, rx') \<Rightarrow>
          (if disabled (sched_consumer settings)
           then consumer_loop uuid state settings trigger_workflow (Suc n) rx' script (apsnd tick cw)
           else consumer_loop uuid state settings trigger_workflow (Suc n) rx' script
                  (consumer_operation_handler (uuid n) state settings trigger_workflow (apsnd tick cw)))
      | (Inr _, rx') \<Rightarrow> (case await_idle (fst cw) of None \<Rightarrow> None | Some _ \<Rightarrow> Some (snd cw))
      | (Inl Disconnected, rx') \<Rightarrow> (case await_idle (fst cw) of None \<Rightarrow> None | Some _ \<Rightarrow> Some (snd cw)))"

definition start_consumer ::
  "(int list \<Rightarrow> ('io, 'sigs) result) \<Rightarrow> ('je, unit) result \<Rightarrow> (nat \<Rightarrow> string) \<Rightarrow> ('s, 'd, 'j) scheduler \<Rightarrow>
   SchedulerSettings \<Rightarrow> ('j ProcessTracker \<Rightarrow> (('s, 'd) pt_world, ProcessTrackerError, unit) eff) \<Rightarrow>
   mpsc \<Rightarrow> ('s, 'd) pt_world script \<Rightarrow> ('s, 'd) pt_world \<Rightarrow>
   ((ProcessTrackerError, unit) result \<times> ('s, 'd) pt_world) option" where
  "start_consumer register join uuid state settings workflow_selector ch script w =
     (case get_allowed_signals register of
        Inl _ \<Rightarrow> Some (Err ConfigurationError, w)
      | Inr signal \<Rightarrow>
          (case consumer_loop uuid state settings workflow_selector 0 ch script (0, w) of
             None \<Rightarrow> None
           | Some w' \<Rightarrow> Some (case join of Inl _ \<Rightarrow> Err UnexpectedFlow | Inr _ \<Rightarrow> Ok (), w')))"

text \<open>The cleaner is not implemented: it only logs.\<close>

definition start_process_tracker ::
  "(int list \<Rightarrow> ('io, 'sigs) result) \<Rightarrow> ('je, unit) result \<Rightarrow> ('j ProcessTracker list \<Rightarrow> string option) \<Rightarrow>
   (nat \<Rightarrow> string) \<Rightarrow> ('s, 'd, 'j) scheduler \<Rightarrow> SchedulerFlow \<Rightarrow> SchedulerSettings \<Rightarrow> mpsc \<Rightarrow>
   ('j ProcessTracker \<Rightarrow> (('s, 'd) pt_world, ProcessTrackerError, unit) eff) \<Rightarrow> ('s, 'd) pt_world script \<Rightarrow>
   ('s, 'd) pt_world \<Rightarrow> ((ProcessTrackerError, unit) result \<times> ('s, 'd) pt_world) option" where
  "start_process_tracker register join ser uuid state flow settings ch runner_from_task script w =
     (case flow of
        Producer \<Rightarrow> start_producer register join ser uuid state settings ch script w
      | Consumer \<Rightarrow> start_consumer register join uuid state settings runner_from_task ch script w
      | Cleaner \<Rightarrow> Some (Ok (), w))"

section \<open>Turns\<close>

text \<open>A number of turns, each after its tick.\<close>

fun turns :: "(nat \<Rightarrow> 'w \<Rightarrow> 'w) \<Rightarrow> nat \<Rightarrow> ('w \<Rightarrow> 'w) list \<Rightarrow> 'w \<Rightarrow> 'w" where
  "turns body n [] w = w"
| "turns body n (tick # ticks) w = turns body (Suc n) ticks (body n (tick w))"

definition producer_turn ::
  "('j ProcessTracker list \<Rightarrow> string option) \<Rightarrow> (nat \<Rightarrow> string) \<Rightarrow> ('s, 'd, 'j) scheduler \<Rightarrow> SchedulerSettings \<Rightarrow>
   nat \<Rightarrow> ('s, 'd) pt_world \<Rightarrow> ('s, 'd) pt_world" where
  "producer_turn ser uuid state settings n w = snd (run_producer_flow ser (uuid n) state settings w)"

definition consumer_turn ::
  "(nat \<Rightarrow> string) \<Rightarrow> ('s, 'd, 'j) scheduler \<Rightarrow> SchedulerSettings \<Rightarrow>
   ('j ProcessTracker \<Rightarrow> (('s, 'd) pt_world, ProcessTrackerError, unit) eff) \<Rightarrow>
   nat \<Rightarrow> ('s, 'd) pt_world \<Rightarrow> ('s, 'd) pt_world" where
  "consumer_turn uuid state settings trigger_workflow n w =
     (if disabled (sched_consumer settings) then w
      else snd (consumer_operations (uuid n) state settings trigger_workflow w))"

text \<open>A channel nobody has written to, whose senders are alive.\<close>

definition idle_channel :: "mpsc \<Rightarrow> bool" where
  "idle_channel ch \<longleftrightarrow> queued ch = 0 \<and> capacity ch > 0 \<and> \<not> rx_closed ch \<and> senders ch > 0"

text \<open>Quiet polls, then a signal; what would come later does not matter.\<close>

definition until_signal :: "('w \<Rightarrow> 'w) list \<Rightarrow> int \<Rightarrow> 'w script \<Rightarrow> 'w script" where
  "until_signal ticks signal rest = map (Pair None) ticks @ (Some (Some signal), id) # rest"

lemma try_recv_idle: "idle_channel ch \<Longrightarrow> try_recv ch = (Err Empty, ch)"
  by (simp add: idle_channel_def try_recv_def)

lemma try_recv_signalled:
  assumes "idle_channel ch" and "signal \<in> {SIGTERM, SIGINT}"
  obtains ch' where "try_recv (signal_handler (Some signal) ch) = (Ok (), ch')"
  using assms by (auto simp: idle_channel_def try_recv_def signal_handler_def try_send_def)

lemma await_idle_iff: "await_idle n = Some u \<longleftrightarrow> n = 0"
proof
  assume "await_idle n = Some u"
  then show "n = 0"
    by (rule await_idle.raw_induct [rotated, of _ _ "\<lambda>n _. n = 0"]) (auto split: if_splits)
next
  assume "n = 0"
  then show "await_idle n = Some u" by (subst await_idle.simps) simp
qed

lemma consumer_loop_until_signal:
  assumes "idle_channel ch" and "signal \<in> {SIGTERM, SIGINT}"
  shows "consumer_loop uuid state settings f n ch (until_signal ticks signal rest) (0, w) =
    Some (turns (consumer_turn uuid state settings f) n ticks w)"
  unfolding until_signal_def
proof (induction ticks arbitrary: n w)
  case Nil
  obtain ch' where "try_recv (signal_handler (Some signal) ch) = (Ok (), ch')"
    by (rule try_recv_signalled [OF assms])
  moreover have "await_idle 0 = Some ()" by (simp add: await_idle_iff)
  ultimately show ?case by simp
next
  case (Cons tick ticks)
  then show ?case
    by (simp add: try_recv_idle [OF assms(1)] consumer_operation_handler_def consumer_turn_def Let_def)
qed

text \<open>A turn of the producer that ends without a panic.\<close>

fun no_panics ::
  "(nat \<Rightarrow> ('w, ProcessTrackerError, unit) eff) \<Rightarrow> nat \<Rightarrow> ('w \<Rightarrow> 'w) list \<Rightarrow> 'w \<Rightarrow> bool" where
  "no_panics body n [] w = True"
| "no_panics body n (tick # ticks) w =
     (fst (body n (tick w)) \<noteq> Err Panicked \<and> no_panics body (Suc n) ticks (snd (body n (tick w))))"

lemma producer_loop_until_signal:
  assumes "idle_channel ch" and "signal \<in> {SIGTERM, SIGINT}"
    and "no_panics (\<lambda>n. run_producer_flow ser (uuid n) state settings) n ticks w"
  shows "producer_loop ser uuid state settings n ch (until_signal ticks signal rest) w =
    Some (Ok (), turns (producer_turn ser uuid state settings) n ticks w)"
  using assms(3) unfolding until_signal_def
proof (induction ticks arbitrary: n w)
  case Nil
  obtain ch' where "try_recv (signal_handler (Some signal) ch) = (Ok (), ch')"
    by (rule try_recv_signalled [OF assms(1,2)])
  then show ?case by simp
next
  case (Cons tick ticks)
  obtain x w' where f: "run_producer_flow ser (uuid n) state settings (tick w) = (x, w')" by force
  with Cons show ?case
    by (auto simp: try_recv_idle [OF assms(1)] producer_turn_def
        split: sum.splits ProcessTrackerError.splits)
qed

section \<open>The producer on servers that answer\<close>

definition producer_ready ::
  "('s \<Rightarrow> bool) \<Rightarrow> ('d \<Rightarrow> bool) \<Rightarrow> ('s \<Rightarrow> string \<rightharpoonup> string) \<Rightarrow> SchedulerSettings \<Rightarrow> ('s, 'd) pt_world \<Rightarrow> bool" where
  "producer_ready valid dvalid key_view settings w \<longleftrightarrow>
     valid (wd_redis w) \<and> dvalid (wd_db w) \<and> key_view (wd_redis w) (lock_key (sched_producer settings)) = None"

definition clock_in_range :: "SchedulerSettings \<Rightarrow> ('s, 'd) pt_world \<Rightarrow> bool" where
  "clock_in_range settings w \<longleftrightarrow>
     in_datetime (wd_clock w 0 + upper_fetch_limit (sched_producer settings) * 1000000) \<and>
     in_datetime (wd_clock w 0 - lower_fetch_limit (sched_producer settings) * 1000000)"

definition producer_settings_ok :: "SchedulerSettings \<Rightarrow> bool" where
  "producer_settings_ok settings \<longleftrightarrow> 0 < lock_ttl (sched_producer settings) \<and>
     sched_stream settings \<noteq> lock_key (sched_producer settings) \<and> 0 < batch_size (sched_producer settings)"

text \<open>What others may do by a tick: anything that keeps the servers sound, leaves the lock alone and
  has the clock within the dates of the \<open>time\<close> library.\<close>

definition tick_safe ::
  "('s \<Rightarrow> bool) \<Rightarrow> ('d \<Rightarrow> bool) \<Rightarrow> ('s \<Rightarrow> string \<rightharpoonup> string) \<Rightarrow> SchedulerSettings \<Rightarrow>
   (('s, 'd) pt_world \<Rightarrow> ('s, 'd) pt_world) \<Rightarrow> bool" where
  "tick_safe valid dvalid key_view settings tick \<longleftrightarrow>
     (\<forall>w. producer_ready valid dvalid key_view settings w \<longrightarrow>
        producer_ready valid dvalid key_view settings (tick w) \<and> clock_in_range settings (tick w))"

lemma turns_append: "turns body n (xs @ [x]) w = body (n + length xs) (x (turns body n xs w))"
  by (induction xs arbitrary: n w) simp_all

context scheduler_reliable
begin

abbreviation ready where
  "ready \<equiv> producer_ready valid dvalid key_view"

lemma ready_turn:
  assumes "producer_settings_ok settings" and "\<forall>ts. ser ts \<noteq> None" and "ready settings w"
    and "clock_in_range settings w"
    and run: "run_producer_flow ser u (as_scheduler de st) settings w = (r, w')"
  shows "r = Ok ()" and "ready settings w'"
    and "\<exists>bs. turn_effect stream_view tbl ser settings w w' bs \<and>
      set (concat (map batch_trackers bs)) = due_tasks (wd_clock w 0) settings (tbl (wd_db w))"
proof -
  have w: "valid (wd_redis w) \<and> dvalid (wd_db w)" and ttl: "0 < lock_ttl (sched_producer settings)"
    and k: "sched_stream settings \<noteq> lock_key (sched_producer settings)"
    and n: "0 < batch_size (sched_producer settings)"
    and free: "key_view (wd_redis w) (lock_key (sched_producer settings)) = None"
    using assms(1,3) by (simp_all add: producer_settings_ok_def producer_ready_def)
  note c = producer_turn_complete [OF w ttl k n _ _ free assms(2) run]
  from assms(4) c show "r = Ok ()" by (simp add: clock_in_range_def)
  from assms(4) c producer_turn(1) [OF w ttl k run] show "ready settings w'"
    by (simp add: clock_in_range_def producer_ready_def)
  from assms(4) c show "\<exists>bs. turn_effect stream_view tbl ser settings w w' bs \<and>
      set (concat (map batch_trackers bs)) = due_tasks (wd_clock w 0) settings (tbl (wd_db w))"
    unfolding clock_in_range_def by blast
qed

lemma turns_ready:
  assumes "producer_settings_ok settings" and "\<forall>ts. ser ts \<noteq> None"
    and "list_all (tick_safe valid dvalid key_view settings) ticks" and "ready settings w"
  shows "no_panics (\<lambda>n. run_producer_flow ser (uuid n) (as_scheduler de st) settings) n ticks w \<and>
    ready settings (turns (producer_turn ser uuid (as_scheduler de st) settings) n ticks w)"
  using assms(3,4)
proof (induction ticks arbitrary: n w)
  case (Cons tick ticks)
  obtain r w' where run: "run_producer_flow ser (uuid n) (as_scheduler de st) settings (tick w) = (r, w')"
    by force
  from Cons(2,3) have t: "ready settings (tick w)" "clock_in_range settings (tick w)"
    by (auto simp: tick_safe_def)
  note r = ready_turn [OF assms(1,2) t run]
  from Cons(1) [OF _ r(2)] Cons(2) r(1) run show ?case by (simp add: producer_turn_def)
qed simp

end

section \<open>Properties\<close>



text \<open>A process on the in-memory servers, with a clock that another process sets.\<close>

definition demo_tick :: "(mem, unit ProcessTracker list) pt_world \<Rightarrow> (mem, unit ProcessTracker list) pt_world" where
  "demo_tick w = w\<lparr>wd_clock := \<lambda>n. 1000000\<rparr>"

lemma demo_channel_idle: "idle_channel (mpsc_channel 1)"
  by (simp add: idle_channel_def)

lemma demo_register: "get_allowed_signals (\<lambda>_. Ok ()) = (Ok () :: (unit, unit) result)"
  by (simp add: get_allowed_signals_def)



end
