(* ===== verification/Payment_Enums.thy ===== *)
theory Payment_Enums
  imports Prelude
begin

text \<open>
  The payment enums of \<open>crates/common_enums\<close> that the code computes on: the status of a
  payment attempt and what follows from it for the payment method, the authentication status,
  the source of a payment, and the payment method each payment method type belongs to.
\<close>

section \<open>Attempts\<close>

datatype AttemptStatus =
    Started | AuthenticationFailed | RouterDeclined | AuthenticationPending
   | AuthenticationSuccessful | Authorized | AuthorizationFailed | Charged | Authorizing
   | CodInitiated | Voided | VoidInitiated | CaptureInitiated | CaptureFailed | VoidFailed
   | AutoRefunded | PartialCharged | PartialChargedAndChargeable | Unresolved | Pending
   | Failure | PaymentMethodAwaited | ConfirmationAwaited | DeviceDataCollectionPending

primrec AttemptStatus_is_terminal_status :: "AttemptStatus \<Rightarrow> bool" where
  "AttemptStatus_is_terminal_status AttemptStatus.Started = False"
| "AttemptStatus_is_terminal_status AttemptStatus.AuthenticationFailed = False"
| "AttemptStatus_is_terminal_status AttemptStatus.RouterDeclined = True"
| "AttemptStatus_is_terminal_status AttemptStatus.AuthenticationPending = False"
| "AttemptStatus_is_terminal_status AttemptStatus.AuthenticationSuccessful = False"
| "AttemptStatus_is_terminal_status AttemptStatus.Authorized = False"
| "AttemptStatus_is_terminal_status AttemptStatus.AuthorizationFailed = False"
| "AttemptStatus_is_terminal_status AttemptStatus.Charged = True"
| "AttemptStatus_is_terminal_status AttemptStatus.Authorizing = False"
| "AttemptStatus_is_terminal_status AttemptStatus.CodInitiated = False"
| "AttemptStatus_is_terminal_status AttemptStatus.Voided = True"
| "AttemptStatus_is_terminal_status AttemptStatus.VoidInitiated = False"
| "AttemptStatus_is_terminal_status AttemptStatus.CaptureInitiated = False"
| "AttemptStatus_is_terminal_status AttemptStatus.CaptureFailed = True"
| "AttemptStatus_is_terminal_status AttemptStatus.VoidFailed = True"
| "AttemptStatus_is_terminal_status AttemptStatus.AutoRefunded = True"
| "AttemptStatus_is_terminal_status AttemptStatus.PartialCharged = True"
| "AttemptStatus_is_terminal_status AttemptStatus.PartialChargedAndChargeable = False"
| "AttemptStatus_is_terminal_status AttemptStatus.Unresolved = False"
| "AttemptStatus_is_terminal_status AttemptStatus.Pending = False"
| "AttemptStatus_is_terminal_status AttemptStatus.Failure = True"
| "AttemptStatus_is_terminal_status AttemptStatus.PaymentMethodAwaited = False"
| "AttemptStatus_is_terminal_status AttemptStatus.ConfirmationAwaited = False"
| "AttemptStatus_is_terminal_status AttemptStatus.DeviceDataCollectionPending = False"

datatype PaymentMethodStatus =
    Active | Inactive | Processing

primrec PaymentMethodStatus_from :: "AttemptStatus \<Rightarrow> PaymentMethodStatus" where
  "PaymentMethodStatus_from AttemptStatus.Started = PaymentMethodStatus.Processing"
| "PaymentMethodStatus_from AttemptStatus.AuthenticationFailed = PaymentMethodStatus.Processing"
| "PaymentMethodStatus_from AttemptStatus.RouterDeclined = PaymentMethodStatus.Processing"
| "PaymentMethodStatus_from AttemptStatus.AuthenticationPending = PaymentMethodStatus.Processing"
| "PaymentMethodStatus_from AttemptStatus.AuthenticationSuccessful = PaymentMethodStatus.Processing"
| "PaymentMethodStatus_from AttemptStatus.Authorized = PaymentMethodStatus.Active"
| "PaymentMethodStatus_from AttemptStatus.AuthorizationFailed = PaymentMethodStatus.Processing"
| "PaymentMethodStatus_from AttemptStatus.Charged = PaymentMethodStatus.Active"
| "PaymentMethodStatus_from AttemptStatus.Authorizing = PaymentMethodStatus.Processing"
| "PaymentMethodStatus_from AttemptStatus.CodInitiated = PaymentMethodStatus.Processing"
| "PaymentMethodStatus_from AttemptStatus.Voided = PaymentMethodStatus.Processing"
| "PaymentMethodStatus_from AttemptStatus.VoidInitiated = PaymentMethodStatus.Processing"
| "PaymentMethodStatus_from AttemptStatus.CaptureInitiated = PaymentMethodStatus.Processing"
| "PaymentMethodStatus_from AttemptStatus.CaptureFailed = PaymentMethodStatus.Processing"
| "PaymentMethodStatus_from AttemptStatus.VoidFailed = PaymentMethodStatus.Processing"
| "PaymentMethodStatus_from AttemptStatus.AutoRefunded = PaymentMethodStatus.Processing"
| "PaymentMethodStatus_from AttemptStatus.PartialCharged = PaymentMethodStatus.Processing"
| "PaymentMethodStatus_from AttemptStatus.PartialChargedAndChargeable = PaymentMethodStatus.Processing"
| "PaymentMethodStatus_from AttemptStatus.Unresolved = PaymentMethodStatus.Processing"
| "PaymentMethodStatus_from AttemptStatus.Pending = PaymentMethodStatus.Processing"
| "PaymentMethodStatus_from AttemptStatus.Failure = PaymentMethodStatus.Inactive"
| "PaymentMethodStatus_from AttemptStatus.PaymentMethodAwaited = PaymentMethodStatus.Processing"
| "PaymentMethodStatus_from AttemptStatus.ConfirmationAwaited = PaymentMethodStatus.Processing"
| "PaymentMethodStatus_from AttemptStatus.DeviceDataCollectionPending = PaymentMethodStatus.Processing"

section \<open>Authentication and source\<close>

datatype AuthenticationStatus =
    Started | Pending | Success | Failed

primrec AuthenticationStatus_is_terminal_status :: "AuthenticationStatus \<Rightarrow> bool" where
  "AuthenticationStatus_is_terminal_status AuthenticationStatus.Started = False"
| "AuthenticationStatus_is_terminal_status AuthenticationStatus.Pending = False"
| "AuthenticationStatus_is_terminal_status AuthenticationStatus.Success = True"
| "AuthenticationStatus_is_terminal_status AuthenticationStatus.Failed = True"

definition AuthenticationStatus_is_failed :: "AuthenticationStatus \<Rightarrow> bool" where
  "AuthenticationStatus_is_failed self \<longleftrightarrow> self = AuthenticationStatus.Failed"

datatype PaymentSource =
    MerchantServer | Postman | Dashboard | Sdk | Webhook | ExternalAuthenticator

primrec is_for_internal_use_only :: "PaymentSource \<Rightarrow> bool" where
  "is_for_internal_use_only PaymentSource.MerchantServer = False"
| "is_for_internal_use_only PaymentSource.Postman = False"
| "is_for_internal_use_only PaymentSource.Dashboard = False"
| "is_for_internal_use_only PaymentSource.Sdk = False"
| "is_for_internal_use_only PaymentSource.Webhook = True"
| "is_for_internal_use_only PaymentSource.ExternalAuthenticator = True"

section \<open>Payment methods\<close>

datatype PaymentMethod =
    Card | CardRedirect | PayLater | Wallet | BankRedirect | BankTransfer | Crypto | BankDebit
   | Reward | Upi | Voucher | GiftCard

datatype (plugins only: size) PaymentMethodType =
    Ach | Affirm | AfterpayClearpay | Alfamart | AliPay | AliPayHk | Alma | ApplePay | Atome
   | Bacs | BancontactCard | Becs | Benefit | Bizum | Blik | Boleto | BcaBankTransfer | BniVa
   | BriVa | CardRedirect | CimbVa | ClassicReward | Credit | CryptoCurrency | Cashapp | Dana
   | DanamonVa | Debit | Efecty | Eps | Evoucher | Giropay | Givex | GooglePay | GoPay | Gcash
   | Ideal | Interac | Indomaret | Klarna | KakaoPay | MandiriVa | Knet | MbWay | MobilePay
   | Momo | MomoAtm | Multibanco | OnlineBankingThailand | OnlineBankingCzechRepublic
   | OnlineBankingFinland | OnlineBankingFpx | OnlineBankingPoland | OnlineBankingSlovakia
   | Oxxo | PagoEfectivo | PermataBankTransfer | OpenBankingUk | PayBright | Paypal | Pix
   | PaySafeCard | Przelewy24 | Pse | RedCompra | RedPagos | SamsungPay | Sepa | Sofort | Swish
   | TouchNGo | Trustly | Twint | UpiCollect | Vipps | Walley | WeChatPay | SevenEleven
   | Lawson | MiniStop | FamilyMart | Seicomart | PayEasy

primrec PaymentMethod_from :: "PaymentMethodType \<Rightarrow> PaymentMethod" where
  "PaymentMethod_from PaymentMethodType.Ach = PaymentMethod.BankDebit"
| "PaymentMethod_from PaymentMethodType.Affirm = PaymentMethod.PayLater"
| "PaymentMethod_from PaymentMethodType.AfterpayClearpay = PaymentMethod.PayLater"
| "PaymentMethod_from PaymentMethodType.Alfamart = PaymentMethod.Voucher"
| "PaymentMethod_from PaymentMethodType.AliPay = PaymentMethod.Wallet"
| "PaymentMethod_from PaymentMethodType.AliPayHk = PaymentMethod.Wallet"
| "PaymentMethod_from PaymentMethodType.Alma = PaymentMethod.PayLater"
| "PaymentMethod_from PaymentMethodType.ApplePay = PaymentMethod.Wallet"
| "PaymentMethod_from PaymentMethodType.Atome = PaymentMethod.PayLater"
| "PaymentMethod_from PaymentMethodType.Bacs = PaymentMethod.BankDebit"
| "PaymentMethod_from PaymentMethodType.BancontactCard = PaymentMethod.BankRedirect"
| "PaymentMethod_from PaymentMethodType.Becs = PaymentMethod.BankDebit"
| "PaymentMethod_from PaymentMethodType.Benefit = PaymentMethod.CardRedirect"
| "PaymentMethod_from PaymentMethodType.Bizum = PaymentMethod.BankRedirect"
| "PaymentMethod_from PaymentMethodType.Blik = PaymentMethod.BankRedirect"
| "PaymentMethod_from PaymentMethodType.Boleto = PaymentMethod.Voucher"
| "PaymentMethod_from PaymentMethodType.BcaBankTransfer = PaymentMethod.BankTransfer"
| "PaymentMethod_from PaymentMethodType.BniVa = PaymentMethod.BankTransfer"
| "PaymentMethod_from PaymentMethodType.BriVa = PaymentMethod.BankTransfer"
| "PaymentMethod_from PaymentMethodType.CardRedirect = PaymentMethod.CardRedirect"
| "PaymentMethod_from PaymentMethodType.CimbVa = PaymentMethod.BankTransfer"
| "PaymentMethod_from PaymentMethodType.ClassicReward = PaymentMethod.Reward"
| "PaymentMethod_from PaymentMethodType.Credit = PaymentMethod.Card"
| "PaymentMethod_from PaymentMethodType.CryptoCurrency = PaymentMethod.Crypto"
| "PaymentMethod_from PaymentMethodType.Cashapp = PaymentMethod.Wallet"
| "PaymentMethod_from PaymentMethodType.Dana = PaymentMethod.Wallet"
| "PaymentMethod_from PaymentMethodType.DanamonVa = PaymentMethod.BankTransfer"
| "PaymentMethod_from PaymentMethodType.Debit = PaymentMethod.Card"
| "PaymentMethod_from PaymentMethodType.Efecty = PaymentMethod.Voucher"
| "PaymentMethod_from PaymentMethodType.Eps = PaymentMethod.BankRedirect"
| "PaymentMethod_from PaymentMethodType.Evoucher = PaymentMethod.Reward"
| "PaymentMethod_from PaymentMethodType.Giropay = PaymentMethod.BankRedirect"
| "PaymentMethod_from PaymentMethodType.Givex = PaymentMethod.GiftCard"
| "PaymentMethod_from PaymentMethodType.GooglePay = PaymentMethod.Wallet"
| "PaymentMethod_from PaymentMethodType.GoPay = PaymentMethod.Wallet"
| "PaymentMethod_from PaymentMethodType.Gcash = PaymentMethod.Wallet"
| "PaymentMethod_from PaymentMethodType.Ideal = PaymentMethod.BankRedirect"
| "PaymentMethod_from PaymentMethodType.Interac = PaymentMethod.BankRedirect"
| "PaymentMethod_from PaymentMethodType.Indomaret = PaymentMethod.Voucher"
| "PaymentMethod_from PaymentMethodType.Klarna = PaymentMethod.PayLater"
| "PaymentMethod_from PaymentMethodType.KakaoPay = PaymentMethod.Wallet"
| "PaymentMethod_from PaymentMethodType.MandiriVa = PaymentMethod.BankTransfer"
| "PaymentMethod_from PaymentMethodType.Knet = PaymentMethod.CardRedirect"
| "PaymentMethod_from PaymentMethodType.MbWay = PaymentMethod.Wallet"
| "PaymentMethod_from PaymentMethodType.MobilePay = PaymentMethod.Wallet"
| "PaymentMethod_from PaymentMethodType.Momo = PaymentMethod.Wallet"
| "PaymentMethod_from PaymentMethodType.MomoAtm = PaymentMethod.CardRedirect"
| "PaymentMethod_from PaymentMethodType.Multibanco = PaymentMethod.BankTransfer"
| "PaymentMethod_from PaymentMethodType.OnlineBankingThailand = PaymentMethod.BankRedirect"
| "PaymentMethod_from PaymentMethodType.OnlineBankingCzechRepublic = PaymentMethod.BankRedirect"
| "PaymentMethod_from PaymentMethodType.OnlineBankingFinland = PaymentMethod.BankRedirect"
| "PaymentMethod_from PaymentMethodType.OnlineBankingFpx = PaymentMethod.BankRedirect"
| "PaymentMethod_from PaymentMethodType.OnlineBankingPoland = PaymentMethod.BankRedirect"
| "PaymentMethod_from PaymentMethodType.OnlineBankingSlovakia = PaymentMethod.BankRedirect"
| "PaymentMethod_from PaymentMethodType.Oxxo = PaymentMethod.Voucher"
| "PaymentMethod_from PaymentMethodType.PagoEfectivo = PaymentMethod.Voucher"
| "PaymentMethod_from PaymentMethodType.PermataBankTransfer = PaymentMethod.BankTransfer"
| "PaymentMethod_from PaymentMethodType.OpenBankingUk = PaymentMethod.BankRedirect"
| "PaymentMethod_from PaymentMethodType.PayBright = PaymentMethod.PayLater"
| "PaymentMethod_from PaymentMethodType.Paypal = PaymentMethod.Wallet"
| "PaymentMethod_from PaymentMethodType.Pix = PaymentMethod.BankTransfer"
| "PaymentMethod_from PaymentMethodType.PaySafeCard = PaymentMethod.GiftCard"
| "PaymentMethod_from PaymentMethodType.Przelewy24 = PaymentMethod.BankRedirect"
| "PaymentMethod_from PaymentMethodType.Pse = PaymentMethod.BankTransfer"
| "PaymentMethod_from PaymentMethodType.RedCompra = PaymentMethod.Voucher"
| "PaymentMethod_from PaymentMethodType.RedPagos = PaymentMethod.Voucher"
| "PaymentMethod_from PaymentMethodType.SamsungPay = PaymentMethod.Wallet"
| "PaymentMethod_from PaymentMethodType.Sepa = PaymentMethod.BankDebit"
| "PaymentMethod_from PaymentMethodType.Sofort = PaymentMethod.BankRedirect"
| "PaymentMethod_from PaymentMethodType.Swish = PaymentMethod.BankRedirect"
| "PaymentMethod_from PaymentMethodType.TouchNGo = PaymentMethod.Wallet"
| "PaymentMethod_from PaymentMethodType.Trustly = PaymentMethod.BankRedirect"
| "PaymentMethod_from PaymentMethodType.Twint = PaymentMethod.Wallet"
| "PaymentMethod_from PaymentMethodType.UpiCollect = PaymentMethod.Upi"
| "PaymentMethod_from PaymentMethodType.Vipps = PaymentMethod.Wallet"
| "PaymentMethod_from PaymentMethodType.Walley = PaymentMethod.PayLater"
| "PaymentMethod_from PaymentMethodType.WeChatPay = PaymentMethod.Wallet"
| "PaymentMethod_from PaymentMethodType.SevenEleven = PaymentMethod.Voucher"
| "PaymentMethod_from PaymentMethodType.Lawson = PaymentMethod.Voucher"
| "PaymentMethod_from PaymentMethodType.MiniStop = PaymentMethod.Voucher"
| "PaymentMethod_from PaymentMethodType.FamilyMart = PaymentMethod.Voucher"
| "PaymentMethod_from PaymentMethodType.Seicomart = PaymentMethod.Voucher"
| "PaymentMethod_from PaymentMethodType.PayEasy = PaymentMethod.Voucher"

section \<open>Facts\<close>

text \<open>The status of the payment method follows the attempt: it is usable only after an
  authorization or a charge, unusable only after a failure; and among the attempts whose method is
  usable exactly the charged one is final.\<close>

theorem payment_method_status_from_attempt:
  "(PaymentMethodStatus_from a = PaymentMethodStatus.Active \<longleftrightarrow>
      a = AttemptStatus.Charged \<or> a = AttemptStatus.Authorized) \<and>
   (PaymentMethodStatus_from a = PaymentMethodStatus.Inactive \<longleftrightarrow> a = AttemptStatus.Failure) \<and>
   (AttemptStatus_is_terminal_status a \<and> PaymentMethodStatus_from a = PaymentMethodStatus.Active \<longleftrightarrow>
      a = AttemptStatus.Charged)"
  by (cases a) simp_all

text \<open>A failed authentication is final.\<close>

lemma failed_is_terminal: "AuthenticationStatus_is_failed a \<Longrightarrow> AuthenticationStatus_is_terminal_status a"
  by (cases a) (simp_all add: AuthenticationStatus_is_failed_def)

text \<open>Exactly the credit and debit types are cards.\<close>

lemma PaymentMethod_from_card:
  "PaymentMethod_from t = PaymentMethod.Card \<longleftrightarrow> t = PaymentMethodType.Credit \<or> t = PaymentMethodType.Debit"
  by (cases t) simp_all

end
