(* ===== verification/Retry.thy ===== *)
theory Retry
  imports Payment_Enums
begin

text \<open>
  Retry schedules: the mappings of \<open>scheduler/src/consumer/types/process_data.rs\<close> and the
  functions of \<open>scheduler/src/utils.rs\<close> that turn a retry count into a delay.
  An \<open>i32\<close> is an \<open>int\<close>; the running sum wraps, as in a release build.
\<close>

record RetryMapping =
  start_after :: int
  frequency :: "int list"
  counts :: "int list"

record ConnectorPTMapping =
  cpt_default_mapping :: RetryMapping
  cpt_custom_merchant_mapping :: "string \<rightharpoonup> RetryMapping"
  cpt_max_retries_count :: int

definition ConnectorPTMapping_default :: ConnectorPTMapping where
  "ConnectorPTMapping_default = \<lparr>
     cpt_default_mapping = \<lparr>start_after = 60, frequency = [300], counts = [5]\<rparr>,
     cpt_custom_merchant_mapping = Map.empty,
     cpt_max_retries_count = 5\<rparr>"

record PaymentMethodsPTMapping =
  pm_default_mapping :: RetryMapping
  custom_pm_mapping :: "PaymentMethod \<rightharpoonup> RetryMapping"
  pm_max_retries_count :: int

definition PaymentMethodsPTMapping_default :: PaymentMethodsPTMapping where
  "PaymentMethodsPTMapping_default = \<lparr>
     pm_default_mapping = \<lparr>start_after = 900, frequency = [300], counts = [5]\<rparr>,
     custom_pm_mapping = Map.empty,
     pm_max_retries_count = 5\<rparr>"

record OutgoingWebhookRetryProcessTrackerMapping =
  wh_default_mapping :: RetryMapping
  wh_custom_merchant_mapping :: "string \<rightharpoonup> RetryMapping"

definition OutgoingWebhookRetryProcessTrackerMapping_default :: OutgoingWebhookRetryProcessTrackerMapping where
  "OutgoingWebhookRetryProcessTrackerMapping_default = \<lparr>
     wh_default_mapping = \<lparr>
       start_after = 60,
       frequency = [60 * 5, 60 * 10, 60 * 60, 60 * 60 * 6],
       counts = [2, 5, 5, 3]\<rparr>,
     wh_custom_merchant_mapping = Map.empty\<rparr>"

section \<open>Delays\<close>

fun get_delay_loop :: "int \<Rightarrow> int \<Rightarrow> (int \<times> int) list \<Rightarrow> int option" where
  "get_delay_loop cumulative_count retry_count [] = None"
| "get_delay_loop cumulative_count retry_count ((count, freq) # array) =
     (let cumulative_count = wrap_i32 (cumulative_count + count) in
      if cumulative_count \<ge> retry_count then Some freq
      else get_delay_loop cumulative_count retry_count array)"

definition get_delay :: "int \<Rightarrow> (int \<times> int) list \<Rightarrow> int option" where
  "get_delay retry_count array =
     (if retry_count \<le> 0 then None else get_delay_loop 0 retry_count array)"

text \<open>The common part of the three functions below.\<close>

definition mapping_delay :: "RetryMapping \<Rightarrow> int \<Rightarrow> int option" where
  "mapping_delay mapping retry_count =
     (if retry_count = 0 then Some (start_after mapping)
      else get_delay retry_count (zip (counts mapping) (frequency mapping)))"

definition get_schedule_time :: "ConnectorPTMapping \<Rightarrow> string \<Rightarrow> int \<Rightarrow> int option" where
  "get_schedule_time mapping merchant_name retry_count =
     mapping_delay (case cpt_custom_merchant_mapping mapping merchant_name of
         Some m \<Rightarrow> m | None \<Rightarrow> cpt_default_mapping mapping) retry_count"

definition get_pm_schedule_time :: "PaymentMethodsPTMapping \<Rightarrow> PaymentMethod \<Rightarrow> int \<Rightarrow> int option" where
  "get_pm_schedule_time mapping pm retry_count =
     mapping_delay (case custom_pm_mapping mapping pm of
         Some m \<Rightarrow> m | None \<Rightarrow> pm_default_mapping mapping) retry_count"

definition get_outgoing_webhook_retry_schedule_time ::
  "OutgoingWebhookRetryProcessTrackerMapping \<Rightarrow> string \<Rightarrow> int \<Rightarrow> int option" where
  "get_outgoing_webhook_retry_schedule_time mapping merchant_name retry_count =
     mapping_delay (case wh_custom_merchant_mapping mapping merchant_name of
         Some m \<Rightarrow> m | None \<Rightarrow> wh_default_mapping mapping) retry_count"

section \<open>The schedule as a list\<close>

text \<open>The specification: every frequency repeated as often as its count says, one entry per
  retry.\<close>

definition retry_plan :: "(int \<times> int) list \<Rightarrow> int list" where
  "retry_plan array = concat (map (\<lambda>(count, freq). replicate (nat count) freq) array)"

text \<open>Counts that are not negative and whose sum is an \<open>i32\<close>.\<close>

definition plan_ok :: "(int \<times> int) list \<Rightarrow> bool" where
  "plan_ok array \<longleftrightarrow> (\<forall>(count, freq) \<in> set array. 0 \<le> count) \<and> sum_list (map fst array) < 2 ^ 31"

lemma sum_counts_nonneg: "\<forall>(count, freq) \<in> set array. 0 \<le> count \<Longrightarrow> 0 \<le> sum_list (map fst array)"
  for array :: "(int \<times> int) list"
  by (induction array) auto

lemma length_retry_plan:
  "\<forall>(count, freq) \<in> set array. 0 \<le> count \<Longrightarrow> int (length (retry_plan array)) = sum_list (map fst array)"
  by (induction array) (auto simp: retry_plan_def)

lemma get_delay_loop_plan:
  assumes "\<forall>(count, freq) \<in> set array. 0 \<le> count" and "0 \<le> acc" and "acc + sum_list (map fst array) < 2 ^ 31"
    and "acc < n"
  shows "get_delay_loop acc n array =
    (let i = nat (n - acc - 1) in if i < length (retry_plan array) then Some (retry_plan array ! i) else None)"
  using assms
proof (induction array arbitrary: acc)
  case Nil
  then show ?case by (simp add: retry_plan_def)
next
  case (Cons cf array)
  obtain c f where cf: "cf = (c, f)" by (cases cf)
  from Cons.prems cf have c: "0 \<le> c" and rest: "\<forall>(count, freq) \<in> set array. 0 \<le> count" by auto
  note sum = sum_counts_nonneg [OF rest]
  have w: "wrap_i32 (acc + c) = acc + c"
    using Cons.prems c cf sum by (intro wrap_i32_id) (simp add: in_i32_def)
  have plan: "retry_plan (cf # array) = replicate (nat c) f @ retry_plan array" by (simp add: retry_plan_def cf)
  show ?case
  proof (cases "n \<le> acc + c")
    case True
    then have "nat (n - acc - 1) < nat c" using Cons.prems(4) by linarith
    with True show ?thesis by (simp add: cf w plan [unfolded cf] nth_append Let_def)
  next
    case False
    have "get_delay_loop acc n (cf # array) = get_delay_loop (acc + c) n array"
      using False by (simp add: cf w Let_def)
    also have "\<dots> = (let i = nat (n - (acc + c) - 1) in
        if i < length (retry_plan array) then Some (retry_plan array ! i) else None)"
      using Cons.IH [OF rest, of "acc + c"] Cons.prems c cf False by simp
    also have "nat (n - (acc + c) - 1) = nat (n - acc - 1) - nat c" using False c by linarith
    finally show ?thesis
      using False c by (auto simp: plan nth_append Let_def)
  qed
qed

lemma delay_is_plan:
  assumes "plan_ok array"
  shows "get_delay n array =
    (if 1 \<le> n \<and> nat n \<le> length (retry_plan array) then Some (retry_plan array ! (nat n - 1)) else None)"
proof (cases "n \<le> 0")
  case True
  then show ?thesis by (simp add: get_delay_def)
next
  case False
  moreover have "nat (n - 1) = nat n - 1" by linarith
  ultimately show ?thesis
    using assms get_delay_loop_plan [of array 0 n]
    by (auto simp: get_delay_def plan_ok_def Let_def)
qed

text \<open>C18: the delay before retry \<open>n\<close> is the \<open>n\<close>-th entry of the plan that repeats every frequency
  as often as its count says, and there is none before the first or after the last.\<close>

theorem get_delay_is_plan:
  assumes "plan_ok array"
  shows "get_delay n array =
    (if 1 \<le> n \<and> nat n \<le> length (retry_plan array) then Some (retry_plan array ! (nat n - 1)) else None)"
  by (rule delay_is_plan [OF assms])

theorem get_delay_is_plan_witness:
  "plan_ok [(10, 300), (5, 600)] \<and> get_delay 12 [(10, 300), (5, 600)] = Some (retry_plan [(10, 300), (5, 600)] ! 11)"
proof -
  have ok: "plan_ok [(10, 300), (5, 600)]" by (simp add: plan_ok_def)
  from get_delay_is_plan [OF ok, of 12] ok show ?thesis by (simp add: retry_plan_def)
qed

text \<open>Retrying an outgoing webhook ends. The default schedule is the one its comments
  describe: sixteen attempts, the first after a minute, then two at 5 minutes, five at 10 minutes, five at an
  hour and three at 6 hours, and no delay for any other retry count; a merchant with a mapping of its own gets
  that one instead.\<close>

theorem outgoing_webhook_default_schedule:
  "get_outgoing_webhook_retry_schedule_time OutgoingWebhookRetryProcessTrackerMapping_default merchant n =
     (if 0 \<le> n \<and> n < 16
      then Some (([60] @ replicate 2 300 @ replicate 5 600 @ replicate 5 3600 @ replicate 3 21600) ! nat n)
      else None) \<and>
   get_outgoing_webhook_retry_schedule_time
     (OutgoingWebhookRetryProcessTrackerMapping_default\<lparr>wh_custom_merchant_mapping := [merchant \<mapsto> m]\<rparr>) merchant n =
   mapping_delay m n"
proof -
  let ?array = "[(2, 300), (5, 600), (5, 3600), (3, 21600)]"
  have plan: "retry_plan ?array = replicate 2 300 @ replicate 5 600 @ replicate 5 3600 @ replicate 3 21600"
    by (simp add: retry_plan_def)
  have ok: "plan_ok ?array" by (simp add: plan_ok_def)
  have "get_outgoing_webhook_retry_schedule_time OutgoingWebhookRetryProcessTrackerMapping_default merchant n =
      (if n = 0 then Some 60 else get_delay n ?array)"
    by (simp add: get_outgoing_webhook_retry_schedule_time_def OutgoingWebhookRetryProcessTrackerMapping_default_def
      mapping_delay_def)
  moreover have "nat n = Suc (nat n - 1) \<and> (nat n \<le> 15 \<longleftrightarrow> n < 16)" if "1 \<le> n" using that by linarith
  ultimately show ?thesis
    using delay_is_plan [OF ok, of n] by (auto simp: plan get_outgoing_webhook_retry_schedule_time_def)
qed

end
