(* ===== verification/Api_Errors.thy ===== *)
theory Api_Errors
  imports Errors "HOL-Library.Word"
begin

text \<open>
  The error answers of the HTTP interface: the enum \<open>ApiErrorResponse\<close> of
  \<open>data_models/src/errors/api_error.rs\<close> with the code and type its attributes declare, its
  translation to the answer that is sent (\<open>errors/transformers.rs\<close>,
  \<open>api_models/src/errors\<close>), and the same for customers and users.

  JSON values are their text; the parameter \<open>json\<close> is \<open>serde_json::json!\<close> on a list of
  names.
\<close>

section \<open>The answers that are sent (api\_models)\<close>

type_synonym json = string

record Extra =
  ex_payment_id :: "string option"
  ex_data :: "json option"
  ex_connector :: "string option"
  ex_reason :: "string option"

definition Extra_default :: "Extra" where
  "Extra_default = \<lparr>ex_payment_id = None, ex_data = None, ex_connector = None, ex_reason = None\<rparr>"

record ApiError =
  sub_code :: string
  error_identifier :: "16 word"
  error_message :: string
  extra :: "Extra option"

definition ApiError_new :: "string \<Rightarrow> 16 word \<Rightarrow> string \<Rightarrow> Extra option \<Rightarrow> ApiError" where
  "ApiError_new sub ident message ex =
     \<lparr>sub_code = sub, error_identifier = ident, error_message = message, extra = ex\<rparr>"

datatype AER =
    Unauthorized ApiError
  | ForbiddenCommonResource ApiError
  | ForbiddenPrivateResource ApiError
  | Conflict ApiError
  | Gone ApiError
  | Unprocessable ApiError
  | InternalServerError ApiError
  | NotImplemented ApiError
  | ConnectorError ApiError "16 word"
  | NotFound ApiError
  | MethodNotAllowed ApiError
  | BadRequest ApiError
  | DomainError ApiError

primrec get_internal_error :: "AER \<Rightarrow> ApiError" where
  "get_internal_error (AER.Unauthorized i) = i"
| "get_internal_error (AER.ForbiddenCommonResource i) = i"
| "get_internal_error (AER.ForbiddenPrivateResource i) = i"
| "get_internal_error (AER.Conflict i) = i"
| "get_internal_error (AER.Gone i) = i"
| "get_internal_error (AER.Unprocessable i) = i"
| "get_internal_error (AER.InternalServerError i) = i"
| "get_internal_error (AER.NotImplemented i) = i"
| "get_internal_error (AER.ConnectorError i _) = i"
| "get_internal_error (AER.NotFound i) = i"
| "get_internal_error (AER.MethodNotAllowed i) = i"
| "get_internal_error (AER.BadRequest i) = i"
| "get_internal_error (AER.DomainError i) = i"

primrec error_type :: "AER \<Rightarrow> string" where
  "error_type (AER.Unauthorized _) = ''invalid_request''"
| "error_type (AER.ForbiddenCommonResource _) = ''invalid_request''"
| "error_type (AER.ForbiddenPrivateResource _) = ''invalid_request''"
| "error_type (AER.Conflict _) = ''invalid_request''"
| "error_type (AER.Gone _) = ''invalid_request''"
| "error_type (AER.Unprocessable _) = ''invalid_request''"
| "error_type (AER.InternalServerError _) = ''api''"
| "error_type (AER.NotImplemented _) = ''invalid_request''"
| "error_type (AER.ConnectorError _ _) = ''connector''"
| "error_type (AER.NotFound _) = ''invalid_request''"
| "error_type (AER.MethodNotAllowed _) = ''invalid_request''"
| "error_type (AER.BadRequest _) = ''invalid_request''"
| "error_type (AER.DomainError _) = ''blocked''"

text \<open>The body of an answer.\<close>

record ErrorResponse =
  er_type :: string
  er_message :: string
  er_code :: string
  er_extra :: "Extra option"

definition ErrorResponse_from :: "AER \<Rightarrow> ErrorResponse" where
  "ErrorResponse_from v = \<lparr>
     er_type = error_type v,
     er_message = error_message (get_internal_error v),
     er_code = sub_code (get_internal_error v) @ ''_'' @ pad2 (unat (error_identifier (get_internal_error v))),
     er_extra = extra (get_internal_error v)\<rparr>"

text \<open>HTTP status codes by their number; \<open>StatusCode::from_u16\<close> accepts 100 to 999.\<close>

primrec status_code :: "AER \<Rightarrow> 16 word" where
  "status_code (AER.Unauthorized _) = 401"
| "status_code (AER.ForbiddenCommonResource _) = 403"
| "status_code (AER.ForbiddenPrivateResource _) = 404"
| "status_code (AER.Conflict _) = 409"
| "status_code (AER.Gone _) = 410"
| "status_code (AER.Unprocessable _) = 422"
| "status_code (AER.InternalServerError _) = 500"
| "status_code (AER.NotImplemented _) = 501"
| "status_code (AER.ConnectorError _ code) = code"
| "status_code (AER.NotFound _) = 404"
| "status_code (AER.MethodNotAllowed _) = 405"
| "status_code (AER.BadRequest _) = 400"
| "status_code (AER.DomainError _) = 200"

definition StatusCode_from_u16 :: "16 word \<Rightarrow> 16 word option" where
  "StatusCode_from_u16 c = (if 100 \<le> c \<and> c < 1000 then Some c else None)"

section \<open>ApiErrorResponse (api\_error.rs)\<close>

datatype NotImplementedMessage = Reason string | Default

primrec NotImplementedMessage_fmt :: "NotImplementedMessage \<Rightarrow> string" where
  "NotImplementedMessage_fmt (Reason message) = message @ '' is not implemented''"
| "NotImplementedMessage_fmt Default = ''This API is under development and will be made available soon.''"

datatype ErrorType =
    InvalidRequestError | ObjectNotFound | RouterError | ProcessingError | BadGateway
  | ServerNotAvailable | DuplicateRequest | ValidationError | ConnectorError | LockTimeout

datatype (plugins only: size) ApiErrorResponse =
    NotImplemented NotImplementedMessage
  | Unauthorized
  | InvalidRequestUrl
  | InvalidHttpMethod
  | MissingRequiredField string
  | InvalidDataFormat string string
  | InvalidRequestData string
  | InvalidDataValue string
  | ClientSecretNotGiven
  | ClientSecretExpired
  | ClientSecretInvalid
  | MandateActive
  | CustomerRedacted
  | MaximumRefundCount
  | RefundAmountExceedsPaymentAmount
  | PaymentUnexpectedState string string string string
  | InvalidEphemeralKey
  | PreconditionFailed string
  | InvalidJwtToken
  | GenericUnauthorized string
  | NotSupported string
  | FlowNotSupported string string
  | MissingRequiredFields "string list"
  | AccessForbidden string
  | FileProviderNotSupported string
  | UnprocessableEntity string
  | ExternalConnectorError string string string "16 word" "string option"
  | PaymentAuthorizationFailed "json option"
  | PaymentAuthenticationFailed "json option"
  | PaymentCaptureFailed "json option"
  | InvalidCardData "json option"
  | PayoutFailed "json option"
  | CardExpired "json option"
  | RefundFailed "json option"
  | VerificationFailed "json option"
  | DisputeFailed "json option"
  | InternalServerError
  | ResourceBusy
  | DuplicateRefundRequest
  | DuplicateMandate
  | DuplicateMerchantAccount
  | DuplicateMerchantConnectorAccount string string
  | DuplicatePaymentMethod
  | DuplicatePayment string
  | DuplicatePayout string
  | DuplicateConfig
  | RefundNotFound
  | CustomerNotFound
  | ConfigNotFound
  | PaymentNotFound
  | PaymentMethodNotFound
  | MerchantAccountNotFound
  | MerchantConnectorAccountNotFound string
  | BusinessProfileNotFound string
  | ResourceIdNotFound
  | MandateNotFound
  | MandateUpdateFailed
  | ApiKeyNotFound
  | PayoutNotFound
  | EventNotFound
  | MandateSerializationFailed
  | MandateDeserializationFailed
  | ReturnUrlUnavailable
  | RefundNotPossible string
  | MandateValidationFailed string
  | PaymentNotSucceeded
  | MerchantConnectorAccountDisabled
  | PaymentBlockedError "16 word" string string string
  | SuccessfulPaymentNotFound
  | IncorrectConnectorNameGiven
  | AddressNotFound
  | DisputeNotFound string
  | FileNotFound
  | FileNotAvailable
  | DisputeStatusValidationFailed string
  | InvalidCardIin
  | InvalidCardIinLength
  | FileValidationFailed string
  | MissingFile
  | MissingDisputeId
  | MissingFilePurpose
  | MissingFileContentType
  | GenericNotFoundError string
  | GenericDuplicateError string
  | WebhookAuthenticationFailed
  | WebhookResourceNotFound
  | WebhookBadRequest
  | WebhookProcessingFailure
  | IncorrectPaymentMethodConfiguration
  | WebhookUnprocessableEntity
  | PaymentLinkNotFound
  | WebhookInvalidMerchantSecret
  | CurrencyNotSupported string
  | HealthCheckError string string
  | InvalidConnectorConfiguration string
  | CurrencyConversionFailed
  | PaymentMethodDeleteFailed

text \<open>The code and the type that the attribute of each variant declares.\<close>

primrec declared_code :: "ApiErrorResponse \<Rightarrow> string" where
  "declared_code (ApiErrorResponse.NotImplemented _) = ''IR_00''"
| "declared_code ApiErrorResponse.Unauthorized = ''IR_01''"
| "declared_code ApiErrorResponse.InvalidRequestUrl = ''IR_02''"
| "declared_code ApiErrorResponse.InvalidHttpMethod = ''IR_03''"
| "declared_code (ApiErrorResponse.MissingRequiredField _) = ''IR_04''"
| "declared_code (ApiErrorResponse.InvalidDataFormat _ _) = ''IR_05''"
| "declared_code (ApiErrorResponse.InvalidRequestData _) = ''IR_06''"
| "declared_code (ApiErrorResponse.InvalidDataValue _) = ''IR_07''"
| "declared_code ApiErrorResponse.ClientSecretNotGiven = ''IR_08''"
| "declared_code ApiErrorResponse.ClientSecretExpired = ''IR_08''"
| "declared_code ApiErrorResponse.ClientSecretInvalid = ''IR_09''"
| "declared_code ApiErrorResponse.MandateActive = ''IR_10''"
| "declared_code ApiErrorResponse.CustomerRedacted = ''IR_11''"
| "declared_code ApiErrorResponse.MaximumRefundCount = ''IR_12''"
| "declared_code ApiErrorResponse.RefundAmountExceedsPaymentAmount = ''IR_13''"
| "declared_code (ApiErrorResponse.PaymentUnexpectedState _ _ _ _) = ''IR_14''"
| "declared_code ApiErrorResponse.InvalidEphemeralKey = ''IR_15''"
| "declared_code (ApiErrorResponse.PreconditionFailed _) = ''IR_16''"
| "declared_code ApiErrorResponse.InvalidJwtToken = ''IR_17''"
| "declared_code (ApiErrorResponse.GenericUnauthorized _) = ''IR_18''"
| "declared_code (ApiErrorResponse.NotSupported _) = ''IR_19''"
| "declared_code (ApiErrorResponse.FlowNotSupported _ _) = ''IR_20''"
| "declared_code (ApiErrorResponse.MissingRequiredFields _) = ''IR_21''"
| "declared_code (ApiErrorResponse.AccessForbidden _) = ''IR_22''"
| "declared_code (ApiErrorResponse.FileProviderNotSupported _) = ''IR_23''"
| "declared_code (ApiErrorResponse.UnprocessableEntity _) = ''IR_23''"
| "declared_code (ApiErrorResponse.ExternalConnectorError _ _ _ _ _) = ''CE_00''"
| "declared_code (ApiErrorResponse.PaymentAuthorizationFailed _) = ''CE_01''"
| "declared_code (ApiErrorResponse.PaymentAuthenticationFailed _) = ''CE_02''"
| "declared_code (ApiErrorResponse.PaymentCaptureFailed _) = ''CE_03''"
| "declared_code (ApiErrorResponse.InvalidCardData _) = ''CE_04''"
| "declared_code (ApiErrorResponse.PayoutFailed _) = ''CE_04''"
| "declared_code (ApiErrorResponse.CardExpired _) = ''CE_05''"
| "declared_code (ApiErrorResponse.RefundFailed _) = ''CE_06''"
| "declared_code (ApiErrorResponse.VerificationFailed _) = ''CE_07''"
| "declared_code (ApiErrorResponse.DisputeFailed _) = ''CE_08''"
| "declared_code ApiErrorResponse.InternalServerError = ''HE_00''"
| "declared_code ApiErrorResponse.ResourceBusy = ''HE_00''"
| "declared_code ApiErrorResponse.DuplicateRefundRequest = ''HE_01''"
| "declared_code ApiErrorResponse.DuplicateMandate = ''HE_01''"
| "declared_code ApiErrorResponse.DuplicateMerchantAccount = ''HE_01''"
| "declared_code (ApiErrorResponse.DuplicateMerchantConnectorAccount _ _) = ''HE_01''"
| "declared_code ApiErrorResponse.DuplicatePaymentMethod = ''HE_01''"
| "declared_code (ApiErrorResponse.DuplicatePayment _) = ''HE_01''"
| "declared_code (ApiErrorResponse.DuplicatePayout _) = ''HE_01''"
| "declared_code ApiErrorResponse.DuplicateConfig = ''HE_01''"
| "declared_code ApiErrorResponse.RefundNotFound = ''HE_02''"
| "declared_code ApiErrorResponse.CustomerNotFound = ''HE_02''"
| "declared_code ApiErrorResponse.ConfigNotFound = ''RE_02''"
| "declared_code ApiErrorResponse.PaymentNotFound = ''HE_02''"
| "declared_code ApiErrorResponse.PaymentMethodNotFound = ''HE_02''"
| "declared_code ApiErrorResponse.MerchantAccountNotFound = ''HE_02''"
| "declared_code (ApiErrorResponse.MerchantConnectorAccountNotFound _) = ''HE_02''"
| "declared_code (ApiErrorResponse.BusinessProfileNotFound _) = ''HE_02''"
| "declared_code ApiErrorResponse.ResourceIdNotFound = ''HE_02''"
| "declared_code ApiErrorResponse.MandateNotFound = ''HE_02''"
| "declared_code ApiErrorResponse.MandateUpdateFailed = ''HE_02''"
| "declared_code ApiErrorResponse.ApiKeyNotFound = ''HE_02''"
| "declared_code ApiErrorResponse.PayoutNotFound = ''HE_02''"
| "declared_code ApiErrorResponse.EventNotFound = ''HE_02''"
| "declared_code ApiErrorResponse.MandateSerializationFailed = ''HE_03''"
| "declared_code ApiErrorResponse.MandateDeserializationFailed = ''HE_03''"
| "declared_code ApiErrorResponse.ReturnUrlUnavailable = ''HE_03''"
| "declared_code (ApiErrorResponse.RefundNotPossible _) = ''HE_03''"
| "declared_code (ApiErrorResponse.MandateValidationFailed _) = ''HE_03''"
| "declared_code ApiErrorResponse.PaymentNotSucceeded = ''HE_03''"
| "declared_code ApiErrorResponse.MerchantConnectorAccountDisabled = ''HE_03''"
| "declared_code (ApiErrorResponse.PaymentBlockedError _ _ _ _) = ''HE_03''"
| "declared_code ApiErrorResponse.SuccessfulPaymentNotFound = ''HE_04''"
| "declared_code ApiErrorResponse.IncorrectConnectorNameGiven = ''HE_04''"
| "declared_code ApiErrorResponse.AddressNotFound = ''HE_04''"
| "declared_code (ApiErrorResponse.DisputeNotFound _) = ''HE_04''"
| "declared_code ApiErrorResponse.FileNotFound = ''HE_04''"
| "declared_code ApiErrorResponse.FileNotAvailable = ''HE_04''"
| "declared_code (ApiErrorResponse.DisputeStatusValidationFailed _) = ''HE_04''"
| "declared_code ApiErrorResponse.InvalidCardIin = ''HE_04''"
| "declared_code ApiErrorResponse.InvalidCardIinLength = ''HE_04''"
| "declared_code (ApiErrorResponse.FileValidationFailed _) = ''HE_03''"
| "declared_code ApiErrorResponse.MissingFile = ''HE_04''"
| "declared_code ApiErrorResponse.MissingDisputeId = ''HE_04''"
| "declared_code ApiErrorResponse.MissingFilePurpose = ''HE_04''"
| "declared_code ApiErrorResponse.MissingFileContentType = ''HE_04''"
| "declared_code (ApiErrorResponse.GenericNotFoundError _) = ''HE_05''"
| "declared_code (ApiErrorResponse.GenericDuplicateError _) = ''HE_01''"
| "declared_code ApiErrorResponse.WebhookAuthenticationFailed = ''WE_01''"
| "declared_code ApiErrorResponse.WebhookResourceNotFound = ''WE_04''"
| "declared_code ApiErrorResponse.WebhookBadRequest = ''WE_02''"
| "declared_code ApiErrorResponse.WebhookProcessingFailure = ''WE_03''"
| "declared_code ApiErrorResponse.IncorrectPaymentMethodConfiguration = ''HE_04''"
| "declared_code ApiErrorResponse.WebhookUnprocessableEntity = ''WE_05''"
| "declared_code ApiErrorResponse.PaymentLinkNotFound = ''HE_02''"
| "declared_code ApiErrorResponse.WebhookInvalidMerchantSecret = ''WE_05''"
| "declared_code (ApiErrorResponse.CurrencyNotSupported _) = ''IR_19''"
| "declared_code (ApiErrorResponse.HealthCheckError _ _) = ''HE_00''"
| "declared_code (ApiErrorResponse.InvalidConnectorConfiguration _) = ''IR_24''"
| "declared_code ApiErrorResponse.CurrencyConversionFailed = ''HE_01''"
| "declared_code ApiErrorResponse.PaymentMethodDeleteFailed = ''IR_25''"

primrec declared_type :: "ApiErrorResponse \<Rightarrow> ErrorType" where
  "declared_type (ApiErrorResponse.NotImplemented _) = ErrorType.ServerNotAvailable"
| "declared_type ApiErrorResponse.Unauthorized = ErrorType.InvalidRequestError"
| "declared_type ApiErrorResponse.InvalidRequestUrl = ErrorType.InvalidRequestError"
| "declared_type ApiErrorResponse.InvalidHttpMethod = ErrorType.InvalidRequestError"
| "declared_type (ApiErrorResponse.MissingRequiredField _) = ErrorType.InvalidRequestError"
| "declared_type (ApiErrorResponse.InvalidDataFormat _ _) = ErrorType.InvalidRequestError"
| "declared_type (ApiErrorResponse.InvalidRequestData _) = ErrorType.InvalidRequestError"
| "declared_type (ApiErrorResponse.InvalidDataValue _) = ErrorType.InvalidRequestError"
| "declared_type ApiErrorResponse.ClientSecretNotGiven = ErrorType.InvalidRequestError"
| "declared_type ApiErrorResponse.ClientSecretExpired = ErrorType.InvalidRequestError"
| "declared_type ApiErrorResponse.ClientSecretInvalid = ErrorType.InvalidRequestError"
| "declared_type ApiErrorResponse.MandateActive = ErrorType.InvalidRequestError"
| "declared_type ApiErrorResponse.CustomerRedacted = ErrorType.InvalidRequestError"
| "declared_type ApiErrorResponse.MaximumRefundCount = ErrorType.InvalidRequestError"
| "declared_type ApiErrorResponse.RefundAmountExceedsPaymentAmount = ErrorType.InvalidRequestError"
| "declared_type (ApiErrorResponse.PaymentUnexpectedState _ _ _ _) = ErrorType.InvalidRequestError"
| "declared_type ApiErrorResponse.InvalidEphemeralKey = ErrorType.InvalidRequestError"
| "declared_type (ApiErrorResponse.PreconditionFailed _) = ErrorType.InvalidRequestError"
| "declared_type ApiErrorResponse.InvalidJwtToken = ErrorType.InvalidRequestError"
| "declared_type (ApiErrorResponse.GenericUnauthorized _) = ErrorType.InvalidRequestError"
| "declared_type (ApiErrorResponse.NotSupported _) = ErrorType.InvalidRequestError"
| "declared_type (ApiErrorResponse.FlowNotSupported _ _) = ErrorType.InvalidRequestError"
| "declared_type (ApiErrorResponse.MissingRequiredFields _) = ErrorType.InvalidRequestError"
| "declared_type (ApiErrorResponse.AccessForbidden _) = ErrorType.InvalidRequestError"
| "declared_type (ApiErrorResponse.FileProviderNotSupported _) = ErrorType.InvalidRequestError"
| "declared_type (ApiErrorResponse.UnprocessableEntity _) = ErrorType.InvalidRequestError"
| "declared_type (ApiErrorResponse.ExternalConnectorError _ _ _ _ _) = ErrorType.ConnectorError"
| "declared_type (ApiErrorResponse.PaymentAuthorizationFailed _) = ErrorType.ProcessingError"
| "declared_type (ApiErrorResponse.PaymentAuthenticationFailed _) = ErrorType.ProcessingError"
| "declared_type (ApiErrorResponse.PaymentCaptureFailed _) = ErrorType.ProcessingError"
| "declared_type (ApiErrorResponse.InvalidCardData _) = ErrorType.ProcessingError"
| "declared_type (ApiErrorResponse.PayoutFailed _) = ErrorType.InvalidRequestError"
| "declared_type (ApiErrorResponse.CardExpired _) = ErrorType.ProcessingError"
| "declared_type (ApiErrorResponse.RefundFailed _) = ErrorType.ProcessingError"
| "declared_type (ApiErrorResponse.VerificationFailed _) = ErrorType.ProcessingError"
| "declared_type (ApiErrorResponse.DisputeFailed _) = ErrorType.ProcessingError"
| "declared_type ApiErrorResponse.InternalServerError = ErrorType.ServerNotAvailable"
| "declared_type ApiErrorResponse.ResourceBusy = ErrorType.LockTimeout"
| "declared_type ApiErrorResponse.DuplicateRefundRequest = ErrorType.DuplicateRequest"
| "declared_type ApiErrorResponse.DuplicateMandate = ErrorType.DuplicateRequest"
| "declared_type ApiErrorResponse.DuplicateMerchantAccount = ErrorType.DuplicateRequest"
| "declared_type (ApiErrorResponse.DuplicateMerchantConnectorAccount _ _) = ErrorType.DuplicateRequest"
| "declared_type ApiErrorResponse.DuplicatePaymentMethod = ErrorType.DuplicateRequest"
| "declared_type (ApiErrorResponse.DuplicatePayment _) = ErrorType.DuplicateRequest"
| "declared_type (ApiErrorResponse.DuplicatePayout _) = ErrorType.DuplicateRequest"
| "declared_type ApiErrorResponse.DuplicateConfig = ErrorType.DuplicateRequest"
| "declared_type ApiErrorResponse.RefundNotFound = ErrorType.ObjectNotFound"
| "declared_type ApiErrorResponse.CustomerNotFound = ErrorType.ObjectNotFound"
| "declared_type ApiErrorResponse.ConfigNotFound = ErrorType.ObjectNotFound"
| "declared_type ApiErrorResponse.PaymentNotFound = ErrorType.ObjectNotFound"
| "declared_type ApiErrorResponse.PaymentMethodNotFound = ErrorType.ObjectNotFound"
| "declared_type ApiErrorResponse.MerchantAccountNotFound = ErrorType.ObjectNotFound"
| "declared_type (ApiErrorResponse.MerchantConnectorAccountNotFound _) = ErrorType.ObjectNotFound"
| "declared_type (ApiErrorResponse.BusinessProfileNotFound _) = ErrorType.ObjectNotFound"
| "declared_type ApiErrorResponse.ResourceIdNotFound = ErrorType.ObjectNotFound"
| "declared_type ApiErrorResponse.MandateNotFound = ErrorType.ObjectNotFound"
| "declared_type ApiErrorResponse.MandateUpdateFailed = ErrorType.ObjectNotFound"
| "declared_type ApiErrorResponse.ApiKeyNotFound = ErrorType.ObjectNotFound"
| "declared_type ApiErrorResponse.PayoutNotFound = ErrorType.ObjectNotFound"
| "declared_type ApiErrorResponse.EventNotFound = ErrorType.ObjectNotFound"
| "declared_type ApiErrorResponse.MandateSerializationFailed = ErrorType.ValidationError"
| "declared_type ApiErrorResponse.MandateDeserializationFailed = ErrorType.ValidationError"
| "declared_type ApiErrorResponse.ReturnUrlUnavailable = ErrorType.ValidationError"
| "declared_type (ApiErrorResponse.RefundNotPossible _) = ErrorType.ValidationError"
| "declared_type (ApiErrorResponse.MandateValidationFailed _) = ErrorType.ValidationError"
| "declared_type ApiErrorResponse.PaymentNotSucceeded = ErrorType.ValidationError"
| "declared_type ApiErrorResponse.MerchantConnectorAccountDisabled = ErrorType.ValidationError"
| "declared_type (ApiErrorResponse.PaymentBlockedError _ _ _ _) = ErrorType.ValidationError"
| "declared_type ApiErrorResponse.SuccessfulPaymentNotFound = ErrorType.ObjectNotFound"
| "declared_type ApiErrorResponse.IncorrectConnectorNameGiven = ErrorType.ObjectNotFound"
| "declared_type ApiErrorResponse.AddressNotFound = ErrorType.ObjectNotFound"
| "declared_type (ApiErrorResponse.DisputeNotFound _) = ErrorType.ObjectNotFound"
| "declared_type ApiErrorResponse.FileNotFound = ErrorType.ObjectNotFound"
| "declared_type ApiErrorResponse.FileNotAvailable = ErrorType.ObjectNotFound"
| "declared_type (ApiErrorResponse.DisputeStatusValidationFailed _) = ErrorType.InvalidRequestError"
| "declared_type ApiErrorResponse.InvalidCardIin = ErrorType.InvalidRequestError"
| "declared_type ApiErrorResponse.InvalidCardIinLength = ErrorType.InvalidRequestError"
| "declared_type (ApiErrorResponse.FileValidationFailed _) = ErrorType.ValidationError"
| "declared_type ApiErrorResponse.MissingFile = ErrorType.InvalidRequestError"
| "declared_type ApiErrorResponse.MissingDisputeId = ErrorType.InvalidRequestError"
| "declared_type ApiErrorResponse.MissingFilePurpose = ErrorType.InvalidRequestError"
| "declared_type ApiErrorResponse.MissingFileContentType = ErrorType.InvalidRequestError"
| "declared_type (ApiErrorResponse.GenericNotFoundError _) = ErrorType.InvalidRequestError"
| "declared_type (ApiErrorResponse.GenericDuplicateError _) = ErrorType.InvalidRequestError"
| "declared_type ApiErrorResponse.WebhookAuthenticationFailed = ErrorType.InvalidRequestError"
| "declared_type ApiErrorResponse.WebhookResourceNotFound = ErrorType.ObjectNotFound"
| "declared_type ApiErrorResponse.WebhookBadRequest = ErrorType.InvalidRequestError"
| "declared_type ApiErrorResponse.WebhookProcessingFailure = ErrorType.RouterError"
| "declared_type ApiErrorResponse.IncorrectPaymentMethodConfiguration = ErrorType.InvalidRequestError"
| "declared_type ApiErrorResponse.WebhookUnprocessableEntity = ErrorType.InvalidRequestError"
| "declared_type ApiErrorResponse.PaymentLinkNotFound = ErrorType.ObjectNotFound"
| "declared_type ApiErrorResponse.WebhookInvalidMerchantSecret = ErrorType.InvalidRequestError"
| "declared_type (ApiErrorResponse.CurrencyNotSupported _) = ErrorType.InvalidRequestError"
| "declared_type (ApiErrorResponse.HealthCheckError _ _) = ErrorType.ServerNotAvailable"
| "declared_type (ApiErrorResponse.InvalidConnectorConfiguration _) = ErrorType.InvalidRequestError"
| "declared_type ApiErrorResponse.CurrencyConversionFailed = ErrorType.ValidationError"
| "declared_type ApiErrorResponse.PaymentMethodDeleteFailed = ErrorType.InvalidRequestError"

section \<open>The translation (transformers.rs)\<close>

primrec ApiErrorResponse_switch :: "(string list \<Rightarrow> json) \<Rightarrow> ApiErrorResponse \<Rightarrow> AER" where
  "ApiErrorResponse_switch json (ApiErrorResponse.NotImplemented message) =
     AER.NotImplemented (ApiError_new ''IR'' 0 (NotImplementedMessage_fmt message) None)"
| "ApiErrorResponse_switch json ApiErrorResponse.Unauthorized =
     AER.Unauthorized (ApiError_new ''IR'' 1 ''API key not provided or invalid API key used'' None)"
| "ApiErrorResponse_switch json ApiErrorResponse.InvalidRequestUrl =
     AER.NotFound (ApiError_new ''IR'' 2 ''Unrecognized request URL'' None)"
| "ApiErrorResponse_switch json ApiErrorResponse.InvalidHttpMethod =
     AER.MethodNotAllowed (ApiError_new ''IR'' 3 ''The HTTP method is not applicable for this API'' None)"
| "ApiErrorResponse_switch json (ApiErrorResponse.MissingRequiredField field_name) =
     AER.BadRequest (ApiError_new ''IR'' 4 (''Missing required param: '' @ field_name) None)"
| "ApiErrorResponse_switch json (ApiErrorResponse.InvalidDataFormat field_name expected_format) =
     AER.Unprocessable (ApiError_new ''IR'' 5 (field_name @ '' contains invalid data. Expected format is '' @ expected_format) None)"
| "ApiErrorResponse_switch json (ApiErrorResponse.InvalidRequestData message) =
     AER.Unprocessable (ApiError_new ''IR'' 6 message None)"
| "ApiErrorResponse_switch json (ApiErrorResponse.InvalidDataValue field_name) =
     AER.BadRequest (ApiError_new ''IR'' 7 (''Invalid value provided: '' @ field_name) None)"
| "ApiErrorResponse_switch json ApiErrorResponse.ClientSecretNotGiven =
     AER.BadRequest (ApiError_new ''IR'' 8 ''client_secret was not provided'' None)"
| "ApiErrorResponse_switch json ApiErrorResponse.ClientSecretExpired =
     AER.BadRequest (ApiError_new ''IR'' 19 ''The provided client_secret has expired'' None)"
| "ApiErrorResponse_switch json ApiErrorResponse.ClientSecretInvalid =
     AER.BadRequest (ApiError_new ''IR'' 9 ''The client_secret provided does not match the client_secret associated with the Payment'' None)"
| "ApiErrorResponse_switch json ApiErrorResponse.MandateActive =
     AER.BadRequest (ApiError_new ''IR'' 10 ''Customer has active mandate/subsciption'' None)"
| "ApiErrorResponse_switch json ApiErrorResponse.CustomerRedacted =
     AER.BadRequest (ApiError_new ''IR'' 11 ''Customer has already been redacted'' None)"
| "ApiErrorResponse_switch json ApiErrorResponse.MaximumRefundCount =
     AER.BadRequest (ApiError_new ''IR'' 12 ''Reached maximum refund attempts'' None)"
| "ApiErrorResponse_switch json ApiErrorResponse.RefundAmountExceedsPaymentAmount =
     AER.BadRequest (ApiError_new ''IR'' 13 ''The refund amount exceeds the amount captured'' None)"
| "ApiErrorResponse_switch json (ApiErrorResponse.PaymentUnexpectedState current_flow field_name current_value states) =
     AER.BadRequest (ApiError_new ''IR'' 14 (''This Payment could not be '' @ current_flow @ '' because it has a '' @ field_name @ '' of '' @ current_value @ ''. The expected state is '' @ states) None)"
| "ApiErrorResponse_switch json ApiErrorResponse.InvalidEphemeralKey =
     AER.Unauthorized (ApiError_new ''IR'' 15 ''Invalid Ephemeral Key for the customer'' None)"
| "ApiErrorResponse_switch json (ApiErrorResponse.PreconditionFailed message) =
     AER.BadRequest (ApiError_new ''IR'' 16 message None)"
| "ApiErrorResponse_switch json ApiErrorResponse.InvalidJwtToken =
     AER.Unauthorized (ApiError_new ''IR'' 17 ''Access forbidden, invalid JWT token was used'' None)"
| "ApiErrorResponse_switch json (ApiErrorResponse.GenericUnauthorized message) =
     AER.Unauthorized (ApiError_new ''IR'' 18 message None)"
| "ApiErrorResponse_switch json (ApiErrorResponse.NotSupported message) =
     AER.BadRequest (ApiError_new ''HE'' 3 ''Payment method type not supported'' (Some (Extra_default\<lparr>ex_reason := Some message\<rparr>)))"
| "ApiErrorResponse_switch json (ApiErrorResponse.FlowNotSupported flow connector) =
     AER.BadRequest (ApiError_new ''IR'' 20 (flow @ '' flow not supported'') (Some (Extra_default\<lparr>ex_connector := Some connector\<rparr>)))"
| "ApiErrorResponse_switch json (ApiErrorResponse.MissingRequiredFields field_names) =
     AER.BadRequest (ApiError_new ''IR'' 21 ''Missing required params'' (Some (Extra_default\<lparr>ex_data := Some (json field_names)\<rparr>)))"
| "ApiErrorResponse_switch json (ApiErrorResponse.AccessForbidden resource) =
     AER.ForbiddenCommonResource (ApiError_new ''IR'' 22 (''Access forbidden. Not authorized to access this resource '' @ resource) None)"
| "ApiErrorResponse_switch json (ApiErrorResponse.FileProviderNotSupported message) =
     AER.BadRequest (ApiError_new ''IR'' 23 message None)"
| "ApiErrorResponse_switch json (ApiErrorResponse.UnprocessableEntity message) =
     AER.Unprocessable (ApiError_new ''IR'' 23 message None)"
| "ApiErrorResponse_switch json (ApiErrorResponse.ExternalConnectorError code message connector status reason) =
     AER.ConnectorError (ApiError_new ''CE'' 0 (code @ '': '' @ message) (Some (Extra_default\<lparr>ex_connector := Some connector, ex_reason := reason\<rparr>)))
       (case StatusCode_from_u16 status of Some c \<Rightarrow> c | None \<Rightarrow> 500)"
| "ApiErrorResponse_switch json (ApiErrorResponse.PaymentAuthorizationFailed data) =
     AER.BadRequest (ApiError_new ''CE'' 1 ''Payment failed during authorization with connector. Retry payment'' (Some (Extra_default\<lparr>ex_data := data\<rparr>)))"
| "ApiErrorResponse_switch json (ApiErrorResponse.PaymentAuthenticationFailed data) =
     AER.BadRequest (ApiError_new ''CE'' 2 ''Payment failed during authentication with connector. Retry payment'' (Some (Extra_default\<lparr>ex_data := data\<rparr>)))"
| "ApiErrorResponse_switch json (ApiErrorResponse.PaymentCaptureFailed data) =
     AER.BadRequest (ApiError_new ''CE'' 3 ''Capture attempt failed while processing with connector'' (Some (Extra_default\<lparr>ex_data := data\<rparr>)))"
| "ApiErrorResponse_switch json (ApiErrorResponse.InvalidCardData data) =
     AER.BadRequest (ApiError_new ''CE'' 4 ''The card data is invalid'' (Some (Extra_default\<lparr>ex_data := data\<rparr>)))"
| "ApiErrorResponse_switch json (ApiErrorResponse.PayoutFailed data) =
     AER.BadRequest (ApiError_new ''CE'' 4 ''Payout failed while processing with connector.'' (Some (Extra_default\<lparr>ex_data := data\<rparr>)))"
| "ApiErrorResponse_switch json (ApiErrorResponse.CardExpired data) =
     AER.BadRequest (ApiError_new ''CE'' 5 ''The card has expired'' (Some (Extra_default\<lparr>ex_data := data\<rparr>)))"
| "ApiErrorResponse_switch json (ApiErrorResponse.RefundFailed data) =
     AER.BadRequest (ApiError_new ''CE'' 6 ''Refund failed while processing with connector. Retry refund'' (Some (Extra_default\<lparr>ex_data := data\<rparr>)))"
| "ApiErrorResponse_switch json (ApiErrorResponse.VerificationFailed data) =
     AER.BadRequest (ApiError_new ''CE'' 7 ''Verification failed while processing with connector. Retry operation'' (Some (Extra_default\<lparr>ex_data := data\<rparr>)))"
| "ApiErrorResponse_switch json (ApiErrorResponse.DisputeFailed data) =
     AER.BadRequest (ApiError_new ''CE'' 1 ''Dispute operation failed while processing with connector. Retry operation'' (Some (Extra_default\<lparr>ex_data := data\<rparr>)))"
| "ApiErrorResponse_switch json ApiErrorResponse.InternalServerError =
     AER.InternalServerError (ApiError_new ''HE'' 0 ''Something went wrong'' None)"
| "ApiErrorResponse_switch json ApiErrorResponse.ResourceBusy =
     AER.Unprocessable (ApiError_new ''WE'' 5 ''There was an issue processing the webhook body'' None)"
| "ApiErrorResponse_switch json ApiErrorResponse.DuplicateRefundRequest =
     AER.BadRequest (ApiError_new ''HE'' 1 ''Duplicate refund request. Refund already attempted with the refund ID'' None)"
| "ApiErrorResponse_switch json ApiErrorResponse.DuplicateMandate =
     AER.BadRequest (ApiError_new ''HE'' 1 ''Duplicate mandate request. Mandate already attempted with the Mandate ID'' None)"
| "ApiErrorResponse_switch json ApiErrorResponse.DuplicateMerchantAccount =
     AER.BadRequest (ApiError_new ''HE'' 1 ''The merchant account with the specified details already exists in our records'' None)"
| "ApiErrorResponse_switch json (ApiErrorResponse.DuplicateMerchantConnectorAccount profile_id connector_name) =
     AER.BadRequest (ApiError_new ''HE'' 1 (''The merchant connector account with the specified profile_id '' @ [CHR 0x27] @ profile_id @ [CHR 0x27] @ '' and connector_label '' @ [CHR 0x27] @ connector_name @ [CHR 0x27] @ '' already exists in our records'') None)"
| "ApiErrorResponse_switch json ApiErrorResponse.DuplicatePaymentMethod =
     AER.BadRequest (ApiError_new ''HE'' 1 ''The payment method with the specified details already exists in our records'' None)"
| "ApiErrorResponse_switch json (ApiErrorResponse.DuplicatePayment payment_id) =
     AER.BadRequest (ApiError_new ''HE'' 1 ''The payment with the specified payment_id already exists in our records'' (Some (Extra_default\<lparr>ex_reason := Some (payment_id @ '' already exists'')\<rparr>)))"
| "ApiErrorResponse_switch json (ApiErrorResponse.DuplicatePayout payout_id) =
     AER.BadRequest (ApiError_new ''HE'' 1 (''The payout with the specified payout_id '' @ [CHR 0x27] @ payout_id @ [CHR 0x27] @ '' already exists in our records'') None)"
| "ApiErrorResponse_switch json ApiErrorResponse.DuplicateConfig =
     AER.BadRequest (ApiError_new ''HE'' 1 ''The config with the specified key already exists in our records'' None)"
| "ApiErrorResponse_switch json ApiErrorResponse.RefundNotFound =
     AER.NotFound (ApiError_new ''HE'' 2 ''Refund does not exist in our records.'' None)"
| "ApiErrorResponse_switch json ApiErrorResponse.CustomerNotFound =
     AER.NotFound (ApiError_new ''HE'' 2 ''Customer does not exist in our records'' None)"
| "ApiErrorResponse_switch json ApiErrorResponse.ConfigNotFound =
     AER.NotFound (ApiError_new ''HE'' 2 ''Config key does not exist in our records.'' None)"
| "ApiErrorResponse_switch json ApiErrorResponse.PaymentNotFound =
     AER.NotFound (ApiError_new ''HE'' 2 ''Payment does not exist in our records'' None)"
| "ApiErrorResponse_switch json ApiErrorResponse.PaymentMethodNotFound =
     AER.NotFound (ApiError_new ''HE'' 2 ''Payment method does not exist in our records'' None)"
| "ApiErrorResponse_switch json ApiErrorResponse.MerchantAccountNotFound =
     AER.NotFound (ApiError_new ''HE'' 2 ''Merchant account does not exist in our records'' None)"
| "ApiErrorResponse_switch json (ApiErrorResponse.MerchantConnectorAccountNotFound ident) =
     AER.NotFound (ApiError_new ''HE'' 2 ''Merchant connector account does not exist in our records'' (Some (Extra_default\<lparr>ex_reason := Some (ident @ '' does not exist'')\<rparr>)))"
| "ApiErrorResponse_switch json (ApiErrorResponse.BusinessProfileNotFound ident) =
     AER.NotFound (ApiError_new ''HE'' 2 (''Business profile with the given id '' @ ident @ '' does not exist'') None)"
| "ApiErrorResponse_switch json ApiErrorResponse.ResourceIdNotFound =
     AER.NotFound (ApiError_new ''HE'' 2 ''Resource ID does not exist in our records'' None)"
| "ApiErrorResponse_switch json ApiErrorResponse.MandateNotFound =
     AER.NotFound (ApiError_new ''HE'' 2 ''Mandate does not exist in our records'' None)"
| "ApiErrorResponse_switch json ApiErrorResponse.MandateUpdateFailed =
     AER.InternalServerError (ApiError_new ''HE'' 0 ''Something went wrong'' None)"
| "ApiErrorResponse_switch json ApiErrorResponse.ApiKeyNotFound =
     AER.NotFound (ApiError_new ''HE'' 2 ''API Key does not exist in our records'' None)"
| "ApiErrorResponse_switch json ApiErrorResponse.PayoutNotFound =
     AER.NotFound (ApiError_new ''HE'' 2 ''Payout does not exist in our records'' None)"
| "ApiErrorResponse_switch json ApiErrorResponse.EventNotFound =
     AER.NotFound (ApiError_new ''HE'' 2 ''Event does not exist in our records'' None)"
| "ApiErrorResponse_switch json ApiErrorResponse.MandateSerializationFailed =
     AER.InternalServerError (ApiError_new ''HE'' 0 ''Something went wrong'' None)"
| "ApiErrorResponse_switch json ApiErrorResponse.MandateDeserializationFailed =
     AER.InternalServerError (ApiError_new ''HE'' 0 ''Something went wrong'' None)"
| "ApiErrorResponse_switch json ApiErrorResponse.ReturnUrlUnavailable =
     AER.NotFound (ApiError_new ''HE'' 3 ''Return URL is not configured and not passed in payments request'' None)"
| "ApiErrorResponse_switch json (ApiErrorResponse.RefundNotPossible connector) =
     AER.BadRequest (ApiError_new ''HE'' 3 (''This refund is not possible through Hyperswitch. Please raise the refund through '' @ connector @ '' dashboard'') None)"
| "ApiErrorResponse_switch json (ApiErrorResponse.MandateValidationFailed reason) =
     AER.BadRequest (ApiError_new ''HE'' 3 ''Mandate Validation Failed'' (Some (Extra_default\<lparr>ex_reason := Some reason\<rparr>)))"
| "ApiErrorResponse_switch json ApiErrorResponse.PaymentNotSucceeded =
     AER.BadRequest (ApiError_new ''HE'' 3 ''The payment has not succeeded yet. Please pass a successful payment to initiate refund'' None)"
| "ApiErrorResponse_switch json ApiErrorResponse.MerchantConnectorAccountDisabled =
     AER.BadRequest (ApiError_new ''HE'' 3 ''The selected merchant connector account is disabled'' None)"
| "ApiErrorResponse_switch json (ApiErrorResponse.PaymentBlockedError _ message _ reason) =
     AER.DomainError (ApiError_new ''HE'' 3 message (Some (Extra_default\<lparr>ex_reason := Some reason\<rparr>)))"
| "ApiErrorResponse_switch json ApiErrorResponse.SuccessfulPaymentNotFound =
     AER.NotFound (ApiError_new ''HE'' 4 ''Successful payment not found for the given payment id'' None)"
| "ApiErrorResponse_switch json ApiErrorResponse.IncorrectConnectorNameGiven =
     AER.NotFound (ApiError_new ''HE'' 4 ''The connector provided in the request is incorrect or not available'' None)"
| "ApiErrorResponse_switch json ApiErrorResponse.AddressNotFound =
     AER.NotFound (ApiError_new ''HE'' 4 ''Address does not exist in our records'' None)"
| "ApiErrorResponse_switch json (ApiErrorResponse.DisputeNotFound _) =
     AER.NotFound (ApiError_new ''HE'' 2 ''Dispute does not exist in our records'' None)"
| "ApiErrorResponse_switch json ApiErrorResponse.FileNotFound =
     AER.NotFound (ApiError_new ''HE'' 2 ''File does not exist in our records'' None)"
| "ApiErrorResponse_switch json ApiErrorResponse.FileNotAvailable =
     AER.NotFound (ApiError_new ''HE'' 2 ''File not available'' None)"
| "ApiErrorResponse_switch json (ApiErrorResponse.DisputeStatusValidationFailed _) =
     AER.BadRequest (ApiError_new ''HE'' 2 ''Dispute status validation failed'' None)"
| "ApiErrorResponse_switch json ApiErrorResponse.InvalidCardIin =
     AER.BadRequest (ApiError_new ''HE'' 3 ''The provided card IIN does not exist'' None)"
| "ApiErrorResponse_switch json ApiErrorResponse.InvalidCardIinLength =
     AER.BadRequest (ApiError_new ''HE'' 3 ''The provided card IIN length is invalid, please provide an IIN with 6 digits'' None)"
| "ApiErrorResponse_switch json (ApiErrorResponse.FileValidationFailed reason) =
     AER.BadRequest (ApiError_new ''HE'' 2 (''File validation failed '' @ reason) None)"
| "ApiErrorResponse_switch json ApiErrorResponse.MissingFile =
     AER.BadRequest (ApiError_new ''HE'' 2 ''File not found in the request'' None)"
| "ApiErrorResponse_switch json ApiErrorResponse.MissingDisputeId =
     AER.BadRequest (ApiError_new ''HE'' 2 ''Dispute id not found in the request'' None)"
| "ApiErrorResponse_switch json ApiErrorResponse.MissingFilePurpose =
     AER.BadRequest (ApiError_new ''HE'' 2 ''File purpose not found in the request or is invalid'' None)"
| "ApiErrorResponse_switch json ApiErrorResponse.MissingFileContentType =
     AER.BadRequest (ApiError_new ''HE'' 2 ''File content type not found'' None)"
| "ApiErrorResponse_switch json (ApiErrorResponse.GenericNotFoundError message) =
     AER.NotFound (ApiError_new ''HE'' 5 message None)"
| "ApiErrorResponse_switch json (ApiErrorResponse.GenericDuplicateError message) =
     AER.BadRequest (ApiError_new ''HE'' 1 message None)"
| "ApiErrorResponse_switch json ApiErrorResponse.WebhookAuthenticationFailed =
     AER.Unauthorized (ApiError_new ''WE'' 1 ''Webhook authentication failed'' None)"
| "ApiErrorResponse_switch json ApiErrorResponse.WebhookResourceNotFound =
     AER.NotFound (ApiError_new ''WE'' 4 ''Webhook resource was not found'' None)"
| "ApiErrorResponse_switch json ApiErrorResponse.WebhookBadRequest =
     AER.BadRequest (ApiError_new ''WE'' 2 ''Bad request body received'' None)"
| "ApiErrorResponse_switch json ApiErrorResponse.WebhookProcessingFailure =
     AER.InternalServerError (ApiError_new ''WE'' 3 ''There was an issue processing the webhook'' None)"
| "ApiErrorResponse_switch json ApiErrorResponse.IncorrectPaymentMethodConfiguration =
     AER.BadRequest (ApiError_new ''HE'' 4 ''No eligible connector was found for the current payment method configuration'' None)"
| "ApiErrorResponse_switch json ApiErrorResponse.WebhookUnprocessableEntity =
     AER.Unprocessable (ApiError_new ''WE'' 5 ''There was an issue processing the webhook body'' None)"
| "ApiErrorResponse_switch json ApiErrorResponse.PaymentLinkNotFound =
     AER.NotFound (ApiError_new ''HE'' 2 ''Payment Link does not exist in our records'' None)"
| "ApiErrorResponse_switch json ApiErrorResponse.WebhookInvalidMerchantSecret =
     AER.BadRequest (ApiError_new ''WE'' 2 ''Merchant Secret set for webhook source verificartion is invalid'' None)"
| "ApiErrorResponse_switch json (ApiErrorResponse.CurrencyNotSupported message) =
     AER.BadRequest (ApiError_new ''IR'' 9 message None)"
| "ApiErrorResponse_switch json (ApiErrorResponse.HealthCheckError component message) =
     AER.InternalServerError (ApiError_new ''HE'' 0 (component @ '' health check failed with error: '' @ message) None)"
| "ApiErrorResponse_switch json (ApiErrorResponse.InvalidConnectorConfiguration config) =
     AER.BadRequest (ApiError_new ''IR'' 24 (''Merchant connector account is configured with invalid '' @ config) None)"
| "ApiErrorResponse_switch json ApiErrorResponse.CurrencyConversionFailed =
     AER.Unprocessable (ApiError_new ''HE'' 2 ''Failed to convert currency to minor unit'' None)"
| "ApiErrorResponse_switch json ApiErrorResponse.PaymentMethodDeleteFailed =
     AER.BadRequest (ApiError_new ''IR'' 25 ''Cannot delete the default payment method'' None)"

definition ApiErrorResponse_status_code :: "(string list \<Rightarrow> json) \<Rightarrow> ApiErrorResponse \<Rightarrow> 16 word" where
  "ApiErrorResponse_status_code json self = status_code (ApiErrorResponse_switch json self)"

section \<open>Customers\<close>

datatype CustomersErrorResponse =
  CustomerRedacted | InternalServerError | MandateActive | CustomerNotFound | CustomerAlreadyExists

primrec CustomersErrorResponse_switch :: "CustomersErrorResponse \<Rightarrow> AER" where
  "CustomersErrorResponse_switch CustomersErrorResponse.CustomerRedacted = AER.BadRequest (ApiError_new ''IR'' 11 ''Customer has already been redacted'' None)"
| "CustomersErrorResponse_switch CustomersErrorResponse.InternalServerError = AER.InternalServerError (ApiError_new ''HE'' 0 ''Something went wrong'' None)"
| "CustomersErrorResponse_switch CustomersErrorResponse.MandateActive = AER.BadRequest (ApiError_new ''IR'' 10 ''Customer has active mandate/subsciption'' None)"
| "CustomersErrorResponse_switch CustomersErrorResponse.CustomerNotFound = AER.NotFound (ApiError_new ''HE'' 2 ''Customer does not exist in our records'' None)"
| "CustomersErrorResponse_switch CustomersErrorResponse.CustomerAlreadyExists = AER.BadRequest (ApiError_new ''IR'' 12 ''Customer with the given `customer_id` already exists'' None)"

definition StorageError_switch :: "StorageError \<Rightarrow> CustomersErrorResponse" where
  "StorageError_switch err =
     (if is_db_not_found err then CustomersErrorResponse.CustomerNotFound
      else if err = StorageError.CustomerRedacted then CustomersErrorResponse.CustomerRedacted
      else CustomersErrorResponse.InternalServerError)"

definition ApiErrorResponse_to_customers :: "ApiErrorResponse \<Rightarrow> CustomersErrorResponse" where
  "ApiErrorResponse_to_customers err =
     (case err of
        ApiErrorResponse.MandateActive \<Rightarrow> CustomersErrorResponse.MandateActive
      | ApiErrorResponse.CustomerNotFound \<Rightarrow> CustomersErrorResponse.CustomerNotFound
      | _ \<Rightarrow> CustomersErrorResponse.InternalServerError)"

section \<open>Users (errors/user.rs)\<close>

datatype UserErrors =
    InternalServerError
  | InvalidCredentials
  | UserNotFound
  | UserExists
  | LinkInvalid
  | UnverifiedUser
  | InvalidOldPassword
  | EmailParsingError
  | NameParsingError
  | PasswordParsingError
  | UserAlreadyVerified
  | CompanyNameParsingError
  | MerchantAccountCreationError string
  | InvalidEmailError
  | DuplicateOrganizationId
  | MerchantIdNotFound
  | MetadataAlreadySet
  | InvalidRoleId
  | InvalidRoleOperation
  | IpAddressParsingFailed
  | InvalidMetadataRequest
  | MerchantIdParsingError
  | ChangePasswordError
  | InvalidDeleteOperation
  | MaxInvitationsError
  | RoleNotFound
  | InvalidRoleOperationWithMessage string
  | RoleNameParsingError
  | RoleNameAlreadyExists

primrec UserErrors_get_error_message :: "UserErrors \<Rightarrow> string" where
  "UserErrors_get_error_message UserErrors.InternalServerError = ''Something went wrong''"
| "UserErrors_get_error_message UserErrors.InvalidCredentials = ''Incorrect email or password''"
| "UserErrors_get_error_message UserErrors.UserNotFound = ''Email doesn'' @ [CHR 0xE2, CHR 0x80, CHR 0x99] @ ''t exist. Register''"
| "UserErrors_get_error_message UserErrors.UserExists = ''An account already exists with this email''"
| "UserErrors_get_error_message UserErrors.LinkInvalid = ''Invalid or expired link''"
| "UserErrors_get_error_message UserErrors.UnverifiedUser = ''Kindly verify your account''"
| "UserErrors_get_error_message UserErrors.InvalidOldPassword = ''Old password incorrect. Please enter the correct password''"
| "UserErrors_get_error_message UserErrors.EmailParsingError = ''Invalid Email''"
| "UserErrors_get_error_message UserErrors.NameParsingError = ''Invalid Name''"
| "UserErrors_get_error_message UserErrors.PasswordParsingError = ''Invalid Password''"
| "UserErrors_get_error_message UserErrors.UserAlreadyVerified = ''User already verified''"
| "UserErrors_get_error_message UserErrors.CompanyNameParsingError = ''Invalid Company Name''"
| "UserErrors_get_error_message (UserErrors.MerchantAccountCreationError message) = message"
| "UserErrors_get_error_message UserErrors.InvalidEmailError = ''Invalid Email''"
| "UserErrors_get_error_message UserErrors.DuplicateOrganizationId = ''An Organization with the id already exists''"
| "UserErrors_get_error_message UserErrors.MerchantIdNotFound = ''Invalid Merchant ID''"
| "UserErrors_get_error_message UserErrors.MetadataAlreadySet = ''Metadata already set''"
| "UserErrors_get_error_message UserErrors.InvalidRoleId = ''Invalid Role ID''"
| "UserErrors_get_error_message UserErrors.InvalidRoleOperation = ''User Role Operation Not Supported''"
| "UserErrors_get_error_message UserErrors.IpAddressParsingFailed = ''Something went wrong''"
| "UserErrors_get_error_message UserErrors.InvalidMetadataRequest = ''Invalid Metadata Request''"
| "UserErrors_get_error_message UserErrors.MerchantIdParsingError = ''Invalid Merchant Id''"
| "UserErrors_get_error_message UserErrors.ChangePasswordError = ''Old and new password cannot be the same''"
| "UserErrors_get_error_message UserErrors.InvalidDeleteOperation = ''Delete Operation Not Supported''"
| "UserErrors_get_error_message UserErrors.MaxInvitationsError = ''Maximum invite count per request exceeded''"
| "UserErrors_get_error_message UserErrors.RoleNotFound = ''Role Not Found''"
| "UserErrors_get_error_message (UserErrors.InvalidRoleOperationWithMessage message) = message"
| "UserErrors_get_error_message UserErrors.RoleNameParsingError = ''Invalid Role Name''"
| "UserErrors_get_error_message UserErrors.RoleNameAlreadyExists = ''Role name already exists''"

primrec UserErrors_switch :: "UserErrors \<Rightarrow> AER" where
  "UserErrors_switch UserErrors.InternalServerError = AER.InternalServerError (ApiError_new ''HE'' 0
     (UserErrors_get_error_message UserErrors.InternalServerError) None)"
| "UserErrors_switch UserErrors.InvalidCredentials = AER.Unauthorized (ApiError_new ''UR'' 1
     (UserErrors_get_error_message UserErrors.InvalidCredentials) None)"
| "UserErrors_switch UserErrors.UserNotFound = AER.Unauthorized (ApiError_new ''UR'' 2
     (UserErrors_get_error_message UserErrors.UserNotFound) None)"
| "UserErrors_switch UserErrors.UserExists = AER.BadRequest (ApiError_new ''UR'' 3
     (UserErrors_get_error_message UserErrors.UserExists) None)"
| "UserErrors_switch UserErrors.LinkInvalid = AER.Unauthorized (ApiError_new ''UR'' 4
     (UserErrors_get_error_message UserErrors.LinkInvalid) None)"
| "UserErrors_switch UserErrors.UnverifiedUser = AER.Unauthorized (ApiError_new ''UR'' 5
     (UserErrors_get_error_message UserErrors.UnverifiedUser) None)"
| "UserErrors_switch UserErrors.InvalidOldPassword = AER.BadRequest (ApiError_new ''UR'' 6
     (UserErrors_get_error_message UserErrors.InvalidOldPassword) None)"
| "UserErrors_switch UserErrors.EmailParsingError = AER.BadRequest (ApiError_new ''UR'' 7
     (UserErrors_get_error_message UserErrors.EmailParsingError) None)"
| "UserErrors_switch UserErrors.NameParsingError = AER.BadRequest (ApiError_new ''UR'' 8
     (UserErrors_get_error_message UserErrors.NameParsingError) None)"
| "UserErrors_switch UserErrors.PasswordParsingError = AER.BadRequest (ApiError_new ''UR'' 9
     (UserErrors_get_error_message UserErrors.PasswordParsingError) None)"
| "UserErrors_switch UserErrors.UserAlreadyVerified = AER.Unauthorized (ApiError_new ''UR'' 11
     (UserErrors_get_error_message UserErrors.UserAlreadyVerified) None)"
| "UserErrors_switch UserErrors.CompanyNameParsingError = AER.BadRequest (ApiError_new ''UR'' 14
     (UserErrors_get_error_message UserErrors.CompanyNameParsingError) None)"
| "UserErrors_switch (UserErrors.MerchantAccountCreationError m) = AER.InternalServerError (ApiError_new ''UR'' 15
     (UserErrors_get_error_message (UserErrors.MerchantAccountCreationError m)) None)"
| "UserErrors_switch UserErrors.InvalidEmailError = AER.BadRequest (ApiError_new ''UR'' 16
     (UserErrors_get_error_message UserErrors.InvalidEmailError) None)"
| "UserErrors_switch UserErrors.DuplicateOrganizationId = AER.InternalServerError (ApiError_new ''UR'' 21
     (UserErrors_get_error_message UserErrors.DuplicateOrganizationId) None)"
| "UserErrors_switch UserErrors.MerchantIdNotFound = AER.BadRequest (ApiError_new ''UR'' 18
     (UserErrors_get_error_message UserErrors.MerchantIdNotFound) None)"
| "UserErrors_switch UserErrors.MetadataAlreadySet = AER.BadRequest (ApiError_new ''UR'' 19
     (UserErrors_get_error_message UserErrors.MetadataAlreadySet) None)"
| "UserErrors_switch UserErrors.InvalidRoleId = AER.BadRequest (ApiError_new ''UR'' 22
     (UserErrors_get_error_message UserErrors.InvalidRoleId) None)"
| "UserErrors_switch UserErrors.InvalidRoleOperation = AER.BadRequest (ApiError_new ''UR'' 23
     (UserErrors_get_error_message UserErrors.InvalidRoleOperation) None)"
| "UserErrors_switch UserErrors.IpAddressParsingFailed = AER.InternalServerError (ApiError_new ''UR'' 24
     (UserErrors_get_error_message UserErrors.IpAddressParsingFailed) None)"
| "UserErrors_switch UserErrors.InvalidMetadataRequest = AER.BadRequest (ApiError_new ''UR'' 26
     (UserErrors_get_error_message UserErrors.InvalidMetadataRequest) None)"
| "UserErrors_switch UserErrors.MerchantIdParsingError = AER.BadRequest (ApiError_new ''UR'' 28
     (UserErrors_get_error_message UserErrors.MerchantIdParsingError) None)"
| "UserErrors_switch UserErrors.ChangePasswordError = AER.BadRequest (ApiError_new ''UR'' 29
     (UserErrors_get_error_message UserErrors.ChangePasswordError) None)"
| "UserErrors_switch UserErrors.InvalidDeleteOperation = AER.BadRequest (ApiError_new ''UR'' 30
     (UserErrors_get_error_message UserErrors.InvalidDeleteOperation) None)"
| "UserErrors_switch UserErrors.MaxInvitationsError = AER.BadRequest (ApiError_new ''UR'' 31
     (UserErrors_get_error_message UserErrors.MaxInvitationsError) None)"
| "UserErrors_switch UserErrors.RoleNotFound = AER.BadRequest (ApiError_new ''UR'' 32
     (UserErrors_get_error_message UserErrors.RoleNotFound) None)"
| "UserErrors_switch (UserErrors.InvalidRoleOperationWithMessage m) = AER.BadRequest (ApiError_new ''UR'' 33
     (UserErrors_get_error_message (UserErrors.InvalidRoleOperationWithMessage m)) None)"
| "UserErrors_switch UserErrors.RoleNameParsingError = AER.BadRequest (ApiError_new ''UR'' 34
     (UserErrors_get_error_message UserErrors.RoleNameParsingError) None)"
| "UserErrors_switch UserErrors.RoleNameAlreadyExists = AER.BadRequest (ApiError_new ''UR'' 35
     (UserErrors_get_error_message UserErrors.RoleNameAlreadyExists) None)"

section \<open>Properties\<close>

lemma pad2_numbers:
  shows "pad2 0 = ''00''"
  and "pad2 (Suc 0) = ''01''"
  and "pad2 2 = ''02''"
  and "pad2 3 = ''03''"
  and "pad2 4 = ''04''"
  and "pad2 5 = ''05''"
  and "pad2 6 = ''06''"
  and "pad2 7 = ''07''"
  and "pad2 8 = ''08''"
  and "pad2 9 = ''09''"
  and "pad2 10 = ''10''"
  and "pad2 11 = ''11''"
  and "pad2 12 = ''12''"
  and "pad2 13 = ''13''"
  and "pad2 14 = ''14''"
  and "pad2 15 = ''15''"
  and "pad2 16 = ''16''"
  and "pad2 17 = ''17''"
  and "pad2 18 = ''18''"
  and "pad2 19 = ''19''"
  and "pad2 20 = ''20''"
  and "pad2 21 = ''21''"
  and "pad2 22 = ''22''"
  and "pad2 23 = ''23''"
  and "pad2 24 = ''24''"
  and "pad2 25 = ''25''"
  by (simp_all add: pad2_def show_nat.simps digit_char_def)

text \<open>The status of an error answer is a client or server error, with two exceptions: a blocked
  payment is answered with 200, and a connector's error with the status the connector gave when that
  is a status at all, otherwise 500.\<close>

theorem api_error_status_class:
  "(400 \<le> ApiErrorResponse_status_code json e \<and> ApiErrorResponse_status_code json e \<le> 501) \<or>
   (\<exists>c m st r. e = ApiErrorResponse.PaymentBlockedError c m st r \<and> ApiErrorResponse_status_code json e = 200) \<or>
   (\<exists>c m cn st r. e = ApiErrorResponse.ExternalConnectorError c m cn st r \<and>
      ApiErrorResponse_status_code json e = (if 100 \<le> st \<and> st < 1000 then st else 500))"
  by (cases e) (simp_all add: ApiErrorResponse_status_code_def StatusCode_from_u16_def)

text \<open>The variants whose answer carries another code than the one declared.\<close>

definition renumbered :: "ApiErrorResponse \<Rightarrow> bool" where
  "renumbered e = (case e of
       ApiErrorResponse.ClientSecretExpired \<Rightarrow> True
     | ApiErrorResponse.NotSupported _ \<Rightarrow> True
     | ApiErrorResponse.DisputeFailed _ \<Rightarrow> True
     | ApiErrorResponse.ResourceBusy \<Rightarrow> True
     | ApiErrorResponse.ConfigNotFound \<Rightarrow> True
     | ApiErrorResponse.MandateUpdateFailed \<Rightarrow> True
     | ApiErrorResponse.MandateSerializationFailed \<Rightarrow> True
     | ApiErrorResponse.MandateDeserializationFailed \<Rightarrow> True
     | ApiErrorResponse.DisputeNotFound _ \<Rightarrow> True
     | ApiErrorResponse.FileNotFound \<Rightarrow> True
     | ApiErrorResponse.FileNotAvailable \<Rightarrow> True
     | ApiErrorResponse.DisputeStatusValidationFailed _ \<Rightarrow> True
     | ApiErrorResponse.InvalidCardIin \<Rightarrow> True
     | ApiErrorResponse.InvalidCardIinLength \<Rightarrow> True
     | ApiErrorResponse.FileValidationFailed _ \<Rightarrow> True
     | ApiErrorResponse.MissingFile \<Rightarrow> True
     | ApiErrorResponse.MissingDisputeId \<Rightarrow> True
     | ApiErrorResponse.MissingFilePurpose \<Rightarrow> True
     | ApiErrorResponse.MissingFileContentType \<Rightarrow> True
     | ApiErrorResponse.WebhookInvalidMerchantSecret \<Rightarrow> True
     | ApiErrorResponse.CurrencyNotSupported _ \<Rightarrow> True
     | ApiErrorResponse.CurrencyConversionFailed \<Rightarrow> True
     | _ \<Rightarrow> False)"

text \<open>The code an answer carries is the code its variant declares, except for the twenty-two
  variants of \<open>renumbered\<close>, whose answers carry another one.\<close>

theorem api_error_code_sent:
  "er_code (ErrorResponse_from (ApiErrorResponse_switch json e)) \<noteq> declared_code e \<longleftrightarrow> renumbered e"
  by (cases e) (simp_all add: ErrorResponse_from_def ApiError_new_def pad2_numbers renumbered_def)

end
