(* ===== verification/Environment.thy ===== *)
theory Environment
  imports Prelude
begin

text \<open>
  The environment of the services (\<open>router_env/src/env.rs\<close>) and where their configuration is
  (\<open>config_path\<close> of \<open>router_env/src/logger/config.rs\<close>).

  A path is its text; \<open>PathBuf::push\<close>, \<open>Path::parent\<close> and \<open>PathBuf::pop\<close> are modelled as they work on Unix. The
  environment variables are a map; \<open>debug\<close> says whether the build has debug assertions.
\<close>

section \<open>Paths\<close>

definition path_push :: "string \<Rightarrow> string \<Rightarrow> string" where
  "path_push self path =
     (if path \<noteq> [] \<and> hd path = CHR ''/'' then path
      else if self \<noteq> [] \<and> last self \<noteq> CHR ''/'' then self @ CHR ''/'' # path else self @ path)"

text \<open>Trailing separators and dots are no components; a dot at the start of a relative path is one.\<close>

definition trim_right :: "bool \<Rightarrow> string list \<Rightarrow> string list" where
  "trim_right has_root segs =
     (let kept = rev (dropWhile (\<lambda>s. s = [] \<or> s = ''.'') (rev segs)) in
      if kept = [] \<and> \<not> has_root \<and> segs \<noteq> [] \<and> hd segs = ''.'' then [''.''] else kept)"

definition path_parent :: "string \<Rightarrow> string option" where
  "path_parent path =
     (let has_root = path \<noteq> [] \<and> hd path = CHR ''/'';
          body = trim_right has_root (split_on CHR ''/'' (if has_root then tl path else path))
      in if body = [] then None
         else Some ((if has_root then ''/'' else []) @ join_with CHR ''/'' (trim_right has_root (butlast body))))"

definition path_pop :: "string \<Rightarrow> string" where
  "path_pop self = (case path_parent self of None \<Rightarrow> self | Some parent \<Rightarrow> parent)"

section \<open>The environment\<close>

datatype Env = Development | Sandbox | Production

fun Env_to_string :: "Env \<Rightarrow> string" where
  "Env_to_string Development = ''development''"
| "Env_to_string Sandbox = ''sandbox''"
| "Env_to_string Production = ''production''"

definition Env_from_str :: "string \<Rightarrow> Env option" where
  "Env_from_str s = (if s = ''development'' then Some Development else if s = ''sandbox'' then Some Sandbox
     else if s = ''production'' then Some Production else None)"

definition which :: "bool \<Rightarrow> (string \<rightharpoonup> string) \<Rightarrow> Env" where
  "which debug vars =
     (let default_env = (if debug then Development else Production) in
      case vars ''RUN_ENV'' of
        None \<Rightarrow> default_env
      | Some v \<Rightarrow> (case Env_from_str v of None \<Rightarrow> default_env | Some env \<Rightarrow> env))"

text \<open>The prefix of the environment in use, \<open>which\<close>.\<close>

fun prefix_for_env :: "Env \<Rightarrow> string" where
  "prefix_for_env Development = ''dev''"
| "prefix_for_env Sandbox = ''snd''"
| "prefix_for_env Production = ''prd''"

definition workspace_path :: "(string \<rightharpoonup> string) \<Rightarrow> string" where
  "workspace_path vars = (case vars ''CARGO_MANIFEST_DIR'' of Some manifest_dir \<Rightarrow> path_pop (path_pop manifest_dir) | None \<Rightarrow> ''.'')"

definition config_path :: "(string \<rightharpoonup> string) \<Rightarrow> string \<Rightarrow> string option \<Rightarrow> string" where
  "config_path vars environment explicit_config_path =
     (case explicit_config_path of
        Some path \<Rightarrow> path_push [] path
      | None \<Rightarrow>
          (let config_directory = (case vars ''CONFIG_DIR'' of None \<Rightarrow> ''config'' | Some d \<Rightarrow> d);
               config_file_name =
                 (if environment = ''production'' then ''production.toml''
                  else if environment = ''sandbox'' then ''sandbox.toml'' else ''development.toml'')
           in path_push (path_push (path_push [] (workspace_path vars)) config_directory) config_file_name))"

section \<open>Properties\<close>

lemma Env_roundtrip: "Env_from_str (Env_to_string e) = Some e"
  by (cases e) (simp_all add: Env_from_str_def)

lemma Env_from_str_Some: "Env_from_str s = Some e \<longleftrightarrow> s = Env_to_string e"
  by (cases e) (auto simp: Env_from_str_def)

text \<open>The configuration read is the one of the environment: the file name is that of the environment in use, and
  an environment variable with any other text means the default of the build.\<close>

lemma configuration_follows_environment:
  assumes "vars ''CARGO_MANIFEST_DIR'' = None" "vars ''CONFIG_DIR'' = None"
  shows "config_path vars (Env_to_string (which debug vars)) None =
      ''./config/'' @ Env_to_string (which debug vars) @ ''.toml''"
    and "(\<forall>e. vars ''RUN_ENV'' \<noteq> Some (Env_to_string e)) \<Longrightarrow> which debug vars = (if debug then Development else Production)"
  using assms Env_from_str_Some
  by (cases "which debug vars"; auto simp: config_path_def workspace_path_def path_push_def)
    (auto simp: which_def Env_from_str_Some split: option.splits)

end
