(* ===== verification/Repository.thy ===== *)
theory Repository
  imports Diesel_Generics
begin

text \<open>
  What the models with an own table share: the inserts and updates of the repositories
  (\<open>diesel_models/src/api_key/repository.rs\<close>, \<open>diesel_models/src/user/repository.rs\<close>) and the
  connections of a store (\<open>router/src/connection.rs\<close>). The locale \<open>pooled_table\<close> is a
  pool over a table that keeps the laws of SQL; the lemmas inside it are what the stores rest on.
\<close>

section \<open>Inserts and updates\<close>

text \<open>Inserting values without an id. When the column, which is NOT NULL, has no default, PostgreSQL
  refuses the row, and \<open>generic_insert\<close> reports every database error but a unique violation as
  \<open>Others\<close>. The update that falls back to reading the row when the changeset is empty is shared by
  all models.\<close>

definition insert_with_default ::
  "('d, 'r, string) diesel \<Rightarrow> string option \<Rightarrow> (string \<Rightarrow> 'r) \<Rightarrow> ('d, DatabaseError, 'r) eff" where
  "insert_with_default conn id_default mk =
     (case id_default of None \<Rightarrow> ethrow Others | Some i \<Rightarrow> generic_insert conn (mk i))"

definition update_or_find ::
  "('d, 'r, string) diesel \<Rightarrow> string \<Rightarrow> 'r changeset \<Rightarrow> ('d, DatabaseError, 'r) eff" where
  "update_or_find conn i values =
     ematch (generic_update_by_id conn i values)
       (\<lambda>error. if error = NoFieldsToUpdate then generic_find_by_id conn i else ethrow error)
       ereturn"

section \<open>Connections\<close>

text \<open>A store is its connection pool; \<open>pool.get()\<close> hands out a connection or fails.\<close>

type_synonym ('d, 'r) pg_pool = "('d, unit, ('d, 'r, string) diesel) eff"

definition router_pg_connection_read :: "('d, 'r) pg_pool \<Rightarrow> ('d, StorageError, ('d, 'r, string) diesel) eff" where
  "router_pg_connection_read store = change_context StorageError.DatabaseConnectionError store"

definition router_pg_connection_write :: "('d, 'r) pg_pool \<Rightarrow> ('d, StorageError, ('d, 'r, string) diesel) eff" where
  "router_pg_connection_write store = change_context StorageError.DatabaseConnectionError store"

section \<open>A pool over a table\<close>

text \<open>A pool hands out connections to one table or fails, and changes nothing.\<close>

locale pooled_table = db_lookup D pk dvalid tbl
  for D :: "('d, 'r, string) diesel" and pk and dvalid and tbl +
  fixes pg :: "('d, 'r) pg_pool"
  assumes pool_law: "dvalid s \<Longrightarrow> pg s = (x, s') \<Longrightarrow> dvalid s' \<and> tbl s' = tbl s \<and> (\<forall>c. x = Ok c \<longrightarrow> c = D)"
begin

lemma update_or_find_cases:
  assumes v: "dvalid s" and key: "\<forall>f. values = Some f \<longrightarrow> (\<forall>r. pk (f r) = pk r)"
    and run: "update_or_find D i values s = (x, s')"
  shows "dvalid s'"
    and "x = Ok y \<Longrightarrow> \<exists>r. tbl s i = Some r \<and> y = (case values of None \<Rightarrow> r | Some f \<Rightarrow> f r) \<and> tbl s' = (tbl s)(i \<mapsto> y)"
    and "x = Err DatabaseError.NotFound \<Longrightarrow> tbl s i = None \<and> tbl s' = tbl s"
proof -
  obtain z s1 where z: "generic_update_by_id D i values s = (z, s1)" by fastforce
  have "dvalid s' \<and> (x = Ok y \<longrightarrow> (\<exists>r. tbl s i = Some r \<and> y = (case values of None \<Rightarrow> r | Some f \<Rightarrow> f r) \<and>
      tbl s' = (tbl s)(i \<mapsto> y))) \<and> (x = Err DatabaseError.NotFound \<longrightarrow> tbl s i = None \<and> tbl s' = tbl s)"
  proof (cases "values")
    case None
    obtain z1 where z1: "d_update_by_id D i None s = (z1, s1)" "z = (case z1 of Inl e \<Rightarrow> Err (update_error e) | Inr a \<Rightarrow> Ok a)"
      using z None by (auto simp: generic_update_by_id_def emap_err_run split: prod.splits sum.splits)
    from update_by_id_none_law [OF v z1(1)] obtain e where e: "z1 = Err e" "e \<noteq> DieselNotFound"
      and s1: "dvalid s1" "tbl s1 = tbl s" by blast
    obtain z2 s2 where z2: "d_find D i s1 = (z2, s2)" by fastforce
    note f = find_law [OF s1(1) z2]
    have nf: "find_error e2 = DatabaseError.NotFound \<longleftrightarrow> e2 = DieselNotFound" for e2 by (cases e2) simp_all
    show ?thesis
    proof (cases "e = DieselQueryBuilderError")
      case True
      then have "update_or_find D i values s = (case z2 of Inl e2 \<Rightarrow> Err (find_error e2) | Inr a \<Rightarrow> Ok a, s2)"
        using z z1 z2 e by (simp add: update_or_find_def eff_simps generic_find_by_id_def generic_find_by_id_core_def
          split: sum.splits)
      then have x: "x = (case z2 of Inl e2 \<Rightarrow> Err (find_error e2) | Inr a \<Rightarrow> Ok a)" and s': "s' = s2"
        using run by simp_all
      show ?thesis
      proof (cases z2)
        case (Inl e2)
        then show ?thesis using f s1 x s' nf by simp
      next
        case (Inr a)
        then have "tbl s i = Some a" "tbl s' = tbl s" "dvalid s'" using f s1 s' by simp_all
        with x Inr None show ?thesis by (simp add: fun_upd_idem)
      qed
    next
      case False
      then have "update_error e \<noteq> NoFieldsToUpdate" "update_error e \<noteq> DatabaseError.NotFound"
        using e by (cases e; simp)+
      then show ?thesis using run z z1 e s1 by (auto simp: update_or_find_def eff_simps)
    qed
  next
    case (Some f)
    have "pk (f r) = pk r" for r using key Some by blast
    note u = generic_update_by_id_cases [OF v this z [unfolded Some]]
    then show ?thesis using run z Some
      by (auto simp: update_or_find_def eff_simps same_or_def split: sum.splits if_splits)
  qed
  then show "dvalid s'"
    and "x = Ok y \<Longrightarrow> \<exists>r. tbl s i = Some r \<and> y = (case values of None \<Rightarrow> r | Some f \<Rightarrow> f r) \<and> tbl s' = (tbl s)(i \<mapsto> y)"
    and "x = Err DatabaseError.NotFound \<Longrightarrow> tbl s i = None \<and> tbl s' = tbl s"
    by blast+
qed

text \<open>A query on a connection from the pool, its errors wrapped.\<close>

lemma pooled_query:
  assumes v: "dvalid s"
    and run: "ebind (router_pg_connection_write pg) (\<lambda>conn. emap_err StorageError.DatabaseError (q conn)) s = (x, s')"
  shows "(\<exists>e. x = Err e \<and> (e = StorageError.DatabaseConnectionError \<and> dvalid s' \<and> tbl s' = tbl s)) \<or>
    (\<exists>s1 z. dvalid s1 \<and> tbl s1 = tbl s \<and> q D s1 = (z, s') \<and>
       x = (case z of Inl e \<Rightarrow> Err (StorageError.DatabaseError e) | Inr a \<Rightarrow> Ok a))"
proof -
  obtain c s1 where c: "pg s = (c, s1)" by fastforce
  note l = pool_law [OF v c]
  show ?thesis
  proof (cases c)
    case (Inl e)
    with run c l show ?thesis by (auto simp: router_pg_connection_write_def eff_simps)
  next
    case (Inr conn)
    obtain z s2 where z: "q conn s1 = (z, s2)" by fastforce
    from Inr l have D: "conn = D" by blast
    have "ebind (router_pg_connection_write pg) (\<lambda>conn. emap_err StorageError.DatabaseError (q conn)) s =
        (case z of Inl e \<Rightarrow> Err (StorageError.DatabaseError e) | Inr a \<Rightarrow> Ok a, s2)"
      using c z Inr by (simp add: router_pg_connection_write_def eff_simps split: sum.splits)
    with run have "x = (case z of Inl e \<Rightarrow> Err (StorageError.DatabaseError e) | Inr a \<Rightarrow> Ok a)" "s' = s2" by simp_all
    with l z D show ?thesis by (intro disjI2 exI [of _ s1] exI [of _ z]) simp
  qed
qed

lemma read_write_same: "router_pg_connection_read pg = router_pg_connection_write pg"
  by (simp add: router_pg_connection_read_def router_pg_connection_write_def)

end

text \<open>A pool over the table in memory.\<close>

definition mem_pool :: "('r \<Rightarrow> string) \<Rightarrow> ('r list, 'r) pg_pool" where
  "mem_pool pk s = (Ok (mem_diesel pk), s)"

interpretation mem_pooled: pooled_table "mem_diesel pk" pk "mem_unique pk" "mem_rows pk" "mem_pool pk"
  by unfold_locales (auto simp: mem_pool_def)

end
