(* ===== verification/Api_Keys.thy ===== *)
theory Api_Keys
  imports Environment Repository Api_Errors
begin

text \<open>
  API keys: the model and its queries (\<open>diesel_models/src/api_key\<close>), the plaintext key and its hash
  (\<open>data_models/src/api_key.rs\<close>), the store's operations (\<open>modules/src/service/api_key.rs\<close>) and the
  handler that creates a key (\<open>modules/src/core/api_key.rs\<close>).

  The table is a \<open>diesel\<close> record as everywhere. A new key carries no id: the insert leaves that column to
  the database, so \<open>id_default\<close> is the default the table gives it, \<open>None\<close> when it has none. Parameters:
  the random string, the keyed hash (blake3) and \<open>hex::decode\<close>.
\<close>

section \<open>Data (diesel\_models)\<close>

datatype ApiKeyType = Publishable | Secret

datatype HashedApiKey = HashedApiKey string

record ApiKey =
  ak_id :: string
  ak_token :: HashedApiKey
  ak_salt :: string
  ak_redacted :: string
  ak_title :: string
  ak_type :: ApiKeyType
  ak_last_used_at :: "int option"
  ak_created_by :: string
  ak_created_at :: int
  ak_revoked_by :: "string option"
  ak_revoked_at :: "int option"

record ApiKeyNew =
  akn_token :: HashedApiKey
  akn_salt :: string
  akn_redacted :: string
  akn_title :: string
  akn_type :: ApiKeyType
  akn_last_used_at :: "int option"
  akn_created_by :: string
  akn_created_at :: int
  akn_revoked_by :: "string option"
  akn_revoked_at :: "int option"

text \<open>The fields of a variant in the order the source lists them.\<close>

datatype ApiKeyUpdate =
    Update "string option" "ApiKeyType option" "int option option" "string option option" "int option option"
  | Upsert "HashedApiKey option" "string option" "string option" "string option" "ApiKeyType option"
      "string option" "int option" "int option option" "string option option" "int option option"
  | Revoke "string option" "int option"
  | LastUsedUpdate "int option"

record ApiKeyUpdateInternal =
  aku_token :: "HashedApiKey option"
  aku_salt :: "string option"
  aku_redacted :: "string option"
  aku_title :: "string option"
  aku_type :: "ApiKeyType option"
  aku_created_by :: "string option"
  aku_created_at :: "int option"
  aku_last_used_at :: "int option option"
  aku_revoked_by :: "string option option"
  aku_revoked_at :: "int option option"

fun ApiKeyUpdateInternal_from :: "ApiKeyUpdate \<Rightarrow> ApiKeyUpdateInternal" where
  "ApiKeyUpdateInternal_from (Update title ty last_used_at revoked_by revoked_at) = \<lparr>
     aku_token = None, aku_salt = None, aku_redacted = None, aku_title = title, aku_type = ty,
     aku_created_by = None, aku_created_at = None,
     aku_last_used_at = last_used_at, aku_revoked_by = revoked_by, aku_revoked_at = revoked_at\<rparr>"
| "ApiKeyUpdateInternal_from (Upsert token salt redacted title ty created_by created_at
     last_used_at revoked_by revoked_at) = \<lparr>
     aku_token = token, aku_salt = salt, aku_redacted = redacted, aku_title = title, aku_type = ty,
     aku_created_by = created_by, aku_created_at = created_at,
     aku_last_used_at = last_used_at, aku_revoked_by = revoked_by, aku_revoked_at = revoked_at\<rparr>"
| "ApiKeyUpdateInternal_from (Revoke revoked_by revoked_at) = \<lparr>
     aku_token = None, aku_salt = None, aku_redacted = None, aku_title = None, aku_type = None,
     aku_created_by = None, aku_created_at = None,
     aku_last_used_at = None, aku_revoked_by = Some revoked_by, aku_revoked_at = Some revoked_at\<rparr>"
| "ApiKeyUpdateInternal_from (LastUsedUpdate last_used_at) = \<lparr>
     aku_token = None, aku_salt = None, aku_redacted = None, aku_title = None, aku_type = None,
     aku_created_by = None, aku_created_at = None,
     aku_last_used_at = Some last_used_at, aku_revoked_by = None, aku_revoked_at = None\<rparr>"

definition ApiKeyNew_try_from :: "ApiKeyUpdateInternal \<Rightarrow> (string, ApiKeyNew) result" where
  "ApiKeyNew_try_from u =
     rbind (ok_or (aku_token u) ''token is required'') (\<lambda>token.
     rbind (ok_or (aku_salt u) ''salt is required'') (\<lambda>salt.
     rbind (ok_or (aku_redacted u) ''redacted is required'') (\<lambda>redacted.
     rbind (ok_or (aku_title u) ''title is required'') (\<lambda>title.
     rbind (ok_or (aku_type u) ''type is required'') (\<lambda>ty.
     rbind (ok_or (aku_last_used_at u) ''last_used_at is required'') (\<lambda>last_used_at.
     rbind (ok_or (aku_created_by u) ''created_by is required'') (\<lambda>created_by.
     rbind (ok_or (aku_created_at u) ''created_at is required'') (\<lambda>created_at.
     rbind (ok_or (aku_revoked_by u) ''revoked_by is required'') (\<lambda>revoked_by.
     rbind (ok_or (aku_revoked_at u) ''revoked_at is required'') (\<lambda>revoked_at.
       Ok \<lparr>akn_token = token, akn_salt = salt, akn_redacted = redacted, akn_title = title, akn_type = ty,
         akn_last_used_at = last_used_at, akn_created_by = created_by, akn_created_at = created_at,
         akn_revoked_by = revoked_by, akn_revoked_at = revoked_at\<rparr>))))))))))"

section \<open>Queries (repository.rs)\<close>

text \<open>The derived changeset: an absent field is left out, and one that is present may set NULL.\<close>

definition ApiKey_apply :: "ApiKeyUpdateInternal \<Rightarrow> ApiKey \<Rightarrow> ApiKey" where
  "ApiKey_apply u r = r\<lparr>
     ak_token := or_old (aku_token u) (ak_token r),
     ak_salt := or_old (aku_salt u) (ak_salt r),
     ak_redacted := or_old (aku_redacted u) (ak_redacted r),
     ak_title := or_old (aku_title u) (ak_title r),
     ak_type := or_old (aku_type u) (ak_type r),
     ak_last_used_at := or_old (aku_last_used_at u) (ak_last_used_at r),
     ak_created_by := or_old (aku_created_by u) (ak_created_by r),
     ak_created_at := or_old (aku_created_at u) (ak_created_at r),
     ak_revoked_by := or_old (aku_revoked_by u) (ak_revoked_by r),
     ak_revoked_at := or_old (aku_revoked_at u) (ak_revoked_at r)\<rparr>"

definition ApiKey_changeset :: "ApiKeyUpdateInternal \<Rightarrow> ApiKey changeset" where
  "ApiKey_changeset u =
     (if aku_token u = None \<and> aku_salt u = None \<and> aku_redacted u = None \<and> aku_title u = None \<and>
         aku_type u = None \<and> aku_created_by u = None \<and> aku_created_at u = None \<and>
         aku_last_used_at u = None \<and> aku_revoked_by u = None \<and> aku_revoked_at u = None
      then None else Some (ApiKey_apply u))"

definition ApiKey_of_new :: "string \<Rightarrow> ApiKeyNew \<Rightarrow> ApiKey" where
  "ApiKey_of_new i n = \<lparr>ak_id = i, ak_token = akn_token n, ak_salt = akn_salt n, ak_redacted = akn_redacted n,
     ak_title = akn_title n, ak_type = akn_type n, ak_last_used_at = akn_last_used_at n,
     ak_created_by = akn_created_by n, ak_created_at = akn_created_at n,
     ak_revoked_by = akn_revoked_by n, ak_revoked_at = akn_revoked_at n\<rparr>"

type_synonym 'd ak_conn = "('d, ApiKey, string) diesel"

definition ApiKeyNew_insert :: "'d ak_conn \<Rightarrow> string option \<Rightarrow> ApiKeyNew \<Rightarrow> ('d, DatabaseError, ApiKey) eff" where
  "ApiKeyNew_insert conn id_default self = insert_with_default conn id_default (\<lambda>i. ApiKey_of_new i self)"

definition ApiKey_find_by_id :: "'d ak_conn \<Rightarrow> string \<Rightarrow> ('d, DatabaseError, ApiKey) eff" where
  "ApiKey_find_by_id conn i = generic_find_by_id conn i"

definition ApiKey_find_optional_by_id :: "'d ak_conn \<Rightarrow> string \<Rightarrow> ('d, DatabaseError, ApiKey option) eff" where
  "ApiKey_find_optional_by_id conn i = generic_find_by_id_optional conn i"

definition ApiKey_filter ::
  "'d ak_conn \<Rightarrow> (ApiKey \<Rightarrow> bool) \<Rightarrow> int option \<Rightarrow> int option \<Rightarrow> (ApiKey \<Rightarrow> ApiKey \<Rightarrow> bool) option \<Rightarrow>
   ('d, DatabaseError, ApiKey list) eff" where
  "ApiKey_filter conn predicate limit offset order = generic_filter conn predicate limit offset order"

definition ApiKey_update_by_id :: "'d ak_conn \<Rightarrow> string \<Rightarrow> ApiKeyUpdate \<Rightarrow> ('d, DatabaseError, ApiKey) eff" where
  "ApiKey_update_by_id conn i values =
     update_or_find conn i (ApiKey_changeset (ApiKeyUpdateInternal_from values))"

definition ApiKey_delete_by_id :: "'d ak_conn \<Rightarrow> string \<Rightarrow> ('d, DatabaseError, bool) eff" where
  "ApiKey_delete_by_id conn i = generic_delete conn (\<lambda>r. ak_id r = i)"

definition find_optional_by_hashed_api_key ::
  "'d ak_conn \<Rightarrow> HashedApiKey \<Rightarrow> ('d, DatabaseError, ApiKey option) eff" where
  "find_optional_by_hashed_api_key conn hashed_model = generic_find_one_optional conn (\<lambda>r. ak_token r = hashed_model)"

section \<open>The store (service/api\_key.rs)\<close>

type_synonym 'd ak_store = "('d, ApiKey) pg_pool"

definition retrieve_api_key :: "'d ak_store \<Rightarrow> string \<Rightarrow> ('d, StorageError, ApiKey) eff" where
  "retrieve_api_key self key_id =
     ebind (router_pg_connection_write self) (\<lambda>conn. emap_err StorageError.DatabaseError (ApiKey_find_by_id conn key_id))"

definition list_api_keys ::
  "'d ak_store \<Rightarrow> (ApiKey \<Rightarrow> bool) \<Rightarrow> int option \<Rightarrow> int option \<Rightarrow> (ApiKey \<Rightarrow> ApiKey \<Rightarrow> bool) option \<Rightarrow>
   ('d, StorageError, ApiKey list) eff" where
  "list_api_keys self predicate limit offset order =
     ebind (router_pg_connection_read self) (\<lambda>conn.
       emap_err StorageError.DatabaseError (ApiKey_filter conn predicate limit offset order))"

definition list_and_count_api_keys ::
  "'d ak_store \<Rightarrow> (ApiKey \<Rightarrow> bool) \<Rightarrow> int option \<Rightarrow> int option \<Rightarrow> (ApiKey \<Rightarrow> ApiKey \<Rightarrow> bool) option \<Rightarrow>
   ('d, StorageError, ApiKey list) eff" where
  "list_and_count_api_keys self predicate limit offset order =
     ebind (router_pg_connection_read self) (\<lambda>conn.
       emap_err StorageError.DatabaseError (ApiKey_filter conn predicate limit offset order))"

definition insert_api_key :: "'d ak_store \<Rightarrow> string option \<Rightarrow> ApiKeyNew \<Rightarrow> ('d, StorageError, ApiKey) eff" where
  "insert_api_key self id_default api_key =
     ebind (router_pg_connection_write self) (\<lambda>conn.
       emap_err StorageError.DatabaseError (ApiKeyNew_insert conn id_default api_key))"

definition update_api_key :: "'d ak_store \<Rightarrow> string \<Rightarrow> ApiKeyUpdate \<Rightarrow> ('d, StorageError, ApiKey) eff" where
  "update_api_key self key_id api_key =
     ebind (router_pg_connection_write self) (\<lambda>conn.
       emap_err StorageError.DatabaseError (ApiKey_update_by_id conn key_id api_key))"

definition upsert_api_key ::
  "'d ak_store \<Rightarrow> string option \<Rightarrow> string \<Rightarrow> ApiKeyUpdate \<Rightarrow> ('d, StorageError, ApiKey) eff" where
  "upsert_api_key self id_default key_id api_key =
     ematch (update_api_key self key_id api_key)
       (\<lambda>err. if err = StorageError.DatabaseError DatabaseError.NotFound then
          (case ApiKeyNew_try_from (ApiKeyUpdateInternal_from api_key) of
             Inl e \<Rightarrow> ethrow (ValueNotFound e)
           | Inr new_api_key \<Rightarrow> insert_api_key self id_default new_api_key)
        else ethrow err)
       ereturn"

definition delete_api_key :: "'d ak_store \<Rightarrow> string \<Rightarrow> ('d, StorageError, bool) eff" where
  "delete_api_key self key_id =
     ebind (router_pg_connection_write self) (\<lambda>conn.
       emap_err StorageError.DatabaseError (ApiKey_delete_by_id conn key_id))"

definition authenticate_api_key :: "'d ak_store \<Rightarrow> string \<Rightarrow> ('d, StorageError, ApiKey) eff" where
  "authenticate_api_key self token =
     ebind (router_pg_connection_write self) (\<lambda>conn.
       ematch (find_optional_by_hashed_api_key conn (HashedApiKey token))
         (\<lambda>err. ethrow (StorageError.DatabaseError err))
         (\<lambda>api_key. case api_key of
            Some api_key \<Rightarrow> ereturn api_key
          | None \<Rightarrow> ethrow (StorageError.DatabaseError DatabaseError.NotFound)))"

section \<open>Plaintext keys (data\_models/src/api\_key.rs)\<close>

datatype PlaintextApiKey = PlaintextApiKey string

definition HASH_KEY_LEN :: nat where
  "HASH_KEY_LEN = 32"

definition PREFIX_LEN :: nat where
  "PREFIX_LEN = 12"

text \<open>\<open>random n\<close> is the string of \<open>n\<close> alphanumeric characters the generator returns.\<close>

definition PlaintextApiKey_new :: "Env \<Rightarrow> (nat \<Rightarrow> string) \<Rightarrow> nat \<Rightarrow> PlaintextApiKey" where
  "PlaintextApiKey_new env random len = PlaintextApiKey (prefix_for_env env @ ''_'' @ random len)"

fun PlaintextApiKey_prefix :: "PlaintextApiKey \<Rightarrow> string" where
  "PlaintextApiKey_prefix (PlaintextApiKey k) = take PREFIX_LEN k"

fun PlaintextApiKey_peek :: "PlaintextApiKey \<Rightarrow> string" where
  "PlaintextApiKey_peek (PlaintextApiKey k) = k"

fun keyed_hash :: "(string \<Rightarrow> string \<Rightarrow> string) \<Rightarrow> PlaintextApiKey \<Rightarrow> string \<Rightarrow> HashedApiKey" where
  "keyed_hash blake3 (PlaintextApiKey k) key = HashedApiKey (blake3 key k)"

text \<open>The process keeps the decoded hash key in a cell that the first call that succeeds fills.\<close>

definition get_hash_key ::
  "(string \<Rightarrow> string option) \<Rightarrow> string \<Rightarrow> (string option, ApiErrorResponse, string) eff" where
  "get_hash_key hex_decode hash_key cell =
     (case cell of
        Some k \<Rightarrow> (Ok k, cell)
      | None \<Rightarrow>
          (case hex_decode hash_key of
             None \<Rightarrow> (Err ApiErrorResponse.InternalServerError, cell)
           | Some k \<Rightarrow>
               (if length k = HASH_KEY_LEN then (Ok k, Some k)
                else (Err ApiErrorResponse.InternalServerError, cell))))"

section \<open>Creating a key (core/api\_key.rs)\<close>

record CreateApiKeyRequest =
  cr_title :: string
  cr_type :: ApiKeyType

record CreateApiKeyResponse =
  cres_id :: string
  cres_token :: string
  cres_salt :: string
  cres_redacted :: string
  cres_title :: string
  cres_type :: ApiKeyType
  cres_last_used_at :: "int option"
  cres_created_by :: string
  cres_created_at :: int
  cres_revoked_by :: "string option"
  cres_revoked_at :: "int option"

definition CreateApiKeyResponse_from :: "ApiKey \<Rightarrow> PlaintextApiKey \<Rightarrow> CreateApiKeyResponse" where
  "CreateApiKeyResponse_from api_key plaintext_api_key = \<lparr>
     cres_id = ak_id api_key,
     cres_token = PlaintextApiKey_peek plaintext_api_key,
     cres_salt = ak_salt api_key,
     cres_redacted = ak_redacted api_key,
     cres_title = ak_title api_key,
     cres_type = ak_type api_key,
     cres_last_used_at = ak_last_used_at api_key,
     cres_created_by = ak_created_by api_key,
     cres_created_at = ak_created_at api_key,
     cres_revoked_by = ak_revoked_by api_key,
     cres_revoked_at = ak_revoked_at api_key\<rparr>"

definition UpdateApiKeyRequest_into :: "int \<Rightarrow> string \<Rightarrow> ApiKeyUpdate" where
  "UpdateApiKeyRequest_into now title = Update (Some title) None (Some (Some now)) None None"

definition API_KEY_LENGTH :: nat where
  "API_KEY_LENGTH = 64"

text \<open>A world is the hash-key cell and the database.\<close>

definition create_api_key ::
  "(string \<Rightarrow> string option) \<Rightarrow> (string \<Rightarrow> string \<Rightarrow> string) \<Rightarrow> Env \<Rightarrow> (nat \<Rightarrow> string) \<Rightarrow> int \<Rightarrow>
   'd ak_store \<Rightarrow> string option \<Rightarrow> string \<Rightarrow> CreateApiKeyRequest \<Rightarrow> string \<Rightarrow>
   (string option \<times> 'd, ApiErrorResponse, CreateApiKeyResponse) eff" where
  "create_api_key hex_decode blake3 env random now store id_default conf_hash_key api_key merchant_id =
     ebind (on_fst (get_hash_key hex_decode conf_hash_key)) (\<lambda>hash_key.
       let plaintext_api_key = PlaintextApiKey_new env random API_KEY_LENGTH;
           new_key = \<lparr>
             akn_token = keyed_hash blake3 plaintext_api_key hash_key,
             akn_salt = PlaintextApiKey_prefix plaintext_api_key,
             akn_redacted = PlaintextApiKey_prefix plaintext_api_key,
             akn_title = cr_title api_key,
             akn_type = cr_type api_key,
             akn_last_used_at = None,
             akn_created_by = merchant_id,
             akn_created_at = now,
             akn_revoked_by = None,
             akn_revoked_at = None\<rparr>
       in ebind (change_context ApiErrorResponse.InternalServerError (on_snd (insert_api_key store id_default new_key)))
            (\<lambda>api_key. ereturn (CreateApiKeyResponse_from api_key plaintext_api_key)))"

text \<open>The table of the migration gives the id no default
  (\<open>migrations/2024-03-29-123411_api_key/up.sql\<close>).\<close>

definition api_key_id_default :: "string option" where
  "api_key_id_default = None"

end
