(* ===== verification/Api_Key_Props.thy ===== *)
theory Api_Key_Props
  imports Api_Keys
begin

text \<open>
  What the operations on API keys do over any pool and table that meet \<open>pooled_table\<close>: updates, the
  insert of a key that does not exist yet, authentication, and the creation of a key with the table of the
  migration.
\<close>

lemma ApiKey_changeset_key: "ApiKey_changeset u = Some f \<Longrightarrow> ak_id (f r) = ak_id r"
  by (auto simp: ApiKey_changeset_def ApiKey_apply_def split: if_splits)

locale api_key_store = pooled_table D ak_id dvalid tbl store
  for D :: "'d ak_conn" and dvalid and tbl and store
begin

lemma update_api_key_cases:
  assumes v: "dvalid s" and run: "update_api_key store key_id u s = (x, s')"
  shows "dvalid s'"
    and "x = Ok y \<Longrightarrow> \<exists>r. tbl s key_id = Some r \<and> y = ApiKey_apply (ApiKeyUpdateInternal_from u) r \<and> tbl s' = (tbl s)(key_id \<mapsto> y)"
    and "x = Err (StorageError.DatabaseError DatabaseError.NotFound) \<Longrightarrow> tbl s key_id = None \<and> tbl s' = tbl s"
proof -
  let ?c = "ApiKey_changeset (ApiKeyUpdateInternal_from u)"
  have id: "(case ?c of None \<Rightarrow> r | Some f \<Rightarrow> f r) = ApiKey_apply (ApiKeyUpdateInternal_from u) r" for r
    by (auto simp: ApiKey_changeset_def ApiKey_apply_def)
  have "dvalid s' \<and> (x = Ok y \<longrightarrow> (\<exists>r. tbl s key_id = Some r \<and>
      y = ApiKey_apply (ApiKeyUpdateInternal_from u) r \<and> tbl s' = (tbl s)(key_id \<mapsto> y))) \<and>
    (x = Err (StorageError.DatabaseError DatabaseError.NotFound) \<longrightarrow> tbl s key_id = None \<and> tbl s' = tbl s)"
    using pooled_query [OF v run [unfolded update_api_key_def]]
  proof
    assume "\<exists>s1 z. dvalid s1 \<and> tbl s1 = tbl s \<and> ApiKey_update_by_id D key_id u s1 = (z, s') \<and>
       x = (case z of Inl e \<Rightarrow> Err (StorageError.DatabaseError e) | Inr a \<Rightarrow> Ok a)"
    then obtain s1 z where s1: "dvalid s1" "tbl s1 = tbl s" and z: "update_or_find D key_id ?c s1 = (z, s')"
      and x: "x = (case z of Inl e \<Rightarrow> Err (StorageError.DatabaseError e) | Inr a \<Rightarrow> Ok a)"
      by (auto simp: ApiKey_update_by_id_def)
    have key: "\<forall>f. ?c = Some f \<longrightarrow> (\<forall>r. ak_id (f r) = ak_id r)" by (auto dest: ApiKey_changeset_key)
    note u = update_or_find_cases [OF s1(1) key z, simplified id s1(2)]
    show ?thesis
    proof (cases z)
      case (Inl e)
      with x u show ?thesis by simp
    next
      case (Inr a)
      with x u(1) u(2) [of a] show ?thesis by auto
    qed
  qed auto
  then show "dvalid s'"
    and "x = Ok y \<Longrightarrow> \<exists>r. tbl s key_id = Some r \<and> y = ApiKey_apply (ApiKeyUpdateInternal_from u) r \<and> tbl s' = (tbl s)(key_id \<mapsto> y)"
    and "x = Err (StorageError.DatabaseError DatabaseError.NotFound) \<Longrightarrow> tbl s key_id = None \<and> tbl s' = tbl s" by blast+
qed

lemma insert_api_key_cases:
  assumes v: "dvalid s" and run: "insert_api_key store id_default n s = (x, s')"
  shows "dvalid s'"
    and "x = Ok y \<Longrightarrow> \<exists>i. id_default = Some i \<and> y = ApiKey_of_new i n \<and> tbl s i = None \<and> tbl s' = (tbl s)(i \<mapsto> y)"
    and "id_default = None \<Longrightarrow> tbl s' = tbl s"
proof -
  have "dvalid s' \<and> (x = Ok y \<longrightarrow> (\<exists>i. id_default = Some i \<and> y = ApiKey_of_new i n \<and> tbl s i = None \<and>
      tbl s' = (tbl s)(i \<mapsto> y))) \<and> (id_default = None \<longrightarrow> tbl s' = tbl s)"
    using pooled_query [OF v run [unfolded insert_api_key_def]]
  proof
    assume "\<exists>s1 z. dvalid s1 \<and> tbl s1 = tbl s \<and> ApiKeyNew_insert D id_default n s1 = (z, s') \<and>
       x = (case z of Inl e \<Rightarrow> Err (StorageError.DatabaseError e) | Inr a \<Rightarrow> Ok a)"
    then obtain s1 z where s1: "dvalid s1" "tbl s1 = tbl s" and z: "ApiKeyNew_insert D id_default n s1 = (z, s')"
      and x: "x = (case z of Inl e \<Rightarrow> Err (StorageError.DatabaseError e) | Inr a \<Rightarrow> Ok a)" by blast
    show ?thesis
    proof (cases id_default)
      case None
      with z x s1 show ?thesis by (auto simp: ApiKeyNew_insert_def insert_with_default_def)
    next
      case (Some i)
      then have g: "generic_insert D (ApiKey_of_new i n) s1 = (z, s')"
        using z by (simp add: ApiKeyNew_insert_def insert_with_default_def)
      have key: "ak_id (ApiKey_of_new i n) = i" by (simp add: ApiKey_of_new_def)
      note i = generic_insert_cases [OF s1(1) g]
      show ?thesis
      proof (cases z)
        case (Inr a)
        with i(1) i(2) [of a] x s1 Some key show ?thesis by simp
      qed (use i(1) x Some in simp)
    qed
  qed auto
  then show "dvalid s'"
    and "x = Ok y \<Longrightarrow> \<exists>i. id_default = Some i \<and> y = ApiKey_of_new i n \<and> tbl s i = None \<and> tbl s' = (tbl s)(i \<mapsto> y)"
    and "id_default = None \<Longrightarrow> tbl s' = tbl s" by blast+
qed

lemma authenticate_api_key_cases:
  assumes v: "dvalid s" and run: "authenticate_api_key store token s = (x, s')"
  shows "dvalid s' \<and> tbl s' = tbl s"
    and "x = Ok k \<Longrightarrow> k \<in> ran (tbl s) \<and> ak_token k = HashedApiKey token"
    and "x = Err (StorageError.DatabaseError DatabaseError.NotFound) \<Longrightarrow> HashedApiKey token \<notin> ak_token ` ran (tbl s)"
proof -
  obtain c s1 where c: "store s = (c, s1)" by fastforce
  note l = pool_law [OF v c]
  obtain z s2 where z: "find_optional_by_hashed_api_key D (HashedApiKey token) s1 = (z, s2)" by fastforce
  then have z': "generic_find_one_optional D (\<lambda>r. ak_token r = HashedApiKey token) s1 = (z, s2)"
    by (simp add: find_optional_by_hashed_api_key_def)
  have s1: "dvalid s1" "tbl s1 = tbl s" using l by blast+
  note f = generic_find_one_optional_cases [OF s1(1) z', simplified s1(2)]
  show "dvalid s' \<and> tbl s' = tbl s"
    using run c l z f(1) s1 by (auto simp: authenticate_api_key_def router_pg_connection_write_def eff_simps
      split: sum.splits option.splits)
  show "x = Ok k \<Longrightarrow> k \<in> ran (tbl s) \<and> ak_token k = HashedApiKey token"
    using run c l z f(2) [of k] by (auto simp: authenticate_api_key_def router_pg_connection_write_def eff_simps
      split: sum.splits option.splits)
  show "x = Err (StorageError.DatabaseError DatabaseError.NotFound) \<Longrightarrow> HashedApiKey token \<notin> ak_token ` ran (tbl s)"
  proof -
    assume nf: "x = Err (StorageError.DatabaseError DatabaseError.NotFound)"
    have "z \<noteq> Err DatabaseError.NotFound"
      using z' by (auto simp: generic_find_one_optional_def to_optional_def split: prod.splits sum.splits if_splits)
    with nf have "z = Ok None"
      using run c l z by (auto simp: authenticate_api_key_def router_pg_connection_write_def eff_simps
        split: sum.splits option.splits)
    from f(3) [OF this] show ?thesis by auto
  qed
qed

end

interpretation mem_keys_store: api_key_store "mem_diesel ak_id" "mem_unique ak_id" "mem_rows ak_id" "mem_pool ak_id"
  by unfold_locales

section \<open>Properties\<close>


definition demo_key :: ApiKey where
  "demo_key = \<lparr>ak_id = ''k1'', ak_token = HashedApiKey ''h1'', ak_salt = ''dev_'', ak_redacted = ''dev_'', ak_title = ''t'',
     ak_type = Publishable, ak_last_used_at = None, ak_created_by = ''m'', ak_created_at = 0,
     ak_revoked_by = None, ak_revoked_at = None\<rparr>"



lemma demo_revoke:
  "update_api_key (mem_pool ak_id) ''k1'' (Revoke None (Some 7)) [demo_key] =
     (Ok (demo_key\<lparr>ak_revoked_at := Some 7\<rparr>), [demo_key\<lparr>ak_revoked_at := Some 7\<rparr>])"
  by (simp add: update_api_key_def router_pg_connection_write_def mem_pool_def eff_simps ApiKey_update_by_id_def
    update_or_find_def ApiKey_changeset_def ApiKey_apply_def generic_update_by_id_def mem_diesel_def mem_rows_def mem_update_rows_def demo_key_def)

lemma demo_authenticate:
  "authenticate_api_key (mem_pool ak_id) ''h1'' [demo_key\<lparr>ak_revoked_at := Some 7\<rparr>] =
     (Ok (demo_key\<lparr>ak_revoked_at := Some 7\<rparr>), [demo_key\<lparr>ak_revoked_at := Some 7\<rparr>])"
  by (simp add: authenticate_api_key_def router_pg_connection_write_def mem_pool_def eff_simps
    find_optional_by_hashed_api_key_def generic_find_one_optional_def generic_find_one_core_def mem_diesel_def
    to_optional_def demo_key_def)


text \<open>An upsert of a key that does not exist ignores the key id it is given: the row is stored
  under the id the table generates, so the key asked for still does not exist, unless the two happen to be
  equal; an upsert of a key that exists updates that row only.\<close>

theorem upsert_ignores_key_id:
  assumes "api_key_store D dvalid tbl store" and "dvalid s"
    and "upsert_api_key store id_default key_id u s = (Ok key, s')"
  shows "(\<exists>old. tbl s key_id = Some old \<and> key = ApiKey_apply (ApiKeyUpdateInternal_from u) old \<and>
      tbl s' = (tbl s)(key_id \<mapsto> key)) \<or>
    (\<exists>i n. tbl s key_id = None \<and> id_default = Some i \<and> ApiKeyNew_try_from (ApiKeyUpdateInternal_from u) = Ok n \<and>
      key = ApiKey_of_new i n \<and> tbl s i = None \<and> tbl s' = (tbl s)(i \<mapsto> key))"
proof -
  obtain z s1 where z: "update_api_key store key_id u s = (z, s1)" by fastforce
  note c = api_key_store.update_api_key_cases [OF assms(1,2) z]
  show ?thesis
  proof (cases z)
    case (Inr a)
    with z assms(3) have "a = key" "s1 = s'" by (auto simp: upsert_api_key_def eff_simps)
    with c(2) [of key] Inr show ?thesis by blast
  next
    case (Inl e)
    with z assms(3) obtain n where e: "e = StorageError.DatabaseError DatabaseError.NotFound"
      and n: "ApiKeyNew_try_from (ApiKeyUpdateInternal_from u) = Ok n" and i: "insert_api_key store id_default n s1 = (Ok key, s')"
      by (auto simp: upsert_api_key_def eff_simps split: if_splits sum.splits)
    from api_key_store.insert_api_key_cases(2) [OF assms(1) c(1) i refl] obtain d where
      d: "id_default = Some d" "key = ApiKey_of_new d n" "tbl s1 d = None" "tbl s' = (tbl s1)(d \<mapsto> key)" by blast
    from c(3) Inl e have "tbl s key_id = None" "tbl s1 = tbl s" by simp_all
    with d n show ?thesis by auto
  qed
qed

definition demo_upsert :: ApiKeyUpdate where
  "demo_upsert = Upsert (Some (HashedApiKey ''h2'')) (Some ''s'') (Some ''s'') (Some ''t2'') (Some Publishable) (Some ''m'') (Some 5)
     (Some None) (Some None) (Some None)"

lemma demo_upsert_run:
  "\<exists>key. upsert_api_key (mem_pool ak_id) (Some ''gen'') ''k2'' demo_upsert [demo_key] = (Ok key, [demo_key, key])"
  by (simp add: upsert_api_key_def update_api_key_def router_pg_connection_write_def mem_pool_def eff_simps
    ApiKey_update_by_id_def update_or_find_def ApiKey_changeset_def generic_update_by_id_def mem_diesel_def mem_rows_def
    demo_key_def demo_upsert_def ApiKeyNew_try_from_def insert_api_key_def ApiKeyNew_insert_def insert_with_default_def
    generic_insert_def ApiKey_of_new_def)

theorem upsert_ignores_key_id_witness:
  "\<exists>key. upsert_api_key (mem_pool ak_id) (Some ''gen'') ''k2'' demo_upsert [demo_key] = (Ok key, [demo_key, key]) \<and>
     mem_rows ak_id [demo_key, key] ''k2'' = None"
proof -
  obtain key where run: "upsert_api_key (mem_pool ak_id) (Some ''gen'') ''k2'' demo_upsert [demo_key] = (Ok key, [demo_key, key])"
    using demo_upsert_run by blast
  have u: "mem_unique ak_id [demo_key]" by (simp add: mem_unique_def)
  have none: "mem_rows ak_id [demo_key] ''k2'' = None" by (simp add: mem_rows_def demo_key_def)
  from upsert_ignores_key_id [OF mem_keys_store.api_key_store_axioms u run] none
  have "mem_rows ak_id [demo_key, key] = (mem_rows ak_id [demo_key])(''gen'' \<mapsto> key)" by auto
  with run none show ?thesis by auto
qed

end
