(* ===== verification/Users.thy ===== *)
theory Users
  imports Repository Api_Errors
begin

text \<open>
  Users and invites: the models (\<open>diesel_models/src/user/user.rs\<close>, \<open>invite.rs\<close>), their queries
  (\<open>repository.rs\<close>) and the store's operations on users (\<open>modules/src/service/user.rs\<close>). The derived
  changesets leave out the primary key, so the id field of an update is never written.
\<close>

section \<open>Users\<close>

record User =
  us_id :: string
  us_first_name :: "string option"
  us_last_name :: "string option"
  us_email :: string
  us_avatar_url :: "string option"
  us_metadata :: "json option"
  us_created_at :: int
  us_updated_at :: int
  us_deleted_at :: "int option"

record UserNew =
  usn_first_name :: "string option"
  usn_last_name :: "string option"
  usn_email :: string
  usn_avatar_url :: "string option"
  usn_metadata :: "json option"
  usn_created_at :: int
  usn_updated_at :: int
  usn_deleted_at :: "int option"

record UserUpdateInternal =
  usu_id :: "string option"
  usu_first_name :: "string option option"
  usu_last_name :: "string option option"
  usu_avatar_url :: "string option option"
  usu_metadata :: "json option option"
  usu_updated_at :: "int option"

datatype UserUpdate = Update "string option" "string option option" "string option option" "string option option" "json option option" "int option"

fun UserUpdateInternal_from :: "UserUpdate \<Rightarrow> UserUpdateInternal" where
  "UserUpdateInternal_from (UserUpdate.Update ident first_name last_name avatar_url metadata updated_at) = \<lparr>
     usu_id = ident, usu_first_name = first_name, usu_last_name = last_name, usu_avatar_url = avatar_url, usu_metadata = metadata, usu_updated_at = updated_at\<rparr>"

definition User_apply :: "UserUpdateInternal \<Rightarrow> User \<Rightarrow> User" where
  "User_apply u r = r\<lparr>
     us_first_name := or_old (usu_first_name u) (us_first_name r),
     us_last_name := or_old (usu_last_name u) (us_last_name r),
     us_avatar_url := or_old (usu_avatar_url u) (us_avatar_url r),
     us_metadata := or_old (usu_metadata u) (us_metadata r),
     us_updated_at := or_old (usu_updated_at u) (us_updated_at r)\<rparr>"

definition User_changeset :: "UserUpdateInternal \<Rightarrow> User changeset" where
  "User_changeset u =
     (if usu_first_name u = None \<and> usu_last_name u = None \<and> usu_avatar_url u = None \<and> usu_metadata u = None \<and> usu_updated_at u = None
      then None else Some (User_apply u))"

definition User_of_new :: "string \<Rightarrow> UserNew \<Rightarrow> User" where
  "User_of_new i n = \<lparr>us_id = i, us_first_name = usn_first_name n, us_last_name = usn_last_name n, us_email = usn_email n, us_avatar_url = usn_avatar_url n, us_metadata = usn_metadata n, us_created_at = usn_created_at n, us_updated_at = usn_updated_at n, us_deleted_at = usn_deleted_at n\<rparr>"

type_synonym 'd us_conn = "('d, User, string) diesel"

definition UserNew_insert :: "'d us_conn \<Rightarrow> string option \<Rightarrow> UserNew \<Rightarrow> ('d, DatabaseError, User) eff" where
  "UserNew_insert conn id_default self = insert_with_default conn id_default (\<lambda>i. User_of_new i self)"

definition User_find_by_id :: "'d us_conn \<Rightarrow> string \<Rightarrow> ('d, DatabaseError, User) eff" where
  "User_find_by_id conn i = generic_find_by_id conn i"

definition User_find_optional_by_id :: "'d us_conn \<Rightarrow> string \<Rightarrow> ('d, DatabaseError, User option) eff" where
  "User_find_optional_by_id conn i = generic_find_by_id_optional conn i"

definition User_filter ::
  "'d us_conn \<Rightarrow> (User \<Rightarrow> bool) \<Rightarrow> int option \<Rightarrow> int option \<Rightarrow> (User \<Rightarrow> User \<Rightarrow> bool) option \<Rightarrow>
   ('d, DatabaseError, User list) eff" where
  "User_filter conn predicate limit offset order = generic_filter conn predicate limit offset order"

definition User_update_by_id :: "'d us_conn \<Rightarrow> string \<Rightarrow> UserUpdate \<Rightarrow> ('d, DatabaseError, User) eff" where
  "User_update_by_id conn i values = update_or_find conn i (User_changeset (UserUpdateInternal_from values))"

definition User_delete_by_id :: "'d us_conn \<Rightarrow> string \<Rightarrow> ('d, DatabaseError, bool) eff" where
  "User_delete_by_id conn i = generic_delete conn (\<lambda>r. us_id r = i)"

section \<open>Invites\<close>

record Invite =
  inv_id :: string
  inv_email :: string
  inv_accepted :: bool
  inv_token :: string
  inv_expires_at :: int
  inv_metadata :: "json option"
  inv_created_at :: int
  inv_updated_at :: int
  inv_deleted_at :: "int option"

record InviteNew =
  invn_email :: string
  invn_accepted :: bool
  invn_token :: string
  invn_expires_at :: int
  invn_metadata :: "json option"
  invn_created_at :: int
  invn_updated_at :: int
  invn_deleted_at :: "int option"

record InviteUpdateInternal =
  invu_id :: "string option"
  invu_accepted :: "bool option"
  invu_metadata :: "json option option"
  invu_updated_at :: "int option"

datatype InviteUpdate = Update "string option" "bool option" "json option option"

fun InviteUpdateInternal_from :: "InviteUpdate \<Rightarrow> InviteUpdateInternal" where
  "InviteUpdateInternal_from (InviteUpdate.Update ident accepted metadata) = \<lparr>
     invu_id = ident, invu_accepted = accepted, invu_metadata = metadata, invu_updated_at = None\<rparr>"

definition Invite_apply :: "InviteUpdateInternal \<Rightarrow> Invite \<Rightarrow> Invite" where
  "Invite_apply u r = r\<lparr>
     inv_accepted := or_old (invu_accepted u) (inv_accepted r),
     inv_metadata := or_old (invu_metadata u) (inv_metadata r),
     inv_updated_at := or_old (invu_updated_at u) (inv_updated_at r)\<rparr>"

definition Invite_changeset :: "InviteUpdateInternal \<Rightarrow> Invite changeset" where
  "Invite_changeset u =
     (if invu_accepted u = None \<and> invu_metadata u = None \<and> invu_updated_at u = None
      then None else Some (Invite_apply u))"

definition Invite_of_new :: "string \<Rightarrow> InviteNew \<Rightarrow> Invite" where
  "Invite_of_new i n = \<lparr>inv_id = i, inv_email = invn_email n, inv_accepted = invn_accepted n, inv_token = invn_token n, inv_expires_at = invn_expires_at n, inv_metadata = invn_metadata n, inv_created_at = invn_created_at n, inv_updated_at = invn_updated_at n, inv_deleted_at = invn_deleted_at n\<rparr>"

type_synonym 'd inv_conn = "('d, Invite, string) diesel"

definition InviteNew_insert :: "'d inv_conn \<Rightarrow> string option \<Rightarrow> InviteNew \<Rightarrow> ('d, DatabaseError, Invite) eff" where
  "InviteNew_insert conn id_default self = insert_with_default conn id_default (\<lambda>i. Invite_of_new i self)"

definition Invite_find_by_id :: "'d inv_conn \<Rightarrow> string \<Rightarrow> ('d, DatabaseError, Invite) eff" where
  "Invite_find_by_id conn i = generic_find_by_id conn i"

definition Invite_find_optional_by_id :: "'d inv_conn \<Rightarrow> string \<Rightarrow> ('d, DatabaseError, Invite option) eff" where
  "Invite_find_optional_by_id conn i = generic_find_by_id_optional conn i"

definition Invite_filter ::
  "'d inv_conn \<Rightarrow> (Invite \<Rightarrow> bool) \<Rightarrow> int option \<Rightarrow> int option \<Rightarrow> (Invite \<Rightarrow> Invite \<Rightarrow> bool) option \<Rightarrow>
   ('d, DatabaseError, Invite list) eff" where
  "Invite_filter conn predicate limit offset order = generic_filter conn predicate limit offset order"

definition Invite_update_by_id :: "'d inv_conn \<Rightarrow> string \<Rightarrow> InviteUpdate \<Rightarrow> ('d, DatabaseError, Invite) eff" where
  "Invite_update_by_id conn i values = update_or_find conn i (Invite_changeset (InviteUpdateInternal_from values))"

definition Invite_delete_by_id :: "'d inv_conn \<Rightarrow> string \<Rightarrow> ('d, DatabaseError, bool) eff" where
  "Invite_delete_by_id conn i = generic_delete conn (\<lambda>r. inv_id r = i)"

section \<open>The store (service/user.rs)\<close>

type_synonym 'd user_pool = "('d, User) pg_pool"

definition retrieve_user :: "'d user_pool \<Rightarrow> string \<Rightarrow> ('d, StorageError, User) eff" where
  "retrieve_user self user_id =
     ebind (router_pg_connection_write self) (\<lambda>conn. emap_err StorageError.DatabaseError (User_find_by_id conn user_id))"

definition list_users ::
  "'d user_pool \<Rightarrow> (User \<Rightarrow> bool) \<Rightarrow> int option \<Rightarrow> int option \<Rightarrow> (User \<Rightarrow> User \<Rightarrow> bool) option \<Rightarrow>
   ('d, StorageError, User list) eff" where
  "list_users self predicate limit offset order =
     ebind (router_pg_connection_read self) (\<lambda>conn.
       emap_err StorageError.DatabaseError (User_filter conn predicate limit offset order))"

definition list_and_count_users ::
  "'d user_pool \<Rightarrow> (User \<Rightarrow> bool) \<Rightarrow> int option \<Rightarrow> int option \<Rightarrow> (User \<Rightarrow> User \<Rightarrow> bool) option \<Rightarrow>
   ('d, StorageError, User list) eff" where
  "list_and_count_users self predicate limit offset order =
     ebind (router_pg_connection_read self) (\<lambda>conn.
       emap_err StorageError.DatabaseError (User_filter conn predicate limit offset order))"

definition insert_user :: "'d user_pool \<Rightarrow> string option \<Rightarrow> UserNew \<Rightarrow> ('d, StorageError, User) eff" where
  "insert_user self id_default user =
     ebind (router_pg_connection_write self) (\<lambda>conn.
       emap_err StorageError.DatabaseError (UserNew_insert conn id_default user))"

definition update_user :: "'d user_pool \<Rightarrow> string \<Rightarrow> UserUpdate \<Rightarrow> ('d, StorageError, User) eff" where
  "update_user self user_id user =
     ebind (router_pg_connection_write self) (\<lambda>conn.
       emap_err StorageError.DatabaseError (User_update_by_id conn user_id user))"

definition delete_user :: "'d user_pool \<Rightarrow> string \<Rightarrow> ('d, StorageError, bool) eff" where
  "delete_user self user_id =
     ebind (router_pg_connection_write self) (\<lambda>conn.
       emap_err StorageError.DatabaseError (User_delete_by_id conn user_id))"

section \<open>Properties\<close>

locale user_store = pooled_table D us_id dvalid tbl store
  for D :: "'d us_conn" and dvalid and tbl and store
begin

lemma update_user_Ok:
  assumes v: "dvalid s" and run: "update_user store user_id u s = (Ok y, s')"
  shows "dvalid s' \<and> (\<exists>r. tbl s user_id = Some r \<and> y = User_apply (UserUpdateInternal_from u) r \<and>
    tbl s' = (tbl s)(user_id \<mapsto> y))"
proof -
  let ?c = "User_changeset (UserUpdateInternal_from u)"
  have id: "(case ?c of None \<Rightarrow> r | Some f \<Rightarrow> f r) = User_apply (UserUpdateInternal_from u) r" for r
    by (auto simp: User_changeset_def User_apply_def)
  have key: "\<forall>f. ?c = Some f \<longrightarrow> (\<forall>r. us_id (f r) = us_id r)" by (auto simp: User_changeset_def User_apply_def)
  from pooled_query [OF v run [unfolded update_user_def]] obtain s1 z where s1: "dvalid s1" "tbl s1 = tbl s"
    and u: "update_or_find D user_id ?c s1 = (z, s')"
    and "Ok y = (case z of Inl e \<Rightarrow> Err (StorageError.DatabaseError e) | Inr a \<Rightarrow> Ok a)"
    by (auto simp: User_update_by_id_def)
  then have z: "update_or_find D user_id ?c s1 = (Ok y, s')" by (cases z) simp_all
  show ?thesis using update_or_find_cases [OF s1(1) key z, simplified id s1(2)] by blast
qed

end

interpretation mem_users: user_store "mem_diesel us_id" "mem_unique us_id" "mem_rows us_id" "mem_pool us_id"
  by unfold_locales

text \<open>Updating a user changes that row only and never its id or its email, also when the update
  carries an id: a field that is absent keeps its value, and one that is given, NULL included, is set.\<close>

theorem update_user_frame:
  assumes "user_store D dvalid tbl store" and "dvalid s"
    and "update_user store user_id (UserUpdate.Update ident first_name last_name avatar_url metadata updated_at) s = (Ok y, s')"
  shows "\<exists>r. tbl s user_id = Some r \<and> tbl s' = (tbl s)(user_id \<mapsto> y) \<and> us_id y = us_id r \<and> us_email y = us_email r \<and>
    us_first_name y = (case first_name of None \<Rightarrow> us_first_name r | Some v \<Rightarrow> v) \<and>
    us_metadata y = (case metadata of None \<Rightarrow> us_metadata r | Some v \<Rightarrow> v) \<and> us_deleted_at y = us_deleted_at r"
  using user_store.update_user_Ok [OF assms] by (auto simp: User_apply_def or_old_def)

definition demo_user :: User where
  "demo_user = \<lparr>us_id = ''u1'', us_first_name = Some ''a'', us_last_name = None, us_email = ''e'', us_avatar_url = None,
     us_metadata = None, us_created_at = 0, us_updated_at = 0, us_deleted_at = None\<rparr>"

lemma demo_update_user:
  "\<exists>y s'. update_user (mem_pool us_id) ''u1'' (UserUpdate.Update (Some ''u2'') (Some None) None None None (Some 5)) [demo_user] = (Ok y, s')"
  by (simp add: update_user_def router_pg_connection_write_def mem_pool_def eff_simps User_update_by_id_def
    update_or_find_def User_changeset_def generic_update_by_id_def mem_diesel_def mem_rows_def demo_user_def)

theorem update_user_frame_witness:
  "\<exists>y s'. update_user (mem_pool us_id) ''u1'' (UserUpdate.Update (Some ''u2'') (Some None) None None None (Some 5)) [demo_user] = (Ok y, s') \<and>
     us_id y = ''u1'' \<and> us_first_name y = None"
proof -
  obtain y s' where run: "update_user (mem_pool us_id) ''u1''
      (UserUpdate.Update (Some ''u2'') (Some None) None None None (Some 5)) [demo_user] = (Ok y, s')"
    using demo_update_user by blast
  have "mem_unique us_id [demo_user]" by (simp add: mem_unique_def)
  from update_user_frame [OF mem_users.user_store_axioms this run]
  have "us_id y = ''u1'' \<and> us_first_name y = None" by (auto simp: mem_rows_def demo_user_def split: if_splits)
  with run show ?thesis by blast
qed

end
