(* ===== verification/Crypto.thy ===== *)
theory Crypto
  imports Prelude "HOL-Library.Word"
begin

text \<open>
  \<open>crates/common_utils/src/crypto.rs\<close>: the nonce sequence of the AES-GCM wrapper and its encoding
  to bytes, encryption and decryption, signatures and digests, and the wrapper of encrypted data.

  The primitives of the libraries \<open>ring\<close> and \<open>md5\<close> are parameters: the record \<open>aead\<close> for
  AES-256-GCM, functions for HMAC and digests. What the wrapper relies on is the locale
  \<open>aead_cipher\<close>. A secret that only hides a value from logs is the value itself.
\<close>

type_synonym bytes = "8 word list"

datatype CryptoError = EncodingFailed | DecodingFailed | MessageSigningFailed | SignatureVerificationFailed

section \<open>Bytes in big-endian order\<close>

fun be_bytes :: "nat \<Rightarrow> nat \<Rightarrow> bytes" where
  "be_bytes 0 n = []"
| "be_bytes (Suc k) n = be_bytes k (n div 256) @ [of_nat n]"

definition be_value :: "bytes \<Rightarrow> nat" where
  "be_value bs = foldl (\<lambda>acc b. acc * 256 + unat b) 0 bs"

definition to_be_bytes :: "128 word \<Rightarrow> bytes" where
  "to_be_bytes x = be_bytes 16 (unat x)"

definition from_be_bytes :: "bytes \<Rightarrow> 128 word" where
  "from_be_bytes bs = of_nat (be_value bs)"

section \<open>The nonce sequence\<close>

datatype NonceSequence = NonceSequence "128 word"

definition NONCE_LEN :: nat where
  "NONCE_LEN = 12"

definition SEQUENCE_NUMBER_START_INDEX :: nat where
  "SEQUENCE_NUMBER_START_INDEX = 4"

text \<open>\<open>rng\<close> is what the random number generator fills the twelve low bytes with, \<open>None\<close> when it
  fails.\<close>

definition NonceSequence_from_bytes :: "bytes \<Rightarrow> NonceSequence" where
  "NonceSequence_from_bytes bs = NonceSequence (from_be_bytes (replicate SEQUENCE_NUMBER_START_INDEX 0 @ bs))"

definition NonceSequence_new :: "bytes option \<Rightarrow> NonceSequence option" where
  "NonceSequence_new rng =
     map_option (\<lambda>r. NonceSequence (from_be_bytes (replicate SEQUENCE_NUMBER_START_INDEX 0 @ r))) rng"

fun NonceSequence_current :: "NonceSequence \<Rightarrow> bytes" where
  "NonceSequence_current (NonceSequence n) = drop SEQUENCE_NUMBER_START_INDEX (to_be_bytes n)"

fun advance :: "NonceSequence \<Rightarrow> bytes \<times> NonceSequence" where
  "advance (NonceSequence n) =
     (drop SEQUENCE_NUMBER_START_INDEX (to_be_bytes n), NonceSequence (n + 1))"

section \<open>AES-GCM\<close>

text \<open>\<open>UnboundKey::new\<close>, and sealing and opening under a key and a nonce.\<close>

record 'k aead =
  unbound_key :: "bytes \<Rightarrow> 'k option"
  seal :: "'k \<Rightarrow> bytes \<Rightarrow> bytes \<Rightarrow> bytes option"
  open_sealed :: "'k \<Rightarrow> bytes \<Rightarrow> bytes \<Rightarrow> bytes option"

text \<open>A sealing or opening key takes its nonce from the sequence it was made with.\<close>

definition GcmAes256_encode_message ::
  "'k aead \<Rightarrow> bytes option \<Rightarrow> bytes \<Rightarrow> bytes \<Rightarrow> (CryptoError, bytes) result" where
  "GcmAes256_encode_message A rng secret msg =
     (case NonceSequence_new rng of
        None \<Rightarrow> Err EncodingFailed
      | Some nonce_sequence \<Rightarrow>
          (let current_nonce = NonceSequence_current nonce_sequence in
           case unbound_key A secret of
             None \<Rightarrow> Err EncodingFailed
           | Some key \<Rightarrow>
               (case seal A key (fst (advance nonce_sequence)) msg of
                  None \<Rightarrow> Err EncodingFailed
                | Some in_out \<Rightarrow> Ok (current_nonce @ in_out))))"

definition GcmAes256_decode_message :: "'k aead \<Rightarrow> bytes \<Rightarrow> bytes \<Rightarrow> (CryptoError, bytes) result" where
  "GcmAes256_decode_message A secret msg =
     (case unbound_key A secret of
        None \<Rightarrow> Err DecodingFailed
      | Some key \<Rightarrow>
          (if length msg < NONCE_LEN then Err DecodingFailed
           else (let nonce_sequence = NonceSequence_from_bytes (take NONCE_LEN msg) in
                 case open_sealed A key (fst (advance nonce_sequence)) (drop NONCE_LEN msg) of
                   None \<Rightarrow> Err DecodingFailed
                 | Some result \<Rightarrow> Ok result)))"

section \<open>Signatures and digests\<close>

definition NoAlgorithm_sign_message :: "bytes \<Rightarrow> bytes \<Rightarrow> (CryptoError, bytes) result" where
  "NoAlgorithm_sign_message secret msg = Ok []"

definition NoAlgorithm_verify_signature :: "bytes \<Rightarrow> bytes \<Rightarrow> bytes \<Rightarrow> (CryptoError, bool) result" where
  "NoAlgorithm_verify_signature secret signature msg = Ok True"

definition NoAlgorithm_encode_message :: "bytes \<Rightarrow> bytes \<Rightarrow> (CryptoError, bytes) result" where
  "NoAlgorithm_encode_message secret msg = Ok msg"

definition NoAlgorithm_decode_message :: "bytes \<Rightarrow> bytes \<Rightarrow> (CryptoError, bytes) result" where
  "NoAlgorithm_decode_message secret msg = Ok msg"

text \<open>The HMAC algorithms differ in the hash only; \<open>hmac\<close> gives the tag of a message under a secret, and
  \<open>hmac::verify\<close> compares with it.\<close>

datatype hmac_algorithm = HMAC_SHA1 | HMAC_SHA256 | HMAC_SHA512

type_synonym hmac = "hmac_algorithm \<Rightarrow> bytes \<Rightarrow> bytes \<Rightarrow> bytes"

definition HmacSha1_sign_message :: "hmac \<Rightarrow> bytes \<Rightarrow> bytes \<Rightarrow> (CryptoError, bytes) result" where
  "HmacSha1_sign_message hmac secret msg = Ok (hmac HMAC_SHA1 secret msg)"

definition HmacSha1_verify_signature :: "hmac \<Rightarrow> bytes \<Rightarrow> bytes \<Rightarrow> bytes \<Rightarrow> (CryptoError, bool) result" where
  "HmacSha1_verify_signature hmac secret signature msg = Ok (hmac HMAC_SHA1 secret msg = signature)"

definition HmacSha256_sign_message :: "hmac \<Rightarrow> bytes \<Rightarrow> bytes \<Rightarrow> (CryptoError, bytes) result" where
  "HmacSha256_sign_message hmac secret msg = Ok (hmac HMAC_SHA256 secret msg)"

definition HmacSha256_verify_signature :: "hmac \<Rightarrow> bytes \<Rightarrow> bytes \<Rightarrow> bytes \<Rightarrow> (CryptoError, bool) result" where
  "HmacSha256_verify_signature hmac secret signature msg = Ok (hmac HMAC_SHA256 secret msg = signature)"

definition HmacSha512_sign_message :: "hmac \<Rightarrow> bytes \<Rightarrow> bytes \<Rightarrow> (CryptoError, bytes) result" where
  "HmacSha512_sign_message hmac secret msg = Ok (hmac HMAC_SHA512 secret msg)"

definition HmacSha512_verify_signature :: "hmac \<Rightarrow> bytes \<Rightarrow> bytes \<Rightarrow> bytes \<Rightarrow> (CryptoError, bool) result" where
  "HmacSha512_verify_signature hmac secret signature msg = Ok (hmac HMAC_SHA512 secret msg = signature)"

datatype digest_algorithm = SHA512 | SHA256 | MD5

type_synonym digest = "digest_algorithm \<Rightarrow> bytes \<Rightarrow> bytes"

definition Sha512_generate_digest :: "digest \<Rightarrow> bytes \<Rightarrow> (CryptoError, bytes) result" where
  "Sha512_generate_digest digest message = Ok (digest SHA512 message)"

definition Md5_generate_digest :: "digest \<Rightarrow> bytes \<Rightarrow> (CryptoError, bytes) result" where
  "Md5_generate_digest digest message = Ok (digest MD5 message)"

definition Sha256_generate_digest :: "digest \<Rightarrow> bytes \<Rightarrow> (CryptoError, bytes) result" where
  "Sha256_generate_digest digest message = Ok (digest SHA256 message)"

text \<open>\<open>hex::encode\<close> in lower case.\<close>

definition hex_digit :: "nat \<Rightarrow> 8 word" where
  "hex_digit d = (if d < 10 then of_nat (48 + d) else of_nat (87 + d))"

definition hex_encode :: "bytes \<Rightarrow> bytes" where
  "hex_encode bs = concat (map (\<lambda>b. [hex_digit (unat b div 16), hex_digit (unat b mod 16)]) bs)"

text \<open>The signature of SHA-512 is the hexadecimal text of the digest, the others are the digest.
  \<open>is_utf8\<close> is \<open>std::str::from_utf8\<close>.\<close>

definition Sha512_verify_signature ::
  "(bytes \<Rightarrow> bool) \<Rightarrow> digest \<Rightarrow> bytes \<Rightarrow> bytes \<Rightarrow> bytes \<Rightarrow> (CryptoError, bool) result" where
  "Sha512_verify_signature is_utf8 digest secret signature msg =
     (if is_utf8 msg then
        (case Sha512_generate_digest digest msg of
           Inl _ \<Rightarrow> Err SignatureVerificationFailed
         | Inr d \<Rightarrow> Ok (hex_encode d = signature))
      else Err EncodingFailed)"

definition Md5_verify_signature :: "digest \<Rightarrow> bytes \<Rightarrow> bytes \<Rightarrow> bytes \<Rightarrow> (CryptoError, bool) result" where
  "Md5_verify_signature digest secret signature msg =
     (case Md5_generate_digest digest msg of
        Inl _ \<Rightarrow> Err SignatureVerificationFailed
      | Inr d \<Rightarrow> Ok (d = signature))"

definition Sha256_verify_signature :: "digest \<Rightarrow> bytes \<Rightarrow> bytes \<Rightarrow> bytes \<Rightarrow> (CryptoError, bool) result" where
  "Sha256_verify_signature digest secret signature msg =
     (case Sha256_generate_digest digest msg of
        Inl _ \<Rightarrow> Err SignatureVerificationFailed
      | Inr d \<Rightarrow> Ok (d = signature))"

section \<open>Encrypted data\<close>

record 'a Encryptable =
  inner :: 'a
  encrypted :: bytes

definition Encryptable_new :: "'a \<Rightarrow> bytes \<Rightarrow> 'a Encryptable" where
  "Encryptable_new masked_data encrypted_data = \<lparr>inner = masked_data, encrypted = encrypted_data\<rparr>"

definition into_inner :: "'a Encryptable \<Rightarrow> 'a" where
  "into_inner self = inner self"

definition into_encrypted :: "'a Encryptable \<Rightarrow> bytes" where
  "into_encrypted self = encrypted self"

text \<open>Equality compares the clear data only.\<close>

definition Encryptable_eq :: "'a Encryptable \<Rightarrow> 'a Encryptable \<Rightarrow> bool" where
  "Encryptable_eq a b \<longleftrightarrow> inner a = inner b"

section \<open>Facts\<close>

lemma length_be_bytes [simp]: "length (be_bytes k n) = k"
  by (induction k arbitrary: n) auto

lemma be_value_snoc [simp]: "be_value (bs @ [b]) = be_value bs * 256 + unat b"
  by (simp add: be_value_def)

lemma unat_byte: "unat (of_nat n :: 8 word) = n mod 256"
  by (simp add: unat_of_nat)

lemma be_value_bytes: "be_value (be_bytes k n) = n mod 256 ^ k"
proof (induction k arbitrary: n)
  case 0
  then show ?case by (simp add: be_value_def)
next
  case (Suc k)
  have "n mod 256 ^ Suc k = (n div 256 mod 256 ^ k) * 256 + n mod 256"
    by (simp add: mod_mult2_eq mult.commute)
  with Suc show ?case by (simp add: unat_byte)
qed

lemma byte_snoc: "of_nat (v * 256 + unat b) = (b :: 8 word)"
proof -
  have "unat b < 256" using unsigned_less [of b, where 'a = nat] by simp
  then have "unat (of_nat (v * 256 + unat b) :: 8 word) = unat b" by (simp only: unat_byte) simp
  then show ?thesis by (simp only: word_unat_eq_iff)
qed

lemma be_bytes_value: "be_bytes (length bs) (be_value bs) = bs"
proof (induction bs rule: rev_induct)
  case Nil
  then show ?case by simp
next
  case (snoc b bs)
  have "of_nat (be_value bs * 256 + unat b) = b" by (rule byte_snoc)
  moreover have "(be_value bs * 256 + unat b) div 256 = be_value bs"
    using unsigned_less [of b, where 'a = nat] by simp
  ultimately show ?case using snoc by (simp del: of_nat_add of_nat_mult)
qed

lemma be_bytes_mod: "be_bytes k (n mod 256 ^ k) = be_bytes k n"
  using be_bytes_value [of "be_bytes k n"] by (simp add: be_value_bytes)

lemma be_bytes_append: "be_bytes (k + l) n = be_bytes k (n div 256 ^ l) @ be_bytes l n"
proof (induction l arbitrary: n)
  case 0
  then show ?case by simp
next
  case (Suc l)
  then show ?case by (simp add: div_mult2_eq)
qed

lemma be_value_zeros [simp]: "be_value (replicate m 0 @ bs) = be_value bs"
proof -
  have "foldl (\<lambda>acc b. acc * 256 + unat b) 0 (replicate m (0 :: 8 word)) = 0" by (induction m) auto
  then show ?thesis by (simp add: be_value_def)
qed

lemma be_value_less: "be_value bs < 256 ^ length bs"
  by (metis be_bytes_value be_value_bytes mod_less_divisor zero_less_numeral zero_less_power)

text \<open>The nonce is the low 96 bits of the counter.\<close>

lemma nonce_bytes: "drop SEQUENCE_NUMBER_START_INDEX (to_be_bytes n) = be_bytes 12 (unat n)"
  using be_bytes_append [of 4 12 "unat n"] by (simp add: SEQUENCE_NUMBER_START_INDEX_def to_be_bytes_def)

lemma current_from_bytes:
  assumes "length bs = 12"
  shows "NonceSequence_current (NonceSequence_from_bytes bs) = bs"
proof -
  have "be_value bs < 2 ^ 96" using be_value_less [of bs] assms by simp
  then have "unat (of_nat (be_value bs) :: 128 word) = be_value bs" by (simp add: unat_of_nat)
  with be_bytes_value [of bs] assms show ?thesis
    by (simp add: NonceSequence_from_bytes_def nonce_bytes from_be_bytes_def)
qed

lemma advance_current: "fst (advance s) = NonceSequence_current s"
  by (cases s) simp

section \<open>The cipher\<close>

locale aead_cipher =
  fixes A :: "'k aead"
  assumes open_seal: "seal A k n m = Some c \<Longrightarrow> open_sealed A k n c = Some m"
    and seal_open: "open_sealed A k n c = Some m \<Longrightarrow> seal A k n m = Some c"
begin

lemma encode_decode:
  assumes "length r = NONCE_LEN" and "GcmAes256_encode_message A (Some r) secret msg = Ok c"
  shows "GcmAes256_decode_message A secret c = Ok msg" and "take NONCE_LEN c = r"
proof -
  from assms(1) have cur: "NonceSequence_current (NonceSequence_from_bytes r) = r"
    by (simp add: current_from_bytes NONCE_LEN_def)
  from assms(2) obtain key b where k: "unbound_key A secret = Some key" and b: "seal A key r msg = Some b" and c: "c = r @ b"
    using cur by (auto simp: GcmAes256_encode_message_def NonceSequence_new_def advance_current
      NonceSequence_from_bytes_def [symmetric] Let_def split: option.splits)
  show "take NONCE_LEN c = r" using c assms(1) by simp
  show "GcmAes256_decode_message A secret c = Ok msg"
    using k c assms(1) cur open_seal [OF b] by (simp add: GcmAes256_decode_message_def advance_current Let_def)
qed

lemma decode_authentic:
  assumes "GcmAes256_decode_message A secret c = Ok msg"
  shows "GcmAes256_encode_message A (Some (take NONCE_LEN c)) secret msg = Ok c"
proof -
  from assms obtain key where k: "unbound_key A secret = Some key" and l: "\<not> length c < NONCE_LEN"
    and o: "open_sealed A key (fst (advance (NonceSequence_from_bytes (take NONCE_LEN c)))) (drop NONCE_LEN c) = Some msg"
    by (auto simp: GcmAes256_decode_message_def Let_def split: option.splits if_splits)
  have cur: "NonceSequence_current (NonceSequence_from_bytes (take NONCE_LEN c)) = take NONCE_LEN c"
    using l by (simp add: current_from_bytes NONCE_LEN_def)
  show ?thesis using k seal_open [OF o] cur
    by (simp add: GcmAes256_encode_message_def NonceSequence_new_def NonceSequence_from_bytes_def [symmetric]
      advance_current Let_def)
qed

end

text \<open>A cipher that appends its key and nonce as the tag keeps the two laws.\<close>

definition tag_cipher :: "bytes aead" where
  "tag_cipher = \<lparr>
     unbound_key = (\<lambda>secret. if length secret = 32 then Some secret else None),
     seal = (\<lambda>k n m. Some (m @ n @ k)),
     open_sealed = (\<lambda>k n c. let l = length c - length (n @ k) in
       if length (n @ k) \<le> length c \<and> drop l c = n @ k then Some (take l c) else None)\<rparr>"

interpretation tag: aead_cipher tag_cipher
proof
  show "seal tag_cipher k n m = Some c \<Longrightarrow> open_sealed tag_cipher k n c = Some m" for k n m c
    by (auto simp: tag_cipher_def Let_def)
  show "open_sealed tag_cipher k n c = Some m \<Longrightarrow> seal tag_cipher k n m = Some c" for k n m c
    by (auto simp: tag_cipher_def Let_def split: if_splits) (metis append_take_drop_id)
qed

section \<open>Properties\<close>



lemma mod_add_left_iff: "(u + i) mod M = (u + j) mod M \<longleftrightarrow> i mod M = j mod (M :: nat)"
proof -
  have "(int u + int i) mod int M = (int u + int j) mod int M \<longleftrightarrow> int i mod int M = int j mod int M"
    by (simp add: mod_eq_dvd_iff)
  then show ?thesis by (metis of_nat_add of_nat_mod of_nat_eq_iff)
qed

text \<open>The nonce of the \<open>i\<close>-th use of a sequence.\<close>

definition nonce_at :: "NonceSequence \<Rightarrow> nat \<Rightarrow> bytes" where
  "nonce_at s i = fst (advance (((\<lambda>t. snd (advance t)) ^^ i) s))"

lemma iterate_advance: "((\<lambda>t. snd (advance t)) ^^ i) (NonceSequence n) = NonceSequence (n + of_nat i)"
  by (induction i) (simp_all add: add.commute)

lemma nonce_at_bytes: "nonce_at (NonceSequence n) i = be_bytes 12 (unat n + i)"
proof -
  have "(unat n + i) mod 2 ^ 128 mod 256 ^ 12 = (unat n + i) mod 256 ^ 12"
    by (rule mod_mod_cancel) simp
  moreover have "unat (n + of_nat i) = (unat n + i) mod 2 ^ 128"
    by (simp add: unat_word_ariths unat_of_nat mod_add_right_eq)
  ultimately show ?thesis
    by (metis (no_types, lifting) nonce_at_def iterate_advance advance.simps fst_conv nonce_bytes be_bytes_mod)
qed

text \<open>A nonce sequence repeats a nonce exactly after every \<open>2 ^ 96\<close> uses, also when its counter
  leaves the twelve bytes the nonce is read from: fewer uses never repeat one.\<close>

theorem nonces_distinct:
  "nonce_at s i = nonce_at s j \<longleftrightarrow> i mod 2 ^ 96 = j mod 2 ^ 96"
proof (cases s)
  case (NonceSequence n)
  have "be_bytes 12 a = be_bytes 12 b \<longleftrightarrow> a mod 256 ^ 12 = b mod 256 ^ 12" for a b
    by (metis be_value_bytes be_bytes_mod)
  moreover have "(unat n + i) mod 2 ^ 96 = (unat n + j) mod 2 ^ 96 \<longleftrightarrow> i mod 2 ^ 96 = j mod 2 ^ 96"
    by (rule mod_add_left_iff)
  ultimately show ?thesis by (simp add: NonceSequence nonce_at_bytes)
qed

end
