(* ===== verification/Countries.thy ===== *)
theory Countries
  imports Prelude
begin

text \<open>
  Countries and their ISO 3166 codes: the enums \<open>Country\<close>, \<open>CountryAlpha2\<close> and \<open>CountryAlpha3\<close> of
  \<open>common_enums/src/enums.rs\<close> and the conversions between them of \<open>common_enums/src/transformers.rs\<close>.

  A value of one of these enums, which have no data, is the name of its variant, and the list of the names
  is the enum; serde reads and writes exactly these names. A conversion is the list of the arms of its
  \<open>match\<close>, and applied to a text it gives nothing when the text names no variant.
\<close>

section \<open>The enums\<close>

type_synonym Country = string
type_synonym CountryAlpha2 = string
type_synonym CountryAlpha3 = string

definition Country_variants :: "Country list" where
  "Country_variants = [
   ''Afghanistan'', ''AlandIslands'', ''Albania'', ''Algeria'', ''AmericanSamoa'', ''Andorra'', ''Angola'',
   ''Anguilla'', ''Antarctica'', ''AntiguaAndBarbuda'', ''Argentina'', ''Armenia'', ''Aruba'', ''Australia'',
   ''Austria'', ''Azerbaijan'', ''Bahamas'', ''Bahrain'', ''Bangladesh'', ''Barbados'', ''Belarus'',
   ''Belgium'', ''Belize'', ''Benin'', ''Bermuda'', ''Bhutan'', ''BoliviaPlurinationalState'',
   ''BonaireSintEustatiusAndSaba'', ''BosniaAndHerzegovina'', ''Botswana'', ''BouvetIsland'', ''Brazil'',
   ''BritishIndianOceanTerritory'', ''BruneiDarussalam'', ''Bulgaria'', ''BurkinaFaso'', ''Burundi'',
   ''CaboVerde'', ''Cambodia'', ''Cameroon'', ''Canada'', ''CaymanIslands'', ''CentralAfricanRepublic'',
   ''Chad'', ''Chile'', ''China'', ''ChristmasIsland'', ''CocosKeelingIslands'', ''Colombia'', ''Comoros'',
   ''Congo'', ''CongoDemocraticRepublic'', ''CookIslands'', ''CostaRica'', ''CotedIvoire'', ''Croatia'',
   ''Cuba'', ''Curacao'', ''Cyprus'', ''Czechia'', ''Denmark'', ''Djibouti'', ''Dominica'',
   ''DominicanRepublic'', ''Ecuador'', ''Egypt'', ''ElSalvador'', ''EquatorialGuinea'', ''Eritrea'',
   ''Estonia'', ''Ethiopia'', ''FalklandIslandsMalvinas'', ''FaroeIslands'', ''Fiji'', ''Finland'', ''France'',
   ''FrenchGuiana'', ''FrenchPolynesia'', ''FrenchSouthernTerritories'', ''Gabon'', ''Gambia'', ''Georgia'',
   ''Germany'', ''Ghana'', ''Gibraltar'', ''Greece'', ''Greenland'', ''Grenada'', ''Guadeloupe'', ''Guam'',
   ''Guatemala'', ''Guernsey'', ''Guinea'', ''GuineaBissau'', ''Guyana'', ''Haiti'',
   ''HeardIslandAndMcDonaldIslands'', ''HolySee'', ''Honduras'', ''HongKong'', ''Hungary'', ''Iceland'',
   ''India'', ''Indonesia'', ''IranIslamicRepublic'', ''Iraq'', ''Ireland'', ''IsleOfMan'', ''Israel'',
   ''Italy'', ''Jamaica'', ''Japan'', ''Jersey'', ''Jordan'', ''Kazakhstan'', ''Kenya'', ''Kiribati'',
   ''KoreaDemocraticPeoplesRepublic'', ''KoreaRepublic'', ''Kuwait'', ''Kyrgyzstan'',
   ''LaoPeoplesDemocraticRepublic'', ''Latvia'', ''Lebanon'', ''Lesotho'', ''Liberia'', ''Libya'',
   ''Liechtenstein'', ''Lithuania'', ''Luxembourg'', ''Macao'', ''MacedoniaTheFormerYugoslavRepublic'',
   ''Madagascar'', ''Malawi'', ''Malaysia'', ''Maldives'', ''Mali'', ''Malta'', ''MarshallIslands'',
   ''Martinique'', ''Mauritania'', ''Mauritius'', ''Mayotte'', ''Mexico'', ''MicronesiaFederatedStates'',
   ''MoldovaRepublic'', ''Monaco'', ''Mongolia'', ''Montenegro'', ''Montserrat'', ''Morocco'', ''Mozambique'',
   ''Myanmar'', ''Namibia'', ''Nauru'', ''Nepal'', ''Netherlands'', ''NewCaledonia'', ''NewZealand'',
   ''Nicaragua'', ''Niger'', ''Nigeria'', ''Niue'', ''NorfolkIsland'', ''NorthernMarianaIslands'', ''Norway'',
   ''Oman'', ''Pakistan'', ''Palau'', ''PalestineState'', ''Panama'', ''PapuaNewGuinea'', ''Paraguay'',
   ''Peru'', ''Philippines'', ''Pitcairn'', ''Poland'', ''Portugal'', ''PuertoRico'', ''Qatar'', ''Reunion'',
   ''Romania'', ''RussianFederation'', ''Rwanda'', ''SaintBarthelemy'',
   ''SaintHelenaAscensionAndTristandaCunha'', ''SaintKittsAndNevis'', ''SaintLucia'',
   ''SaintMartinFrenchpart'', ''SaintPierreAndMiquelon'', ''SaintVincentAndTheGrenadines'', ''Samoa'',
   ''SanMarino'', ''SaoTomeAndPrincipe'', ''SaudiArabia'', ''Senegal'', ''Serbia'', ''Seychelles'',
   ''SierraLeone'', ''Singapore'', ''SintMaartenDutchpart'', ''Slovakia'', ''Slovenia'', ''SolomonIslands'',
   ''Somalia'', ''SouthAfrica'', ''SouthGeorgiaAndTheSouthSandwichIslands'', ''SouthSudan'', ''Spain'',
   ''SriLanka'', ''Sudan'', ''Suriname'', ''SvalbardAndJanMayen'', ''Swaziland'', ''Sweden'', ''Switzerland'',
   ''SyrianArabRepublic'', ''TaiwanProvinceOfChina'', ''Tajikistan'', ''TanzaniaUnitedRepublic'', ''Thailand'',
   ''TimorLeste'', ''Togo'', ''Tokelau'', ''Tonga'', ''TrinidadAndTobago'', ''Tunisia'', ''Turkey'',
   ''Turkmenistan'', ''TurksAndCaicosIslands'', ''Tuvalu'', ''Uganda'', ''Ukraine'', ''UnitedArabEmirates'',
   ''UnitedKingdomOfGreatBritainAndNorthernIreland'', ''UnitedStatesOfAmerica'',
   ''UnitedStatesMinorOutlyingIslands'', ''Uruguay'', ''Uzbekistan'', ''Vanuatu'',
   ''VenezuelaBolivarianRepublic'', ''Vietnam'', ''VirginIslandsBritish'', ''VirginIslandsUS'',
   ''WallisAndFutuna'', ''WesternSahara'', ''Yemen'', ''Zambia'', ''Zimbabwe'']"

definition CountryAlpha2_variants :: "CountryAlpha2 list" where
  "CountryAlpha2_variants = [
   ''AF'', ''AX'', ''AL'', ''DZ'', ''AS'', ''AD'', ''AO'', ''AI'', ''AQ'', ''AG'', ''AR'', ''AM'', ''AW'',
   ''AU'', ''AT'', ''AZ'', ''BS'', ''BH'', ''BD'', ''BB'', ''BY'', ''BE'', ''BZ'', ''BJ'', ''BM'', ''BT'',
   ''BO'', ''BQ'', ''BA'', ''BW'', ''BV'', ''BR'', ''IO'', ''BN'', ''BG'', ''BF'', ''BI'', ''KH'', ''CM'',
   ''CA'', ''CV'', ''KY'', ''CF'', ''TD'', ''CL'', ''CN'', ''CX'', ''CC'', ''CO'', ''KM'', ''CG'', ''CD'',
   ''CK'', ''CR'', ''CI'', ''HR'', ''CU'', ''CW'', ''CY'', ''CZ'', ''DK'', ''DJ'', ''DM'', ''DO'', ''EC'',
   ''EG'', ''SV'', ''GQ'', ''ER'', ''EE'', ''ET'', ''FK'', ''FO'', ''FJ'', ''FI'', ''FR'', ''GF'', ''PF'',
   ''TF'', ''GA'', ''GM'', ''GE'', ''DE'', ''GH'', ''GI'', ''GR'', ''GL'', ''GD'', ''GP'', ''GU'', ''GT'',
   ''GG'', ''GN'', ''GW'', ''GY'', ''HT'', ''HM'', ''VA'', ''HN'', ''HK'', ''HU'', ''IS'', ''IN'', ''ID'',
   ''IR'', ''IQ'', ''IE'', ''IM'', ''IL'', ''IT'', ''JM'', ''JP'', ''JE'', ''JO'', ''KZ'', ''KE'', ''KI'',
   ''KP'', ''KR'', ''KW'', ''KG'', ''LA'', ''LV'', ''LB'', ''LS'', ''LR'', ''LY'', ''LI'', ''LT'', ''LU'',
   ''MO'', ''MK'', ''MG'', ''MW'', ''MY'', ''MV'', ''ML'', ''MT'', ''MH'', ''MQ'', ''MR'', ''MU'', ''YT'',
   ''MX'', ''FM'', ''MD'', ''MC'', ''MN'', ''ME'', ''MS'', ''MA'', ''MZ'', ''MM'', ''NA'', ''NR'', ''NP'',
   ''NL'', ''NC'', ''NZ'', ''NI'', ''NE'', ''NG'', ''NU'', ''NF'', ''MP'', ''NO'', ''OM'', ''PK'', ''PW'',
   ''PS'', ''PA'', ''PG'', ''PY'', ''PE'', ''PH'', ''PN'', ''PL'', ''PT'', ''PR'', ''QA'', ''RE'', ''RO'',
   ''RU'', ''RW'', ''BL'', ''SH'', ''KN'', ''LC'', ''MF'', ''PM'', ''VC'', ''WS'', ''SM'', ''ST'', ''SA'',
   ''SN'', ''RS'', ''SC'', ''SL'', ''SG'', ''SX'', ''SK'', ''SI'', ''SB'', ''SO'', ''ZA'', ''GS'', ''SS'',
   ''ES'', ''LK'', ''SD'', ''SR'', ''SJ'', ''SZ'', ''SE'', ''CH'', ''SY'', ''TW'', ''TJ'', ''TZ'', ''TH'',
   ''TL'', ''TG'', ''TK'', ''TO'', ''TT'', ''TN'', ''TR'', ''TM'', ''TC'', ''TV'', ''UG'', ''UA'', ''AE'',
   ''GB'', ''UM'', ''UY'', ''UZ'', ''VU'', ''VE'', ''VN'', ''VG'', ''VI'', ''WF'', ''EH'', ''YE'', ''ZM'',
   ''ZW'', ''US'']"

definition CountryAlpha3_variants :: "CountryAlpha3 list" where
  "CountryAlpha3_variants = [
   ''AFG'', ''ALA'', ''ALB'', ''DZA'', ''ASM'', ''AND'', ''AGO'', ''AIA'', ''ATA'', ''ATG'', ''ARG'', ''ARM'',
   ''ABW'', ''AUS'', ''AUT'', ''AZE'', ''BHS'', ''BHR'', ''BGD'', ''BRB'', ''BLR'', ''BEL'', ''BLZ'', ''BEN'',
   ''BMU'', ''BTN'', ''BOL'', ''BES'', ''BIH'', ''BWA'', ''BVT'', ''BRA'', ''IOT'', ''BRN'', ''BGR'', ''BFA'',
   ''BDI'', ''CPV'', ''KHM'', ''CMR'', ''CAN'', ''CYM'', ''CAF'', ''TCD'', ''CHL'', ''CHN'', ''CXR'', ''CCK'',
   ''COL'', ''COM'', ''COG'', ''COD'', ''COK'', ''CRI'', ''CIV'', ''HRV'', ''CUB'', ''CUW'', ''CYP'', ''CZE'',
   ''DNK'', ''DJI'', ''DMA'', ''DOM'', ''ECU'', ''EGY'', ''SLV'', ''GNQ'', ''ERI'', ''EST'', ''ETH'', ''FLK'',
   ''FRO'', ''FJI'', ''FIN'', ''FRA'', ''GUF'', ''PYF'', ''ATF'', ''GAB'', ''GMB'', ''GEO'', ''DEU'', ''GHA'',
   ''GIB'', ''GRC'', ''GRL'', ''GRD'', ''GLP'', ''GUM'', ''GTM'', ''GGY'', ''GIN'', ''GNB'', ''GUY'', ''HTI'',
   ''HMD'', ''VAT'', ''HND'', ''HKG'', ''HUN'', ''ISL'', ''IND'', ''IDN'', ''IRN'', ''IRQ'', ''IRL'', ''IMN'',
   ''ISR'', ''ITA'', ''JAM'', ''JPN'', ''JEY'', ''JOR'', ''KAZ'', ''KEN'', ''KIR'', ''PRK'', ''KOR'', ''KWT'',
   ''KGZ'', ''LAO'', ''LVA'', ''LBN'', ''LSO'', ''LBR'', ''LBY'', ''LIE'', ''LTU'', ''LUX'', ''MAC'', ''MKD'',
   ''MDG'', ''MWI'', ''MYS'', ''MDV'', ''MLI'', ''MLT'', ''MHL'', ''MTQ'', ''MRT'', ''MUS'', ''MYT'', ''MEX'',
   ''FSM'', ''MDA'', ''MCO'', ''MNG'', ''MNE'', ''MSR'', ''MAR'', ''MOZ'', ''MMR'', ''NAM'', ''NRU'', ''NPL'',
   ''NLD'', ''NCL'', ''NZL'', ''NIC'', ''NER'', ''NGA'', ''NIU'', ''NFK'', ''MNP'', ''NOR'', ''OMN'', ''PAK'',
   ''PLW'', ''PSE'', ''PAN'', ''PNG'', ''PRY'', ''PER'', ''PHL'', ''PCN'', ''POL'', ''PRT'', ''PRI'', ''QAT'',
   ''REU'', ''ROU'', ''RUS'', ''RWA'', ''BLM'', ''SHN'', ''KNA'', ''LCA'', ''MAF'', ''SPM'', ''VCT'', ''WSM'',
   ''SMR'', ''STP'', ''SAU'', ''SEN'', ''SRB'', ''SYC'', ''SLE'', ''SGP'', ''SXM'', ''SVK'', ''SVN'', ''SLB'',
   ''SOM'', ''ZAF'', ''SGS'', ''SSD'', ''ESP'', ''LKA'', ''SDN'', ''SUR'', ''SJM'', ''SWZ'', ''SWE'', ''CHE'',
   ''SYR'', ''TWN'', ''TJK'', ''TZA'', ''THA'', ''TLS'', ''TGO'', ''TKL'', ''TON'', ''TTO'', ''TUN'', ''TUR'',
   ''TKM'', ''TCA'', ''TUV'', ''UGA'', ''UKR'', ''ARE'', ''GBR'', ''USA'', ''UMI'', ''URY'', ''UZB'', ''VUT'',
   ''VEN'', ''VNM'', ''VGB'', ''VIR'', ''WLF'', ''ESH'', ''YEM'', ''ZMB'', ''ZWE'']"

section \<open>The conversions\<close>

definition from_alpha2_to_alpha3_arms :: "(CountryAlpha2 \<times> CountryAlpha3) list" where
  "from_alpha2_to_alpha3_arms = [
   (''AF'', ''AFG''), (''AX'', ''ALA''), (''AL'', ''ALB''), (''DZ'', ''DZA''), (''AS'', ''ASM''),
   (''AD'', ''AND''), (''AO'', ''AGO''), (''AI'', ''AIA''), (''AQ'', ''ATA''), (''AG'', ''ATG''),
   (''AR'', ''ARG''), (''AM'', ''ARM''), (''AW'', ''ABW''), (''AU'', ''AUS''), (''AT'', ''AUT''),
   (''AZ'', ''AZE''), (''BS'', ''BHS''), (''BH'', ''BHR''), (''BD'', ''BGD''), (''BB'', ''BRB''),
   (''BY'', ''BLR''), (''BE'', ''BEL''), (''BZ'', ''BLZ''), (''BJ'', ''BEN''), (''BM'', ''BMU''),
   (''BT'', ''BTN''), (''BO'', ''BOL''), (''BQ'', ''BES''), (''BA'', ''BIH''), (''BW'', ''BWA''),
   (''BV'', ''BVT''), (''BR'', ''BRA''), (''IO'', ''IOT''), (''BN'', ''BRN''), (''BG'', ''BGR''),
   (''BF'', ''BFA''), (''BI'', ''BDI''), (''CV'', ''CPV''), (''KH'', ''KHM''), (''CM'', ''CMR''),
   (''CA'', ''CAN''), (''KY'', ''CYM''), (''CF'', ''CAF''), (''TD'', ''TCD''), (''CL'', ''CHL''),
   (''CN'', ''CHN''), (''CX'', ''CXR''), (''CC'', ''CCK''), (''CO'', ''COL''), (''KM'', ''COM''),
   (''CG'', ''COG''), (''CD'', ''COD''), (''CK'', ''COK''), (''CR'', ''CRI''), (''CI'', ''CIV''),
   (''HR'', ''HRV''), (''CU'', ''CUB''), (''CW'', ''CUW''), (''CY'', ''CYP''), (''CZ'', ''CZE''),
   (''DK'', ''DNK''), (''DJ'', ''DJI''), (''DM'', ''DMA''), (''DO'', ''DOM''), (''EC'', ''ECU''),
   (''EG'', ''EGY''), (''SV'', ''SLV''), (''GQ'', ''GNQ''), (''ER'', ''ERI''), (''EE'', ''EST''),
   (''ET'', ''ETH''), (''FK'', ''FLK''), (''FO'', ''FRO''), (''FJ'', ''FJI''), (''FI'', ''FIN''),
   (''FR'', ''FRA''), (''GF'', ''GUF''), (''PF'', ''PYF''), (''TF'', ''ATF''), (''GA'', ''GAB''),
   (''GM'', ''GMB''), (''GE'', ''GEO''), (''DE'', ''DEU''), (''GH'', ''GHA''), (''GI'', ''GIB''),
   (''GR'', ''GRC''), (''GL'', ''GRL''), (''GD'', ''GRD''), (''GP'', ''GLP''), (''GU'', ''GUM''),
   (''GT'', ''GTM''), (''GG'', ''GGY''), (''GN'', ''GIN''), (''GW'', ''GNB''), (''GY'', ''GUY''),
   (''HT'', ''HTI''), (''HM'', ''HMD''), (''VA'', ''VAT''), (''HN'', ''HND''), (''HK'', ''HKG''),
   (''HU'', ''HUN''), (''IS'', ''ISL''), (''IN'', ''IND''), (''ID'', ''IDN''), (''IR'', ''IRN''),
   (''IQ'', ''IRQ''), (''IE'', ''IRL''), (''IM'', ''IMN''), (''IL'', ''ISR''), (''IT'', ''ITA''),
   (''JM'', ''JAM''), (''JP'', ''JPN''), (''JE'', ''JEY''), (''JO'', ''JOR''), (''KZ'', ''KAZ''),
   (''KE'', ''KEN''), (''KI'', ''KIR''), (''KP'', ''PRK''), (''KR'', ''KOR''), (''KW'', ''KWT''),
   (''KG'', ''KGZ''), (''LA'', ''LAO''), (''LV'', ''LVA''), (''LB'', ''LBN''), (''LS'', ''LSO''),
   (''LR'', ''LBR''), (''LY'', ''LBY''), (''LI'', ''LIE''), (''LT'', ''LTU''), (''LU'', ''LUX''),
   (''MO'', ''MAC''), (''MK'', ''MKD''), (''MG'', ''MDG''), (''MW'', ''MWI''), (''MY'', ''MYS''),
   (''MV'', ''MDV''), (''ML'', ''MLI''), (''MT'', ''MLT''), (''MH'', ''MHL''), (''MQ'', ''MTQ''),
   (''MR'', ''MRT''), (''MU'', ''MUS''), (''YT'', ''MYT''), (''MX'', ''MEX''), (''FM'', ''FSM''),
   (''MD'', ''MDA''), (''MC'', ''MCO''), (''MN'', ''MNG''), (''ME'', ''MNE''), (''MS'', ''MSR''),
   (''MA'', ''MAR''), (''MZ'', ''MOZ''), (''MM'', ''MMR''), (''NA'', ''NAM''), (''NR'', ''NRU''),
   (''NP'', ''NPL''), (''NL'', ''NLD''), (''NC'', ''NCL''), (''NZ'', ''NZL''), (''NI'', ''NIC''),
   (''NE'', ''NER''), (''NG'', ''NGA''), (''NU'', ''NIU''), (''NF'', ''NFK''), (''MP'', ''MNP''),
   (''NO'', ''NOR''), (''OM'', ''OMN''), (''PK'', ''PAK''), (''PW'', ''PLW''), (''PS'', ''PSE''),
   (''PA'', ''PAN''), (''PG'', ''PNG''), (''PY'', ''PRY''), (''PE'', ''PER''), (''PH'', ''PHL''),
   (''PN'', ''PCN''), (''PL'', ''POL''), (''PT'', ''PRT''), (''PR'', ''PRI''), (''QA'', ''QAT''),
   (''RE'', ''REU''), (''RO'', ''ROU''), (''RU'', ''RUS''), (''RW'', ''RWA''), (''BL'', ''BLM''),
   (''SH'', ''SHN''), (''KN'', ''KNA''), (''LC'', ''LCA''), (''MF'', ''MAF''), (''PM'', ''SPM''),
   (''VC'', ''VCT''), (''WS'', ''WSM''), (''SM'', ''SMR''), (''ST'', ''STP''), (''SA'', ''SAU''),
   (''SN'', ''SEN''), (''RS'', ''SRB''), (''SC'', ''SYC''), (''SL'', ''SLE''), (''SG'', ''SGP''),
   (''SX'', ''SXM''), (''SK'', ''SVK''), (''SI'', ''SVN''), (''SB'', ''SLB''), (''SO'', ''SOM''),
   (''ZA'', ''ZAF''), (''GS'', ''SGS''), (''SS'', ''SSD''), (''ES'', ''ESP''), (''LK'', ''LKA''),
   (''SD'', ''SDN''), (''SR'', ''SUR''), (''SJ'', ''SJM''), (''SZ'', ''SWZ''), (''SE'', ''SWE''),
   (''CH'', ''CHE''), (''SY'', ''SYR''), (''TW'', ''TWN''), (''TJ'', ''TJK''), (''TZ'', ''TZA''),
   (''TH'', ''THA''), (''TL'', ''TLS''), (''TG'', ''TGO''), (''TK'', ''TKL''), (''TO'', ''TON''),
   (''TT'', ''TTO''), (''TN'', ''TUN''), (''TR'', ''TUR''), (''TM'', ''TKM''), (''TC'', ''TCA''),
   (''TV'', ''TUV''), (''UG'', ''UGA''), (''UA'', ''UKR''), (''AE'', ''ARE''), (''GB'', ''GBR''),
   (''US'', ''USA''), (''UM'', ''UMI''), (''UY'', ''URY''), (''UZ'', ''UZB''), (''VU'', ''VUT''),
   (''VE'', ''VEN''), (''VN'', ''VNM''), (''VG'', ''VGB''), (''VI'', ''VIR''), (''WF'', ''WLF''),
   (''EH'', ''ESH''), (''YE'', ''YEM''), (''ZM'', ''ZMB''), (''ZW'', ''ZWE'')]"

definition from_alpha2_to_alpha3 :: "CountryAlpha2 \<Rightarrow> CountryAlpha3 option" where
  "from_alpha2_to_alpha3 code = map_of from_alpha2_to_alpha3_arms code"

definition from_alpha2_arms :: "(CountryAlpha2 \<times> Country) list" where
  "from_alpha2_arms = [
   (''AF'', ''Afghanistan''), (''AX'', ''AlandIslands''), (''AL'', ''Albania''), (''DZ'', ''Algeria''),
   (''AS'', ''AmericanSamoa''), (''AD'', ''Andorra''), (''AO'', ''Angola''), (''AI'', ''Anguilla''),
   (''AQ'', ''Antarctica''), (''AG'', ''AntiguaAndBarbuda''), (''AR'', ''Argentina''), (''AM'', ''Armenia''),
   (''AW'', ''Aruba''), (''AU'', ''Australia''), (''AT'', ''Austria''), (''AZ'', ''Azerbaijan''),
   (''BS'', ''Bahamas''), (''BH'', ''Bahrain''), (''BD'', ''Bangladesh''), (''BB'', ''Barbados''),
   (''BY'', ''Belarus''), (''BE'', ''Belgium''), (''BZ'', ''Belize''), (''BJ'', ''Benin''),
   (''BM'', ''Bermuda''), (''BT'', ''Bhutan''), (''BO'', ''BoliviaPlurinationalState''),
   (''BQ'', ''BonaireSintEustatiusAndSaba''), (''BA'', ''BosniaAndHerzegovina''), (''BW'', ''Botswana''),
   (''BV'', ''BouvetIsland''), (''BR'', ''Brazil''), (''IO'', ''BritishIndianOceanTerritory''),
   (''BN'', ''BruneiDarussalam''), (''BG'', ''Bulgaria''), (''BF'', ''BurkinaFaso''), (''BI'', ''Burundi''),
   (''CV'', ''CaboVerde''), (''KH'', ''Cambodia''), (''CM'', ''Cameroon''), (''CA'', ''Canada''),
   (''KY'', ''CaymanIslands''), (''CF'', ''CentralAfricanRepublic''), (''TD'', ''Chad''), (''CL'', ''Chile''),
   (''CN'', ''China''), (''CX'', ''ChristmasIsland''), (''CC'', ''CocosKeelingIslands''),
   (''CO'', ''Colombia''), (''KM'', ''Comoros''), (''CG'', ''Congo''), (''CD'', ''CongoDemocraticRepublic''),
   (''CK'', ''CookIslands''), (''CR'', ''CostaRica''), (''CI'', ''CotedIvoire''), (''HR'', ''Croatia''),
   (''CU'', ''Cuba''), (''CW'', ''Curacao''), (''CY'', ''Cyprus''), (''CZ'', ''Czechia''),
   (''DK'', ''Denmark''), (''DJ'', ''Djibouti''), (''DM'', ''Dominica''), (''DO'', ''DominicanRepublic''),
   (''EC'', ''Ecuador''), (''EG'', ''Egypt''), (''SV'', ''ElSalvador''), (''GQ'', ''EquatorialGuinea''),
   (''ER'', ''Eritrea''), (''EE'', ''Estonia''), (''ET'', ''Ethiopia''), (''FK'', ''FalklandIslandsMalvinas''),
   (''FO'', ''FaroeIslands''), (''FJ'', ''Fiji''), (''FI'', ''Finland''), (''FR'', ''France''),
   (''GF'', ''FrenchGuiana''), (''PF'', ''FrenchPolynesia''), (''TF'', ''FrenchSouthernTerritories''),
   (''GA'', ''Gabon''), (''GM'', ''Gambia''), (''GE'', ''Georgia''), (''DE'', ''Germany''),
   (''GH'', ''Ghana''), (''GI'', ''Gibraltar''), (''GR'', ''Greece''), (''GL'', ''Greenland''),
   (''GD'', ''Grenada''), (''GP'', ''Guadeloupe''), (''GU'', ''Guam''), (''GT'', ''Guatemala''),
   (''GG'', ''Guernsey''), (''GN'', ''Guinea''), (''GW'', ''GuineaBissau''), (''GY'', ''Guyana''),
   (''HT'', ''Haiti''), (''HM'', ''HeardIslandAndMcDonaldIslands''), (''VA'', ''HolySee''),
   (''HN'', ''Honduras''), (''HK'', ''HongKong''), (''HU'', ''Hungary''), (''IS'', ''Iceland''),
   (''IN'', ''India''), (''ID'', ''Indonesia''), (''IR'', ''IranIslamicRepublic''), (''IQ'', ''Iraq''),
   (''IE'', ''Ireland''), (''IM'', ''IsleOfMan''), (''IL'', ''Israel''), (''IT'', ''Italy''),
   (''JM'', ''Jamaica''), (''JP'', ''Japan''), (''JE'', ''Jersey''), (''JO'', ''Jordan''),
   (''KZ'', ''Kazakhstan''), (''KE'', ''Kenya''), (''KI'', ''Kiribati''),
   (''KP'', ''KoreaDemocraticPeoplesRepublic''), (''KR'', ''KoreaRepublic''), (''KW'', ''Kuwait''),
   (''KG'', ''Kyrgyzstan''), (''LA'', ''LaoPeoplesDemocraticRepublic''), (''LV'', ''Latvia''),
   (''LB'', ''Lebanon''), (''LS'', ''Lesotho''), (''LR'', ''Liberia''), (''LY'', ''Libya''),
   (''LI'', ''Liechtenstein''), (''LT'', ''Lithuania''), (''LU'', ''Luxembourg''), (''MO'', ''Macao''),
   (''MK'', ''MacedoniaTheFormerYugoslavRepublic''), (''MG'', ''Madagascar''), (''MW'', ''Malawi''),
   (''MY'', ''Malaysia''), (''MV'', ''Maldives''), (''ML'', ''Mali''), (''MT'', ''Malta''),
   (''MH'', ''MarshallIslands''), (''MQ'', ''Martinique''), (''MR'', ''Mauritania''), (''MU'', ''Mauritius''),
   (''YT'', ''Mayotte''), (''MX'', ''Mexico''), (''FM'', ''MicronesiaFederatedStates''),
   (''MD'', ''MoldovaRepublic''), (''MC'', ''Monaco''), (''MN'', ''Mongolia''), (''ME'', ''Montenegro''),
   (''MS'', ''Montserrat''), (''MA'', ''Morocco''), (''MZ'', ''Mozambique''), (''MM'', ''Myanmar''),
   (''NA'', ''Namibia''), (''NR'', ''Nauru''), (''NP'', ''Nepal''), (''NL'', ''Netherlands''),
   (''NC'', ''NewCaledonia''), (''NZ'', ''NewZealand''), (''NI'', ''Nicaragua''), (''NE'', ''Niger''),
   (''NG'', ''Nigeria''), (''NU'', ''Niue''), (''NF'', ''NorfolkIsland''),
   (''MP'', ''NorthernMarianaIslands''), (''NO'', ''Norway''), (''OM'', ''Oman''), (''PK'', ''Pakistan''),
   (''PW'', ''Palau''), (''PS'', ''PalestineState''), (''PA'', ''Panama''), (''PG'', ''PapuaNewGuinea''),
   (''PY'', ''Paraguay''), (''PE'', ''Peru''), (''PH'', ''Philippines''), (''PN'', ''Pitcairn''),
   (''PL'', ''Poland''), (''PT'', ''Portugal''), (''PR'', ''PuertoRico''), (''QA'', ''Qatar''),
   (''RE'', ''Reunion''), (''RO'', ''Romania''), (''RU'', ''RussianFederation''), (''RW'', ''Rwanda''),
   (''BL'', ''SaintBarthelemy''), (''SH'', ''SaintHelenaAscensionAndTristandaCunha''),
   (''KN'', ''SaintKittsAndNevis''), (''LC'', ''SaintLucia''), (''MF'', ''SaintMartinFrenchpart''),
   (''PM'', ''SaintPierreAndMiquelon''), (''VC'', ''SaintVincentAndTheGrenadines''), (''WS'', ''Samoa''),
   (''SM'', ''SanMarino''), (''ST'', ''SaoTomeAndPrincipe''), (''SA'', ''SaudiArabia''), (''SN'', ''Senegal''),
   (''RS'', ''Serbia''), (''SC'', ''Seychelles''), (''SL'', ''SierraLeone''), (''SG'', ''Singapore''),
   (''SX'', ''SintMaartenDutchpart''), (''SK'', ''Slovakia''), (''SI'', ''Slovenia''),
   (''SB'', ''SolomonIslands''), (''SO'', ''Somalia''), (''ZA'', ''SouthAfrica''),
   (''GS'', ''SouthGeorgiaAndTheSouthSandwichIslands''), (''SS'', ''SouthSudan''), (''ES'', ''Spain''),
   (''LK'', ''SriLanka''), (''SD'', ''Sudan''), (''SR'', ''Suriname''), (''SJ'', ''SvalbardAndJanMayen''),
   (''SZ'', ''Swaziland''), (''SE'', ''Sweden''), (''CH'', ''Switzerland''), (''SY'', ''SyrianArabRepublic''),
   (''TW'', ''TaiwanProvinceOfChina''), (''TJ'', ''Tajikistan''), (''TZ'', ''TanzaniaUnitedRepublic''),
   (''TH'', ''Thailand''), (''TL'', ''TimorLeste''), (''TG'', ''Togo''), (''TK'', ''Tokelau''),
   (''TO'', ''Tonga''), (''TT'', ''TrinidadAndTobago''), (''TN'', ''Tunisia''), (''TR'', ''Turkey''),
   (''TM'', ''Turkmenistan''), (''TC'', ''TurksAndCaicosIslands''), (''TV'', ''Tuvalu''), (''UG'', ''Uganda''),
   (''UA'', ''Ukraine''), (''AE'', ''UnitedArabEmirates''),
   (''GB'', ''UnitedKingdomOfGreatBritainAndNorthernIreland''), (''US'', ''UnitedStatesOfAmerica''),
   (''UM'', ''UnitedStatesMinorOutlyingIslands''), (''UY'', ''Uruguay''), (''UZ'', ''Uzbekistan''),
   (''VU'', ''Vanuatu''), (''VE'', ''VenezuelaBolivarianRepublic''), (''VN'', ''Vietnam''),
   (''VG'', ''VirginIslandsBritish''), (''VI'', ''VirginIslandsUS''), (''WF'', ''WallisAndFutuna''),
   (''EH'', ''WesternSahara''), (''YE'', ''Yemen''), (''ZM'', ''Zambia''), (''ZW'', ''Zimbabwe'')]"

definition from_alpha2 :: "CountryAlpha2 \<Rightarrow> Country option" where
  "from_alpha2 code = map_of from_alpha2_arms code"

definition to_alpha2_arms :: "(Country \<times> CountryAlpha2) list" where
  "to_alpha2_arms = [
   (''Afghanistan'', ''AF''), (''AlandIslands'', ''AX''), (''Albania'', ''AL''), (''Algeria'', ''DZ''),
   (''AmericanSamoa'', ''AS''), (''Andorra'', ''AD''), (''Angola'', ''AO''), (''Anguilla'', ''AI''),
   (''Antarctica'', ''AQ''), (''AntiguaAndBarbuda'', ''AG''), (''Argentina'', ''AR''), (''Armenia'', ''AM''),
   (''Aruba'', ''AW''), (''Australia'', ''AU''), (''Austria'', ''AT''), (''Azerbaijan'', ''AZ''),
   (''Bahamas'', ''BS''), (''Bahrain'', ''BH''), (''Bangladesh'', ''BD''), (''Barbados'', ''BB''),
   (''Belarus'', ''BY''), (''Belgium'', ''BE''), (''Belize'', ''BZ''), (''Benin'', ''BJ''),
   (''Bermuda'', ''BM''), (''Bhutan'', ''BT''), (''BoliviaPlurinationalState'', ''BO''),
   (''BonaireSintEustatiusAndSaba'', ''BQ''), (''BosniaAndHerzegovina'', ''BA''), (''Botswana'', ''BW''),
   (''BouvetIsland'', ''BV''), (''Brazil'', ''BR''), (''BritishIndianOceanTerritory'', ''IO''),
   (''BruneiDarussalam'', ''BN''), (''Bulgaria'', ''BG''), (''BurkinaFaso'', ''BF''), (''Burundi'', ''BI''),
   (''CaboVerde'', ''CV''), (''Cambodia'', ''KH''), (''Cameroon'', ''CM''), (''Canada'', ''CA''),
   (''CaymanIslands'', ''KY''), (''CentralAfricanRepublic'', ''CF''), (''Chad'', ''TD''), (''Chile'', ''CL''),
   (''China'', ''CN''), (''ChristmasIsland'', ''CX''), (''CocosKeelingIslands'', ''CC''),
   (''Colombia'', ''CO''), (''Comoros'', ''KM''), (''Congo'', ''CG''), (''CongoDemocraticRepublic'', ''CD''),
   (''CookIslands'', ''CK''), (''CostaRica'', ''CR''), (''CotedIvoire'', ''CI''), (''Croatia'', ''HR''),
   (''Cuba'', ''CU''), (''Curacao'', ''CW''), (''Cyprus'', ''CY''), (''Czechia'', ''CZ''),
   (''Denmark'', ''DK''), (''Djibouti'', ''DJ''), (''Dominica'', ''DM''), (''DominicanRepublic'', ''DO''),
   (''Ecuador'', ''EC''), (''Egypt'', ''EG''), (''ElSalvador'', ''SV''), (''EquatorialGuinea'', ''GQ''),
   (''Eritrea'', ''ER''), (''Estonia'', ''EE''), (''Ethiopia'', ''ET''), (''FalklandIslandsMalvinas'', ''FK''),
   (''FaroeIslands'', ''FO''), (''Fiji'', ''FJ''), (''Finland'', ''FI''), (''France'', ''FR''),
   (''FrenchGuiana'', ''GF''), (''FrenchPolynesia'', ''PF''), (''FrenchSouthernTerritories'', ''TF''),
   (''Gabon'', ''GA''), (''Gambia'', ''GM''), (''Georgia'', ''GE''), (''Germany'', ''DE''),
   (''Ghana'', ''GH''), (''Gibraltar'', ''GI''), (''Greece'', ''GR''), (''Greenland'', ''GL''),
   (''Grenada'', ''GD''), (''Guadeloupe'', ''GP''), (''Guam'', ''GU''), (''Guatemala'', ''GT''),
   (''Guernsey'', ''GG''), (''Guinea'', ''GN''), (''GuineaBissau'', ''GW''), (''Guyana'', ''GY''),
   (''Haiti'', ''HT''), (''HeardIslandAndMcDonaldIslands'', ''HM''), (''HolySee'', ''VA''),
   (''Honduras'', ''HN''), (''HongKong'', ''HK''), (''Hungary'', ''HU''), (''Iceland'', ''IS''),
   (''India'', ''IN''), (''Indonesia'', ''ID''), (''IranIslamicRepublic'', ''IR''), (''Iraq'', ''IQ''),
   (''Ireland'', ''IE''), (''IsleOfMan'', ''IM''), (''Israel'', ''IL''), (''Italy'', ''IT''),
   (''Jamaica'', ''JM''), (''Japan'', ''JP''), (''Jersey'', ''JE''), (''Jordan'', ''JO''),
   (''Kazakhstan'', ''KZ''), (''Kenya'', ''KE''), (''Kiribati'', ''KI''),
   (''KoreaDemocraticPeoplesRepublic'', ''KP''), (''KoreaRepublic'', ''KR''), (''Kuwait'', ''KW''),
   (''Kyrgyzstan'', ''KG''), (''LaoPeoplesDemocraticRepublic'', ''LA''), (''Latvia'', ''LV''),
   (''Lebanon'', ''LB''), (''Lesotho'', ''LS''), (''Liberia'', ''LR''), (''Libya'', ''LY''),
   (''Liechtenstein'', ''LI''), (''Lithuania'', ''LT''), (''Luxembourg'', ''LU''), (''Macao'', ''MO''),
   (''MacedoniaTheFormerYugoslavRepublic'', ''MK''), (''Madagascar'', ''MG''), (''Malawi'', ''MW''),
   (''Malaysia'', ''MY''), (''Maldives'', ''MV''), (''Mali'', ''ML''), (''Malta'', ''MT''),
   (''MarshallIslands'', ''MH''), (''Martinique'', ''MQ''), (''Mauritania'', ''MR''), (''Mauritius'', ''MU''),
   (''Mayotte'', ''YT''), (''Mexico'', ''MX''), (''MicronesiaFederatedStates'', ''FM''),
   (''MoldovaRepublic'', ''MD''), (''Monaco'', ''MC''), (''Mongolia'', ''MN''), (''Montenegro'', ''ME''),
   (''Montserrat'', ''MS''), (''Morocco'', ''MA''), (''Mozambique'', ''MZ''), (''Myanmar'', ''MM''),
   (''Namibia'', ''NA''), (''Nauru'', ''NR''), (''Nepal'', ''NP''), (''Netherlands'', ''NL''),
   (''NewCaledonia'', ''NC''), (''NewZealand'', ''NZ''), (''Nicaragua'', ''NI''), (''Niger'', ''NE''),
   (''Nigeria'', ''NG''), (''Niue'', ''NU''), (''NorfolkIsland'', ''NF''),
   (''NorthernMarianaIslands'', ''MP''), (''Norway'', ''NO''), (''Oman'', ''OM''), (''Pakistan'', ''PK''),
   (''Palau'', ''PW''), (''PalestineState'', ''PS''), (''Panama'', ''PA''), (''PapuaNewGuinea'', ''PG''),
   (''Paraguay'', ''PY''), (''Peru'', ''PE''), (''Philippines'', ''PH''), (''Pitcairn'', ''PN''),
   (''Poland'', ''PL''), (''Portugal'', ''PT''), (''PuertoRico'', ''PR''), (''Qatar'', ''QA''),
   (''Reunion'', ''RE''), (''Romania'', ''RO''), (''RussianFederation'', ''RU''), (''Rwanda'', ''RW''),
   (''SaintBarthelemy'', ''BL''), (''SaintHelenaAscensionAndTristandaCunha'', ''SH''),
   (''SaintKittsAndNevis'', ''KN''), (''SaintLucia'', ''LC''), (''SaintMartinFrenchpart'', ''MF''),
   (''SaintPierreAndMiquelon'', ''PM''), (''SaintVincentAndTheGrenadines'', ''VC''), (''Samoa'', ''WS''),
   (''SanMarino'', ''SM''), (''SaoTomeAndPrincipe'', ''ST''), (''SaudiArabia'', ''SA''), (''Senegal'', ''SN''),
   (''Serbia'', ''RS''), (''Seychelles'', ''SC''), (''SierraLeone'', ''SL''), (''Singapore'', ''SG''),
   (''SintMaartenDutchpart'', ''SX''), (''Slovakia'', ''SK''), (''Slovenia'', ''SI''),
   (''SolomonIslands'', ''SB''), (''Somalia'', ''SO''), (''SouthAfrica'', ''ZA''),
   (''SouthGeorgiaAndTheSouthSandwichIslands'', ''GS''), (''SouthSudan'', ''SS''), (''Spain'', ''ES''),
   (''SriLanka'', ''LK''), (''Sudan'', ''SD''), (''Suriname'', ''SR''), (''SvalbardAndJanMayen'', ''SJ''),
   (''Swaziland'', ''SZ''), (''Sweden'', ''SE''), (''Switzerland'', ''CH''), (''SyrianArabRepublic'', ''SY''),
   (''TaiwanProvinceOfChina'', ''TW''), (''Tajikistan'', ''TJ''), (''TanzaniaUnitedRepublic'', ''TZ''),
   (''Thailand'', ''TH''), (''TimorLeste'', ''TL''), (''Togo'', ''TG''), (''Tokelau'', ''TK''),
   (''Tonga'', ''TO''), (''TrinidadAndTobago'', ''TT''), (''Tunisia'', ''TN''), (''Turkey'', ''TR''),
   (''Turkmenistan'', ''TM''), (''TurksAndCaicosIslands'', ''TC''), (''Tuvalu'', ''TV''), (''Uganda'', ''UG''),
   (''Ukraine'', ''UA''), (''UnitedArabEmirates'', ''AE''),
   (''UnitedKingdomOfGreatBritainAndNorthernIreland'', ''GB''), (''UnitedStatesOfAmerica'', ''US''),
   (''UnitedStatesMinorOutlyingIslands'', ''UM''), (''Uruguay'', ''UY''), (''Uzbekistan'', ''UZ''),
   (''Vanuatu'', ''VU''), (''VenezuelaBolivarianRepublic'', ''VE''), (''Vietnam'', ''VN''),
   (''VirginIslandsBritish'', ''VG''), (''VirginIslandsUS'', ''VI''), (''WallisAndFutuna'', ''WF''),
   (''WesternSahara'', ''EH''), (''Yemen'', ''YE''), (''Zambia'', ''ZM''), (''Zimbabwe'', ''ZW'')]"

definition to_alpha2 :: "Country \<Rightarrow> CountryAlpha2 option" where
  "to_alpha2 code = map_of to_alpha2_arms code"

definition from_alpha3_arms :: "(CountryAlpha3 \<times> Country) list" where
  "from_alpha3_arms = [
   (''AFG'', ''Afghanistan''), (''ALA'', ''AlandIslands''), (''ALB'', ''Albania''), (''DZA'', ''Algeria''),
   (''ASM'', ''AmericanSamoa''), (''AND'', ''Andorra''), (''AGO'', ''Angola''), (''AIA'', ''Anguilla''),
   (''ATA'', ''Antarctica''), (''ATG'', ''AntiguaAndBarbuda''), (''ARG'', ''Argentina''),
   (''ARM'', ''Armenia''), (''ABW'', ''Aruba''), (''AUS'', ''Australia''), (''AUT'', ''Austria''),
   (''AZE'', ''Azerbaijan''), (''BHS'', ''Bahamas''), (''BHR'', ''Bahrain''), (''BGD'', ''Bangladesh''),
   (''BRB'', ''Barbados''), (''BLR'', ''Belarus''), (''BEL'', ''Belgium''), (''BLZ'', ''Belize''),
   (''BEN'', ''Benin''), (''BMU'', ''Bermuda''), (''BTN'', ''Bhutan''),
   (''BOL'', ''BoliviaPlurinationalState''), (''BES'', ''BonaireSintEustatiusAndSaba''),
   (''BIH'', ''BosniaAndHerzegovina''), (''BWA'', ''Botswana''), (''BVT'', ''BouvetIsland''),
   (''BRA'', ''Brazil''), (''IOT'', ''BritishIndianOceanTerritory''), (''BRN'', ''BruneiDarussalam''),
   (''BGR'', ''Bulgaria''), (''BFA'', ''BurkinaFaso''), (''BDI'', ''Burundi''), (''CPV'', ''CaboVerde''),
   (''KHM'', ''Cambodia''), (''CMR'', ''Cameroon''), (''CAN'', ''Canada''), (''CYM'', ''CaymanIslands''),
   (''CAF'', ''CentralAfricanRepublic''), (''TCD'', ''Chad''), (''CHL'', ''Chile''), (''CHN'', ''China''),
   (''CXR'', ''ChristmasIsland''), (''CCK'', ''CocosKeelingIslands''), (''COL'', ''Colombia''),
   (''COM'', ''Comoros''), (''COG'', ''Congo''), (''COD'', ''CongoDemocraticRepublic''),
   (''COK'', ''CookIslands''), (''CRI'', ''CostaRica''), (''CIV'', ''CotedIvoire''), (''HRV'', ''Croatia''),
   (''CUB'', ''Cuba''), (''CUW'', ''Curacao''), (''CYP'', ''Cyprus''), (''CZE'', ''Czechia''),
   (''DNK'', ''Denmark''), (''DJI'', ''Djibouti''), (''DMA'', ''Dominica''), (''DOM'', ''DominicanRepublic''),
   (''ECU'', ''Ecuador''), (''EGY'', ''Egypt''), (''SLV'', ''ElSalvador''), (''GNQ'', ''EquatorialGuinea''),
   (''ERI'', ''Eritrea''), (''EST'', ''Estonia''), (''ETH'', ''Ethiopia''),
   (''FLK'', ''FalklandIslandsMalvinas''), (''FRO'', ''FaroeIslands''), (''FJI'', ''Fiji''),
   (''FIN'', ''Finland''), (''FRA'', ''France''), (''GUF'', ''FrenchGuiana''), (''PYF'', ''FrenchPolynesia''),
   (''ATF'', ''FrenchSouthernTerritories''), (''GAB'', ''Gabon''), (''GMB'', ''Gambia''),
   (''GEO'', ''Georgia''), (''DEU'', ''Germany''), (''GHA'', ''Ghana''), (''GIB'', ''Gibraltar''),
   (''GRC'', ''Greece''), (''GRL'', ''Greenland''), (''GRD'', ''Grenada''), (''GLP'', ''Guadeloupe''),
   (''GUM'', ''Guam''), (''GTM'', ''Guatemala''), (''GGY'', ''Guernsey''), (''GIN'', ''Guinea''),
   (''GNB'', ''GuineaBissau''), (''GUY'', ''Guyana''), (''HTI'', ''Haiti''),
   (''HMD'', ''HeardIslandAndMcDonaldIslands''), (''VAT'', ''HolySee''), (''HND'', ''Honduras''),
   (''HKG'', ''HongKong''), (''HUN'', ''Hungary''), (''ISL'', ''Iceland''), (''IND'', ''India''),
   (''IDN'', ''Indonesia''), (''IRN'', ''IranIslamicRepublic''), (''IRQ'', ''Iraq''), (''IRL'', ''Ireland''),
   (''IMN'', ''IsleOfMan''), (''ISR'', ''Israel''), (''ITA'', ''Italy''), (''JAM'', ''Jamaica''),
   (''JPN'', ''Japan''), (''JEY'', ''Jersey''), (''JOR'', ''Jordan''), (''KAZ'', ''Kazakhstan''),
   (''KEN'', ''Kenya''), (''KIR'', ''Kiribati''), (''PRK'', ''KoreaDemocraticPeoplesRepublic''),
   (''KOR'', ''KoreaRepublic''), (''KWT'', ''Kuwait''), (''KGZ'', ''Kyrgyzstan''),
   (''LAO'', ''LaoPeoplesDemocraticRepublic''), (''LVA'', ''Latvia''), (''LBN'', ''Lebanon''),
   (''LSO'', ''Lesotho''), (''LBR'', ''Liberia''), (''LBY'', ''Libya''), (''LIE'', ''Liechtenstein''),
   (''LTU'', ''Lithuania''), (''LUX'', ''Luxembourg''), (''MAC'', ''Macao''),
   (''MKD'', ''MacedoniaTheFormerYugoslavRepublic''), (''MDG'', ''Madagascar''), (''MWI'', ''Malawi''),
   (''MYS'', ''Malaysia''), (''MDV'', ''Maldives''), (''MLI'', ''Mali''), (''MLT'', ''Malta''),
   (''MHL'', ''MarshallIslands''), (''MTQ'', ''Martinique''), (''MRT'', ''Mauritania''),
   (''MUS'', ''Mauritius''), (''MYT'', ''Mayotte''), (''MEX'', ''Mexico''),
   (''FSM'', ''MicronesiaFederatedStates''), (''MDA'', ''MoldovaRepublic''), (''MCO'', ''Monaco''),
   (''MNG'', ''Mongolia''), (''MNE'', ''Montenegro''), (''MSR'', ''Montserrat''), (''MAR'', ''Morocco''),
   (''MOZ'', ''Mozambique''), (''MMR'', ''Myanmar''), (''NAM'', ''Namibia''), (''NRU'', ''Nauru''),
   (''NPL'', ''Nepal''), (''NLD'', ''Netherlands''), (''NCL'', ''NewCaledonia''), (''NZL'', ''NewZealand''),
   (''NIC'', ''Nicaragua''), (''NER'', ''Niger''), (''NGA'', ''Nigeria''), (''NIU'', ''Niue''),
   (''NFK'', ''NorfolkIsland''), (''MNP'', ''NorthernMarianaIslands''), (''NOR'', ''Norway''),
   (''OMN'', ''Oman''), (''PAK'', ''Pakistan''), (''PLW'', ''Palau''), (''PSE'', ''PalestineState''),
   (''PAN'', ''Panama''), (''PNG'', ''PapuaNewGuinea''), (''PRY'', ''Paraguay''), (''PER'', ''Peru''),
   (''PHL'', ''Philippines''), (''PCN'', ''Pitcairn''), (''POL'', ''Poland''), (''PRT'', ''Portugal''),
   (''PRI'', ''PuertoRico''), (''QAT'', ''Qatar''), (''REU'', ''Reunion''), (''ROU'', ''Romania''),
   (''RUS'', ''RussianFederation''), (''RWA'', ''Rwanda''), (''BLM'', ''SaintBarthelemy''),
   (''SHN'', ''SaintHelenaAscensionAndTristandaCunha''), (''KNA'', ''SaintKittsAndNevis''),
   (''LCA'', ''SaintLucia''), (''MAF'', ''SaintMartinFrenchpart''), (''SPM'', ''SaintPierreAndMiquelon''),
   (''VCT'', ''SaintVincentAndTheGrenadines''), (''WSM'', ''Samoa''), (''SMR'', ''SanMarino''),
   (''STP'', ''SaoTomeAndPrincipe''), (''SAU'', ''SaudiArabia''), (''SEN'', ''Senegal''),
   (''SRB'', ''Serbia''), (''SYC'', ''Seychelles''), (''SLE'', ''SierraLeone''), (''SGP'', ''Singapore''),
   (''SXM'', ''SintMaartenDutchpart''), (''SVK'', ''Slovakia''), (''SVN'', ''Slovenia''),
   (''SLB'', ''SolomonIslands''), (''SOM'', ''Somalia''), (''ZAF'', ''SouthAfrica''),
   (''SGS'', ''SouthGeorgiaAndTheSouthSandwichIslands''), (''SSD'', ''SouthSudan''), (''ESP'', ''Spain''),
   (''LKA'', ''SriLanka''), (''SDN'', ''Sudan''), (''SUR'', ''Suriname''), (''SJM'', ''SvalbardAndJanMayen''),
   (''SWZ'', ''Swaziland''), (''SWE'', ''Sweden''), (''CHE'', ''Switzerland''),
   (''SYR'', ''SyrianArabRepublic''), (''TWN'', ''TaiwanProvinceOfChina''), (''TJK'', ''Tajikistan''),
   (''TZA'', ''TanzaniaUnitedRepublic''), (''THA'', ''Thailand''), (''TLS'', ''TimorLeste''),
   (''TGO'', ''Togo''), (''TKL'', ''Tokelau''), (''TON'', ''Tonga''), (''TTO'', ''TrinidadAndTobago''),
   (''TUN'', ''Tunisia''), (''TUR'', ''Turkey''), (''TKM'', ''Turkmenistan''),
   (''TCA'', ''TurksAndCaicosIslands''), (''TUV'', ''Tuvalu''), (''UGA'', ''Uganda''), (''UKR'', ''Ukraine''),
   (''ARE'', ''UnitedArabEmirates''), (''GBR'', ''UnitedKingdomOfGreatBritainAndNorthernIreland''),
   (''USA'', ''UnitedStatesOfAmerica''), (''UMI'', ''UnitedStatesMinorOutlyingIslands''),
   (''URY'', ''Uruguay''), (''UZB'', ''Uzbekistan''), (''VUT'', ''Vanuatu''),
   (''VEN'', ''VenezuelaBolivarianRepublic''), (''VNM'', ''Vietnam''), (''VGB'', ''VirginIslandsBritish''),
   (''VIR'', ''VirginIslandsUS''), (''WLF'', ''WallisAndFutuna''), (''ESH'', ''WesternSahara''),
   (''YEM'', ''Yemen''), (''ZMB'', ''Zambia''), (''ZWE'', ''Zimbabwe'')]"

definition from_alpha3 :: "CountryAlpha3 \<Rightarrow> Country option" where
  "from_alpha3 code = map_of from_alpha3_arms code"

definition to_alpha3_arms :: "(Country \<times> CountryAlpha3) list" where
  "to_alpha3_arms = [
   (''Afghanistan'', ''AFG''), (''AlandIslands'', ''ALA''), (''Albania'', ''ALB''), (''Algeria'', ''DZA''),
   (''AmericanSamoa'', ''ASM''), (''Andorra'', ''AND''), (''Angola'', ''AGO''), (''Anguilla'', ''AIA''),
   (''Antarctica'', ''ATA''), (''AntiguaAndBarbuda'', ''ATG''), (''Argentina'', ''ARG''),
   (''Armenia'', ''ARM''), (''Aruba'', ''ABW''), (''Australia'', ''AUS''), (''Austria'', ''AUT''),
   (''Azerbaijan'', ''AZE''), (''Bahamas'', ''BHS''), (''Bahrain'', ''BHR''), (''Bangladesh'', ''BGD''),
   (''Barbados'', ''BRB''), (''Belarus'', ''BLR''), (''Belgium'', ''BEL''), (''Belize'', ''BLZ''),
   (''Benin'', ''BEN''), (''Bermuda'', ''BMU''), (''Bhutan'', ''BTN''),
   (''BoliviaPlurinationalState'', ''BOL''), (''BonaireSintEustatiusAndSaba'', ''BES''),
   (''BosniaAndHerzegovina'', ''BIH''), (''Botswana'', ''BWA''), (''BouvetIsland'', ''BVT''),
   (''Brazil'', ''BRA''), (''BritishIndianOceanTerritory'', ''IOT''), (''BruneiDarussalam'', ''BRN''),
   (''Bulgaria'', ''BGR''), (''BurkinaFaso'', ''BFA''), (''Burundi'', ''BDI''), (''CaboVerde'', ''CPV''),
   (''Cambodia'', ''KHM''), (''Cameroon'', ''CMR''), (''Canada'', ''CAN''), (''CaymanIslands'', ''CYM''),
   (''CentralAfricanRepublic'', ''CAF''), (''Chad'', ''TCD''), (''Chile'', ''CHL''), (''China'', ''CHN''),
   (''ChristmasIsland'', ''CXR''), (''CocosKeelingIslands'', ''CCK''), (''Colombia'', ''COL''),
   (''Comoros'', ''COM''), (''Congo'', ''COG''), (''CongoDemocraticRepublic'', ''COD''),
   (''CookIslands'', ''COK''), (''CostaRica'', ''CRI''), (''CotedIvoire'', ''CIV''), (''Croatia'', ''HRV''),
   (''Cuba'', ''CUB''), (''Curacao'', ''CUW''), (''Cyprus'', ''CYP''), (''Czechia'', ''CZE''),
   (''Denmark'', ''DNK''), (''Djibouti'', ''DJI''), (''Dominica'', ''DMA''), (''DominicanRepublic'', ''DOM''),
   (''Ecuador'', ''ECU''), (''Egypt'', ''EGY''), (''ElSalvador'', ''SLV''), (''EquatorialGuinea'', ''GNQ''),
   (''Eritrea'', ''ERI''), (''Estonia'', ''EST''), (''Ethiopia'', ''ETH''),
   (''FalklandIslandsMalvinas'', ''FLK''), (''FaroeIslands'', ''FRO''), (''Fiji'', ''FJI''),
   (''Finland'', ''FIN''), (''France'', ''FRA''), (''FrenchGuiana'', ''GUF''), (''FrenchPolynesia'', ''PYF''),
   (''FrenchSouthernTerritories'', ''ATF''), (''Gabon'', ''GAB''), (''Gambia'', ''GMB''),
   (''Georgia'', ''GEO''), (''Germany'', ''DEU''), (''Ghana'', ''GHA''), (''Gibraltar'', ''GIB''),
   (''Greece'', ''GRC''), (''Greenland'', ''GRL''), (''Grenada'', ''GRD''), (''Guadeloupe'', ''GLP''),
   (''Guam'', ''GUM''), (''Guatemala'', ''GTM''), (''Guernsey'', ''GGY''), (''Guinea'', ''GIN''),
   (''GuineaBissau'', ''GNB''), (''Guyana'', ''GUY''), (''Haiti'', ''HTI''),
   (''HeardIslandAndMcDonaldIslands'', ''HMD''), (''HolySee'', ''VAT''), (''Honduras'', ''HND''),
   (''HongKong'', ''HKG''), (''Hungary'', ''HUN''), (''Iceland'', ''ISL''), (''India'', ''IND''),
   (''Indonesia'', ''IDN''), (''IranIslamicRepublic'', ''IRN''), (''Iraq'', ''IRQ''), (''Ireland'', ''IRL''),
   (''IsleOfMan'', ''IMN''), (''Israel'', ''ISR''), (''Italy'', ''ITA''), (''Jamaica'', ''JAM''),
   (''Japan'', ''JPN''), (''Jersey'', ''JEY''), (''Jordan'', ''JOR''), (''Kazakhstan'', ''KAZ''),
   (''Kenya'', ''KEN''), (''Kiribati'', ''KIR''), (''KoreaDemocraticPeoplesRepublic'', ''PRK''),
   (''KoreaRepublic'', ''KOR''), (''Kuwait'', ''KWT''), (''Kyrgyzstan'', ''KGZ''),
   (''LaoPeoplesDemocraticRepublic'', ''LAO''), (''Latvia'', ''LVA''), (''Lebanon'', ''LBN''),
   (''Lesotho'', ''LSO''), (''Liberia'', ''LBR''), (''Libya'', ''LBY''), (''Liechtenstein'', ''LIE''),
   (''Lithuania'', ''LTU''), (''Luxembourg'', ''LUX''), (''Macao'', ''MAC''),
   (''MacedoniaTheFormerYugoslavRepublic'', ''MKD''), (''Madagascar'', ''MDG''), (''Malawi'', ''MWI''),
   (''Malaysia'', ''MYS''), (''Maldives'', ''MDV''), (''Mali'', ''MLI''), (''Malta'', ''MLT''),
   (''MarshallIslands'', ''MHL''), (''Martinique'', ''MTQ''), (''Mauritania'', ''MRT''),
   (''Mauritius'', ''MUS''), (''Mayotte'', ''MYT''), (''Mexico'', ''MEX''),
   (''MicronesiaFederatedStates'', ''FSM''), (''MoldovaRepublic'', ''MDA''), (''Monaco'', ''MCO''),
   (''Mongolia'', ''MNG''), (''Montenegro'', ''MNE''), (''Montserrat'', ''MSR''), (''Morocco'', ''MAR''),
   (''Mozambique'', ''MOZ''), (''Myanmar'', ''MMR''), (''Namibia'', ''NAM''), (''Nauru'', ''NRU''),
   (''Nepal'', ''NPL''), (''Netherlands'', ''NLD''), (''NewCaledonia'', ''NCL''), (''NewZealand'', ''NZL''),
   (''Nicaragua'', ''NIC''), (''Niger'', ''NER''), (''Nigeria'', ''NGA''), (''Niue'', ''NIU''),
   (''NorfolkIsland'', ''NFK''), (''NorthernMarianaIslands'', ''MNP''), (''Norway'', ''NOR''),
   (''Oman'', ''OMN''), (''Pakistan'', ''PAK''), (''Palau'', ''PLW''), (''PalestineState'', ''PSE''),
   (''Panama'', ''PAN''), (''PapuaNewGuinea'', ''PNG''), (''Paraguay'', ''PRY''), (''Peru'', ''PER''),
   (''Philippines'', ''PHL''), (''Pitcairn'', ''PCN''), (''Poland'', ''POL''), (''Portugal'', ''PRT''),
   (''PuertoRico'', ''PRI''), (''Qatar'', ''QAT''), (''Reunion'', ''REU''), (''Romania'', ''ROU''),
   (''RussianFederation'', ''RUS''), (''Rwanda'', ''RWA''), (''SaintBarthelemy'', ''BLM''),
   (''SaintHelenaAscensionAndTristandaCunha'', ''SHN''), (''SaintKittsAndNevis'', ''KNA''),
   (''SaintLucia'', ''LCA''), (''SaintMartinFrenchpart'', ''MAF''), (''SaintPierreAndMiquelon'', ''SPM''),
   (''SaintVincentAndTheGrenadines'', ''VCT''), (''Samoa'', ''WSM''), (''SanMarino'', ''SMR''),
   (''SaoTomeAndPrincipe'', ''STP''), (''SaudiArabia'', ''SAU''), (''Senegal'', ''SEN''),
   (''Serbia'', ''SRB''), (''Seychelles'', ''SYC''), (''SierraLeone'', ''SLE''), (''Singapore'', ''SGP''),
   (''SintMaartenDutchpart'', ''SXM''), (''Slovakia'', ''SVK''), (''Slovenia'', ''SVN''),
   (''SolomonIslands'', ''SLB''), (''Somalia'', ''SOM''), (''SouthAfrica'', ''ZAF''),
   (''SouthGeorgiaAndTheSouthSandwichIslands'', ''SGS''), (''SouthSudan'', ''SSD''), (''Spain'', ''ESP''),
   (''SriLanka'', ''LKA''), (''Sudan'', ''SDN''), (''Suriname'', ''SUR''), (''SvalbardAndJanMayen'', ''SJM''),
   (''Swaziland'', ''SWZ''), (''Sweden'', ''SWE''), (''Switzerland'', ''CHE''),
   (''SyrianArabRepublic'', ''SYR''), (''TaiwanProvinceOfChina'', ''TWN''), (''Tajikistan'', ''TJK''),
   (''TanzaniaUnitedRepublic'', ''TZA''), (''Thailand'', ''THA''), (''TimorLeste'', ''TLS''),
   (''Togo'', ''TGO''), (''Tokelau'', ''TKL''), (''Tonga'', ''TON''), (''TrinidadAndTobago'', ''TTO''),
   (''Tunisia'', ''TUN''), (''Turkey'', ''TUR''), (''Turkmenistan'', ''TKM''),
   (''TurksAndCaicosIslands'', ''TCA''), (''Tuvalu'', ''TUV''), (''Uganda'', ''UGA''), (''Ukraine'', ''UKR''),
   (''UnitedArabEmirates'', ''ARE''), (''UnitedKingdomOfGreatBritainAndNorthernIreland'', ''GBR''),
   (''UnitedStatesOfAmerica'', ''USA''), (''UnitedStatesMinorOutlyingIslands'', ''UMI''),
   (''Uruguay'', ''URY''), (''Uzbekistan'', ''UZB''), (''Vanuatu'', ''VUT''),
   (''VenezuelaBolivarianRepublic'', ''VEN''), (''Vietnam'', ''VNM''), (''VirginIslandsBritish'', ''VGB''),
   (''VirginIslandsUS'', ''VIR''), (''WallisAndFutuna'', ''WLF''), (''WesternSahara'', ''ESH''),
   (''Yemen'', ''YEM''), (''Zambia'', ''ZMB''), (''Zimbabwe'', ''ZWE'')]"

definition to_alpha3 :: "Country \<Rightarrow> CountryAlpha3 option" where
  "to_alpha3 code = map_of to_alpha3_arms code"

datatype NumericCountryCodeParseError = NumericCountryCodeParseError

definition from_numeric_arms :: "(nat \<times> Country) list" where
  "from_numeric_arms = [
   (4, ''Afghanistan''), (248, ''AlandIslands''), (8, ''Albania''), (12, ''Algeria''), (16, ''AmericanSamoa''),
   (20, ''Andorra''), (24, ''Angola''), (660, ''Anguilla''), (10, ''Antarctica''), (28, ''AntiguaAndBarbuda''),
   (32, ''Argentina''), (51, ''Armenia''), (533, ''Aruba''), (36, ''Australia''), (40, ''Austria''),
   (31, ''Azerbaijan''), (44, ''Bahamas''), (48, ''Bahrain''), (50, ''Bangladesh''), (52, ''Barbados''),
   (112, ''Belarus''), (56, ''Belgium''), (84, ''Belize''), (204, ''Benin''), (60, ''Bermuda''),
   (64, ''Bhutan''), (68, ''BoliviaPlurinationalState''), (535, ''BonaireSintEustatiusAndSaba''),
   (70, ''BosniaAndHerzegovina''), (72, ''Botswana''), (74, ''BouvetIsland''), (76, ''Brazil''),
   (86, ''BritishIndianOceanTerritory''), (96, ''BruneiDarussalam''), (100, ''Bulgaria''),
   (854, ''BurkinaFaso''), (108, ''Burundi''), (132, ''CaboVerde''), (116, ''Cambodia''), (120, ''Cameroon''),
   (124, ''Canada''), (136, ''CaymanIslands''), (140, ''CentralAfricanRepublic''), (148, ''Chad''),
   (152, ''Chile''), (156, ''China''), (162, ''ChristmasIsland''), (166, ''CocosKeelingIslands''),
   (170, ''Colombia''), (174, ''Comoros''), (178, ''Congo''), (180, ''CongoDemocraticRepublic''),
   (184, ''CookIslands''), (188, ''CostaRica''), (384, ''CotedIvoire''), (191, ''Croatia''), (192, ''Cuba''),
   (531, ''Curacao''), (196, ''Cyprus''), (203, ''Czechia''), (208, ''Denmark''), (262, ''Djibouti''),
   (212, ''Dominica''), (214, ''DominicanRepublic''), (218, ''Ecuador''), (818, ''Egypt''),
   (222, ''ElSalvador''), (226, ''EquatorialGuinea''), (232, ''Eritrea''), (233, ''Estonia''),
   (231, ''Ethiopia''), (238, ''FalklandIslandsMalvinas''), (234, ''FaroeIslands''), (242, ''Fiji''),
   (246, ''Finland''), (250, ''France''), (254, ''FrenchGuiana''), (258, ''FrenchPolynesia''),
   (260, ''FrenchSouthernTerritories''), (266, ''Gabon''), (270, ''Gambia''), (268, ''Georgia''),
   (276, ''Germany''), (288, ''Ghana''), (292, ''Gibraltar''), (300, ''Greece''), (304, ''Greenland''),
   (308, ''Grenada''), (312, ''Guadeloupe''), (316, ''Guam''), (320, ''Guatemala''), (831, ''Guernsey''),
   (324, ''Guinea''), (624, ''GuineaBissau''), (328, ''Guyana''), (332, ''Haiti''),
   (334, ''HeardIslandAndMcDonaldIslands''), (336, ''HolySee''), (340, ''Honduras''), (344, ''HongKong''),
   (348, ''Hungary''), (352, ''Iceland''), (356, ''India''), (360, ''Indonesia''),
   (364, ''IranIslamicRepublic''), (368, ''Iraq''), (372, ''Ireland''), (833, ''IsleOfMan''),
   (376, ''Israel''), (380, ''Italy''), (388, ''Jamaica''), (392, ''Japan''), (832, ''Jersey''),
   (400, ''Jordan''), (398, ''Kazakhstan''), (404, ''Kenya''), (296, ''Kiribati''),
   (408, ''KoreaDemocraticPeoplesRepublic''), (410, ''KoreaRepublic''), (414, ''Kuwait''),
   (417, ''Kyrgyzstan''), (418, ''LaoPeoplesDemocraticRepublic''), (428, ''Latvia''), (422, ''Lebanon''),
   (426, ''Lesotho''), (430, ''Liberia''), (434, ''Libya''), (438, ''Liechtenstein''), (440, ''Lithuania''),
   (442, ''Luxembourg''), (446, ''Macao''), (807, ''MacedoniaTheFormerYugoslavRepublic''),
   (450, ''Madagascar''), (454, ''Malawi''), (458, ''Malaysia''), (462, ''Maldives''), (466, ''Mali''),
   (470, ''Malta''), (584, ''MarshallIslands''), (474, ''Martinique''), (478, ''Mauritania''),
   (480, ''Mauritius''), (175, ''Mayotte''), (484, ''Mexico''), (583, ''MicronesiaFederatedStates''),
   (498, ''MoldovaRepublic''), (492, ''Monaco''), (496, ''Mongolia''), (499, ''Montenegro''),
   (500, ''Montserrat''), (504, ''Morocco''), (508, ''Mozambique''), (104, ''Myanmar''), (516, ''Namibia''),
   (520, ''Nauru''), (524, ''Nepal''), (528, ''Netherlands''), (540, ''NewCaledonia''), (554, ''NewZealand''),
   (558, ''Nicaragua''), (562, ''Niger''), (566, ''Nigeria''), (570, ''Niue''), (574, ''NorfolkIsland''),
   (580, ''NorthernMarianaIslands''), (578, ''Norway''), (512, ''Oman''), (586, ''Pakistan''),
   (585, ''Palau''), (275, ''PalestineState''), (591, ''Panama''), (598, ''PapuaNewGuinea''),
   (600, ''Paraguay''), (604, ''Peru''), (608, ''Philippines''), (612, ''Pitcairn''), (616, ''Poland''),
   (620, ''Portugal''), (630, ''PuertoRico''), (634, ''Qatar''), (638, ''Reunion''), (642, ''Romania''),
   (643, ''RussianFederation''), (646, ''Rwanda''), (652, ''SaintBarthelemy''),
   (654, ''SaintHelenaAscensionAndTristandaCunha''), (659, ''SaintKittsAndNevis''), (662, ''SaintLucia''),
   (663, ''SaintMartinFrenchpart''), (666, ''SaintPierreAndMiquelon''),
   (670, ''SaintVincentAndTheGrenadines''), (882, ''Samoa''), (674, ''SanMarino''),
   (678, ''SaoTomeAndPrincipe''), (682, ''SaudiArabia''), (686, ''Senegal''), (688, ''Serbia''),
   (690, ''Seychelles''), (694, ''SierraLeone''), (702, ''Singapore''), (534, ''SintMaartenDutchpart''),
   (703, ''Slovakia''), (705, ''Slovenia''), (90, ''SolomonIslands''), (706, ''Somalia''),
   (710, ''SouthAfrica''), (239, ''SouthGeorgiaAndTheSouthSandwichIslands''), (728, ''SouthSudan''),
   (724, ''Spain''), (144, ''SriLanka''), (729, ''Sudan''), (740, ''Suriname''),
   (744, ''SvalbardAndJanMayen''), (748, ''Swaziland''), (752, ''Sweden''), (756, ''Switzerland''),
   (760, ''SyrianArabRepublic''), (158, ''TaiwanProvinceOfChina''), (762, ''Tajikistan''),
   (834, ''TanzaniaUnitedRepublic''), (764, ''Thailand''), (626, ''TimorLeste''), (768, ''Togo''),
   (772, ''Tokelau''), (776, ''Tonga''), (780, ''TrinidadAndTobago''), (788, ''Tunisia''), (792, ''Turkey''),
   (795, ''Turkmenistan''), (796, ''TurksAndCaicosIslands''), (798, ''Tuvalu''), (800, ''Uganda''),
   (804, ''Ukraine''), (784, ''UnitedArabEmirates''), (826, ''UnitedKingdomOfGreatBritainAndNorthernIreland''),
   (840, ''UnitedStatesOfAmerica''), (581, ''UnitedStatesMinorOutlyingIslands''), (858, ''Uruguay''),
   (860, ''Uzbekistan''), (548, ''Vanuatu''), (862, ''VenezuelaBolivarianRepublic''), (704, ''Vietnam''),
   (92, ''VirginIslandsBritish''), (850, ''VirginIslandsUS''), (876, ''WallisAndFutuna''),
   (732, ''WesternSahara''), (887, ''Yemen''), (894, ''Zambia''), (716, ''Zimbabwe'')]"

definition from_numeric :: "nat \<Rightarrow> (NumericCountryCodeParseError, Country) result" where
  "from_numeric code = ok_or (map_of from_numeric_arms code) NumericCountryCodeParseError"

definition to_numeric_arms :: "(Country \<times> nat) list" where
  "to_numeric_arms = [
   (''Afghanistan'', 4), (''AlandIslands'', 248), (''Albania'', 8), (''Algeria'', 12), (''AmericanSamoa'', 16),
   (''Andorra'', 20), (''Angola'', 24), (''Anguilla'', 660), (''Antarctica'', 10), (''AntiguaAndBarbuda'', 28),
   (''Argentina'', 32), (''Armenia'', 51), (''Aruba'', 533), (''Australia'', 36), (''Austria'', 40),
   (''Azerbaijan'', 31), (''Bahamas'', 44), (''Bahrain'', 48), (''Bangladesh'', 50), (''Barbados'', 52),
   (''Belarus'', 112), (''Belgium'', 56), (''Belize'', 84), (''Benin'', 204), (''Bermuda'', 60),
   (''Bhutan'', 64), (''BoliviaPlurinationalState'', 68), (''BonaireSintEustatiusAndSaba'', 535),
   (''BosniaAndHerzegovina'', 70), (''Botswana'', 72), (''BouvetIsland'', 74), (''Brazil'', 76),
   (''BritishIndianOceanTerritory'', 86), (''BruneiDarussalam'', 96), (''Bulgaria'', 100),
   (''BurkinaFaso'', 854), (''Burundi'', 108), (''CaboVerde'', 132), (''Cambodia'', 116), (''Cameroon'', 120),
   (''Canada'', 124), (''CaymanIslands'', 136), (''CentralAfricanRepublic'', 140), (''Chad'', 148),
   (''Chile'', 152), (''China'', 156), (''ChristmasIsland'', 162), (''CocosKeelingIslands'', 166),
   (''Colombia'', 170), (''Comoros'', 174), (''Congo'', 178), (''CongoDemocraticRepublic'', 180),
   (''CookIslands'', 184), (''CostaRica'', 188), (''CotedIvoire'', 384), (''Croatia'', 191), (''Cuba'', 192),
   (''Curacao'', 531), (''Cyprus'', 196), (''Czechia'', 203), (''Denmark'', 208), (''Djibouti'', 262),
   (''Dominica'', 212), (''DominicanRepublic'', 214), (''Ecuador'', 218), (''Egypt'', 818),
   (''ElSalvador'', 222), (''EquatorialGuinea'', 226), (''Eritrea'', 232), (''Estonia'', 233),
   (''Ethiopia'', 231), (''FalklandIslandsMalvinas'', 238), (''FaroeIslands'', 234), (''Fiji'', 242),
   (''Finland'', 246), (''France'', 250), (''FrenchGuiana'', 254), (''FrenchPolynesia'', 258),
   (''FrenchSouthernTerritories'', 260), (''Gabon'', 266), (''Gambia'', 270), (''Georgia'', 268),
   (''Germany'', 276), (''Ghana'', 288), (''Gibraltar'', 292), (''Greece'', 300), (''Greenland'', 304),
   (''Grenada'', 308), (''Guadeloupe'', 312), (''Guam'', 316), (''Guatemala'', 320), (''Guernsey'', 831),
   (''Guinea'', 324), (''GuineaBissau'', 624), (''Guyana'', 328), (''Haiti'', 332),
   (''HeardIslandAndMcDonaldIslands'', 334), (''HolySee'', 336), (''Honduras'', 340), (''HongKong'', 344),
   (''Hungary'', 348), (''Iceland'', 352), (''India'', 356), (''Indonesia'', 360),
   (''IranIslamicRepublic'', 364), (''Iraq'', 368), (''Ireland'', 372), (''IsleOfMan'', 833),
   (''Israel'', 376), (''Italy'', 380), (''Jamaica'', 388), (''Japan'', 392), (''Jersey'', 832),
   (''Jordan'', 400), (''Kazakhstan'', 398), (''Kenya'', 404), (''Kiribati'', 296),
   (''KoreaDemocraticPeoplesRepublic'', 408), (''KoreaRepublic'', 410), (''Kuwait'', 414),
   (''Kyrgyzstan'', 417), (''LaoPeoplesDemocraticRepublic'', 418), (''Latvia'', 428), (''Lebanon'', 422),
   (''Lesotho'', 426), (''Liberia'', 430), (''Libya'', 434), (''Liechtenstein'', 438), (''Lithuania'', 440),
   (''Luxembourg'', 442), (''Macao'', 446), (''MacedoniaTheFormerYugoslavRepublic'', 807),
   (''Madagascar'', 450), (''Malawi'', 454), (''Malaysia'', 458), (''Maldives'', 462), (''Mali'', 466),
   (''Malta'', 470), (''MarshallIslands'', 584), (''Martinique'', 474), (''Mauritania'', 478),
   (''Mauritius'', 480), (''Mayotte'', 175), (''Mexico'', 484), (''MicronesiaFederatedStates'', 583),
   (''MoldovaRepublic'', 498), (''Monaco'', 492), (''Mongolia'', 496), (''Montenegro'', 499),
   (''Montserrat'', 500), (''Morocco'', 504), (''Mozambique'', 508), (''Myanmar'', 104), (''Namibia'', 516),
   (''Nauru'', 520), (''Nepal'', 524), (''Netherlands'', 528), (''NewCaledonia'', 540), (''NewZealand'', 554),
   (''Nicaragua'', 558), (''Niger'', 562), (''Nigeria'', 566), (''Niue'', 570), (''NorfolkIsland'', 574),
   (''NorthernMarianaIslands'', 580), (''Norway'', 578), (''Oman'', 512), (''Pakistan'', 586),
   (''Palau'', 585), (''PalestineState'', 275), (''Panama'', 591), (''PapuaNewGuinea'', 598),
   (''Paraguay'', 600), (''Peru'', 604), (''Philippines'', 608), (''Pitcairn'', 612), (''Poland'', 616),
   (''Portugal'', 620), (''PuertoRico'', 630), (''Qatar'', 634), (''Reunion'', 638), (''Romania'', 642),
   (''RussianFederation'', 643), (''Rwanda'', 646), (''SaintBarthelemy'', 652),
   (''SaintHelenaAscensionAndTristandaCunha'', 654), (''SaintKittsAndNevis'', 659), (''SaintLucia'', 662),
   (''SaintMartinFrenchpart'', 663), (''SaintPierreAndMiquelon'', 666),
   (''SaintVincentAndTheGrenadines'', 670), (''Samoa'', 882), (''SanMarino'', 674),
   (''SaoTomeAndPrincipe'', 678), (''SaudiArabia'', 682), (''Senegal'', 686), (''Serbia'', 688),
   (''Seychelles'', 690), (''SierraLeone'', 694), (''Singapore'', 702), (''SintMaartenDutchpart'', 534),
   (''Slovakia'', 703), (''Slovenia'', 705), (''SolomonIslands'', 90), (''Somalia'', 706),
   (''SouthAfrica'', 710), (''SouthGeorgiaAndTheSouthSandwichIslands'', 239), (''SouthSudan'', 728),
   (''Spain'', 724), (''SriLanka'', 144), (''Sudan'', 729), (''Suriname'', 740),
   (''SvalbardAndJanMayen'', 744), (''Swaziland'', 748), (''Sweden'', 752), (''Switzerland'', 756),
   (''SyrianArabRepublic'', 760), (''TaiwanProvinceOfChina'', 158), (''Tajikistan'', 762),
   (''TanzaniaUnitedRepublic'', 834), (''Thailand'', 764), (''TimorLeste'', 626), (''Togo'', 768),
   (''Tokelau'', 772), (''Tonga'', 776), (''TrinidadAndTobago'', 780), (''Tunisia'', 788), (''Turkey'', 792),
   (''Turkmenistan'', 795), (''TurksAndCaicosIslands'', 796), (''Tuvalu'', 798), (''Uganda'', 800),
   (''Ukraine'', 804), (''UnitedArabEmirates'', 784), (''UnitedKingdomOfGreatBritainAndNorthernIreland'', 826),
   (''UnitedStatesOfAmerica'', 840), (''UnitedStatesMinorOutlyingIslands'', 581), (''Uruguay'', 858),
   (''Uzbekistan'', 860), (''Vanuatu'', 548), (''VenezuelaBolivarianRepublic'', 862), (''Vietnam'', 704),
   (''VirginIslandsBritish'', 92), (''VirginIslandsUS'', 850), (''WallisAndFutuna'', 876),
   (''WesternSahara'', 732), (''Yemen'', 887), (''Zambia'', 894), (''Zimbabwe'', 716)]"

definition to_numeric :: "Country \<Rightarrow> nat option" where
  "to_numeric code = map_of to_numeric_arms code"

section \<open>Properties\<close>

text \<open>Names are compared as numbers.\<close>

definition name_key :: "string \<Rightarrow> nat" where
  "name_key s = foldl (\<lambda>n c. n * 256 + of_char c) 0 s"

lemma distinct_by_key: "distinct (map name_key xs) \<Longrightarrow> distinct xs"
  by (simp add: distinct_map)

lemma Country_distinct: "distinct Country_variants"
  by (rule distinct_by_key) (simp add: Country_variants_def name_key_def)

lemma alpha2_distinct: "distinct (map fst from_alpha2_arms)"
  by (rule distinct_by_key) (simp add: from_alpha2_arms_def name_key_def)

lemma alpha3_distinct: "distinct (map fst from_alpha3_arms)"
  by (rule distinct_by_key) (simp add: from_alpha3_arms_def name_key_def)

lemma numeric_distinct: "distinct (map fst from_numeric_arms)"
  by (simp add: from_numeric_arms_def)

text \<open>The arms of the two directions list the countries in the order of the enum, so that each table is
  the other one turned around.\<close>

lemma arms_swapped:
  "to_alpha2_arms = map prod.swap from_alpha2_arms"
  "to_alpha3_arms = map prod.swap from_alpha3_arms"
  "to_numeric_arms = map prod.swap from_numeric_arms"
  by (simp_all add: to_alpha2_arms_def from_alpha2_arms_def to_alpha3_arms_def from_alpha3_arms_def
      to_numeric_arms_def from_numeric_arms_def)

lemma arms_countries:
  "map snd from_alpha2_arms = Country_variants"
  "map snd from_alpha3_arms = Country_variants"
  "map snd from_numeric_arms = Country_variants"
  by (simp_all add: from_alpha2_arms_def from_alpha3_arms_def from_numeric_arms_def Country_variants_def)

lemma arms_codes:
  "map fst from_alpha3_arms = CountryAlpha3_variants"
  "remove1 ''CV'' (remove1 ''US'' CountryAlpha2_variants) = remove1 ''CV'' (remove1 ''US'' (map fst from_alpha2_arms))"
  "from_alpha2_to_alpha3_arms = zip (map fst from_alpha2_arms) (map fst from_alpha3_arms)"
  by (simp_all add: from_alpha3_arms_def CountryAlpha3_variants_def from_alpha2_arms_def CountryAlpha2_variants_def
      from_alpha2_to_alpha3_arms_def)

lemma set_remove1_back: "x \<in> set xs \<Longrightarrow> insert x (set (remove1 x xs)) = set xs"
  by (induction xs) auto

lemma alpha2_codes: "set CountryAlpha2_variants = fst ` set from_alpha2_arms"
proof -
  let ?rest = "\<lambda>xs. insert ''US'' (insert ''CV'' (set (remove1 ''CV'' (remove1 ''US'' xs))))"
  have whole: "?rest xs = set xs" if "''CV'' \<in> set xs" "''US'' \<in> set xs" for xs
    using that set_remove1_back [of "''CV''" "remove1 ''US'' xs"] set_remove1_back [of "''US''" xs] by simp
  have "?rest CountryAlpha2_variants = ?rest (map fst from_alpha2_arms)" by (simp only: arms_codes(2))
  moreover have "''CV'' \<in> set CountryAlpha2_variants" "''US'' \<in> set CountryAlpha2_variants"
    "''CV'' \<in> set (map fst from_alpha2_arms)" "''US'' \<in> set (map fst from_alpha2_arms)"
    by (simp_all add: CountryAlpha2_variants_def from_alpha2_arms_def)
  ultimately show ?thesis using whole by simp
qed

lemma map_of_turned:
  assumes "distinct (map fst xs)" and "distinct (map snd xs)"
  shows "map_of (map prod.swap xs) b = Some a \<longleftrightarrow> map_of xs a = Some b"
proof -
  have "distinct (map fst (map prod.swap xs))" using assms(2) by (simp add: comp_def)
  then show ?thesis using assms(1) by (auto simp: map_of_eq_Some_iff)
qed

lemma map_of_zip_through:
  assumes "length as = length cs" and "length cs = length bs" and "distinct cs"
  shows "map_of (zip as bs) a = Option.bind (map_of (zip as cs) a) (map_of (zip cs bs))"
  using assms
proof (induction as cs bs rule: list_induct3)
  case Nil
  then show ?case by simp
next
  case (Cons x xs z zs y ys)
  have "c \<noteq> z" if "map_of (zip xs zs) a = Some c" for c
    using that Cons.prems by (auto dest: map_of_SomeD set_zip_rightD)
  moreover have "map_of (zip xs ys) a = Option.bind (map_of (zip xs zs) a) (map_of (zip zs ys))"
    using Cons by simp
  ultimately show ?case by (cases "map_of (zip xs zs) a") (simp_all del: map_of_zip_is_Some)
qed

lemma zip_turned: "zip (map snd xs) (map fst xs) = map prod.swap xs"
  by (induction xs) auto

text \<open>C39: the three ISO codes of a country are faithful. Each conversion from a code is the inverse of
  the conversion to it, for the two-letter, the three-letter and the numeric code; going from a two-letter code to a
  three-letter code directly is the same as going through the country; and the countries and codes that have an image
  are exactly those of the enums, so no arm is missing and none is reached twice.\<close>

theorem country_codes_roundtrip:
  "(to_alpha2 c = Some a \<longleftrightarrow> from_alpha2 a = Some c) \<and>
   (to_alpha3 c = Some b \<longleftrightarrow> from_alpha3 b = Some c) \<and>
   (to_numeric c = Some n \<longleftrightarrow> from_numeric n = Ok c) \<and>
   from_alpha2_to_alpha3 a = Option.bind (from_alpha2 a) to_alpha3 \<and>
   (to_alpha2 c = None \<longleftrightarrow> c \<notin> set Country_variants) \<and> (to_alpha3 c = None \<longleftrightarrow> c \<notin> set Country_variants) \<and>
   (to_numeric c = None \<longleftrightarrow> c \<notin> set Country_variants) \<and>
   (from_alpha2 a = None \<longleftrightarrow> a \<notin> set CountryAlpha2_variants) \<and>
   (from_alpha3 b = None \<longleftrightarrow> b \<notin> set CountryAlpha3_variants)"
proof (intro conjI)
  note d = alpha2_distinct alpha3_distinct numeric_distinct Country_distinct
  show "to_alpha2 c = Some a \<longleftrightarrow> from_alpha2 a = Some c"
    using d by (simp add: to_alpha2_def from_alpha2_def arms_swapped map_of_turned arms_countries)
  show "to_alpha3 c = Some b \<longleftrightarrow> from_alpha3 b = Some c"
    using d by (simp add: to_alpha3_def from_alpha3_def arms_swapped map_of_turned arms_countries)
  show "to_numeric c = Some n \<longleftrightarrow> from_numeric n = Ok c"
    using map_of_turned [of from_numeric_arms c n] d
    by (cases "map_of from_numeric_arms n") (simp_all add: to_numeric_def from_numeric_def arms_swapped arms_countries)
  have l: "length (map fst from_alpha2_arms) = length Country_variants" "length Country_variants = length (map fst from_alpha3_arms)"
    by (metis arms_countries(1) length_map) (metis arms_countries(2) length_map)
  have z: "from_alpha2_arms = zip (map fst from_alpha2_arms) Country_variants"
    "to_alpha3_arms = zip Country_variants (map fst from_alpha3_arms)"
    using zip_map_fst_snd [of from_alpha2_arms] zip_turned [of from_alpha3_arms] by (simp_all add: arms_swapped arms_countries)
  show "from_alpha2_to_alpha3 a = Option.bind (from_alpha2 a) to_alpha3"
    using map_of_zip_through [OF l Country_distinct, of a] z
    by (simp add: from_alpha2_to_alpha3_def from_alpha2_def to_alpha3_def [abs_def] arms_codes(3))
  have sc: "snd ` set from_alpha2_arms = set Country_variants" "snd ` set from_alpha3_arms = set Country_variants"
    "snd ` set from_numeric_arms = set Country_variants"
    by (simp_all only: set_map [symmetric] arms_countries)
  show "to_alpha2 c = None \<longleftrightarrow> c \<notin> set Country_variants" "to_alpha3 c = None \<longleftrightarrow> c \<notin> set Country_variants"
    "to_numeric c = None \<longleftrightarrow> c \<notin> set Country_variants"
    by (simp_all add: to_alpha2_def to_alpha3_def to_numeric_def map_of_eq_None_iff arms_swapped image_image sc)
  show "from_alpha2 a = None \<longleftrightarrow> a \<notin> set CountryAlpha2_variants"
    by (simp add: from_alpha2_def map_of_eq_None_iff alpha2_codes)
  show "from_alpha3 b = None \<longleftrightarrow> b \<notin> set CountryAlpha3_variants"
    by (simp add: from_alpha3_def map_of_eq_None_iff arms_codes(1) [symmetric])
qed

end
