(* ===== verification/Currency.thy ===== *)
theory Currency
  imports Prelude Complex_Main
begin

text \<open>
  The enum \<open>Currency\<close> of \<open>common_enums/src/enums.rs\<close> with its ISO 4217 numbers, its decimals, and the
  conversion of amounts between minor units and the text of the base unit.

  A currency, which has no data, is the name of its variant. Finite \<open>f64\<close> values are rational
  numbers; \<open>fl\<close> rounds the exact quotient to the nearest of them, \<open>fmt2\<close> is the format \<open>{:.2}\<close> and
  \<open>show_f64\<close> is \<open>to_string\<close>. Floating point is not modelled further: the locale \<open>f64_text\<close> says what the
  properties use of it.
\<close>

section \<open>The enum\<close>

type_synonym Currency = string

definition Currency_variants :: "Currency list" where
  "Currency_variants = [
   ''AED'', ''ALL'', ''AMD'', ''ANG'', ''AOA'', ''ARS'', ''AUD'', ''AWG'', ''AZN'', ''BAM'', ''BBD'', ''BDT'',
   ''BGN'', ''BHD'', ''BIF'', ''BMD'', ''BND'', ''BOB'', ''BRL'', ''BSD'', ''BWP'', ''BYN'', ''BZD'', ''CAD'',
   ''CHF'', ''CLP'', ''CNY'', ''COP'', ''CRC'', ''CUP'', ''CVE'', ''CZK'', ''DJF'', ''DKK'', ''DOP'', ''DZD'',
   ''EGP'', ''ETB'', ''EUR'', ''FJD'', ''FKP'', ''GBP'', ''GEL'', ''GHS'', ''GIP'', ''GMD'', ''GNF'', ''GTQ'',
   ''GYD'', ''HKD'', ''HNL'', ''HRK'', ''HTG'', ''HUF'', ''IDR'', ''ILS'', ''INR'', ''IQD'', ''JMD'', ''JOD'',
   ''JPY'', ''KES'', ''KGS'', ''KHR'', ''KMF'', ''KRW'', ''KWD'', ''KYD'', ''KZT'', ''LAK'', ''LBP'', ''LKR'',
   ''LRD'', ''LSL'', ''LYD'', ''MAD'', ''MDL'', ''MGA'', ''MKD'', ''MMK'', ''MNT'', ''MOP'', ''MRU'', ''MUR'',
   ''MVR'', ''MWK'', ''MXN'', ''MYR'', ''MZN'', ''NAD'', ''NGN'', ''NIO'', ''NOK'', ''NPR'', ''NZD'', ''OMR'',
   ''PAB'', ''PEN'', ''PGK'', ''PHP'', ''PKR'', ''PLN'', ''PYG'', ''QAR'', ''RON'', ''RSD'', ''RUB'', ''RWF'',
   ''SAR'', ''SBD'', ''SCR'', ''SEK'', ''SGD'', ''SHP'', ''SLE'', ''SLL'', ''SOS'', ''SRD'', ''SSP'', ''STN'',
   ''SVC'', ''SZL'', ''THB'', ''TND'', ''TOP'', ''TRY'', ''TTD'', ''TWD'', ''TZS'', ''UAH'', ''UGX'', ''USD'',
   ''UYU'', ''UZS'', ''VES'', ''VND'', ''VUV'', ''WST'', ''XAF'', ''XCD'', ''XOF'', ''XPF'', ''YER'', ''ZAR'',
   ''ZMW'']"

definition iso_4217_arms :: "(Currency \<times> string) list" where
  "iso_4217_arms = [
   (''AED'', ''784''), (''ALL'', ''008''), (''AMD'', ''051''), (''ANG'', ''532''), (''AOA'', ''973''),
   (''ARS'', ''032''), (''AUD'', ''036''), (''AWG'', ''533''), (''AZN'', ''944''), (''BAM'', ''977''),
   (''BBD'', ''052''), (''BDT'', ''050''), (''BGN'', ''975''), (''BHD'', ''048''), (''BIF'', ''108''),
   (''BMD'', ''060''), (''BND'', ''096''), (''BOB'', ''068''), (''BRL'', ''986''), (''BSD'', ''044''),
   (''BWP'', ''072''), (''BYN'', ''933''), (''BZD'', ''084''), (''CAD'', ''124''), (''CHF'', ''756''),
   (''CLP'', ''152''), (''COP'', ''170''), (''CRC'', ''188''), (''CUP'', ''192''), (''CVE'', ''132''),
   (''CZK'', ''203''), (''DJF'', ''262''), (''DKK'', ''208''), (''DOP'', ''214''), (''DZD'', ''012''),
   (''EGP'', ''818''), (''ETB'', ''230''), (''EUR'', ''978''), (''FJD'', ''242''), (''FKP'', ''238''),
   (''GBP'', ''826''), (''GEL'', ''981''), (''GHS'', ''936''), (''GIP'', ''292''), (''GMD'', ''270''),
   (''GNF'', ''324''), (''GTQ'', ''320''), (''GYD'', ''328''), (''HKD'', ''344''), (''HNL'', ''340''),
   (''HTG'', ''332''), (''HUF'', ''348''), (''HRK'', ''191''), (''IDR'', ''360''), (''ILS'', ''376''),
   (''INR'', ''356''), (''IQD'', ''368''), (''JMD'', ''388''), (''JOD'', ''400''), (''JPY'', ''392''),
   (''KES'', ''404''), (''KGS'', ''417''), (''KHR'', ''116''), (''KMF'', ''174''), (''KRW'', ''410''),
   (''KWD'', ''414''), (''KYD'', ''136''), (''KZT'', ''398''), (''LAK'', ''418''), (''LBP'', ''422''),
   (''LKR'', ''144''), (''LRD'', ''430''), (''LSL'', ''426''), (''LYD'', ''434''), (''MAD'', ''504''),
   (''MDL'', ''498''), (''MGA'', ''969''), (''MKD'', ''807''), (''MMK'', ''104''), (''MNT'', ''496''),
   (''MOP'', ''446''), (''MRU'', ''929''), (''MUR'', ''480''), (''MVR'', ''462''), (''MWK'', ''454''),
   (''MXN'', ''484''), (''MYR'', ''458''), (''MZN'', ''943''), (''NAD'', ''516''), (''NGN'', ''566''),
   (''NIO'', ''558''), (''NOK'', ''578''), (''NPR'', ''524''), (''NZD'', ''554''), (''OMR'', ''512''),
   (''PAB'', ''590''), (''PEN'', ''604''), (''PGK'', ''598''), (''PHP'', ''608''), (''PKR'', ''586''),
   (''PLN'', ''985''), (''PYG'', ''600''), (''QAR'', ''634''), (''RON'', ''946''), (''CNY'', ''156''),
   (''RSD'', ''941''), (''RUB'', ''643''), (''RWF'', ''646''), (''SAR'', ''682''), (''SBD'', ''090''),
   (''SCR'', ''690''), (''SEK'', ''752''), (''SGD'', ''702''), (''SHP'', ''654''), (''SLE'', ''925''),
   (''SLL'', ''694''), (''SOS'', ''706''), (''SRD'', ''968''), (''SSP'', ''728''), (''STN'', ''930''),
   (''SVC'', ''222''), (''SZL'', ''748''), (''THB'', ''764''), (''TND'', ''788''), (''TOP'', ''776''),
   (''TRY'', ''949''), (''TTD'', ''780''), (''TWD'', ''901''), (''TZS'', ''834''), (''UAH'', ''980''),
   (''UGX'', ''800''), (''USD'', ''840''), (''UYU'', ''858''), (''UZS'', ''860''), (''VES'', ''928''),
   (''VND'', ''704''), (''VUV'', ''548''), (''WST'', ''882''), (''XAF'', ''950''), (''XCD'', ''951''),
   (''XOF'', ''952''), (''XPF'', ''953''), (''YER'', ''886''), (''ZAR'', ''710''), (''ZMW'', ''967'')]"

definition iso_4217 :: "Currency \<Rightarrow> string option" where
  "iso_4217 self = map_of iso_4217_arms self"

definition is_zero_decimal_currency :: "Currency \<Rightarrow> bool" where
  "is_zero_decimal_currency self \<longleftrightarrow> self \<in> set [
   ''BIF'', ''CLP'', ''DJF'', ''GNF'', ''JPY'', ''KMF'', ''KRW'', ''MGA'', ''PYG'', ''RWF'', ''UGX'', ''VND'',
   ''VUV'', ''XAF'', ''XOF'', ''XPF'']"

definition is_three_decimal_currency :: "Currency \<Rightarrow> bool" where
  "is_three_decimal_currency self \<longleftrightarrow> self \<in> set [
   ''BHD'', ''IQD'', ''JOD'', ''KWD'', ''LYD'', ''OMR'', ''TND'']"

section \<open>Amounts\<close>

datatype TryFromIntError = TryFromIntError

text \<open>\<open>u32::try_from\<close> on an \<open>i64\<close>.\<close>

definition u32_try_from :: "int \<Rightarrow> (TryFromIntError, nat) result" where
  "u32_try_from amount = (if 0 \<le> amount \<and> amount < 2 ^ 32 then Ok (nat amount) else Err TryFromIntError)"

definition to_currency_base_unit_asf64 :: "(rat \<Rightarrow> rat) \<Rightarrow> Currency \<Rightarrow> int \<Rightarrow> (TryFromIntError, rat) result" where
  "to_currency_base_unit_asf64 fl self amount =
     rbind (u32_try_from amount) (\<lambda>n.
       let amount_f64 = of_nat n in
       Ok (if is_zero_decimal_currency self then amount_f64
           else if is_three_decimal_currency self then fl (amount_f64 / 1000)
           else fl (amount_f64 / 100)))"

definition to_currency_base_unit ::
  "(rat \<Rightarrow> rat) \<Rightarrow> (rat \<Rightarrow> string) \<Rightarrow> Currency \<Rightarrow> int \<Rightarrow> (TryFromIntError, string) result" where
  "to_currency_base_unit fl fmt2 self amount =
     rbind (to_currency_base_unit_asf64 fl self amount) (\<lambda>amount_f64. Ok (fmt2 amount_f64))"

definition to_currency_base_unit_with_zero_decimal_check ::
  "(rat \<Rightarrow> rat) \<Rightarrow> (rat \<Rightarrow> string) \<Rightarrow> (rat \<Rightarrow> string) \<Rightarrow> Currency \<Rightarrow> int \<Rightarrow> (TryFromIntError, string) result" where
  "to_currency_base_unit_with_zero_decimal_check fl fmt2 show_f64 self amount =
     rbind (to_currency_base_unit_asf64 fl self amount) (\<lambda>amount_f64.
       if is_zero_decimal_currency self then Ok (show_f64 amount_f64) else Ok (fmt2 amount_f64))"

text \<open>Any text that parses, infinities included, is multiplied; \<open>'f\<close> is \<open>f64\<close> and \<open>mul\<close> its product
  with a constant.\<close>

definition to_currency_lower_unit ::
  "(string \<Rightarrow> ('e, 'f) result) \<Rightarrow> ('f \<Rightarrow> nat \<Rightarrow> 'f) \<Rightarrow> ('f \<Rightarrow> string) \<Rightarrow> Currency \<Rightarrow> string \<Rightarrow> ('e, string) result" where
  "to_currency_lower_unit parse mul show_f64 self amount =
     rbind (parse amount) (\<lambda>amount_f64.
       Ok (show_f64 (if is_zero_decimal_currency self then amount_f64
           else if is_three_decimal_currency self then mul amount_f64 1000
           else mul amount_f64 100)))"

section \<open>What is used of floating point\<close>

text \<open>The text of \<open>n\<close> hundredths.\<close>

definition hundredths :: "nat \<Rightarrow> string" where
  "hundredths n = show_nat (n div 100) @ ''.'' @ pad2 (n mod 100)"

text \<open>Rounding to nearest has a relative error of at most \<open>2 ^ -53\<close>, in the range in use; \<open>{:.2}\<close> prints a
  nearest multiple of a hundredth; an integer prints as such.\<close>

lemma quotient_low: "1 \<le> d \<Longrightarrow> d \<le> 1000 \<Longrightarrow> 1 \<le> n \<Longrightarrow> 1 / 1000 \<le> n / d" for n d :: rat
  by (simp add: pos_le_divide_eq)

locale f64_text =
  fixes fl :: "rat \<Rightarrow> rat" and fmt2 :: "rat \<Rightarrow> string" and show_f64 :: "rat \<Rightarrow> string"
  assumes fl_error: "1 / 1000 \<le> x \<Longrightarrow> x < 2 ^ 32 \<Longrightarrow> \<bar>fl x - x\<bar> \<le> x / 2 ^ 53"
    and fl_zero: "fl 0 = 0"
    and fmt2_nearest: "0 \<le> x \<Longrightarrow> \<exists>n. \<bar>100 * x - of_nat n\<bar> \<le> 1 / 2 \<and> fmt2 x = hundredths n"
    and show_integer: "show_f64 (of_nat n) = show_nat n"
begin

lemma fl_close:
  assumes "0 < d" "d \<le> 1000" "n < 2 ^ 32"
  shows "\<bar>fl (of_nat n / of_nat d) - of_nat n / of_nat d\<bar> < 1 / 2 ^ 20"
proof (cases "n = 0")
  case True
  then show ?thesis by (simp add: fl_zero)
next
  case False
  let ?x = "of_nat n / of_nat d :: rat"
  have d: "(1 :: rat) \<le> of_nat d" "(of_nat d :: rat) \<le> 1000"
    using of_nat_mono [of 1 d, where 'a = rat] of_nat_mono [of d 1000, where 'a = rat] assms by simp_all
  have n: "(1 :: rat) \<le> of_nat n" "(of_nat n :: rat) < 2 ^ 32"
    using of_nat_mono [of 1 n, where 'a = rat] of_nat_less_iff [of n "2 ^ 32", where 'a = rat] False assms(3) by simp_all
  have "1 / 1000 \<le> ?x" using quotient_low [OF d n(1)] .
  moreover have x: "?x < 2 ^ 32"
    using n(2) d(1) mult_mono [of 1 "of_nat d :: rat" "2 ^ 32" "2 ^ 32"] by (simp add: pos_divide_less_eq)
  ultimately have "\<bar>fl ?x - ?x\<bar> \<le> ?x / 2 ^ 53" by (rule fl_error)
  also have "\<dots> < 1 / 2 ^ 20" using x by (simp add: field_simps)
  finally show ?thesis .
qed

lemma fmt2_unique:
  assumes "\<bar>x - of_nat n / 100\<bar> < 1 / 2 ^ 20" and "0 \<le> x"
  shows "fmt2 x = hundredths n"
proof -
  obtain m where m: "\<bar>100 * x - of_nat m\<bar> \<le> 1 / 2" "fmt2 x = hundredths m" using fmt2_nearest [OF assms(2)] by blast
  have "\<bar>100 * x - of_nat n\<bar> < 1 / 4" using assms(1) by (simp add: abs_less_iff field_simps)
  with m(1) have "- 1 < rat_of_int (int m - int n)" "rat_of_int (int m - int n) < 1"
    unfolding abs_less_iff abs_le_iff by simp_all
  then have "m = n" by linarith
  with m(2) show ?thesis by simp
qed

lemma fl_nonneg: "0 < d \<Longrightarrow> d \<le> 1000 \<Longrightarrow> n < 2 ^ 32 \<Longrightarrow> 0 \<le> fl (of_nat n / of_nat d)"
proof (cases "n = 0")
  case True
  then show ?thesis by (simp add: fl_zero)
next
  case False
  assume d: "0 < d" "d \<le> 1000" and "n < 2 ^ 32"
  have "1 / 1000 \<le> (of_nat n / of_nat d :: rat)"
    using of_nat_mono [of 1 d, where 'a = rat] of_nat_mono [of d 1000, where 'a = rat]
      of_nat_mono [of 1 n, where 'a = rat] d False by (intro quotient_low) simp_all
  moreover have "of_nat n / of_nat d - fl (of_nat n / of_nat d) < 1 / 2 ^ 20"
    using fl_close [OF d \<open>n < 2 ^ 32\<close>] unfolding abs_less_iff by simp
  ultimately show ?thesis by simp
qed

lemma rendered_two: "n < 2 ^ 32 \<Longrightarrow> fmt2 (fl (of_nat n / 100)) = hundredths n"
  using fmt2_unique [of "fl (of_nat n / 100)" n] fl_close [of 100 n] fl_nonneg [of 100 n] by simp

lemma rendered_integer: "fmt2 (of_nat n) = hundredths (100 * n)"
  using fmt2_unique [of "of_nat n" "100 * n"] by simp

lemma rendered_three:
  assumes "n < 2 ^ 32"
  shows "\<exists>m. fmt2 (fl (of_nat n / 1000)) = hundredths m \<and> \<bar>10 * int m - int n\<bar> \<le> 5"
proof -
  let ?x = "fl (of_nat n / 1000)"
  have close: "\<bar>?x - of_nat n / 1000\<bar> < 1 / 2 ^ 20" "0 \<le> ?x"
    using fl_close [of 1000 n] fl_nonneg [of 1000 n] assms by simp_all
  obtain m where m: "\<bar>100 * ?x - of_nat m\<bar> \<le> 1 / 2" "fmt2 ?x = hundredths m" using fmt2_nearest [OF close(2)] by blast
  have "- 6 < rat_of_int (10 * int m - int n)" "rat_of_int (10 * int m - int n) < 6"
    using m(1) close(1) unfolding abs_less_iff abs_le_iff by simp_all
  then have "\<bar>10 * int m - int n\<bar> < 6" by linarith
  with m(2) show ?thesis by auto
qed

end

section \<open>Rounding to 53 bits\<close>

text \<open>Rounding in the range in use: scale to at least \<open>2 ^ 52\<close>, round to an integer, scale back.\<close>

definition round_f64 :: "rat \<Rightarrow> rat" where
  "round_f64 x = (case find (\<lambda>s. 2 ^ 52 \<le> x * 2 ^ s) [0..<128] of
     None \<Rightarrow> 0 | Some s \<Rightarrow> of_int (round (x * 2 ^ s)) / 2 ^ s)"

definition format_f64 :: "rat \<Rightarrow> string" where
  "format_f64 x = hundredths (nat (round (100 * x)))"

definition show_integral :: "rat \<Rightarrow> string" where
  "show_integral x = show_nat (nat \<lfloor>x\<rfloor>)"

lemma round_f64_error:
  assumes "1 / 2 ^ 20 \<le> x"
  shows "\<bar>round_f64 x - x\<bar> \<le> x / 2 ^ 53"
proof -
  have "find (\<lambda>s. 2 ^ 52 \<le> x * 2 ^ s) [0..<128] \<noteq> None"
  proof -
    have "2 ^ 52 \<le> x * 2 ^ 127" using assms by simp
    then show ?thesis by (auto simp: find_None_iff intro!: exI [of _ "127 :: nat"])
  qed
  then obtain s where s: "find (\<lambda>s. 2 ^ 52 \<le> x * 2 ^ s) [0..<128] = Some s" by blast
  then have big: "2 ^ 52 \<le> x * 2 ^ s" by (auto simp: find_Some_iff)
  have "\<bar>of_int (round (x * 2 ^ s)) - x * 2 ^ s\<bar> \<le> 1 / 2" by (rule of_int_round_abs_le)
  also have "1 / 2 \<le> x * 2 ^ s / 2 ^ 53" using big by (simp add: field_simps)
  finally have "\<bar>of_int (round (x * 2 ^ s)) - x * 2 ^ s\<bar> / 2 ^ s \<le> x * 2 ^ s / 2 ^ 53 / 2 ^ s"
    by (rule divide_right_mono) simp
  moreover have "\<bar>of_int (round (x * 2 ^ s)) - x * 2 ^ s\<bar> / 2 ^ s = \<bar>of_int (round (x * 2 ^ s)) / 2 ^ s - x\<bar>"
  proof -
    have "(of_int (round (x * 2 ^ s)) - x * 2 ^ s) / 2 ^ s = of_int (round (x * 2 ^ s)) / 2 ^ s - x"
      by (simp add: diff_divide_distrib)
    moreover have "\<bar>2 ^ s :: rat\<bar> = 2 ^ s" by simp
    ultimately show ?thesis by (metis abs_divide)
  qed
  moreover have "round_f64 x = of_int (round (x * 2 ^ s)) / 2 ^ s" unfolding round_f64_def s by (rule option.case(2))
  ultimately show ?thesis by simp
qed

interpretation binary64: f64_text round_f64 format_f64 show_integral
proof
  fix x :: rat and n :: nat
  show "1 / 1000 \<le> x \<Longrightarrow> \<bar>round_f64 x - x\<bar> \<le> x / 2 ^ 53" by (rule round_f64_error) simp
  show "round_f64 0 = 0" by (simp add: round_f64_def find_None_iff split: option.split)
  show "show_integral (of_nat n) = show_nat n" by (simp add: show_integral_def)
  assume x: "0 \<le> x"
  have "0 \<le> round (100 * x)" using x by (simp add: round_def)
  then have "\<bar>100 * x - of_nat (nat (round (100 * x)))\<bar> \<le> 1 / 2"
    using of_int_round_abs_le [of "100 * x"] by (simp add: abs_minus_commute)
  then show "\<exists>n. \<bar>100 * x - of_nat n\<bar> \<le> 1 / 2 \<and> format_f64 x = hundredths n"
    by (auto simp: format_f64_def)
qed

section \<open>Properties\<close>

lemma decimals_exclusive: "is_three_decimal_currency c \<Longrightarrow> \<not> is_zero_decimal_currency c"
  by (auto simp: is_three_decimal_currency_def is_zero_decimal_currency_def)

text \<open>C37: amounts are rendered exactly in spite of floating point, but for the currencies with three
  decimals. An amount that is negative or does not fit in 32 bits is refused. Otherwise a currency without decimals
  prints the amount with two zeros, or the amount alone where zero decimals are checked; a currency with two decimals
  prints exactly the hundredths; a currency with three decimals is rounded to two, so that its last digit is
  lost.\<close>

theorem currency_amount_rendered:
  assumes "f64_text fl fmt2 show_f64"
  shows "(if amount < 0 \<or> 2 ^ 32 \<le> amount then
       to_currency_base_unit fl fmt2 c amount = Err TryFromIntError \<and>
       to_currency_base_unit_with_zero_decimal_check fl fmt2 show_f64 c amount = Err TryFromIntError
     else if is_zero_decimal_currency c then
       to_currency_base_unit fl fmt2 c amount = Ok (show_nat (nat amount) @ ''.00'') \<and>
       to_currency_base_unit_with_zero_decimal_check fl fmt2 show_f64 c amount = Ok (show_nat (nat amount))
     else
       (\<exists>n. to_currency_base_unit fl fmt2 c amount = Ok (show_nat (n div 100) @ ''.'' @ pad2 (n mod 100)) \<and>
         to_currency_base_unit_with_zero_decimal_check fl fmt2 show_f64 c amount = to_currency_base_unit fl fmt2 c amount \<and>
         (if is_three_decimal_currency c then \<bar>10 * int n - amount\<bar> \<le> 5 else int n = amount)))"
proof -
  note ops = to_currency_base_unit_def to_currency_base_unit_with_zero_decimal_check_def to_currency_base_unit_asf64_def
    u32_try_from_def Let_def hundredths_def
  have n: "nat amount < 2 ^ 32 \<and> int (nat amount) = amount" if "\<not> (amount < 0 \<or> 2 ^ 32 \<le> amount)" using that by auto
  consider (bad) "amount < 0 \<or> 2 ^ 32 \<le> amount" | (zero) "\<not> (amount < 0 \<or> 2 ^ 32 \<le> amount)" "is_zero_decimal_currency c"
    | (three) "\<not> (amount < 0 \<or> 2 ^ 32 \<le> amount)" "is_three_decimal_currency c" "\<not> is_zero_decimal_currency c"
    | (two) "\<not> (amount < 0 \<or> 2 ^ 32 \<le> amount)" "\<not> is_three_decimal_currency c" "\<not> is_zero_decimal_currency c"
    by blast
  then show ?thesis
  proof cases
    case bad
    then show ?thesis by (auto simp: ops)
  next
    case zero
    with f64_text.rendered_integer [OF assms, of "nat amount"] f64_text.show_integer [OF assms, of "nat amount"]
    show ?thesis by (simp add: ops pad2_def show_nat.simps [of 0] digit_char_def)
  next
    case three
    with f64_text.rendered_three [OF assms, of "nat amount"] n show ?thesis by (auto simp: ops)
  next
    case two
    with f64_text.rendered_two [OF assms, of "nat amount"] n show ?thesis by (auto simp: ops intro!: exI [of _ "nat amount"])
  qed
qed

theorem currency_amount_rendered_witness:
  "to_currency_base_unit round_f64 format_f64 ''USD'' 1005 = Ok (show_nat 10 @ ''.'' @ pad2 5) \<and>
   to_currency_base_unit_with_zero_decimal_check round_f64 format_f64 show_integral ''JPY'' 1005 = Ok (show_nat 1005)"
  using currency_amount_rendered [OF binary64.f64_text_axioms, of 1005 "''USD''"]
    currency_amount_rendered [OF binary64.f64_text_axioms, of 1005 "''JPY''"]
  by (auto simp: is_zero_decimal_currency_def is_three_decimal_currency_def)

end
