(* ===== verification/Pii.thy ===== *)
theory Pii
  imports Errors
begin

text \<open>
  Masking of secrets in logs (\<open>masking/src/strategy.rs\<close>, \<open>secret.rs\<close>,
  \<open>maskable.rs\<close>), the masking strategies and validated types for personal data
  (\<open>common_utils/src/pii.rs\<close>) and their validation (\<open>common_utils/src/validation.rs\<close>).

  A text is its list of bytes, as \<open>len\<close> and slicing see it. A strategy is the function from a secret
  to the text its \<open>Debug\<close> prints; \<open>type_name\<close> is \<open>std::any::type_name\<close> of the
  secret. The regular expression engine and the \<open>phonenumber\<close> crate are not part of the repository:
  \<open>is_match\<close> and \<open>parse\<close> are parameters.
\<close>

section \<open>Secrets\<close>

definition WithType_fmt :: "string \<Rightarrow> 'a \<Rightarrow> string" where
  "WithType_fmt type_name v = ''*** '' @ type_name @ '' ***''"

definition WithoutType_fmt :: "'a \<Rightarrow> string" where
  "WithoutType_fmt v = ''*** ***''"

datatype 'a Secret = Secret (inner_secret: 'a)

definition Secret_zip :: "'a Secret \<Rightarrow> 'b Secret \<Rightarrow> ('a \<times> 'b) Secret" where
  "Secret_zip self other = Secret (inner_secret self, inner_secret other)"

definition Secret_map :: "('a \<Rightarrow> 'b) \<Rightarrow> 'a Secret \<Rightarrow> 'b Secret" where
  "Secret_map f self = Secret (f (inner_secret self))"

definition Secret_peek :: "'a Secret \<Rightarrow> 'a" where
  "Secret_peek self = inner_secret self"

definition Secret_expose :: "'a Secret \<Rightarrow> 'a" where
  "Secret_expose self = inner_secret self"

definition Secret_fmt :: "('a \<Rightarrow> string) \<Rightarrow> 'a Secret \<Rightarrow> string" where
  "Secret_fmt strategy self = strategy (inner_secret self)"

datatype 'a Maskable = Masked "'a Secret" | Normal 'a

fun Maskable_fmt :: "string \<Rightarrow> ('a \<Rightarrow> string) \<Rightarrow> 'a Maskable \<Rightarrow> string" where
  "Maskable_fmt type_name debug (Masked secret_value) = Secret_fmt (WithType_fmt type_name) secret_value"
| "Maskable_fmt type_name debug (Normal v) = debug v"

fun Maskable_into_inner :: "'a Maskable \<Rightarrow> 'a" where
  "Maskable_into_inner (Masked s) = Secret_expose s"
| "Maskable_into_inner (Normal v) = v"

fun Maskable_is_masked :: "'a Maskable \<Rightarrow> bool" where
  "Maskable_is_masked (Masked _) = True"
| "Maskable_is_masked (Normal _) = False"

fun Maskable_is_normal :: "'a Maskable \<Rightarrow> bool" where
  "Maskable_is_normal (Masked _) = False"
| "Maskable_is_normal (Normal _) = True"

definition into_masked :: "string \<Rightarrow> string Maskable" where
  "into_masked s = Masked (Secret s)"

definition Maskable_from :: "'a \<Rightarrow> 'a Maskable" where
  "Maskable_from v = Normal v"

section \<open>Strategies\<close>

text \<open>\<open>str::get(i..)\<close>: the rest from byte \<open>i\<close>, if it is a character boundary.\<close>

definition is_continuation :: "char \<Rightarrow> bool" where
  "is_continuation c \<longleftrightarrow> (let n = of_char c :: nat in 128 \<le> n \<and> n < 192)"

definition str_get_from :: "string \<Rightarrow> 64 word \<Rightarrow> string option" where
  "str_get_from s i =
     (if length s < unat i then None
      else case drop (unat i) s of
          [] \<Rightarrow> Some []
        | c # cs \<Rightarrow> if is_continuation c then None else Some (c # cs))"

text \<open>The inner \<open>val_str\<close> shadows the outer one, so the count of stars is computed from the
  suffix. The subtraction wraps in the release profile, which has no overflow checks.\<close>

definition PhoneNumberStrategy_fmt :: "string \<Rightarrow> string \<Rightarrow> string" where
  "PhoneNumberStrategy_fmt type_name val_str =
     (case str_get_from val_str (of_nat (length val_str) - 4) of
        Some val_str \<Rightarrow> stars (unat (of_nat (length val_str) - 4 :: 64 word)) @ val_str
      | None \<Rightarrow> WithType_fmt type_name val_str)"

definition EncryptionStrategy_fmt :: "'b list \<Rightarrow> string" where
  "EncryptionStrategy_fmt v = ''*** Encrypted data of length '' @ show_nat (length v) @ '' bytes ***''"

definition ClientSecret_fmt :: "string \<Rightarrow> string \<Rightarrow> string" where
  "ClientSecret_fmt type_name val_str =
     (let segments = split_on CHR ''_'' val_str in
      if length segments \<noteq> 4 \<or> ''pay'' \<notin> set segments \<or> ''secret'' \<notin> set segments
      then WithType_fmt type_name val_str
      else case segments of
          s0 # s1 # _ \<Rightarrow> s0 @ ''_'' @ s1 @ ''_'' @ stars (length val_str - (length s0 + length s1 + 2))
        | _ \<Rightarrow> WithType_fmt type_name val_str)"

definition EmailStrategy_fmt :: "string \<Rightarrow> string \<Rightarrow> string" where
  "EmailStrategy_fmt type_name val_str =
     (case split_once CHR ''@'' val_str of
        Some (a, b) \<Rightarrow> stars (length a) @ ''@'' @ b
      | None \<Rightarrow> WithType_fmt type_name val_str)"

definition IpAddress_fmt :: "string \<Rightarrow> string \<Rightarrow> string" where
  "IpAddress_fmt type_name val_str =
     (let segments = split_on CHR ''.'' val_str in
      if length segments \<noteq> 4 then WithType_fmt type_name val_str
      else if list_ex (\<lambda>seg. seg = [] \<or> 3 < length seg) segments then WithType_fmt type_name val_str
      else case segments of
          s0 # _ \<Rightarrow> s0 @ ''.**.**.**''
        | [] \<Rightarrow> WithType_fmt type_name val_str)"

definition UpiVpaMaskingStrategy_fmt :: "string \<Rightarrow> string \<Rightarrow> string" where
  "UpiVpaMaskingStrategy_fmt type_name vpa_str =
     (case split_once CHR ''@'' vpa_str of
        Some (user_identifier, bank_or_psp) \<Rightarrow> stars (length user_identifier) @ ''@'' @ bank_or_psp
      | None \<Rightarrow> WithType_fmt type_name vpa_str)"

section \<open>Validated types\<close>

text \<open>\<open>chars().count()\<close>: the bytes that start a character.\<close>

definition chars_count :: "string \<Rightarrow> nat" where
  "chars_count s = length (filter (\<lambda>c. \<not> is_continuation c) s)"

definition EMAIL_MAX_LENGTH :: nat where
  "EMAIL_MAX_LENGTH = 319"

text \<open>The pattern is a constant that compiles, so the branch for an invalid pattern is not taken.\<close>

definition validate_email :: "(string \<Rightarrow> bool) \<Rightarrow> string \<Rightarrow> (ValidationError, unit) result" where
  "validate_email is_match email =
     (if email = [] \<or> EMAIL_MAX_LENGTH < chars_count email
      then Err (InvalidValue ''Email address is either empty or exceeds maximum allowed length'')
      else if \<not> is_match email then Err (InvalidValue ''Invalid email address format'')
      else Ok ())"

definition validate_phone_number :: "(string \<Rightarrow> string option) \<Rightarrow> string \<Rightarrow> (ValidationError, unit) result" where
  "validate_phone_number parse_error phone_number =
     (case parse_error phone_number of
        None \<Rightarrow> Ok ()
      | Some e \<Rightarrow> Err (InvalidValue (''Could not parse phone number: '' @ phone_number @ '', because: '' @ e)))"

definition REDACTED :: string where
  "REDACTED = ''Redacted''"

definition Email_from_str :: "(string \<Rightarrow> bool) \<Rightarrow> string \<Rightarrow> (ValidationError, string Secret) result" where
  "Email_from_str is_match email =
     (if email = REDACTED then Ok (Secret email)
      else case validate_email is_match email of
          Inr _ \<Rightarrow> Ok (Secret email)
        | Inl _ \<Rightarrow> Err (InvalidValue ''Invalid email address format''))"

definition Email_try_from :: "(string \<Rightarrow> bool) \<Rightarrow> string \<Rightarrow> (ParsingError, string Secret) result" where
  "Email_try_from is_match v =
     (case Email_from_str is_match v of Inl _ \<Rightarrow> Err EmailParsingError | Inr e \<Rightarrow> Ok e)"

definition PhoneNumber_from_str :: "(string \<Rightarrow> string option) \<Rightarrow> string \<Rightarrow> (ValidationError, string Secret) result" where
  "PhoneNumber_from_str parse_error phone_number =
     rbind (validate_phone_number parse_error phone_number) (\<lambda>_. Ok (Secret phone_number))"

definition PhoneNumber_try_from :: "(string \<Rightarrow> string option) \<Rightarrow> string \<Rightarrow> (ParsingError, string Secret) result" where
  "PhoneNumber_try_from parse_error v =
     (case PhoneNumber_from_str parse_error v of Inl _ \<Rightarrow> Err PhoneNumberParsingError | Inr e \<Rightarrow> Ok e)"

section \<open>What the pattern for an e-mail address promises\<close>

text \<open>The pattern has a literal \<open>@\<close> between its two halves.\<close>

locale email_pattern =
  fixes is_match :: "string \<Rightarrow> bool"
  assumes is_match_at: "is_match e \<Longrightarrow> CHR ''@'' \<in> set e"
begin

lemma email_accepted:
  assumes "Email_try_from is_match e = Ok v"
  shows "v = Secret e \<and> (e = REDACTED \<or> (\<exists>a b. split_once CHR ''@'' e = Some (a, b)))"
proof -
  have v: "v = Secret e" and e: "e = REDACTED \<or> is_match e"
    using assms by (auto simp: Email_try_from_def Email_from_str_def validate_email_def split: if_splits)
  have "\<exists>a b. split_once CHR ''@'' e = Some (a, b)" if "is_match e"
    using is_match_at [OF that] split_once_None [of "CHR ''@''" e] by (cases "split_once CHR ''@'' e") auto
  with v e show ?thesis by blast
qed

lemma email_printed:
  assumes "Email_try_from is_match e = Ok v"
  shows "Secret_fmt (EmailStrategy_fmt type_name) v = ''*** '' @ type_name @ '' ***'' \<or>
    (\<exists>a b. e = a @ ''@'' @ b \<and> CHR ''@'' \<notin> set a \<and>
       Secret_fmt (EmailStrategy_fmt type_name) v = stars (length a) @ ''@'' @ b)"
proof -
  consider "v = Secret REDACTED" | a b where "v = Secret e" "split_once CHR ''@'' e = Some (a, b)"
    using email_accepted [OF assms] by auto
  then show ?thesis
  proof cases
    case 1
    then show ?thesis by (simp add: Secret_fmt_def EmailStrategy_fmt_def WithType_fmt_def REDACTED_def)
  next
    case 2
    with split_once_Some [OF 2(2)] show ?thesis by (auto simp: Secret_fmt_def EmailStrategy_fmt_def)
  qed
qed

end

text \<open>The pattern of \<open>validate_email\<close> on ASCII texts: a local part, and labels of 1 to 63 letters,
  digits and inner hyphens separated by dots, at least two of them.\<close>

definition ascii_alnum :: "char \<Rightarrow> bool" where
  "ascii_alnum c \<longleftrightarrow> (let n = of_char c :: nat in (48 \<le> n \<and> n \<le> 57) \<or> (65 \<le> n \<and> n \<le> 90) \<or> (97 \<le> n \<and> n \<le> 122))"

definition email_local_char :: "char \<Rightarrow> bool" where
  "email_local_char c \<longleftrightarrow> ascii_alnum c \<or> c \<in> set ''.!#$%&*+/=?^_`{|}~-'' \<or> c = CHR 0x27"

definition email_label :: "string \<Rightarrow> bool" where
  "email_label l \<longleftrightarrow> l \<noteq> [] \<and> length l \<le> 63 \<and> ascii_alnum (hd l) \<and> ascii_alnum (last l) \<and>
     list_all (\<lambda>c. ascii_alnum c \<or> c = CHR ''-'') l"

definition ascii_email_match :: "string \<Rightarrow> bool" where
  "ascii_email_match e =
     (case split_once CHR ''@'' e of
        None \<Rightarrow> False
      | Some (a, b) \<Rightarrow> a \<noteq> [] \<and> list_all email_local_char a \<and>
          2 \<le> length (split_on CHR ''.'' b) \<and> list_all email_label (split_on CHR ''.'' b))"

interpretation ascii_email: email_pattern ascii_email_match
proof
  fix e assume "ascii_email_match e"
  then show "CHR ''@'' \<in> set e"
    using split_once_None [of "CHR ''@''" e] by (auto simp: ascii_email_match_def split: option.splits)
qed

section \<open>Properties\<close>

lemma split_once_masked:
  "CHR ''@'' \<notin> set x \<Longrightarrow> EmailStrategy_fmt t (x @ ''@'' @ d) = stars (length x) @ ''@'' @ d"
  "CHR ''@'' \<notin> set x \<Longrightarrow> UpiVpaMaskingStrategy_fmt t (x @ ''@'' @ d) = stars (length x) @ ''@'' @ d"
  by (simp_all add: EmailStrategy_fmt_def UpiVpaMaskingStrategy_fmt_def split_once_append)

lemma client_secret_masked:
  "CHR ''_'' \<notin> set i \<Longrightarrow> CHR ''_'' \<notin> set x \<Longrightarrow>
     ClientSecret_fmt t (''pay_'' @ i @ ''_secret_'' @ x) = ''pay_'' @ i @ ''_'' @ stars (7 + length x)"
  using split_on_append [of "CHR ''_''" i "''secret_'' @ x"]
  by (simp add: ClientSecret_fmt_def split_on_no_sep Let_def)

lemma phone_shows_last_four:
  assumes "length d = 4" "\<not> is_continuation (hd d)" "length x + 4 < 2 ^ 64"
  shows "PhoneNumberStrategy_fmt t (x @ d) = d"
proof -
  have "of_nat (length (x @ d)) - 4 = (of_nat (length x) :: 64 word)" using assms(1) by simp
  moreover have "unat (of_nat (length x) :: 64 word) = length x" using assms(3) by (simp add: unat_of_nat)
  moreover obtain c cs where "d = c # cs" using assms(1) by (cases d) auto
  ultimately show ?thesis using assms(1,2) by (simp add: PhoneNumberStrategy_fmt_def str_get_from_def)
qed

text \<open>What the log shows of a secret. The local part of an accepted e-mail address and the user
  of a payment address show one star per byte, so two of the same length print the same; a client secret
  \<open>pay_\<dots>_secret_\<dots>\<close> shows its payment id only; a phone number
  shows exactly its last four digits, and no stars for the digits before them, whatever they are. The
  value kept in an accepted e-mail address is the text that was given.\<close>

theorem masked_text_shown:
  assumes "email_pattern is_match"
  shows "(\<forall>e v. Email_try_from is_match e = Ok v \<longrightarrow> Secret_expose v = e \<and>
      (Secret_fmt (EmailStrategy_fmt t) v = ''*** '' @ t @ '' ***'' \<or>
       (\<exists>a b. e = a @ ''@'' @ b \<and> CHR ''@'' \<notin> set a \<and>
          Secret_fmt (EmailStrategy_fmt t) v = stars (length a) @ ''@'' @ b))) \<and>
    (CHR ''@'' \<notin> set u \<longrightarrow> UpiVpaMaskingStrategy_fmt t (u @ ''@'' @ b) = stars (length u) @ ''@'' @ b) \<and>
    (CHR ''_'' \<notin> set i \<and> CHR ''_'' \<notin> set x \<longrightarrow>
       ClientSecret_fmt t (''pay_'' @ i @ ''_secret_'' @ x) = ''pay_'' @ i @ ''_'' @ stars (7 + length x)) \<and>
    (length d = 4 \<and> \<not> is_continuation (hd d) \<and> length n + 4 < 2 ^ 64 \<longrightarrow>
       PhoneNumberStrategy_fmt t (n @ d) = d)"
proof (intro conjI allI impI)
  fix e v assume ok: "Email_try_from is_match e = Ok v"
  show "Secret_expose v = e" using email_pattern.email_accepted [OF assms ok] by (simp add: Secret_expose_def)
  show "Secret_fmt (EmailStrategy_fmt t) v = ''*** '' @ t @ '' ***'' \<or>
       (\<exists>a b. e = a @ ''@'' @ b \<and> CHR ''@'' \<notin> set a \<and>
          Secret_fmt (EmailStrategy_fmt t) v = stars (length a) @ ''@'' @ b)"
    by (rule email_pattern.email_printed [OF assms ok])
qed (simp_all add: split_once_masked [simplified] client_secret_masked [simplified] phone_shows_last_four)

theorem masked_text_shown_witness:
  "(\<exists>v. Email_try_from ascii_email_match ''bob@a.io'' = Ok v \<and> Secret_expose v = ''bob@a.io'') \<and>
   ClientSecret_fmt ''String'' ''pay_7_secret_xyz'' = ''pay_7_**********'' \<and>
   PhoneNumberStrategy_fmt ''String'' ''+4079123'' = ''9123''"
proof -
  note m = masked_text_shown [OF ascii_email.email_pattern_axioms, where t = "''String''"]
  have "Email_try_from ascii_email_match ''bob@a.io'' = Ok (Secret ''bob@a.io'')"
    by code_simp
  moreover have "ClientSecret_fmt ''String'' (''pay_'' @ ''7'' @ ''_secret_'' @ ''xyz'') = ''pay_'' @ ''7'' @ ''_'' @ stars (7 + length ''xyz'')"
    using m [THEN conjunct2, THEN conjunct2, THEN conjunct1, of "''7''" "''xyz''"] by simp
  moreover have "PhoneNumberStrategy_fmt ''String'' (''+407'' @ ''9123'') = ''9123''"
    using m [THEN conjunct2, THEN conjunct2, THEN conjunct2, of "''9123''" "''+407''"] by (simp add: is_continuation_def)
  ultimately show ?thesis using m [THEN conjunct1] by (auto simp: numeral_eq_Suc)
qed

end
