(* ===== verification/Masked_Serialize.thy ===== *)
theory Masked_Serialize
  imports Pii "HOL-Library.AList"
begin

text \<open>
  Masked serialization (\<open>masking/src/serde.rs\<close>): the serializer that turns a value into JSON for logs with
  every secret replaced by its masked text, and the serialization of a secret, which looks at the
  serializer it is given.

  A value that implements \<open>Serialize\<close> is the calls it makes, the data model of serde: \<open>ser\<close>. A secret
  is the text its \<open>Debug\<close> prints and the value inside. A struct with flattened fields is the list of the entries it
  hands to the map and of the secrets it flattens. The JSON serializer of \<open>serde_json\<close> is not part of the
  repository; the record \<open>json_inner\<close> holds its treatment of 128-bit numbers and of map keys. A JSON
  object is a list of entries with distinct keys; the order is not observable.
\<close>

section \<open>Serialized data and JSON values\<close>

text \<open>The calls without a value inside, and the others.\<close>

datatype leaf =
    SerBool bool
  | SerI8 "8 word" | SerI16 "16 word" | SerI32 "32 word" | SerI64 "64 word" | SerI128 "128 word"
  | SerU8 "8 word" | SerU16 "16 word" | SerU32 "32 word" | SerU64 "64 word" | SerU128 "128 word"
  | SerF32 "string option" | SerF64 "string option"
  | SerChar string | SerStr string | SerBytes "8 word list"
  | SerUnit | SerUnitStruct string | SerUnitVariant string nat string | SerNone | SerDisplay string

datatype ser =
    SerLeaf leaf
  | SerNewtypeStruct string ser
  | SerNewtypeVariant string nat string ser
  | SerSome ser
  | SerSeq "ser list"
  | SerTuple "ser list"
  | SerTupleStruct string "ser list"
  | SerTupleVariant string nat string "ser list"
  | SerMap "(ser \<times> ser) list"
  | SerStruct string "(string \<times> ser) list"
  | SerStructVariant string nat string "(string \<times> ser) list"
  | SerFlatStruct "((ser \<times> ser) + (string \<times> ser)) list"
  | SerSecret string ser

text \<open>Floats carry their decimal text; one that is not finite carries none.\<close>

datatype number = IntNumber int | FloatNumber string

datatype Value =
    Null
  | Bool bool
  | Number number
  | String string
  | Array "Value list"
  | Object "(string \<times> Value) list"

record 'e json_inner =
  inner_i128 :: "int \<Rightarrow> ('e, Value) result"
  inner_u128 :: "nat \<Rightarrow> ('e, Value) result"
  inner_key :: "ser \<Rightarrow> ('e, string) result"

section \<open>What any other serializer sees\<close>

text \<open>The last branch of \<open>pii_serialize\<close>: a secret is serialized as the value inside. Flattened into a map, it
  contributes the entries of that value.\<close>

definition entries_of :: "ser \<Rightarrow> ((ser \<times> ser) + (string \<times> ser)) list" where
  "entries_of v = (case v of
     SerMap es \<Rightarrow> map Inl es
   | SerStruct n fs \<Rightarrow> map (\<lambda>(k, x). Inl (SerLeaf (SerStr k), x)) fs
   | SerFlatStruct fs \<Rightarrow> fs
   | _ \<Rightarrow> [])"

fun expose :: "ser \<Rightarrow> ser" where
  "expose (SerLeaf l) = SerLeaf l"
| "expose (SerNewtypeStruct n v) = SerNewtypeStruct n (expose v)"
| "expose (SerNewtypeVariant n i t v) = SerNewtypeVariant n i t (expose v)"
| "expose (SerSome v) = SerSome (expose v)"
| "expose (SerSeq vs) = SerSeq (map expose vs)"
| "expose (SerTuple vs) = SerTuple (map expose vs)"
| "expose (SerTupleStruct n vs) = SerTupleStruct n (map expose vs)"
| "expose (SerTupleVariant n i t vs) = SerTupleVariant n i t (map expose vs)"
| "expose (SerMap es) = SerMap (map (\<lambda>(k, v). (expose k, expose v)) es)"
| "expose (SerStruct n fs) = SerStruct n (map (\<lambda>(k, v). (k, expose v)) fs)"
| "expose (SerStructVariant n i t fs) = SerStructVariant n i t (map (\<lambda>(k, v). (k, expose v)) fs)"
| "expose (SerFlatStruct fs) = SerFlatStruct (concat (map (\<lambda>f. case f of
       Inl (k, v) \<Rightarrow> [Inl (expose k, expose v)]
     | Inr (debug, v) \<Rightarrow> entries_of (expose v)) fs))"
| "expose (SerSecret debug v) = expose v"

section \<open>The masking serializer\<close>

definition number_of_int :: "int \<Rightarrow> Value" where
  "number_of_int i = Number (IntNumber i)"

definition value_of_float :: "string option \<Rightarrow> Value" where
  "value_of_float f = (case f of None \<Rightarrow> Null | Some t \<Rightarrow> Number (FloatNumber t))"

fun pii_leaf :: "'e json_inner \<Rightarrow> leaf \<Rightarrow> ('e, Value) result" where
  "pii_leaf J (SerBool b) = Ok (Bool b)"
| "pii_leaf J (SerI8 w) = Ok (number_of_int (sint w))"
| "pii_leaf J (SerI16 w) = Ok (number_of_int (sint w))"
| "pii_leaf J (SerI32 w) = Ok (number_of_int (sint w))"
| "pii_leaf J (SerI64 w) = Ok (number_of_int (sint w))"
| "pii_leaf J (SerI128 w) = inner_i128 J (sint w)"
| "pii_leaf J (SerU8 w) = Ok (number_of_int (uint w))"
| "pii_leaf J (SerU16 w) = Ok (number_of_int (uint w))"
| "pii_leaf J (SerU32 w) = Ok (number_of_int (uint w))"
| "pii_leaf J (SerU64 w) = Ok (number_of_int (uint w))"
| "pii_leaf J (SerU128 w) = inner_u128 J (unat w)"
| "pii_leaf J (SerF32 f) = Ok (value_of_float f)"
| "pii_leaf J (SerF64 f) = Ok (value_of_float f)"
| "pii_leaf J (SerChar c) = Ok (String c)"
| "pii_leaf J (SerStr s) = Ok (String s)"
| "pii_leaf J (SerBytes bs) = Ok (Array (map (\<lambda>b. number_of_int (uint b)) bs))"
| "pii_leaf J SerUnit = Ok Null"
| "pii_leaf J (SerUnitStruct n) = Ok Null"
| "pii_leaf J (SerUnitVariant n i variant) = Ok (String variant)"
| "pii_leaf J SerNone = Ok Null"
| "pii_leaf J (SerDisplay s) = Ok (String s)"

text \<open>The builders: elements and entries are serialized in order up to the first error; an entry with a key
  that is there already replaces it.\<close>

definition object_of :: "(string \<times> Value) list \<Rightarrow> Value" where
  "object_of es = Object (fold (\<lambda>(k, v). AList.update k v) es [])"

definition entry :: "('e, string) result \<Rightarrow> ('e, Value) result \<Rightarrow> ('e, string \<times> Value) result" where
  "entry key value = rbind key (\<lambda>k. rbind value (\<lambda>v. Ok (k, v)))"

text \<open>\<open>PIISerializer\<close> with \<open>SerializeVec\<close>, \<open>SerializeTupleVariant\<close>, \<open>SerializeStructVariant\<close> and
  \<open>SerializeMap\<close>. Keys go to the inner serializer, which is none of the two that mask.\<close>

fun pii_value :: "'e json_inner \<Rightarrow> ser \<Rightarrow> ('e, Value) result" where
  "pii_value J (SerLeaf l) = pii_leaf J l"
| "pii_value J (SerNewtypeStruct n v) = pii_value J v"
| "pii_value J (SerNewtypeVariant n i variant v) = rbind (pii_value J v) (\<lambda>x. Ok (object_of [(variant, x)]))"
| "pii_value J (SerSome v) = pii_value J v"
| "pii_value J (SerSeq vs) = rbind (collect_results (map (pii_value J) vs)) (\<lambda>xs. Ok (Array xs))"
| "pii_value J (SerTuple vs) = rbind (collect_results (map (pii_value J) vs)) (\<lambda>xs. Ok (Array xs))"
| "pii_value J (SerTupleStruct n vs) = rbind (collect_results (map (pii_value J) vs)) (\<lambda>xs. Ok (Array xs))"
| "pii_value J (SerTupleVariant n i variant vs) =
     rbind (collect_results (map (pii_value J) vs)) (\<lambda>xs. Ok (object_of [(variant, Array xs)]))"
| "pii_value J (SerMap es) =
     rbind (collect_results (map (\<lambda>(k, v). entry (inner_key J (expose k)) (pii_value J v)) es)) (\<lambda>xs. Ok (object_of xs))"
| "pii_value J (SerStruct n fs) =
     rbind (collect_results (map (\<lambda>(k, v). entry (inner_key J (SerLeaf (SerStr k))) (pii_value J v)) fs))
       (\<lambda>xs. Ok (object_of xs))"
| "pii_value J (SerStructVariant n i variant fs) =
     rbind (collect_results (map (\<lambda>(k, v). entry (Ok k) (pii_value J v)) fs))
       (\<lambda>xs. Ok (object_of [(variant, object_of xs)]))"
| "pii_value J (SerFlatStruct fs) =
     rbind (collect_results (concat (map (\<lambda>f. case f of
         Inl (k, v) \<Rightarrow> [entry (inner_key J (expose k)) (pii_value J v)]
       | Inr (debug, v) \<Rightarrow> []) fs))) (\<lambda>xs. Ok (object_of xs))"
| "pii_value J (SerSecret debug v) = Ok (String debug)"

definition masked_serialize :: "'e json_inner \<Rightarrow> ser \<Rightarrow> ('e, Value) result" where
  "masked_serialize J v = pii_value J v"

section \<open>What the output depends on\<close>

text \<open>The value with everything inside a secret forgotten.\<close>

fun erase :: "ser \<Rightarrow> ser" where
  "erase (SerLeaf l) = SerLeaf l"
| "erase (SerNewtypeStruct n v) = SerNewtypeStruct n (erase v)"
| "erase (SerNewtypeVariant n i t v) = SerNewtypeVariant n i t (erase v)"
| "erase (SerSome v) = SerSome (erase v)"
| "erase (SerSeq vs) = SerSeq (map erase vs)"
| "erase (SerTuple vs) = SerTuple (map erase vs)"
| "erase (SerTupleStruct n vs) = SerTupleStruct n (map erase vs)"
| "erase (SerTupleVariant n i t vs) = SerTupleVariant n i t (map erase vs)"
| "erase (SerMap es) = SerMap (map (\<lambda>(k, v). (erase k, erase v)) es)"
| "erase (SerStruct n fs) = SerStruct n (map (\<lambda>(k, v). (k, erase v)) fs)"
| "erase (SerStructVariant n i t fs) = SerStructVariant n i t (map (\<lambda>(k, v). (k, erase v)) fs)"
| "erase (SerFlatStruct fs) = SerFlatStruct (map (\<lambda>f. case f of
       Inl (k, v) \<Rightarrow> Inl (erase k, erase v)
     | Inr (debug, v) \<Rightarrow> Inr (debug, SerLeaf SerUnit)) fs)"
| "erase (SerSecret debug v) = SerSecret debug (SerLeaf SerUnit)"

text \<open>No key of a map depends on what is inside a secret.\<close>

fun keys_clear :: "ser \<Rightarrow> bool" where
  "keys_clear (SerLeaf l) = True"
| "keys_clear (SerNewtypeStruct n v) = keys_clear v"
| "keys_clear (SerNewtypeVariant n i t v) = keys_clear v"
| "keys_clear (SerSome v) = keys_clear v"
| "keys_clear (SerSeq vs) = list_all keys_clear vs"
| "keys_clear (SerTuple vs) = list_all keys_clear vs"
| "keys_clear (SerTupleStruct n vs) = list_all keys_clear vs"
| "keys_clear (SerTupleVariant n i t vs) = list_all keys_clear vs"
| "keys_clear (SerMap es) = list_all (\<lambda>(k, v). expose (erase k) = expose k \<and> keys_clear v) es"
| "keys_clear (SerStruct n fs) = list_all (\<lambda>(k, v). keys_clear v) fs"
| "keys_clear (SerStructVariant n i t fs) = list_all (\<lambda>(k, v). keys_clear v) fs"
| "keys_clear (SerFlatStruct fs) = list_all (\<lambda>f. case f of
       Inl (k, v) \<Rightarrow> expose (erase k) = expose k \<and> keys_clear v | Inr _ \<Rightarrow> True) fs"
| "keys_clear (SerSecret debug v) = True"

lemma pii_value_erase: "keys_clear v \<Longrightarrow> pii_value J (erase v) = pii_value J v"
proof (induction J v rule: pii_value.induct)
  case (5 J vs)
  then show ?case by (simp add: list_all_iff cong: map_cong)
next
  case (6 J vs)
  then show ?case by (simp add: list_all_iff cong: map_cong)
next
  case (7 J n vs)
  then show ?case by (simp add: list_all_iff cong: map_cong)
next
  case (8 J n i t vs)
  then show ?case by (simp add: list_all_iff cong: map_cong)
next
  case (9 J es)
  have "map ((\<lambda>(k, v). entry (inner_key J (expose k)) (pii_value J v)) \<circ> (\<lambda>(k, v). (erase k, erase v))) es =
      map (\<lambda>(k, v). entry (inner_key J (expose k)) (pii_value J v)) es"
    using 9 by (intro map_cong refl) (auto simp: list_all_iff)
  then show ?case by (simp only: erase.simps pii_value.simps map_map)
next
  case (10 J n fs)
  have "map ((\<lambda>(k, v). entry (inner_key J (SerLeaf (SerStr k))) (pii_value J v)) \<circ> (\<lambda>(k, v). (k, erase v))) fs =
      map (\<lambda>(k, v). entry (inner_key J (SerLeaf (SerStr k))) (pii_value J v)) fs"
    using 10 by (intro map_cong refl) (auto simp: list_all_iff)
  then show ?case by (simp only: erase.simps pii_value.simps map_map)
next
  case (11 J n i t fs)
  have "map ((\<lambda>(k, v). entry (Ok k) (pii_value J v)) \<circ> (\<lambda>(k, v). (k, erase v))) fs =
      map (\<lambda>(k, v). entry (Ok k) (pii_value J v)) fs"
    using 11 by (intro map_cong refl) (auto simp: list_all_iff)
  then show ?case by (simp only: erase.simps pii_value.simps map_map)
next
  case (12 J fs)
  let ?g = "\<lambda>f. case f of Inl (k, v) \<Rightarrow> [entry (inner_key J (expose k)) (pii_value J v)] | Inr (debug, v) \<Rightarrow> []"
  have "map (?g \<circ> (\<lambda>f. case f of Inl (k, v) \<Rightarrow> Inl (erase k, erase v) | Inr (debug, v) \<Rightarrow> Inr (debug, SerLeaf SerUnit))) fs =
      map ?g fs"
    using 12 by (intro map_cong refl) (auto simp: list_all_iff split: sum.splits)
  then show ?case by (simp only: erase.simps pii_value.simps map_map)
qed simp_all


definition demo_json :: "string json_inner" where
  "demo_json = \<lparr>
     inner_i128 = (\<lambda>i. Ok (number_of_int i)), inner_u128 = (\<lambda>n. Ok (number_of_int (int n))),
     inner_key = (\<lambda>k. case k of SerLeaf (SerStr s) \<Rightarrow> Ok s | _ \<Rightarrow> Err ''key must be a string'')\<rparr>"


end
