(* ===== verification/Percentages.thy ===== *)
theory Percentages
  imports Currency Masked_Serialize
begin

text \<open>
  Percentages and surcharges (\<open>common_utils/src/types.rs\<close>): reading a percentage from a text, with a limited number
  of decimals, and applying it to an amount in floating point.

  Numbers are rational. A text is read by the grammar of the standard library; the value is rounded to
  binary32 by \<open>fl32\<close>, and the results of operations in binary64 by \<open>fl\<close>. Infinities and texts that are no numbers are
  a value of their own. The error messages are left out.
\<close>

section \<open>Reading a number\<close>

datatype f32 = Finite rat | Special

text \<open>The optional sign, the letters, the digits around a point, and the exponent.\<close>

definition to_lower :: "string \<Rightarrow> string" where
  "to_lower = map (\<lambda>c. if 65 \<le> (of_char c :: nat) \<and> (of_char c :: nat) \<le> 90 then char_of ((of_char c :: nat) + 32) else c)"

definition strip_sign :: "string \<Rightarrow> bool \<times> string" where
  "strip_sign s = (case s of
     c # t \<Rightarrow> if c = CHR ''-'' then (True, t) else if c = CHR ''+'' then (False, t) else (False, s)
   | [] \<Rightarrow> (False, s))"

definition parse_exponent :: "string \<Rightarrow> int option" where
  "parse_exponent s = (case strip_sign s of (neg, ds) \<Rightarrow>
     if ds = [] then None else map_option (\<lambda>n. if neg then - int n else int n) (parse_digits 0 ds))"

definition parse_mantissa :: "string \<Rightarrow> rat option" where
  "parse_mantissa s = (case split_once CHR ''.'' s of
     None \<Rightarrow> if s = [] then None else map_option of_nat (parse_digits 0 s)
   | Some (whole, part) \<Rightarrow>
       if whole = [] \<and> part = [] then None
       else (case parse_digits 0 (whole @ part) of None \<Rightarrow> None | Some n \<Rightarrow> Some (of_nat n / 10 ^ length part)))"

definition scale10 :: "rat \<Rightarrow> int \<Rightarrow> rat" where
  "scale10 x e = (if 0 \<le> e then x * 10 ^ nat e else x / 10 ^ nat (- e))"

definition parse_f32 :: "(rat \<Rightarrow> rat) \<Rightarrow> string \<Rightarrow> f32 option" where
  "parse_f32 fl32 s =
     (case strip_sign s of (neg, body) \<Rightarrow>
        if to_lower body \<in> {''inf'', ''infinity'', ''nan''} then Some Special
        else (let (m, e) = (case split_once CHR ''e'' (to_lower body) of None \<Rightarrow> (body, Some 0) | Some (m, e) \<Rightarrow> (m, parse_exponent e))
              in case (parse_mantissa m, e) of
                   (Some x, Some k) \<Rightarrow> Some (Finite (fl32 (if neg then - scale10 x k else scale10 x k)))
                 | _ \<Rightarrow> None))"

section \<open>Percentages\<close>

datatype PercentageError = InvalidPercentageValue | UnableToApplyPercentage rat int

record Percentage =
  percentage :: rat

definition is_valid_float_string :: "(rat \<Rightarrow> rat) \<Rightarrow> string \<Rightarrow> (PercentageError, f32) result" where
  "is_valid_float_string fl32 value = ok_or (parse_f32 fl32 value) InvalidPercentageValue"

definition is_valid_range :: "f32 \<Rightarrow> bool" where
  "is_valid_range value = (case value of Finite x \<Rightarrow> 0 \<le> x \<and> x \<le> 100 | Special \<Rightarrow> False)"

definition trim_end_zeros :: "string \<Rightarrow> string" where
  "trim_end_zeros s = rev (dropWhile (\<lambda>c. c = CHR ''0'') (rev s))"

definition is_valid_precision_length :: "nat \<Rightarrow> string \<Rightarrow> bool" where
  "is_valid_precision_length PRECISION value =
     (if CHR ''.'' \<in> set value then length (trim_end_zeros (last (split_on CHR ''.'' value))) \<le> PRECISION else True)"

definition is_valid_string_value :: "(rat \<Rightarrow> rat) \<Rightarrow> nat \<Rightarrow> string \<Rightarrow> (PercentageError, bool) result" where
  "is_valid_string_value fl32 PRECISION value =
     rbind (is_valid_float_string fl32 value) (\<lambda>float_value.
       Ok (is_valid_range float_value \<and> is_valid_precision_length PRECISION value))"

definition Percentage_from_string :: "(rat \<Rightarrow> rat) \<Rightarrow> nat \<Rightarrow> string \<Rightarrow> (PercentageError, Percentage) result" where
  "Percentage_from_string fl32 PRECISION value =
     rbind (is_valid_string_value fl32 PRECISION value) (\<lambda>valid.
       if valid then (case parse_f32 fl32 value of
           Some (Finite x) \<Rightarrow> Ok \<lparr>percentage = x\<rparr>
         | _ \<Rightarrow> Err InvalidPercentageValue)
       else Err InvalidPercentageValue)"

definition get_percentage :: "Percentage \<Rightarrow> rat" where
  "get_percentage self = percentage self"

text \<open>The cast to \<open>i64\<close> saturates.\<close>

definition as_i64 :: "int \<Rightarrow> int" where
  "as_i64 i = max (- (2 ^ 63)) (min (2 ^ 63 - 1) i)"

definition max_amount :: int where
  "max_amount = (2 ^ 63 - 1) div 10000"

definition apply_and_ceil_result :: "(rat \<Rightarrow> rat) \<Rightarrow> Percentage \<Rightarrow> int \<Rightarrow> (PercentageError, int) result" where
  "apply_and_ceil_result fl self amount =
     (if max_amount < amount then Err (UnableToApplyPercentage (percentage self) amount)
      else Ok (as_i64 \<lceil>fl (fl (of_int amount) * fl (percentage self / 100))\<rceil>))"

text \<open>\<open>visit_map\<close>: the entries in order, with the value as JSON; \<open>to_json\<close> is its text.\<close>

datatype percentage_de_error = DuplicateField string | MissingField string | InvalidValue string

fun visit_map :: "(rat \<Rightarrow> rat) \<Rightarrow> nat \<Rightarrow> (Value \<Rightarrow> string) \<Rightarrow> Value option \<Rightarrow> (string \<times> Value) list \<Rightarrow> (percentage_de_error, Percentage) result" where
  "visit_map fl32 PRECISION to_json found ((key, value) # entries) =
     (if key = ''percentage'' then
        (if found \<noteq> None then Err (DuplicateField ''percentage'')
         else visit_map fl32 PRECISION to_json (Some value) entries)
      else visit_map fl32 PRECISION to_json found entries)"
| "visit_map fl32 PRECISION to_json found [] =
     (case found of
        None \<Rightarrow> Err (MissingField ''percentage'')
      | Some value \<Rightarrow> (case Percentage_from_string fl32 PRECISION (to_json value) of
            Inl _ \<Rightarrow> Err (InvalidValue (''percentage value '' @ to_json value))
          | Inr p \<Rightarrow> Ok p))"

datatype Surcharge = Fixed int | Rate Percentage

section \<open>Properties\<close>

text \<open>What is used of binary64: rounding is exact on integers, and its relative error is at most \<open>2 ^ -53\<close> in the
  range in use.\<close>

locale f64_round =
  fixes fl :: "rat \<Rightarrow> rat"
  assumes fl_integer: "n < 2 ^ 53 \<Longrightarrow> fl (of_nat n) = of_nat n"
    and fl_relative: "1 / 2 ^ 20 \<le> x \<Longrightarrow> x < 2 ^ 64 \<Longrightarrow> \<bar>fl x - x\<bar> \<le> x / 2 ^ 53"
begin

lemma applied_close:
  assumes p: "p = 0 \<or> 1 / 100 \<le> p \<and> p \<le> 100" and n: "n < 2 ^ 50"
  shows "\<bar>fl (of_nat n * fl (p / 100)) - of_nat n * (p / 100)\<bar> < 1"
proof (cases "p = 0 \<or> n = 0")
  case True
  then show ?thesis using fl_integer [of 0] by auto
next
  case False
  define N where "N = (of_nat n :: rat)"
  define q where "q = p / 100"
  define q' where "q' = fl q"
  have N: "1 \<le> N" "N < 2 ^ 50"
    using False of_nat_mono [of 1 n, where 'a = rat] of_nat_less_iff [of n "2 ^ 50", where 'a = rat] n by (simp_all add: N_def)
  have q: "1 / 10000 \<le> q" "q \<le> 1" using p False by (simp_all add: q_def)
  have "\<bar>q' - q\<bar> \<le> q / 2 ^ 53" unfolding q'_def using q by (intro fl_relative) simp_all
  then have e: "\<bar>q' - q\<bar> \<le> 1 / 2 ^ 53" using q by simp
  then have q': "1 / 20000 \<le> q'" "q' \<le> 2" using q unfolding abs_le_iff by simp_all
  have "1 * (1 / 20000) \<le> N * q'" using N q' by (intro mult_mono) simp_all
  moreover have y: "N * q' \<le> 2 ^ 50 * 2" using N q' by (intro mult_mono) simp_all
  ultimately have "\<bar>fl (N * q') - N * q'\<bar> \<le> N * q' / 2 ^ 53" by (intro fl_relative) simp_all
  also have "\<dots> \<le> 1 / 4" using y by simp
  finally have f: "\<bar>fl (N * q') - N * q'\<bar> \<le> 1 / 4" .
  have "\<bar>N * q' - N * q\<bar> = N * \<bar>q' - q\<bar>" using N by (simp add: abs_mult right_diff_distrib [symmetric])
  also have "\<dots> \<le> 2 ^ 50 * (1 / 2 ^ 53)" using N e by (intro mult_mono) simp_all
  finally have g: "\<bar>N * q' - N * q\<bar> \<le> 1 / 8" by simp
  have "\<bar>fl (N * q') - N * q\<bar> < 1" using f g unfolding abs_le_iff abs_less_iff by linarith
  then show ?thesis by (simp add: N_def q_def q'_def)
qed

end

lemma find_scale: "2 ^ 52 \<le> (of_nat n :: rat) * 2 ^ 52 \<longleftrightarrow> n \<noteq> 0"
  by (cases n) simp_all

lemma round_f64_integer: "round_f64 (of_nat n) = of_nat n"
proof (cases "find (\<lambda>s. 2 ^ 52 \<le> (of_nat n :: rat) * 2 ^ s) [0..<128]")
  case None
  moreover have "52 \<in> set [0..<128 :: nat]" by simp
  ultimately have "\<not> 2 ^ 52 \<le> (of_nat n :: rat) * 2 ^ 52" unfolding find_None_iff by blast
  then have "n = 0" unfolding find_scale by simp
  with None show ?thesis by (simp add: round_f64_def)
next
  case (Some s)
  have "(of_nat n :: rat) * 2 ^ s = of_int (int n * 2 ^ s)" by simp
  then have "round ((of_nat n :: rat) * 2 ^ s) = int n * 2 ^ s" by (metis round_of_int)
  with Some show ?thesis by (simp add: round_f64_def)
qed

interpretation binary64_round: f64_round round_f64
  by unfold_locales (rule round_f64_integer, rule round_f64_error)

lemma ceiling_close: "\<bar>x - y\<bar> < 1 \<Longrightarrow> \<bar>\<lceil>x\<rceil> - \<lceil>y\<rceil>\<bar> \<le> 1" for x y :: rat
  by linarith

lemma as_i64_near: "\<bar>a - b\<bar> \<le> 1 \<Longrightarrow> 0 \<le> b \<Longrightarrow> b \<le> 2 ^ 50 \<Longrightarrow> as_i64 a = a"
  by (simp add: as_i64_def)



text \<open>The number of decimals is counted in the text after the last point, and only there: a plain decimal is accepted
  when it has no more digits than allowed, up to trailing zeros, but a text with an exponent and no point passes
  whatever its decimals.\<close>

lemma precision_of_plain_decimal:
  assumes "CHR ''.'' \<notin> set whole" "CHR ''.'' \<notin> set part"
  shows "is_valid_precision_length n (whole @ CHR ''.'' # part) \<longleftrightarrow> length (trim_end_zeros part) \<le> n"
  using assms by (simp add: is_valid_precision_length_def split_on_append split_on_no_sep)

lemma exponent_escapes_precision:
  "Percentage_from_string (\<lambda>x. x) 2 ''1e-5'' = Ok \<lparr>percentage = 1 / 100000\<rparr>"
  "Percentage_from_string (\<lambda>x. x) 2 ''0.00001'' = Err InvalidPercentageValue"
  by code_simp+

end
