(* ===== verification/Utilities.thy ===== *)
theory Utilities
  imports Masked_Serialize
begin

text \<open>
  Utilities of \<open>common_utils\<close>: outgoing requests (\<open>request.rs\<close>), the cache in memory (\<open>static_cache.rs\<close>), encoding
  and parsing with the errors of the crate, and required values (\<open>ext_traits.rs\<close>), and dates as texts
  (\<open>date_time\<close> of \<open>lib.rs\<close>).

  Encoders and decoders (JSON, form-encoded, XML) are parameters. The lock of the cache is a flag: it is poisoned
  when a thread panicked while it wrote, and then no call succeeds.
\<close>

section \<open>Requests\<close>

type_synonym Headers = "(string \<times> string Maskable) set"

datatype Method = Get | Post | Put | MDelete | Patch

datatype ('v, 'form) RequestContent = JsonBody 'v | FormUrlEncoded 'v | FormData 'form | Xml 'v | RawBytes string

fun RequestContent_fmt :: "('v, 'form) RequestContent \<Rightarrow> string" where
  "RequestContent_fmt (JsonBody _) = ''JsonRequestBody''"
| "RequestContent_fmt (FormUrlEncoded _) = ''FormUrlEncodedRequestBody''"
| "RequestContent_fmt (FormData _) = ''FormDataRequestBody''"
| "RequestContent_fmt (Xml _) = ''XmlRequestBody''"
| "RequestContent_fmt (RawBytes _) = ''RawBytesRequestBody''"

record 'v encoders =
  json_to_string :: "'v \<Rightarrow> string option"
  urlencoded_to_string :: "'v \<Rightarrow> string option"
  xml_to_string :: "'v \<Rightarrow> string option"

definition unwrap_or_default :: "string option \<Rightarrow> string" where
  "unwrap_or_default v = (case v of None \<Rightarrow> [] | Some s \<Rightarrow> s)"

fun get_inner_value :: "'v encoders \<Rightarrow> ('v, 'form) RequestContent \<Rightarrow> string Secret" where
  "get_inner_value enc (JsonBody i) = Secret (unwrap_or_default (json_to_string enc i))"
| "get_inner_value enc (FormUrlEncoded i) = Secret (unwrap_or_default (urlencoded_to_string enc i))"
| "get_inner_value enc (Xml i) = Secret (unwrap_or_default (xml_to_string enc i))"
| "get_inner_value enc (FormData _) = Secret []"
| "get_inner_value enc (RawBytes _) = Secret []"

record 'b Request =
  rq_url :: string
  rq_headers :: Headers
  rq_method :: Method
  rq_certificate :: "string option"
  rq_certificate_key :: "string option"
  rq_body :: "'b option"

definition default_request_headers :: Headers where
  "default_request_headers = {(''via'', Maskable_from ''HyperSwitch'')}"

definition Request_new :: "Method \<Rightarrow> string \<Rightarrow> 'b Request" where
  "Request_new method url = \<lparr>rq_url = url, rq_headers = {}, rq_method = method, rq_certificate = None,
     rq_certificate_key = None, rq_body = None\<rparr>"

definition Request_set_body :: "'b \<Rightarrow> 'b Request \<Rightarrow> 'b Request" where
  "Request_set_body body self = self\<lparr>rq_body := Some body\<rparr>"

definition add_default_headers :: "'b Request \<Rightarrow> 'b Request" where
  "add_default_headers self = self\<lparr>rq_headers := rq_headers self \<union> default_request_headers\<rparr>"

definition add_header :: "string \<Rightarrow> string Maskable \<Rightarrow> 'b Request \<Rightarrow> 'b Request" where
  "add_header header value self = self\<lparr>rq_headers := insert (header, value) (rq_headers self)\<rparr>"

definition Request_add_certificate :: "string option \<Rightarrow> 'b Request \<Rightarrow> 'b Request" where
  "Request_add_certificate certificate self = self\<lparr>rq_certificate := certificate\<rparr>"

definition Request_add_certificate_key :: "string option \<Rightarrow> 'b Request \<Rightarrow> 'b Request" where
  "Request_add_certificate_key certificate_key self = self\<lparr>rq_certificate := certificate_key\<rparr>"

record 'b RequestBuilder =
  rb_url :: string
  rb_headers :: Headers
  rb_method :: Method
  rb_certificate :: "string option"
  rb_certificate_key :: "string option"
  rb_body :: "'b option"

definition RequestBuilder_new :: "'b RequestBuilder" where
  "RequestBuilder_new = \<lparr>rb_url = [], rb_headers = {}, rb_method = Get, rb_certificate = None, rb_certificate_key = None, rb_body = None\<rparr>"

definition rb_set_url :: "string \<Rightarrow> 'b RequestBuilder \<Rightarrow> 'b RequestBuilder" where
  "rb_set_url url self = self\<lparr>rb_url := url\<rparr>"

definition rb_set_method :: "Method \<Rightarrow> 'b RequestBuilder \<Rightarrow> 'b RequestBuilder" where
  "rb_set_method method self = self\<lparr>rb_method := method\<rparr>"

definition attach_default_headers :: "'b RequestBuilder \<Rightarrow> 'b RequestBuilder" where
  "attach_default_headers self = self\<lparr>rb_headers := rb_headers self \<union> default_request_headers\<rparr>"

definition rb_add_headers :: "(string \<times> string Maskable) list \<Rightarrow> 'b RequestBuilder \<Rightarrow> 'b RequestBuilder" where
  "rb_add_headers headers self = self\<lparr>rb_headers := rb_headers self \<union> set headers\<rparr>"

definition rb_add_header :: "string \<Rightarrow> string \<Rightarrow> 'b RequestBuilder \<Rightarrow> 'b RequestBuilder" where
  "rb_add_header header value self = self\<lparr>rb_headers := insert (header, Maskable_from value) (rb_headers self)\<rparr>"

definition rb_set_body :: "'b \<Rightarrow> 'b RequestBuilder \<Rightarrow> 'b RequestBuilder" where
  "rb_set_body body self = self\<lparr>rb_body := Some body\<rparr>"

definition rb_add_certificate :: "string option \<Rightarrow> 'b RequestBuilder \<Rightarrow> 'b RequestBuilder" where
  "rb_add_certificate certificate self = self\<lparr>rb_certificate := certificate\<rparr>"

definition rb_add_certificate_key :: "string option \<Rightarrow> 'b RequestBuilder \<Rightarrow> 'b RequestBuilder" where
  "rb_add_certificate_key certificate_key self = self\<lparr>rb_certificate_key := certificate_key\<rparr>"

definition rb_build :: "'b RequestBuilder \<Rightarrow> 'b Request" where
  "rb_build self = \<lparr>rq_url = rb_url self, rq_headers = rb_headers self, rq_method = rb_method self,
     rq_certificate = rb_certificate self, rq_certificate_key = rb_certificate_key self, rq_body = rb_body self\<rparr>"

section \<open>A cache in memory\<close>

datatype CacheError = CouldNotAcquireLock | EntryNotFound

record 'a CacheEntry =
  ce_data :: 'a
  ce_timestamp :: int

record 'a StaticCache =
  sc_poisoned :: bool
  sc_map :: "string \<rightharpoonup> 'a CacheEntry"

definition StaticCache_new :: "'a StaticCache" where
  "StaticCache_new = \<lparr>sc_poisoned = False, sc_map = Map.empty\<rparr>"

definition cache_read :: "'a StaticCache \<Rightarrow> (CacheError, string \<rightharpoonup> 'a CacheEntry) result" where
  "cache_read self = (if sc_poisoned self then Err CouldNotAcquireLock else Ok (sc_map self))"

definition cache_write :: "((string \<rightharpoonup> 'a CacheEntry) \<Rightarrow> (string \<rightharpoonup> 'a CacheEntry)) \<Rightarrow> ('a StaticCache, CacheError, unit) eff" where
  "cache_write f self = (if sc_poisoned self then (Err CouldNotAcquireLock, self) else (Ok (), self\<lparr>sc_map := f (sc_map self)\<rparr>))"

definition cache_present :: "'a StaticCache \<Rightarrow> string \<Rightarrow> (CacheError, bool) result" where
  "cache_present self key = rbind (cache_read self) (\<lambda>the_map. Ok (the_map key \<noteq> None))"

definition cache_expired :: "'a StaticCache \<Rightarrow> string \<Rightarrow> int \<Rightarrow> (CacheError, bool) result" where
  "cache_expired self key timestamp =
     rbind (cache_read self) (\<lambda>the_map. Ok (case the_map key of None \<Rightarrow> False | Some e \<Rightarrow> ce_timestamp e < timestamp))"

definition cache_retrieve :: "'a StaticCache \<Rightarrow> string \<Rightarrow> (CacheError, 'a) result" where
  "cache_retrieve self key =
     rbind (cache_read self) (\<lambda>the_map. rbind (ok_or (the_map key) EntryNotFound) (\<lambda>e. Ok (ce_data e)))"

definition cache_save :: "string \<Rightarrow> 'a \<Rightarrow> int \<Rightarrow> ('a StaticCache, CacheError, unit) eff" where
  "cache_save key data timestamp = cache_write (\<lambda>the_map. the_map(key \<mapsto> \<lparr>ce_data = data, ce_timestamp = timestamp\<rparr>))"

definition cache_clear :: "('a StaticCache, CacheError, unit) eff" where
  "cache_clear = cache_write (\<lambda>_. Map.empty)"

section \<open>Encoding, parsing, required values\<close>

definition convert_and_encode :: "('v \<Rightarrow> string option) \<Rightarrow> string \<Rightarrow> ('a \<Rightarrow> 'v option) \<Rightarrow> 'a \<Rightarrow> (ParsingError, string) result" where
  "convert_and_encode to_string format_name try_from self =
     rbind (ok_or (try_from self) ParsingError.UnknownError) (\<lambda>p. ok_or (to_string p) (EncodeError format_name))"

text \<open>The encodings differ in the encoder and in the name their error carries: \<open>string\<close> and \<open>url-encoded\<close> for converted
  values; \<open>url-encoded\<close>, \<open>json\<close>, \<open>xml\<close>, \<open>json-value\<close> and \<open>byte-vec\<close> for the others.\<close>

definition encode_as :: "('a \<Rightarrow> 'b option) \<Rightarrow> string \<Rightarrow> 'a \<Rightarrow> (ParsingError, 'b) result" where
  "encode_as encoder format_name self = ok_or (encoder self) (EncodeError format_name)"

definition parse_struct :: "(string \<Rightarrow> 'a option) \<Rightarrow> string \<Rightarrow> string \<Rightarrow> (ParsingError, 'a) result" where
  "parse_struct from_json type_name self = ok_or (from_json self) (StructParseFailure type_name)"

definition parse_value :: "(Value \<Rightarrow> 'a option) \<Rightarrow> string \<Rightarrow> Value \<Rightarrow> (ParsingError, 'a) result" where
  "parse_value from_value type_name self = ok_or (from_value self) (StructParseFailure type_name)"

definition parse_enum :: "(string \<Rightarrow> 'a option) \<Rightarrow> string \<Rightarrow> string \<Rightarrow> (ParsingError, 'a) result" where
  "parse_enum from_str enum_name self = ok_or (from_str self) (EnumParseFailure enum_name)"

definition check_value_present :: "'a option \<Rightarrow> string \<Rightarrow> (ValidationError, unit) result" where
  "check_value_present self field_name = when_pred (self = None) (Err (MissingRequiredField field_name))"

definition get_required_value :: "'a option \<Rightarrow> string \<Rightarrow> (ValidationError, 'a) result" where
  "get_required_value self field_name = (case self of Some v \<Rightarrow> Ok v | None \<Rightarrow> Err (MissingRequiredField field_name))"

definition option_parse_enum :: "(string \<Rightarrow> 'a option) \<Rightarrow> string option \<Rightarrow> string \<Rightarrow> (ParsingError, 'a) result" where
  "option_parse_enum from_str self enum_name =
     (case get_required_value self enum_name of
        Inl _ \<Rightarrow> Err ParsingError.UnknownError
      | Inr value \<Rightarrow> ok_or (from_str value) ParsingError.UnknownError)"

definition option_parse_value :: "(Value \<Rightarrow> 'a option) \<Rightarrow> Value option \<Rightarrow> string \<Rightarrow> (ParsingError, 'a) result" where
  "option_parse_value from_value self type_name =
     (case get_required_value self type_name of Inl _ \<Rightarrow> Err ParsingError.UnknownError | Inr value \<Rightarrow> parse_value from_value type_name value)"

definition update_value :: "'a option \<Rightarrow> 'a option \<Rightarrow> 'a option" where
  "update_value self value = (case value of Some a \<Rightarrow> Some a | None \<Rightarrow> self)"

section \<open>Dates as texts\<close>

record PrimitiveDateTime =
  dt_year :: int
  dt_month :: nat
  dt_day :: nat
  dt_hour :: nat
  dt_minute :: nat
  dt_second :: nat

definition DDMMYYYY_fmt :: "PrimitiveDateTime \<Rightarrow> string" where
  "DDMMYYYY_fmt input = pad2 (dt_day input) @ pad2 (dt_month input) @ show_int (dt_year input)"

definition YYYYMMDD_fmt :: "PrimitiveDateTime \<Rightarrow> string" where
  "YYYYMMDD_fmt input = show_int (dt_year input) @ pad2 (dt_month input) @ pad2 (dt_day input)"

definition YYYYMMDDHHmmss_fmt :: "PrimitiveDateTime \<Rightarrow> string" where
  "YYYYMMDDHHmmss_fmt input = show_int (dt_year input) @ pad2 (dt_month input) @ pad2 (dt_day input) @
     pad2 (dt_hour input) @ pad2 (dt_minute input) @ pad2 (dt_second input)"

section \<open>Properties\<close>

datatype 'b request_op =
  OpDefaultHeaders | OpHeader string string | OpBody 'b | OpCertificate "string option" | OpCertificateKey "string option"

fun on_request :: "'b request_op \<Rightarrow> 'b Request \<Rightarrow> 'b Request" where
  "on_request OpDefaultHeaders = add_default_headers"
| "on_request (OpHeader header value) = add_header header (Maskable_from value)"
| "on_request (OpBody body) = Request_set_body body"
| "on_request (OpCertificate certificate) = Request_add_certificate certificate"
| "on_request (OpCertificateKey key) = Request_add_certificate_key key"

fun on_builder :: "'b request_op \<Rightarrow> 'b RequestBuilder \<Rightarrow> 'b RequestBuilder" where
  "on_builder OpDefaultHeaders = attach_default_headers"
| "on_builder (OpHeader header value) = rb_add_header header value"
| "on_builder (OpBody body) = rb_set_body body"
| "on_builder (OpCertificate certificate) = rb_add_certificate certificate"
| "on_builder (OpCertificateKey key) = rb_add_certificate_key key"

lemmas request_defs = add_default_headers_def add_header_def Request_set_body_def Request_add_certificate_def
  Request_add_certificate_key_def attach_default_headers_def rb_add_header_def rb_set_body_def rb_add_certificate_def
  rb_add_certificate_key_def rb_build_def

definition sets_key :: "'b request_op \<Rightarrow> bool" where
  "sets_key opn = (case opn of OpCertificateKey _ \<Rightarrow> True | _ \<Rightarrow> False)"

text \<open>The two ways agree but for the certificates.\<close>

definition same_request :: "'b Request \<Rightarrow> 'b RequestBuilder \<Rightarrow> bool" where
  "same_request q b = (rq_url q = rb_url b \<and> rq_headers q = rb_headers b \<and> rq_method q = rb_method b \<and> rq_body q = rb_body b)"

lemma same_request_step: "same_request q b \<Longrightarrow> same_request (on_request opn q) (on_builder opn b)"
  by (cases opn) (simp_all add: same_request_def request_defs)

lemma same_request_ops: "same_request q b \<Longrightarrow> same_request (fold on_request ops q) (fold on_builder ops b)"
  by (induction ops arbitrary: q b) (simp_all add: same_request_step)

lemma request_key_unset: "rq_certificate_key (fold on_request ops q) = rq_certificate_key q"
proof (induction ops arbitrary: q)
  case (Cons opn ops)
  then show ?case by (cases opn) (simp_all add: request_defs)
qed simp

definition same_certificates :: "'b Request \<Rightarrow> 'b RequestBuilder \<Rightarrow> bool" where
  "same_certificates q b = (rq_certificate q = rb_certificate b \<and> rq_certificate_key q = rb_certificate_key b)"

lemma same_certificates_step: "\<not> sets_key opn \<Longrightarrow> same_certificates q b \<Longrightarrow> same_certificates (on_request opn q) (on_builder opn b)"
  by (cases opn) (simp_all add: same_certificates_def request_defs sets_key_def)

lemma same_certificates_ops:
  "\<not> list_ex sets_key ops \<Longrightarrow> same_certificates q b \<Longrightarrow> same_certificates (fold on_request ops q) (fold on_builder ops b)"
  by (induction ops arbitrary: q b) (simp_all add: same_certificates_step)

text \<open>A request and a builder given the same calls make the same request, but for the key of the
  certificate. Address, method, headers and body always agree; when no call sets the key the requests are equal; and a
  request never has a key, whatever calls set it: the call replaces the certificate instead.\<close>

theorem request_and_builder_agree:
  assumes q: "q = fold on_request ops (Request_new method url)"
    and r: "r = rb_build (fold on_builder ops (rb_set_url url (rb_set_method method RequestBuilder_new)))"
  shows "rq_url q = rq_url r \<and> rq_method q = rq_method r \<and> rq_headers q = rq_headers r \<and> rq_body q = rq_body r \<and>
    (\<not> list_ex sets_key ops \<longrightarrow> q = r) \<and> rq_certificate_key q = None \<and>
    rq_certificate (on_request (OpCertificateKey key) q) = key"
proof -
  let ?b = "rb_set_url url (rb_set_method method RequestBuilder_new)"
  have "same_request (Request_new method url) ?b"
    by (simp add: same_request_def Request_new_def rb_set_url_def rb_set_method_def RequestBuilder_new_def)
  then have s: "same_request q (fold on_builder ops ?b)" unfolding q by (rule same_request_ops)
  have k: "rq_certificate_key q = None" unfolding q request_key_unset by (simp add: Request_new_def)
  have "same_certificates (Request_new method url) ?b"
    by (simp add: same_certificates_def Request_new_def rb_set_url_def rb_set_method_def RequestBuilder_new_def)
  then have c: "same_certificates q (fold on_builder ops ?b)" if "\<not> list_ex sets_key ops"
    unfolding q by (rule same_certificates_ops [OF that])
  have "q = r" if "\<not> list_ex sets_key ops"
    using c [OF that] s by (simp add: r same_request_def same_certificates_def rb_build_def)
  with s k show ?thesis by (simp add: r rb_build_def same_request_def Request_add_certificate_key_def)
qed

theorem request_and_builder_agree_witness:
  "fold on_request [OpHeader ''a'' ''b'', OpBody (1 :: nat)] (Request_new Post ''u'') =
   rb_build (fold on_builder [OpHeader ''a'' ''b'', OpBody 1] (rb_set_url ''u'' (rb_set_method Post RequestBuilder_new)))"
  using request_and_builder_agree [OF refl refl, of "[OpHeader ''a'' ''b'', OpBody (1 :: nat)]" Post "''u''"]
  by (simp add: sets_key_def)

text \<open>The cache over a history of calls that write: a key has the data of the last save after the last
  clear, and expires after the time given with it.\<close>

datatype 'a cache_op = Save string 'a int | Clear

fun on_cache :: "'a cache_op \<Rightarrow> 'a StaticCache \<Rightarrow> 'a StaticCache" where
  "on_cache (Save key data timestamp) c = snd (cache_save key data timestamp c)"
| "on_cache Clear c = snd (cache_clear c)"

fun last_save :: "string \<Rightarrow> 'a cache_op list \<Rightarrow> 'a CacheEntry option" where
  "last_save key [] = None"
| "last_save key (Save j data timestamp # earlier) = (if j = key then Some \<lparr>ce_data = data, ce_timestamp = timestamp\<rparr> else last_save key earlier)"
| "last_save key (Clear # earlier) = None"

lemma cache_history:
  "sc_map (foldr on_cache ops StaticCache_new) key = last_save key ops \<and> \<not> sc_poisoned (foldr on_cache ops StaticCache_new)"
proof (induction ops)
  case (Cons opn ops)
  then show ?case by (cases opn) (auto simp: cache_save_def cache_clear_def cache_write_def)
qed (simp add: StaticCache_new_def)

lemma cache_reads_last_save:
  fixes ops :: "'a cache_op list"
  defines "c \<equiv> foldr on_cache ops StaticCache_new"
  shows "cache_retrieve c key = map_sum id ce_data (ok_or (last_save key ops) EntryNotFound)"
    and "cache_present c key = Ok (last_save key ops \<noteq> None)"
    and "cache_expired c key now = Ok (\<exists>e. last_save key ops = Some e \<and> ce_timestamp e < now)"
  using cache_history [of ops key] unfolding c_def
  by (cases "last_save key ops"; simp add: cache_retrieve_def cache_present_def cache_expired_def cache_read_def)+

end
