(* ===== verification/Logger.thy ===== *)
theory Logger
  imports Masked_Serialize Environment
begin

text \<open>
  The logger (\<open>router_env/src/logger\<close>): the layer that stores the fields of spans (\<open>storage.rs\<close>), the layer that
  writes a line of JSON per event and per finished root span (\<open>formatter.rs\<close>), and the assertions that choose the
  routes to trace (\<open>setup.rs\<close>).

  The registry of \<open>tracing\<close> is a map from the identifiers of the live spans to their data; an \<open>expect\<close> that fails
  is \<open>None\<close>. A hash map is an association list in its order of iteration, which the properties do not depend on. A
  line is the list of its entries: rendering them is the formatter of \<open>serde_json\<close>, which does not fail on texts and
  values in memory. Times are milliseconds; the text of the current time is a parameter. The build features are a
  record. Span names are ASCII.
\<close>

section \<open>Storage of spans\<close>

type_synonym Storage = "(string \<times> Value) list"

text \<open>What a visitor is given: other types come as their debug text.\<close>

datatype field_value = FI64 int | FU64 nat | FF64 "string option" | FBool bool | FStr string | FDebug string

definition starts_with :: "string \<Rightarrow> string \<Rightarrow> bool" where
  "starts_with p s = (take (length p) s = p)"

fun record_field :: "string \<times> field_value \<Rightarrow> Storage \<Rightarrow> Storage" where
  "record_field (name, FI64 value) values = AList.update name (number_of_int value) values"
| "record_field (name, FU64 value) values = AList.update name (number_of_int (int value)) values"
| "record_field (name, FF64 value) values = AList.update name (value_of_float value) values"
| "record_field (name, FBool value) values = AList.update name (Bool value) values"
| "record_field (name, FStr value) values = AList.update name (String value) values"
| "record_field (name, FDebug value) values =
     (if starts_with ''log.'' name then values
      else if starts_with ''r#'' name then AList.update (drop 2 name) (String value) values
      else AList.update name (String value) values)"

definition record_fields :: "(string \<times> field_value) list \<Rightarrow> Storage \<Rightarrow> Storage" where
  "record_fields fs = fold record_field fs"

definition PERSISTENT_KEYS :: "string list" where
  "PERSISTENT_KEYS = [''payment_id'', ''connector_name'', ''merchant_id'', ''flow'', ''payment_method'', ''status_code'']"

record Metadata =
  md_name :: string
  md_target :: string
  md_level :: string
  md_line :: "nat option"
  md_file :: "string option"

record span_data =
  sp_metadata :: Metadata
  sp_parent :: "nat option"
  sp_storage :: "Storage option"
  sp_entered :: "nat option"

type_synonym registry = "nat \<rightharpoonup> span_data"

definition span_parent :: "registry \<Rightarrow> span_data \<Rightarrow> (nat \<times> span_data) option" where
  "span_parent reg span = Option.bind (sp_parent span) (\<lambda>p. map_option (Pair p) (reg p))"

text \<open>Inserting a storage where there is one already is a panic of the registry.\<close>

definition on_new_span :: "(string \<times> field_value) list \<Rightarrow> nat \<Rightarrow> registry \<Rightarrow> registry option" where
  "on_new_span attrs sid reg =
     (case reg sid of
        None \<Rightarrow> None
      | Some span \<Rightarrow>
          (let inherited = (case span_parent reg span of
                 Some (_, parent) \<Rightarrow> (case sp_storage parent of Some v \<Rightarrow> v | None \<Rightarrow> [])
               | None \<Rightarrow> [])
           in if sp_storage span \<noteq> None then None
              else Some (reg(sid \<mapsto> span\<lparr>sp_storage := Some (record_fields attrs inherited)\<rparr>))))"

definition on_record :: "nat \<Rightarrow> (string \<times> field_value) list \<Rightarrow> registry \<Rightarrow> registry option" where
  "on_record sid fs reg =
     (case reg sid of
        None \<Rightarrow> None
      | Some span \<Rightarrow> (case sp_storage span of
            None \<Rightarrow> None
          | Some visitor \<Rightarrow> Some (reg(sid \<mapsto> span\<lparr>sp_storage := Some (record_fields fs visitor)\<rparr>))))"

definition on_enter :: "nat \<Rightarrow> nat \<Rightarrow> registry \<Rightarrow> registry option" where
  "on_enter now sid reg =
     (case reg sid of
        None \<Rightarrow> None
      | Some span \<Rightarrow> Some (if sp_entered span = None then reg(sid \<mapsto> span\<lparr>sp_entered := Some now\<rparr>) else reg))"

text \<open>The persistent entries of a storage, put into that of the parent.\<close>

definition persist :: "Storage \<Rightarrow> Storage \<Rightarrow> Storage" where
  "persist values = fold (\<lambda>(k, v). AList.update k v) (filter (\<lambda>(k, v). k \<in> set PERSISTENT_KEYS) values)"

definition persist_to_parent :: "span_data \<Rightarrow> registry \<Rightarrow> registry" where
  "persist_to_parent span reg =
     (case (sp_storage span, span_parent reg span) of
        (Some values, Some (p, parent)) \<Rightarrow>
          (case sp_storage parent of
             Some s \<Rightarrow> reg(p \<mapsto> parent\<lparr>sp_storage := Some (persist values s)\<rparr>)
           | None \<Rightarrow> reg)
      | _ \<Rightarrow> reg)"

definition storage_on_close :: "nat \<Rightarrow> nat \<Rightarrow> registry \<Rightarrow> registry option" where
  "storage_on_close now sid reg =
     (case reg sid of
        None \<Rightarrow> None
      | Some span \<Rightarrow>
          (let elapsed_milliseconds = (case sp_entered span of Some i \<Rightarrow> now - i | None \<Rightarrow> 0);
               reg' = persist_to_parent span reg
           in case sp_storage span of
                None \<Rightarrow> None
              | Some visitor \<Rightarrow> Some (reg'(sid \<mapsto> span\<lparr>sp_storage := Some
                    (if elapsed_milliseconds < 2 ^ 64
                     then AList.update ''elapsed_milliseconds'' (number_of_int (int elapsed_milliseconds)) visitor
                     else visitor)\<rparr>))))"

section \<open>Lines\<close>

record features =
  log_extra_implicit_fields :: bool
  log_custom_entries_to_extra :: bool
  log_active_span_json :: bool
  vergen :: bool

definition IMPLICIT_KEYS :: "string list" where
  "IMPLICIT_KEYS = [''message'', ''hostname'', ''pid'', ''env'', ''version'', ''build'', ''level'', ''target'', ''service'',
     ''line'', ''file'', ''fn'', ''full_name'', ''time'']"

definition EXTRA_IMPLICIT_KEYS :: "string list" where
  "EXTRA_IMPLICIT_KEYS = [''flow'', ''merchant_authentication'', ''merchant_id'', ''request_method'', ''request_url_path'',
     ''request_id'', ''global_id'', ''session_id'', ''workflow_id'']"

datatype RecordType = EnterSpan | ExitSpan | EventRecord

fun RecordType_fmt :: "RecordType \<Rightarrow> string" where
  "RecordType_fmt EnterSpan = ''START''"
| "RecordType_fmt ExitSpan = ''END''"
| "RecordType_fmt EventRecord = ''EVENT''"

record FormattingLayer =
  fl_pid :: "32 word"
  fl_hostname :: string
  fl_env :: string
  fl_service :: string
  fl_version :: string
  fl_build :: string
  fl_default_fields :: Storage

text \<open>What the process knows of itself: process, host, version and build.\<close>

definition new_with_implicit_entries ::
  "bool \<Rightarrow> (string \<rightharpoonup> string) \<Rightarrow> 32 word \<Rightarrow> string \<Rightarrow> string \<Rightarrow> string \<Rightarrow> string \<Rightarrow> Storage \<Rightarrow> FormattingLayer" where
  "new_with_implicit_entries debug vars pid hostname version build service default_fields =
     \<lparr>fl_pid = pid, fl_hostname = hostname, fl_env = Env_to_string (which debug vars), fl_service = service,
      fl_version = version, fl_build = build, fl_default_fields = default_fields\<rparr>"

definition FormattingLayer_new ::
  "bool \<Rightarrow> (string \<rightharpoonup> string) \<Rightarrow> 32 word \<Rightarrow> string \<Rightarrow> string \<Rightarrow> string \<Rightarrow> string \<Rightarrow> FormattingLayer" where
  "FormattingLayer_new debug vars pid hostname version build service =
     new_with_implicit_entries debug vars pid hostname version build service []"

definition is_extra :: "string \<Rightarrow> bool" where
  "is_extra s = (s \<notin> set IMPLICIT_KEYS)"

definition is_extra_implicit :: "string \<Rightarrow> bool" where
  "is_extra_implicit s = (is_extra s \<and> s \<in> set EXTRA_IMPLICIT_KEYS)"

definition implicit_entries ::
  "features \<Rightarrow> string option \<Rightarrow> FormattingLayer \<Rightarrow> Metadata \<Rightarrow> string \<Rightarrow> string \<Rightarrow> Storage" where
  "implicit_entries feats now self metadata name message =
     [(''message'', String message), (''hostname'', String (fl_hostname self)), (''pid'', number_of_int (uint (fl_pid self))),
      (''env'', String (fl_env self))] @
     (if vergen feats then [(''version'', String (fl_version self)), (''build'', String (fl_build self))] else []) @
     [(''level'', String (md_level metadata)), (''target'', String (md_target metadata)), (''service'', String (fl_service self)),
      (''line'', case md_line metadata of None \<Rightarrow> Null | Some n \<Rightarrow> number_of_int (int n)),
      (''file'', case md_file metadata of None \<Rightarrow> Null | Some f \<Rightarrow> String f),
      (''fn'', String name), (''full_name'', String (md_target metadata @ ''::'' @ name))] @
     (case now of None \<Rightarrow> [] | Some time \<Rightarrow> [(''time'', String time)])"

text \<open>The state of the writer: the entries written, the map of extra entries, the names of the event's own
  entries.\<close>

type_synonym written = "Storage \<times> Storage \<times> string set"

definition event_entry :: "features \<Rightarrow> string \<times> Value \<Rightarrow> written \<Rightarrow> written" where
  "event_entry feats = (\<lambda>(key, value) (line, extra, explicit).
     if is_extra_implicit key then
       (if log_extra_implicit_fields feats then line @ [(key, value)] else line, extra, insert key explicit)
     else if is_extra key then
       (if log_custom_entries_to_extra feats then (line, AList.update key value extra, insert key explicit)
        else (line @ [(key, value)], extra, insert key explicit))
     else (line, extra, explicit))"

definition span_entry :: "features \<Rightarrow> string \<times> Value \<Rightarrow> written \<Rightarrow> written" where
  "span_entry feats = (\<lambda>(key, value) (line, extra, explicit).
     if is_extra_implicit key \<and> key \<notin> explicit then
       (if log_extra_implicit_fields feats then line @ [(key, value)] else line, extra, explicit)
     else if is_extra key \<and> key \<notin> explicit then
       (if log_custom_entries_to_extra feats then (line, AList.update key value extra, explicit)
        else (line @ [(key, value)], extra, explicit))
     else (line, extra, explicit))"

definition common_serialize ::
  "features \<Rightarrow> string option \<Rightarrow> FormattingLayer \<Rightarrow> Metadata \<Rightarrow> span_data option \<Rightarrow> Storage option \<Rightarrow> string \<Rightarrow> string \<Rightarrow> Storage" where
  "common_serialize feats now self metadata span storage name message =
     (let line = implicit_entries feats now self metadata name message @
            filter (\<lambda>(key, value). key \<notin> set IMPLICIT_KEYS) (fl_default_fields self);
          w = (case storage of None \<Rightarrow> (line, [], {}) | Some values \<Rightarrow> fold (event_entry feats) values (line, [], {}));
          (line, extra, explicit) =
            (case Option.bind span sp_storage of None \<Rightarrow> w | Some values \<Rightarrow> fold (span_entry feats) values w)
      in if log_custom_entries_to_extra feats then line @ [(''extra'', Object extra)] else line)"

definition to_uppercase :: "string \<Rightarrow> string" where
  "to_uppercase = map (\<lambda>c. if 97 \<le> (of_char c :: nat) \<and> (of_char c :: nat) \<le> 122 then char_of ((of_char c :: nat) - 32) else c)"

definition span_message :: "span_data \<Rightarrow> RecordType \<Rightarrow> string" where
  "span_message span ty = ''['' @ to_uppercase (md_name (sp_metadata span)) @ '' - '' @ RecordType_fmt ty @ '']''"

definition event_message :: "span_data option \<Rightarrow> Metadata \<Rightarrow> Storage \<Rightarrow> string" where
  "event_message span metadata storage =
     (let message = (case map_of storage ''message'' of Some (String s) \<Rightarrow> s | _ \<Rightarrow> md_target metadata)
      in case span of Some sp \<Rightarrow> span_message sp EventRecord @ '' '' @ message | None \<Rightarrow> message)"

definition span_serialize :: "features \<Rightarrow> string option \<Rightarrow> FormattingLayer \<Rightarrow> span_data \<Rightarrow> RecordType \<Rightarrow> Storage" where
  "span_serialize feats now self span ty =
     common_serialize feats now self (sp_metadata span) (Some span) None (md_name (sp_metadata span)) (span_message span ty)"

definition event_serialize ::
  "features \<Rightarrow> string option \<Rightarrow> FormattingLayer \<Rightarrow> span_data option \<Rightarrow> Metadata \<Rightarrow> (string \<times> field_value) list \<Rightarrow> Storage" where
  "event_serialize feats now self span metadata fs =
     (let storage = record_fields fs [];
          name = (case span of None \<Rightarrow> ''?'' | Some sp \<Rightarrow> md_name (sp_metadata sp))
      in common_serialize feats now self metadata span (Some storage) name (event_message span metadata storage))"

text \<open>The callbacks: the line they write, if any. \<open>render\<close> is the formatter; a newline ends the line.\<close>

definition flush :: "(Storage \<Rightarrow> string) \<Rightarrow> Storage \<Rightarrow> string" where
  "flush render line = render line @ [CHR 0x0A]"

definition on_event ::
  "features \<Rightarrow> string option \<Rightarrow> FormattingLayer \<Rightarrow> registry \<Rightarrow> nat option \<Rightarrow> Metadata \<Rightarrow> (string \<times> field_value) list \<Rightarrow> Storage" where
  "on_event feats now self reg current metadata fs =
     event_serialize feats now self (Option.bind current reg) metadata fs"

definition formatter_on_close :: "features \<Rightarrow> string option \<Rightarrow> FormattingLayer \<Rightarrow> nat \<Rightarrow> registry \<Rightarrow> Storage option option" where
  "formatter_on_close feats now self sid reg =
     (case reg sid of
        None \<Rightarrow> None
      | Some span \<Rightarrow> Some (if log_active_span_json feats \<or> span_parent reg span = None
          then Some (span_serialize feats now self span ExitSpan) else None))"

definition formatter_on_enter :: "features \<Rightarrow> string option \<Rightarrow> FormattingLayer \<Rightarrow> nat \<Rightarrow> registry \<Rightarrow> Storage option option" where
  "formatter_on_enter feats now self sid reg =
     (if log_active_span_json feats then
        (case reg sid of None \<Rightarrow> None | Some span \<Rightarrow> Some (Some (span_serialize feats now self span EnterSpan)))
      else Some None)"

section \<open>Routes to trace\<close>

datatype TraceUrlAssert = Match string | EndsWith string

fun compare_url :: "TraceUrlAssert \<Rightarrow> string \<Rightarrow> bool" where
  "compare_url (Match value) url = (url = value)"
| "compare_url (EndsWith suffix) url = (length suffix \<le> length url \<and> drop (length url - length suffix) url = suffix)"

definition TraceUrlAssert_from :: "string \<Rightarrow> TraceUrlAssert" where
  "TraceUrlAssert_from value =
     (if starts_with ''*'' value then EndsWith (dropWhile (\<lambda>c. c = CHR ''*'') value) else Match value)"

record TraceAssertion =
  ta_clauses :: "TraceUrlAssert list option"
  ta_default :: bool

definition should_trace_url :: "TraceAssertion \<Rightarrow> string \<Rightarrow> bool" where
  "should_trace_url self url =
     (case ta_clauses self of Some clauses \<Rightarrow> list_all (\<lambda>cur. compare_url cur url) clauses | None \<Rightarrow> ta_default self)"

text \<open>\<open>ConditionalSampler\<close>: an inner sampler decides about the routes asserted; its decision is
  \<open>sample\<close>.\<close>

definition should_sample :: "TraceAssertion \<Rightarrow> 'd \<Rightarrow> 'd \<Rightarrow> (string \<times> string) list \<Rightarrow> 'd" where
  "should_sample self sample drop_it attributes =
     (if (case map_of attributes ''http.route'' of None \<Rightarrow> ta_default self | Some url \<Rightarrow> should_trace_url self url)
      then sample else drop_it)"

definition tracing_assertion :: "string list option \<Rightarrow> TraceAssertion" where
  "tracing_assertion route_to_trace = \<lparr>ta_clauses = map_option (map TraceUrlAssert_from) route_to_trace, ta_default = False\<rparr>"

section \<open>The entries of a line\<close>

text \<open>Where an entry of a storage goes.\<close>

definition in_line :: "features \<Rightarrow> string \<Rightarrow> bool" where
  "in_line feats k = (if is_extra_implicit k then log_extra_implicit_fields feats
     else is_extra k \<and> \<not> log_custom_entries_to_extra feats)"

definition in_extra :: "features \<Rightarrow> string \<Rightarrow> bool" where
  "in_extra feats k = (is_extra k \<and> \<not> is_extra_implicit k \<and> log_custom_entries_to_extra feats)"

abbreviation updates :: "Storage \<Rightarrow> Storage \<Rightarrow> Storage" where
  "updates \<equiv> fold (\<lambda>(k, v). AList.update k v)"

lemma map_of_updates: "distinct (map fst es) \<Longrightarrow> map_of (updates es m) k = (case map_of es k of Some v \<Rightarrow> Some v | None \<Rightarrow> map_of m k)"
  by (induction es arbitrary: m) (auto simp: update_conv' split: option.splits dest: map_of_SomeD intro: rev_image_eqI)

lemma event_entry_step:
  "event_entry F (k, v) (line, extra, explicit) =
     (if in_line F k then line @ [(k, v)] else line, if in_extra F k then AList.update k v extra else extra,
      if is_extra k then insert k explicit else explicit)"
  by (auto simp: event_entry_def in_line_def in_extra_def is_extra_implicit_def)

lemma span_entry_step:
  "span_entry F (k, v) (line, extra, explicit) =
     (if in_line F k \<and> k \<notin> explicit then line @ [(k, v)] else line,
      if in_extra F k \<and> k \<notin> explicit then AList.update k v extra else extra, explicit)"
  by (auto simp: span_entry_def in_line_def in_extra_def is_extra_implicit_def)

lemma event_entries_fold:
  "fold (event_entry F) es (line, extra, explicit) =
     (line @ filter (\<lambda>(k, v). in_line F k) es, updates (filter (\<lambda>(k, v). in_extra F k) es) extra,
      explicit \<union> {k \<in> fst ` set es. is_extra k})"
  by (induction es arbitrary: line extra explicit) (auto simp: event_entry_step)

text \<open>The entries of a span that an event does not have itself.\<close>

definition span_rest :: "Storage \<Rightarrow> Storage \<Rightarrow> Storage" where
  "span_rest event span = filter (\<lambda>(k, v). k \<notin> fst ` set event) span"

definition span_values :: "span_data option \<Rightarrow> Storage" where
  "span_values span = (case Option.bind span sp_storage of None \<Rightarrow> [] | Some values \<Rightarrow> values)"

lemma placed_is_extra: "in_line F k \<Longrightarrow> is_extra k" "in_extra F k \<Longrightarrow> is_extra k"
  by (auto simp: in_line_def in_extra_def is_extra_implicit_def split: if_splits)

lemma span_entries_fold:
  "explicit = {k \<in> fst ` set event. is_extra k} \<Longrightarrow> fold (span_entry F) es (line, extra, explicit) =
     (line @ filter (\<lambda>(k, v). in_line F k) (span_rest event es),
      updates (filter (\<lambda>(k, v). in_extra F k) (span_rest event es)) extra, explicit)"
proof (induction es arbitrary: line extra)
  case (Cons e es)
  obtain k v where e: "e = (k, v)" by fastforce
  show ?case
    using Cons placed_is_extra [of F k] by (cases "k \<in> fst ` set event") (auto simp: e span_entry_step span_rest_def)
qed (simp add: span_rest_def)

lemma common_serialize_parts:
  "common_serialize F now self metadata span (Some event) name message =
     implicit_entries F now self metadata name message @
     filter (\<lambda>(k, v). k \<notin> set IMPLICIT_KEYS) (fl_default_fields self) @
     filter (\<lambda>(k, v). in_line F k) (event @ span_rest event (span_values span)) @
     (if log_custom_entries_to_extra F
      then [(''extra'', Object (updates (filter (\<lambda>(k, v). in_extra F k) (event @ span_rest event (span_values span))) []))] else [])"
proof (cases "Option.bind span sp_storage")
  case None
  then show ?thesis by (simp add: common_serialize_def Let_def event_entries_fold span_values_def span_rest_def)
next
  case (Some st)
  then show ?thesis
    by (simp add: common_serialize_def Let_def event_entries_fold span_entries_fold span_values_def)
qed

lemma distinct_updates: "distinct (map fst m) \<Longrightarrow> distinct (map fst (updates es m))"
  by (induction es arbitrary: m) (auto simp: distinct_update)

lemma distinct_record_fields: "distinct (map fst m) \<Longrightarrow> distinct (map fst (record_fields fs m))"
proof -
  have "distinct (map fst (record_field f m))" if "distinct (map fst m)" for f and m :: Storage
    using that by (cases f; cases "snd f") (auto simp: distinct_update)
  then show "distinct (map fst m) \<Longrightarrow> ?thesis"
    by (induction fs arbitrary: m) (simp_all add: record_fields_def)
qed

section \<open>Properties\<close>

text \<open>What a reader finds under a name: an entry of the line, or one of its extra entries.\<close>

definition shown :: "Storage \<Rightarrow> string \<Rightarrow> Value option" where
  "shown line k = (case map_of line k of
     Some v \<Rightarrow> Some v
   | None \<Rightarrow> (case map_of line ''extra'' of Some (Object es) \<Rightarrow> map_of es k | _ \<Rightarrow> None))"

lemma implicit_entries_keys:
  "fst ` set (implicit_entries F now self metadata name message) \<subseteq> set IMPLICIT_KEYS"
  "distinct (map fst (implicit_entries F now self metadata name message))"
  by (cases "vergen F"; cases now; simp add: implicit_entries_def IMPLICIT_KEYS_def)+

lemma distinct_span_rest:
  "distinct (map fst event) \<Longrightarrow> distinct (map fst span) \<Longrightarrow> distinct (map fst (event @ span_rest event span))"
  by (force simp: span_rest_def distinct_map_filter)

lemma map_of_filter_key: "map_of (filter (\<lambda>(k, v). P k) es) k = (if P k then map_of es k else None)"
  by (induction es) auto

lemma map_of_filtered_updates:
  "distinct (map fst es) \<Longrightarrow> map_of (updates (filter (\<lambda>(k, v). P k) es) []) k = (if P k then map_of es k else None)"
  by (subst map_of_updates) (auto simp: distinct_map_filter map_of_filter_key split: option.splits)

lemma map_of_span_rest: "map_of (event @ span_rest event span) k = (case map_of event k of Some v \<Rightarrow> Some v | None \<Rightarrow> map_of span k)"
  using map_of_eq_None_iff [of event k]
  by (cases "map_of event k") (auto simp: span_rest_def map_add_def map_of_filter_key split: option.splits)

text \<open>C27: what a line of the log says. In a build that writes extra entries, with a layer as the set-up
  makes it, no name occurs twice in the line of an event; the reserved names have the values of the layer,
  whatever an event or span records under them; and any other name shows the value the event recorded or else the
  value of its span, among the entries of the line or under \<open>extra\<close>.\<close>

theorem log_line_of_event:
  assumes build: "log_extra_implicit_fields F" "log_custom_entries_to_extra F" and layer: "fl_default_fields self = []"
    and span: "distinct (map fst (span_values span))"
    and line: "line = event_serialize F now self span metadata fs"
    and event: "event = record_fields fs []"
  shows "distinct (map fst line) \<and>
    (\<forall>k\<in>set IMPLICIT_KEYS. map_of line k = map_of (implicit_entries F now self metadata
       (case span of None \<Rightarrow> ''?'' | Some sp \<Rightarrow> md_name (sp_metadata sp)) (event_message span metadata event)) k) \<and>
    (\<forall>k. k \<notin> set IMPLICIT_KEYS \<and> k \<noteq> ''extra'' \<longrightarrow>
       shown line k = (case map_of event k of Some v \<Rightarrow> Some v | None \<Rightarrow> map_of (span_values span) k))"
proof -
  let ?own = "implicit_entries F now self metadata (case span of None \<Rightarrow> ''?'' | Some sp \<Rightarrow> md_name (sp_metadata sp))
    (event_message span metadata event)"
  define all where "all = event @ span_rest event (span_values span)"
  let ?extra = "updates (filter (\<lambda>(k, v). in_extra F k) all) []"
  have l: "line = ?own @ filter (\<lambda>(k, v). in_line F k) all @ [(''extra'', Object ?extra)]"
    by (simp add: all_def line event event_serialize_def Let_def common_serialize_parts build layer)
  have d: "distinct (map fst all)"
    unfolding all_def using span by (intro distinct_span_rest) (simp_all add: event distinct_record_fields)
  have apart: "in_line F k \<Longrightarrow> k \<notin> set IMPLICIT_KEYS \<and> k \<noteq> ''extra''" for k
    by (auto simp: in_line_def build is_extra_implicit_def is_extra_def EXTRA_IMPLICIT_KEYS_def IMPLICIT_KEYS_def split: if_splits)
  have e: "''extra'' \<notin> set IMPLICIT_KEYS" by (simp add: IMPLICIT_KEYS_def)
  note own = implicit_entries_keys [of F now self metadata "case span of None \<Rightarrow> ''?'' | Some sp \<Rightarrow> md_name (sp_metadata sp)"
      "event_message span metadata event"]
  have own_only: "map_of ?own k = None" if "k \<notin> set IMPLICIT_KEYS" for k
    using own(1) that by (auto simp: map_of_eq_None_iff)
  define mid where "mid = filter (\<lambda>(k, v). in_line F k) all"
  have "k \<notin> set IMPLICIT_KEYS \<and> k \<noteq> ''extra''" if "k \<in> fst ` set mid" for k
  proof -
    have "in_line F k" using that by (auto simp: mid_def)
    then show ?thesis by (rule apart)
  qed
  moreover have "distinct (map fst mid)" unfolding mid_def by (rule distinct_map_filter [OF d])
  ultimately have "distinct (map fst line)" using own e unfolding l mid_def [symmetric] by (auto dest: subsetD)
  moreover have "map_of line k = map_of ?own k" if "k \<in> set IMPLICIT_KEYS" for k
    using that apart [of k] e by (auto simp: l map_add_def map_of_filter_key split: option.splits)
  moreover have "shown line k = map_of all k" if k: "k \<notin> set IMPLICIT_KEYS" "k \<noteq> ''extra''" for k
  proof -
    have place: "in_line F k \<or> in_extra F k" using k by (auto simp: in_line_def in_extra_def build is_extra_def)
    have x: "map_of line ''extra'' = Some (Object ?extra)"
      using own_only [OF e] apart [of "''extra''"] by (auto simp: l map_add_def map_of_filter_key)
    have "map_of line k = (if in_line F k then map_of all k else None)"
      using own_only [OF k(1)] k by (auto simp: l map_add_def map_of_filter_key split: option.splits)
    moreover have "map_of ?extra k = (if in_extra F k then map_of all k else None)"
      by (rule map_of_filtered_updates [OF d])
    moreover have "\<not> (in_line F k \<and> in_extra F k)" by (simp add: in_line_def in_extra_def)
    ultimately show ?thesis using x place by (auto simp: shown_def split: option.splits)
  qed
  ultimately show ?thesis by (simp add: all_def map_of_span_rest [symmetric])
qed

definition demo_layer :: FormattingLayer where
  "demo_layer = FormattingLayer_new True Map.empty 7 ''host'' ''v'' ''b'' ''router''"

definition demo_features :: features where
  "demo_features = \<lparr>log_extra_implicit_fields = True, log_custom_entries_to_extra = True, log_active_span_json = False, vergen = False\<rparr>"

definition demo_metadata :: Metadata where
  "demo_metadata = \<lparr>md_name = ''pay'', md_target = ''router::core'', md_level = ''INFO'', md_line = Some 3, md_file = None\<rparr>"

definition demo_span :: span_data where
  "demo_span = \<lparr>sp_metadata = demo_metadata, sp_parent = None, sp_storage = Some [(''flow'', String ''A''), (''x'', String ''1'')], sp_entered = None\<rparr>"

theorem log_line_of_event_witness:
  "shown (event_serialize demo_features None demo_layer (Some demo_span) demo_metadata
      [(''message'', FStr ''hi''), (''pid'', FStr ''0''), (''flow'', FStr ''B'')]) ''flow'' = Some (String ''B'') \<and>
   map_of (event_serialize demo_features None demo_layer (Some demo_span) demo_metadata
      [(''message'', FStr ''hi''), (''pid'', FStr ''0''), (''flow'', FStr ''B'')]) ''pid'' = Some (number_of_int 7)"
proof -
  have p: "''pid'' \<in> set IMPLICIT_KEYS" and f: "''flow'' \<notin> set IMPLICIT_KEYS" by (simp_all add: IMPLICIT_KEYS_def)
  note defs = demo_layer_def demo_features_def demo_span_def FormattingLayer_new_def new_with_implicit_entries_def span_values_def
    record_fields_def implicit_entries_def
  show ?thesis
    using log_line_of_event [of demo_features demo_layer "Some demo_span", OF _ _ _ _ refl refl, of None demo_metadata
        "[(''message'', FStr ''hi''), (''pid'', FStr ''0''), (''flow'', FStr ''B'')]"] p f
    by (simp add: defs)
qed

section \<open>Live spans\<close>

text \<open>The spans of a process: a span is made with a new identifier, below a live span or none; fields are recorded,
  it is entered, and it is closed, after which the registry drops it, when no live span is below it.\<close>

inductive live :: "registry \<Rightarrow> bool" where
  live_none: "live Map.empty"
| live_new: "live reg \<Longrightarrow> reg sid = None \<Longrightarrow> (\<forall>p. parent = Some p \<longrightarrow> reg p \<noteq> None) \<Longrightarrow>
    on_new_span attrs sid (reg(sid \<mapsto> \<lparr>sp_metadata = m, sp_parent = parent, sp_storage = None, sp_entered = None\<rparr>)) = Some reg' \<Longrightarrow>
    live reg'"
| live_record: "live reg \<Longrightarrow> on_record sid fs reg = Some reg' \<Longrightarrow> live reg'"
| live_enter: "live reg \<Longrightarrow> on_enter now sid reg = Some reg' \<Longrightarrow> live reg'"
| live_close: "live reg \<Longrightarrow> (\<forall>c span. reg c = Some span \<longrightarrow> sp_parent span \<noteq> Some sid) \<Longrightarrow>
    storage_on_close now sid reg = Some reg' \<Longrightarrow> live (reg'(sid := None))"

definition stored :: "span_data \<Rightarrow> bool" where
  "stored span = (case sp_storage span of None \<Rightarrow> False | Some s \<Rightarrow> distinct (map fst s))"

definition spans_ok :: "registry \<Rightarrow> bool" where
  "spans_ok reg = ((\<forall>i span. reg i = Some span \<longrightarrow> stored span) \<and>
     (\<forall>i span p. reg i = Some span \<longrightarrow> sp_parent span = Some p \<longrightarrow> reg p \<noteq> None \<and> p \<noteq> i))"

lemma distinct_persist: "distinct (map fst s) \<Longrightarrow> distinct (map fst (persist st s))"
  unfolding persist_def by (rule distinct_updates)

lemma stored_iff: "stored span \<longleftrightarrow> (\<exists>s. sp_storage span = Some s \<and> distinct (map fst s))"
  by (auto simp: stored_def split: option.splits)

lemma spans_okD:
  assumes "spans_ok reg" "reg i = Some span"
  obtains s where "sp_storage span = Some s" "distinct (map fst s)" "\<And>p. sp_parent span = Some p \<Longrightarrow> reg p \<noteq> None \<and> p \<noteq> i"
  using assms unfolding spans_ok_def stored_iff by metis

lemma on_new_span_fresh:
  assumes "on_new_span attrs sid (reg(sid \<mapsto> \<lparr>sp_metadata = m, sp_parent = parent, sp_storage = None, sp_entered = None\<rparr>)) = Some reg'"
    and "spans_ok reg" "reg sid = None" "\<forall>p. parent = Some p \<longrightarrow> reg p \<noteq> None"
  shows "\<exists>s. reg' = reg(sid \<mapsto> \<lparr>sp_metadata = m, sp_parent = parent, sp_storage = Some s, sp_entered = None\<rparr>) \<and> distinct (map fst s)"
proof -
  have "distinct (map fst s)" if "reg p = Some q" "sp_storage q = Some s" for p q s
  proof -
    from assms(2) that(1) obtain w where "sp_storage q = Some w" "distinct (map fst w)" by (rule spans_okD)
    with that(2) show ?thesis by simp
  qed
  moreover have "p \<noteq> sid" if "parent = Some p" for p using assms(3,4) that by auto
  ultimately show ?thesis
    using assms(1)
    by (cases parent) (auto simp: on_new_span_def Let_def span_parent_def split: option.splits intro!: distinct_record_fields)
qed

lemma persist_to_parent_frame:
  assumes "spans_ok reg" "reg sid = Some span"
  shows "(\<forall>j. sp_parent span \<noteq> Some j \<longrightarrow> persist_to_parent span reg j = reg j) \<and>
    (\<forall>p. sp_parent span = Some p \<longrightarrow> (\<exists>parent v pv. p \<noteq> sid \<and> reg p = Some parent \<and> sp_storage span = Some v \<and> sp_storage parent = Some pv \<and>
       persist_to_parent span reg p = Some (parent\<lparr>sp_storage := Some (persist v pv)\<rparr>) \<and> distinct (map fst v) \<and> distinct (map fst pv)))"
proof -
  from assms obtain v where v: "sp_storage span = Some v" "distinct (map fst v)"
    and par: "\<And>p. sp_parent span = Some p \<Longrightarrow> reg p \<noteq> None \<and> p \<noteq> sid" by (rule spans_okD) blast
  show ?thesis
  proof (cases "sp_parent span")
    case None
    then show ?thesis by (simp add: persist_to_parent_def span_parent_def v)
  next
    case (Some p)
    with par obtain parent where p: "reg p = Some parent" "p \<noteq> sid" by blast
    from assms(1) p(1) obtain pv where "sp_storage parent = Some pv" "distinct (map fst pv)" by (rule spans_okD)
    note p = p this
    show ?thesis using v p by (simp add: persist_to_parent_def span_parent_def Some)
  qed
qed

lemma spans_ok_update:
  assumes "spans_ok reg" "stored span" "\<And>p. sp_parent span = Some p \<Longrightarrow> reg p \<noteq> None \<and> p \<noteq> i"
  shows "spans_ok (reg(i \<mapsto> span))"
  using assms unfolding spans_ok_def by (auto split: if_splits)

lemma spans_ok_remove:
  assumes "spans_ok reg" "\<And>c span. reg c = Some span \<Longrightarrow> sp_parent span \<noteq> Some i"
  shows "spans_ok (reg(i := None))"
  using assms unfolding spans_ok_def by (auto split: if_splits)

lemma spans_ok_persist:
  assumes "spans_ok reg" "reg sid = Some span"
  shows "spans_ok (persist_to_parent span reg)"
proof (cases "sp_parent span")
  case None
  then have "persist_to_parent span reg = reg" using persist_to_parent_frame [OF assms] by (simp add: fun_eq_iff)
  with assms show ?thesis by simp
next
  case (Some p)
  with persist_to_parent_frame [OF assms] obtain parent v pv where p: "reg p = Some parent" "distinct (map fst pv)"
    "persist_to_parent span reg p = Some (parent\<lparr>sp_storage := Some (persist v pv)\<rparr>)" by blast
  have "persist_to_parent span reg = reg(p \<mapsto> parent\<lparr>sp_storage := Some (persist v pv)\<rparr>)"
    using persist_to_parent_frame [OF assms] Some p(3) by (auto simp: fun_eq_iff)
  moreover have "spans_ok (reg(p \<mapsto> parent\<lparr>sp_storage := Some (persist v pv)\<rparr>))"
  proof (rule spans_ok_update [OF assms(1)])
    from assms(1) p(1) obtain w where "sp_storage parent = Some w" "\<And>q. sp_parent parent = Some q \<Longrightarrow> reg q \<noteq> None \<and> q \<noteq> p"
      by (rule spans_okD) blast
    then show "\<And>q. sp_parent (parent\<lparr>sp_storage := Some (persist v pv)\<rparr>) = Some q \<Longrightarrow> reg q \<noteq> None \<and> q \<noteq> p" by simp
  qed (simp add: stored_iff distinct_persist p(2))
  ultimately show ?thesis by simp
qed

lemma storage_on_close_live:
  assumes "spans_ok reg" "reg sid = Some span"
  shows "\<exists>s. storage_on_close now sid reg = Some ((persist_to_parent span reg)(sid \<mapsto> span\<lparr>sp_storage := Some s\<rparr>)) \<and> distinct (map fst s)"
proof -
  from assms obtain v where "sp_storage span = Some v" "distinct (map fst v)" by (rule spans_okD)
  then show ?thesis using assms(2)
    by (cases "(case sp_entered span of Some i \<Rightarrow> now - i | None \<Rightarrow> 0) < 2 ^ 64")
      (simp_all only: storage_on_close_def Let_def option.case if_True if_False, blast intro: distinct_update, blast)
qed

lemma live_spans_ok: "live reg \<Longrightarrow> spans_ok reg"
proof (induction rule: live.induct)
  case live_none
  then show ?case by (simp add: spans_ok_def)
next
  case (live_new reg sid parent attrs m reg')
  from on_new_span_fresh [OF live_new.hyps(4) live_new.IH live_new.hyps(2,3)] obtain v where
    "reg' = reg(sid \<mapsto> \<lparr>sp_metadata = m, sp_parent = parent, sp_storage = Some v, sp_entered = None\<rparr>)" "distinct (map fst v)" by blast
  moreover have "reg p \<noteq> None \<and> p \<noteq> sid" if "parent = Some p" for p using live_new.hyps(2,3) that by auto
  ultimately show ?case using live_new.IH by (simp only:, intro spans_ok_update) (simp_all add: stored_iff)
next
  case (live_record reg sid fs reg')
  then obtain span where span: "reg sid = Some span" by (auto simp: on_record_def split: option.splits)
  from live_record.IH span obtain v where v: "sp_storage span = Some v" "distinct (map fst v)"
    "\<And>p. sp_parent span = Some p \<Longrightarrow> reg p \<noteq> None \<and> p \<noteq> sid" by (rule spans_okD) blast
  have "reg' = reg(sid \<mapsto> span\<lparr>sp_storage := Some (record_fields fs v)\<rparr>)"
    using live_record.hyps(2) by (simp add: on_record_def span v(1))
  with v show ?case using live_record.IH by (simp only:, intro spans_ok_update) (simp_all add: stored_iff distinct_record_fields)
next
  case (live_enter reg now sid reg')
  then obtain span where span: "reg sid = Some span" by (auto simp: on_enter_def split: option.splits)
  from live_enter.IH span obtain v where v: "sp_storage span = Some v" "distinct (map fst v)"
    "\<And>p. sp_parent span = Some p \<Longrightarrow> reg p \<noteq> None \<and> p \<noteq> sid" by (rule spans_okD) blast
  have "reg' = reg \<or> reg' = reg(sid \<mapsto> span\<lparr>sp_entered := Some now\<rparr>)"
    using live_enter.hyps(2) by (auto simp: on_enter_def span split: if_splits)
  with v show ?case using live_enter.IH by (auto simp: stored_iff intro!: spans_ok_update)
next
  case (live_close reg sid now reg')
  then obtain span where span: "reg sid = Some span" by (auto simp: storage_on_close_def split: option.splits)
  from storage_on_close_live [OF live_close.IH span, of now] live_close.hyps(3)
  have eq: "reg'(sid := None) = (persist_to_parent span reg)(sid := None)" by auto
  have no_child: "sp_parent q \<noteq> Some sid" if "persist_to_parent span reg c = Some q" for c q
  proof (cases "sp_parent span = Some c")
    case True
    with persist_to_parent_frame [OF live_close.IH span] that live_close.hyps(2) show ?thesis by fastforce
  next
    case False
    with persist_to_parent_frame [OF live_close.IH span] that live_close.hyps(2) show ?thesis by auto
  qed
  show ?case unfolding eq by (rule spans_ok_remove [OF spans_ok_persist [OF live_close.IH span] no_child])
qed

lemma map_of_persist:
  "distinct (map fst v) \<Longrightarrow> map_of (persist v pv) k = (if k \<in> set PERSISTENT_KEYS \<and> map_of v k \<noteq> None then map_of v k else map_of pv k)"
  unfolding persist_def
  by (subst map_of_updates) (auto simp: distinct_map_filter map_of_filter_key split: option.splits)

text \<open>C26: the logger keeps its spans in order. Over any history of spans made, recorded to, entered and
  closed, no callback on a live span panics, and closing a span hands exactly its persistent entries to its
  parent: under these names the parent then has the values of the child, under all others its own, and no other
  span changes.\<close>

theorem span_close_persists:
  assumes "live reg" "reg sid = Some span"
  shows "(\<forall>fs. on_record sid fs reg \<noteq> None) \<and> (\<forall>t. on_enter t sid reg \<noteq> None) \<and>
    (\<exists>reg' v. storage_on_close now sid reg = Some reg' \<and> sp_storage span = Some v \<and>
      (\<forall>j. j \<noteq> sid \<and> sp_parent span \<noteq> Some j \<longrightarrow> reg' j = reg j) \<and>
      (\<forall>p. sp_parent span = Some p \<longrightarrow> (\<exists>parent pv pv'. reg p = Some parent \<and> sp_storage parent = Some pv \<and>
         reg' p = Some (parent\<lparr>sp_storage := Some pv'\<rparr>) \<and>
         (\<forall>k. map_of pv' k = (if k \<in> set PERSISTENT_KEYS \<and> map_of v k \<noteq> None then map_of v k else map_of pv k)))))"
proof -
  note ok = live_spans_ok [OF assms(1)]
  from ok assms(2) obtain v where v: "sp_storage span = Some v" "distinct (map fst v)" by (rule spans_okD)
  from storage_on_close_live [OF ok assms(2), of now] obtain s where
    c: "storage_on_close now sid reg = Some ((persist_to_parent span reg)(sid \<mapsto> span\<lparr>sp_storage := Some s\<rparr>))" by blast
  note frame = persist_to_parent_frame [OF ok assms(2)]
  have "\<exists>parent pv pv'. reg p = Some parent \<and> sp_storage parent = Some pv \<and>
      ((persist_to_parent span reg)(sid \<mapsto> span\<lparr>sp_storage := Some s\<rparr>)) p = Some (parent\<lparr>sp_storage := Some pv'\<rparr>) \<and>
      (\<forall>k. map_of pv' k = (if k \<in> set PERSISTENT_KEYS \<and> map_of v k \<noteq> None then map_of v k else map_of pv k))"
    if "sp_parent span = Some p" for p
  proof -
    from frame that v(1) obtain parent pv where "p \<noteq> sid" "reg p = Some parent" "sp_storage parent = Some pv"
      "persist_to_parent span reg p = Some (parent\<lparr>sp_storage := Some (persist v pv)\<rparr>)" by force
    then show ?thesis using map_of_persist [OF v(2), of pv] by (intro exI [of _ parent] exI [of _ pv] exI [of _ "persist v pv"]) simp
  qed
  moreover have "(\<forall>fs. on_record sid fs reg \<noteq> None) \<and> (\<forall>t. on_enter t sid reg \<noteq> None)"
    using assms(2) v by (simp add: on_record_def on_enter_def)
  ultimately show ?thesis using c v frame by auto
qed

theorem span_close_persists_witness:
  "\<exists>reg reg' pv'. live reg \<and> storage_on_close 9 2 reg = Some reg' \<and>
     reg' 1 = Some \<lparr>sp_metadata = demo_metadata, sp_parent = None, sp_storage = Some pv', sp_entered = None\<rparr> \<and>
     map_of pv' ''flow'' = Some (String ''B'') \<and> map_of pv' ''x'' = None"
proof -
  let ?root = "\<lparr>sp_metadata = demo_metadata, sp_parent = None, sp_storage = Some [(''flow'', String ''A'')], sp_entered = None\<rparr>"
  let ?child = "\<lparr>sp_metadata = demo_metadata, sp_parent = Some 1, sp_storage = Some [(''flow'', String ''B''), (''x'', String ''1'')], sp_entered = None\<rparr>"
  have r: "live [1 \<mapsto> ?root]"
    using live_new [where sid = 1 and parent = None and attrs = "[(''flow'', FStr ''A'')]" and m = demo_metadata, OF live_none]
    by (simp add: on_new_span_def span_parent_def record_fields_def)
  have c: "live [1 \<mapsto> ?root, 2 \<mapsto> ?child]"
    by (rule live_new [where sid = 2 and parent = "Some 1" and m = demo_metadata and attrs = "[(''flow'', FStr ''B''), (''x'', FStr ''1'')]", OF r])
      (simp_all add: on_new_span_def span_parent_def record_fields_def fun_eq_iff)
  from span_close_persists [OF c, of 2 ?child 9] obtain reg' pv' where
    "storage_on_close 9 2 [1 \<mapsto> ?root, 2 \<mapsto> ?child] = Some reg'" "reg' 1 = Some (?root\<lparr>sp_storage := Some pv'\<rparr>)"
    and k: "\<And>k. map_of pv' k = (if k \<in> set PERSISTENT_KEYS \<and> map_of [(''flow'', String ''B''), (''x'', String ''1'')] k \<noteq> None
      then map_of [(''flow'', String ''B''), (''x'', String ''1'')] k else map_of [(''flow'', String ''A'')] k)" by auto
  moreover have "map_of pv' ''flow'' = Some (String ''B'')" "map_of pv' ''x'' = None"
    by (simp_all add: k PERSISTENT_KEYS_def)
  ultimately show ?thesis using c by (intro exI [of _ "[1 \<mapsto> ?root, 2 \<mapsto> ?child]"] exI [of _ reg'] exI [of _ pv']) simp
qed

text \<open>The routes of the settings must all match for a request to be traced: a list with two different routes
  and no wildcard traces nothing.\<close>

lemma two_routes_trace_nothing:
  assumes "\<not> starts_with ''*'' a" "\<not> starts_with ''*'' b" "a \<noteq> b" "{a, b} \<subseteq> set routes"
  shows "\<not> should_trace_url (tracing_assertion (Some routes)) url"
proof -
  have "list_all (\<lambda>r. compare_url (TraceUrlAssert_from r) url) routes \<Longrightarrow> url = a \<and> url = b"
    using assms by (auto simp: list_all_iff TraceUrlAssert_from_def)
  then show ?thesis using assms(3) by (auto simp: should_trace_url_def tracing_assertion_def list.pred_map comp_def)
qed

end
