(* ===== verification/Drainer_Health.thy ===== *)
theory Drainer_Health
  imports Drainer_Props
begin

text \<open>
  The health check of the drainer (\<open>drainer/src/health_check.rs\<close>, \<open>errors.rs\<close>, \<open>services.rs\<close>): a
  transaction on the database, then a round of commands on Redis over a new connection, and the answer of the
  endpoint. Creating that connection and taking one from the database pool panic when they fail, before any of
  this; rendering the answer as JSON is the parameter \<open>to_json\<close>.
\<close>

section \<open>Errors and answers\<close>

datatype HealthCheckDBError =
  DbError | DbWriteError | DbReadError | DbDeleteError | HcUnknownError | TransactionError

text \<open>The errors of Diesel the conversion distinguishes.\<close>

datatype DieselTxError =
    TxDatabaseError
  | RollbackErrorOnCommit | RollbackTransaction | AlreadyInTransaction | NotInTransaction | BrokenTransactionManager
  | TxOtherError

fun HealthCheckDBError_from :: "DieselTxError \<Rightarrow> HealthCheckDBError" where
  "HealthCheckDBError_from TxDatabaseError = DbError"
| "HealthCheckDBError_from TxOtherError = HcUnknownError"
| "HealthCheckDBError_from _ = TransactionError"

fun HealthCheckDBError_to_string :: "HealthCheckDBError \<Rightarrow> string" where
  "HealthCheckDBError_to_string DbError = ''Error while connecting to database''"
| "HealthCheckDBError_to_string DbWriteError = ''Error while writing to database''"
| "HealthCheckDBError_to_string DbReadError = ''Error while reading element in the database''"
| "HealthCheckDBError_to_string DbDeleteError = ''Error while deleting element in the database''"
| "HealthCheckDBError_to_string HcUnknownError = ''Unpredictable error occurred''"
| "HealthCheckDBError_to_string TransactionError = ''Error in database transaction''"

datatype HealthCheckRedisError =
  HcSetFailed | HcGetFailed | HcDeleteFailed | HcStreamAppendFailed | HcStreamReadFailed | HcStreamTrimFailed

fun HealthCheckRedisError_to_string :: "HealthCheckRedisError \<Rightarrow> string" where
  "HealthCheckRedisError_to_string HcSetFailed = ''Failed to set key value in Redis''"
| "HealthCheckRedisError_to_string HcGetFailed = ''Failed to get key value in Redis''"
| "HealthCheckRedisError_to_string HcDeleteFailed = ''Failed to delete key value in Redis''"
| "HealthCheckRedisError_to_string HcStreamAppendFailed = ''Failed to append data to the stream in Redis''"
| "HealthCheckRedisError_to_string HcStreamReadFailed = ''Failed to read data from the stream in Redis''"
| "HealthCheckRedisError_to_string HcStreamTrimFailed = ''Failed to trim data from the stream in Redis''"

datatype HealthCheckError = HcDbError string | HcRedisError string

fun HealthCheckError_to_string :: "HealthCheckError \<Rightarrow> string" where
  "HealthCheckError_to_string (HcDbError message) = ''Database health check is failing with error: '' @ message"
| "HealthCheckError_to_string (HcRedisError message) = ''Redis health check is failing with error: '' @ message"

record DrainerHealthCheckResponse =
  hc_database :: bool
  hc_redis :: bool

section \<open>The checks\<close>

definition TEST_STREAM_NAME :: string where
  "TEST_STREAM_NAME = ''TEST_STREAM_0''"

definition TEST_STREAM_DATA :: "(string \<times> string) list" where
  "TEST_STREAM_DATA = [(''data'', ''sample_data'')]"

text \<open>A transaction: what begins and commits it, the query \<open>1 + 1\<close> inside, and the rollback when the query
  fails, whose own failure replaces the error unless the connection is broken.\<close>

record 'd pg_transaction =
  tx_begin :: "('d, DieselTxError, unit) eff"
  tx_select :: "('d, DieselTxError, int) eff"
  tx_commit :: "('d, DieselTxError, unit) eff"
  tx_rollback :: "('d, DieselTxError, unit) eff"

definition health_check_db :: "'d pg_transaction \<Rightarrow> ('d, HealthCheckDBError, unit) eff" where
  "health_check_db conn =
     ebind (emap_err HealthCheckDBError_from (tx_begin conn)) (\<lambda>_.
       ematch (tx_select conn)
         (\<lambda>err. ematch (tx_rollback conn)
            (\<lambda>e. ethrow (if e = BrokenTransactionManager then DbReadError else HealthCheckDBError_from e))
            (\<lambda>_. ethrow DbReadError))
         (\<lambda>x. emap_err HealthCheckDBError_from (tx_commit conn)))"

definition health_check_redis ::
  "(string \<Rightarrow> string option) \<Rightarrow> 's RedisConnectionPool \<Rightarrow> 's Store \<Rightarrow> ('s, HealthCheckRedisError, unit) eff" where
  "health_check_redis ser conn self =
     ebind (change_context HcSetFailed (serialize_and_set_key_with_expiry conn ser ''test_key'' ''test_value'' 30)) (\<lambda>_.
     ebind (change_context HcGetFailed (get_key conn ''test_key'')) (\<lambda>_.
     ebind (change_context HcDeleteFailed (delete_key conn ''test_key'')) (\<lambda>_.
     ebind (change_context HcStreamAppendFailed
              (stream_append_entry conn TEST_STREAM_NAME AutoGeneratedID TEST_STREAM_DATA)) (\<lambda>_.
     ebind (change_context HcStreamReadFailed
              (stream_read_entries (redis_conn self) TEST_STREAM_NAME (XidManual ''0-0'') (Some 10))) (\<lambda>output.
     ebind (elift (case output TEST_STREAM_NAME of
              None \<Rightarrow> Err HcStreamReadFailed
            | Some entries \<Rightarrow> if entries = [] then Err HcStreamReadFailed else Ok (fst (last entries)))) (\<lambda>id_to_trim.
     ebind (change_context HcStreamTrimFailed
              (stream_trim_entries conn TEST_STREAM_NAME (MinID, Exact, id_to_trim))) (\<lambda>_. ereturn ())))))))"

definition deep_health_check_func ::
  "(string \<Rightarrow> string option) \<Rightarrow> 'd pg_transaction \<Rightarrow> 's RedisConnectionPool \<Rightarrow> 's Store \<Rightarrow>
   ('s \<times> 'd, HealthCheckError, DrainerHealthCheckResponse) eff" where
  "deep_health_check_func ser pg conn store =
     ebind (emap_err (\<lambda>err. HcDbError (HealthCheckDBError_to_string err)) (on_snd (health_check_db pg))) (\<lambda>_.
     ebind (emap_err (\<lambda>err. HcRedisError (HealthCheckRedisError_to_string err)) (on_fst (health_check_redis ser conn store))) (\<lambda>_.
       ereturn \<lparr>hc_database = True, hc_redis = True\<rparr>))"

text \<open>Status and body of the answer.\<close>

definition deep_health_check ::
  "(string \<Rightarrow> string option) \<Rightarrow> (DrainerHealthCheckResponse \<Rightarrow> string option) \<Rightarrow> (string \<Rightarrow> string) \<Rightarrow>
   'd pg_transaction \<Rightarrow> 's RedisConnectionPool \<Rightarrow> 's Store \<Rightarrow> 's \<times> 'd \<Rightarrow> (nat \<times> string) \<times> ('s \<times> 'd)" where
  "deep_health_check ser to_json message_json pg conn store w =
     (case deep_health_check_func ser pg conn store w of
        (Inr response, w') \<Rightarrow> ((200, case to_json response of None \<Rightarrow> [] | Some body \<Rightarrow> body), w')
      | (Inl err, w') \<Rightarrow> ((500, message_json (HealthCheckError_to_string err)), w'))"

section \<open>The server under the check\<close>

text \<open>The check is a probe of a key followed by a probe of the test stream.\<close>

definition probe_rest :: "'s RedisConnectionPool \<Rightarrow> 's Store \<Rightarrow> ('s, HealthCheckRedisError, unit) eff" where
  "probe_rest conn self =
     ebind (change_context HcStreamAppendFailed
              (stream_append_entry conn TEST_STREAM_NAME AutoGeneratedID TEST_STREAM_DATA)) (\<lambda>_.
     ebind (change_context HcStreamReadFailed
              (stream_read_entries (redis_conn self) TEST_STREAM_NAME (XidManual ''0-0'') (Some 10))) (\<lambda>output.
     ebind (elift (case output TEST_STREAM_NAME of
              None \<Rightarrow> Err HcStreamReadFailed
            | Some entries \<Rightarrow> if entries = [] then Err HcStreamReadFailed else Ok (fst (last entries)))) (\<lambda>id_to_trim.
     ebind (change_context HcStreamTrimFailed
              (stream_trim_entries conn TEST_STREAM_NAME (MinID, Exact, id_to_trim))) (\<lambda>_. ereturn ()))))"

lemma last_take: "xs \<noteq> [] \<Longrightarrow> 0 < m \<Longrightarrow> last (take m xs) = xs ! (min (length xs) m - 1)"
  by (simp add: last_conv_nth)

lemma health_check_redis_split:
  "health_check_redis ser conn self =
     ebind (ebind (change_context HcSetFailed (serialize_and_set_key_with_expiry conn ser ''test_key'' ''test_value'' 30)) (\<lambda>_.
       ebind (change_context HcGetFailed (get_key conn ''test_key'')) (\<lambda>_.
       change_context HcDeleteFailed (delete_key conn ''test_key'')))) (\<lambda>_. probe_rest conn self)"
  by (simp add: health_check_redis_def probe_rest_def ebind_assoc)

text \<open>Reading and setting a string key leaves the streams under other keys alone.\<close>

locale redis_probe = redis_streams R valid stream_view + redis_keys R valid key_view
  for R :: "'s fred" and valid :: "'s \<Rightarrow> bool" and stream_view :: "'s \<Rightarrow> string \<Rightarrow> StreamEntry list"
    and key_view :: "'s \<Rightarrow> string \<rightharpoonup> string" +
  assumes set_streams: "valid s \<Longrightarrow> fred_set R k v t False s = (p1, s') \<Longrightarrow> j \<noteq> k \<Longrightarrow> stream_view s' j = stream_view s j"
    and get_streams: "valid s \<Longrightarrow> fred_get R k s = (p2, s') \<Longrightarrow> stream_view s' = stream_view s"
begin

lemma probe_keys:
  assumes R: "pool conn = R" and v: "valid s"
    and run: "ebind (change_context HcSetFailed (serialize_and_set_key_with_expiry conn ser ''test_key'' x t)) (\<lambda>_.
      ebind (change_context HcGetFailed (get_key conn ''test_key'')) (\<lambda>_.
      change_context HcDeleteFailed (delete_key conn ''test_key''))) s = (r, s')"
  shows "valid s' \<and> (\<forall>j. j \<noteq> ''test_key'' \<longrightarrow> stream_view s' j = stream_view s j)"
proof (cases "ser x")
  case None
  with run v show ?thesis
    by (auto simp: serialize_and_set_key_with_expiry_def encode_to_vec_def eff_simps)
next
  case (Some b)
  obtain r1 s1 where s1: "fred_set R ''test_key'' b t False s = (r1, s1)" by fastforce
  obtain r2 s2 where s2: "fred_get R ''test_key'' s1 = (r2, s2)" by fastforce
  obtain r3 s3 where s3: "fred_del R ''test_key'' s2 = (r3, s3)" by fastforce
  have v1: "valid s1" using set_law [OF v s1] by blast
  have v2: "valid s2" using get_law [OF v1 s2] by blast
  note keep = set_streams [OF v s1] get_streams [OF v1 s2] del_stream_law [OF v2 s3]
  have "s' \<in> {s1, s2, s3}"
    using run Some s1 s2 s3 R
    by (auto simp: serialize_and_set_key_with_expiry_def encode_to_vec_def get_key_def delete_key_def eff_simps
        split: sum.splits prod.splits)
  with v1 v2 keep show ?thesis by auto
qed

lemma probe_stream:
  fixes k :: string
  assumes R: "pool conn = R" "pool (redis_conn self) = R" and v: "valid s" and k: "k = TEST_STREAM_NAME"
    and run: "probe_rest conn self s = (r, s')"
  shows "valid s' \<and> (\<forall>j. j \<noteq> k \<longrightarrow> stream_view s' j = stream_view s j) \<and>
    (r = Ok () \<longrightarrow> length (stream_view s' k) = (if length (stream_view s k) < 10 then 1 else length (stream_view s k) - 8))"
proof -
  let ?n = "length (stream_view s k)"
  have d: "distinct (map fst TEST_STREAM_DATA)" by (simp add: TEST_STREAM_DATA_def)
  obtain r1 s1 where a: "fred_xadd R k XidAuto TEST_STREAM_DATA s = (r1, s1)" by fastforce
  obtain r2 s2 where x: "fred_xread_map R (Some 10) None k (XidManual ''0-0'') s1 = (r2, s2)" by fastforce
  obtain eid where v1: "valid s1"
    and same: "same_or (stream_view s) ((stream_view s)(k := stream_view s k @ [(eid, map_of TEST_STREAM_DATA)])) (stream_view s1)"
    and added: "r1 = Ok () \<longrightarrow> stream_view s1 = (stream_view s)(k := stream_view s k @ [(eid, map_of TEST_STREAM_DATA)])"
    using xadd_law [OF v d a] by blast
  have other1: "\<forall>j. j \<noteq> k \<longrightarrow> stream_view s1 j = stream_view s j" using same by (auto simp: same_or_def)
  have v2: "valid s2" and keep2: "stream_view s2 = stream_view s1"
    and es: "\<And>es. r2 = Ok (Some es) \<Longrightarrow> es = take 10 (stream_view s1 k)"
    using xread_law [OF v1 _ x] by auto
  let ?id = "fst (last (take 10 (stream_view s1 k)))"
  obtain r3 s3 where t: "fred_xtrim R k (MinID, Exact, ?id) s2 = (r3, s3)" by fastforce
  show ?thesis
  proof (cases "r1 = Ok () \<and> (\<exists>es. r2 = Ok (Some es))")
    case False
    then have "s' \<in> {s1, s2} \<and> r \<noteq> Ok ()"
      using run R a x k
      by (auto simp: probe_rest_def stream_append_entry_def stream_read_entries_def stream_trim_entries_def eff_simps
          split: sum.splits prod.splits option.splits if_splits)
    with v1 v2 other1 keep2 show ?thesis by auto
  next
    case True
    then have xs: "stream_view s2 k = stream_view s k @ [(eid, map_of TEST_STREAM_DATA)]" using added keep2 by simp
    let ?i = "min 10 (Suc ?n) - 1"
    have i: "?i < length (stream_view s2 k)" "fst (stream_view s2 k ! ?i) = ?id"
      using xs keep2 last_take [of "stream_view s2 k" 10] by (simp_all add: min.commute)
    have "r = Ok () \<longrightarrow> (\<exists>m. r3 = Ok m)" "s' = s3"
      using run R a x k t True es xs keep2
      by (auto simp: probe_rest_def stream_append_entry_def stream_read_entries_def stream_trim_entries_def eff_simps
          split: sum.splits prod.splits option.splits if_splits)
    moreover note trim = xtrim_law [OF v2 i t]
    have "valid s3" "\<forall>j. j \<noteq> k \<longrightarrow> stream_view s3 j = stream_view s j"
      using trim other1 keep2 by (auto simp: same_or_def)
    moreover have "length (stream_view s3 k) = (if ?n < 10 then 1 else ?n - 8)" if "r3 = Ok m" for m
    proof -
      have "stream_view s3 k = drop ?i (stream_view s2 k)" using trim that by simp
      then show ?thesis by (auto simp: xs min_def)
    qed
    ultimately show ?thesis by auto
  qed
qed

end

interpretation mem_probe: redis_probe mem_fred mem_valid mem_streams mem_strings
  by unfold_locales (auto simp: mem_fred_def mem_set_def mem_get_def mem_valid_def Let_def split: if_splits)

section \<open>Properties\<close>



end
