(* ===== verification/File_Storage.thy ===== *)
theory File_Storage
  imports Environment Redis_Types
begin

text \<open>
  File storage (\<open>external_services/src/file_storage.rs\<close> and \<open>file_storage/{file_system,aws_s3}.rs\<close>): files under
  keys, on the local file system or in a bucket of S3, behind one interface.

  The file system of the operating system and the service of S3 are parameters: effects that answer or
  refuse. An open file is the path it was opened at.
\<close>

section \<open>Where files are\<close>

text \<open>\<open>base\<close> is the directory of the workspace (\<open>workspace_path\<close>) in builds with logs, and the current directory
  otherwise.\<close>

definition get_file_path :: "string \<Rightarrow> string \<Rightarrow> string" where
  "get_file_path base file_key = path_push (path_push (path_push [] base) ''files'') file_key"

section \<open>Errors and the interface\<close>

datatype FileStorageError = UploadFailed | RetrieveFailed | DeleteFailed

datatype FileSystemStorageError =
  FileOpenFailure | CreateFailure | ReadFailure | WriteFailure | FsDeleteFailure | CreateDirFailed

datatype AwsS3StorageError = UploadFailure | RetrieveFailure | S3DeleteFailure | UnknownError

record 'w file_client =
  upload_file :: "string \<Rightarrow> string \<Rightarrow> ('w, FileStorageError, unit) eff"
  delete_file :: "string \<Rightarrow> ('w, FileStorageError, unit) eff"
  retrieve_file :: "string \<Rightarrow> ('w, FileStorageError, string) eff"

section \<open>The file system\<close>

record 'w file_system =
  fs_create_dir_all :: "string \<Rightarrow> ('w, unit, unit) eff"
  fs_create :: "string \<Rightarrow> ('w, unit, unit) eff"
  fs_write_all :: "string \<Rightarrow> string \<Rightarrow> ('w, unit, unit) eff"
  fs_open :: "string \<Rightarrow> ('w, unit, unit) eff"
  fs_read_to_end :: "string \<Rightarrow> ('w, unit, string) eff"
  fs_remove_file :: "string \<Rightarrow> ('w, unit, unit) eff"

definition FileSystem_upload_file ::
  "'w file_system \<Rightarrow> string \<Rightarrow> string \<Rightarrow> string \<Rightarrow> ('w, FileSystemStorageError, unit) eff" where
  "FileSystem_upload_file fs base file_key file =
     (let file_path = get_file_path base file_key in
      ebind (elift (ok_or (path_parent file_path) CreateDirFailed)) (\<lambda>parent.
      ebind (change_context CreateDirFailed (fs_create_dir_all fs parent)) (\<lambda>_.
      ebind (change_context CreateFailure (fs_create fs file_path)) (\<lambda>_.
      ebind (change_context WriteFailure (fs_write_all fs file_path file)) (\<lambda>_. ereturn ())))))"

definition FileSystem_delete_file :: "'w file_system \<Rightarrow> string \<Rightarrow> string \<Rightarrow> ('w, FileSystemStorageError, unit) eff" where
  "FileSystem_delete_file fs base file_key =
     ebind (change_context FsDeleteFailure (fs_remove_file fs (get_file_path base file_key))) (\<lambda>_. ereturn ())"

definition FileSystem_retrieve_file :: "'w file_system \<Rightarrow> string \<Rightarrow> string \<Rightarrow> ('w, FileSystemStorageError, string) eff" where
  "FileSystem_retrieve_file fs base file_key =
     (let file_path = get_file_path base file_key in
      ebind (change_context FileOpenFailure (fs_open fs file_path)) (\<lambda>_.
      ebind (change_context ReadFailure (fs_read_to_end fs file_path)) (\<lambda>received_data. ereturn received_data)))"

definition FileSystem_client :: "'w file_system \<Rightarrow> string \<Rightarrow> 'w file_client" where
  "FileSystem_client fs base = \<lparr>
     upload_file = (\<lambda>file_key file. ebind (change_context UploadFailed (FileSystem_upload_file fs base file_key file)) (\<lambda>_. ereturn ())),
     delete_file = (\<lambda>file_key. ebind (change_context DeleteFailed (FileSystem_delete_file fs base file_key)) (\<lambda>_. ereturn ())),
     retrieve_file = (\<lambda>file_key. change_context RetrieveFailed (FileSystem_retrieve_file fs base file_key))\<rparr>"

section \<open>S3\<close>

text \<open>An object is got as a stream, which may fail later.\<close>

record 'w s3_sdk =
  put_object :: "string \<Rightarrow> string \<Rightarrow> string \<Rightarrow> ('w, unit, unit) eff"
  delete_object :: "string \<Rightarrow> string \<Rightarrow> ('w, unit, unit) eff"
  get_object :: "string \<Rightarrow> string \<Rightarrow> ('w, unit, (unit, string) result) eff"

record AwsFileStorageConfig =
  s3_region :: string
  s3_bucket_name :: string

record 'w AwsFileStorageClient =
  s3_inner_client :: "'w s3_sdk"
  s3_bucket :: string

definition AwsFileStorageClient_new :: "(string \<Rightarrow> 'w s3_sdk) \<Rightarrow> AwsFileStorageConfig \<Rightarrow> 'w AwsFileStorageClient" where
  "AwsFileStorageClient_new connect config = \<lparr>s3_inner_client = connect (s3_region config), s3_bucket = s3_bucket_name config\<rparr>"

definition AwsS3_upload_file :: "'w AwsFileStorageClient \<Rightarrow> string \<Rightarrow> string \<Rightarrow> ('w, AwsS3StorageError, unit) eff" where
  "AwsS3_upload_file self file_key file =
     ebind (change_context UploadFailure (put_object (s3_inner_client self) (s3_bucket self) file_key file)) (\<lambda>_. ereturn ())"

definition AwsS3_delete_file :: "'w AwsFileStorageClient \<Rightarrow> string \<Rightarrow> ('w, AwsS3StorageError, unit) eff" where
  "AwsS3_delete_file self file_key =
     ebind (change_context S3DeleteFailure (delete_object (s3_inner_client self) (s3_bucket self) file_key)) (\<lambda>_. ereturn ())"

definition AwsS3_retrieve_file :: "'w AwsFileStorageClient \<Rightarrow> string \<Rightarrow> ('w, AwsS3StorageError, string) eff" where
  "AwsS3_retrieve_file self file_key =
     ebind (change_context RetrieveFailure (get_object (s3_inner_client self) (s3_bucket self) file_key)) (\<lambda>body.
       elift (case body of Inl _ \<Rightarrow> Err UnknownError | Inr bytes \<Rightarrow> Ok bytes))"

definition AwsS3_client :: "'w AwsFileStorageClient \<Rightarrow> 'w file_client" where
  "AwsS3_client self = \<lparr>
     upload_file = (\<lambda>file_key file. ebind (change_context UploadFailed (AwsS3_upload_file self file_key file)) (\<lambda>_. ereturn ())),
     delete_file = (\<lambda>file_key. ebind (change_context DeleteFailed (AwsS3_delete_file self file_key)) (\<lambda>_. ereturn ())),
     retrieve_file = (\<lambda>file_key. change_context RetrieveFailed (AwsS3_retrieve_file self file_key))\<rparr>"

section \<open>Choosing a client\<close>

datatype FileStorageConfig = AwsS3 AwsFileStorageConfig | FileSystem

datatype InvalidFileStorageConfig = InvalidFileStorageConfig string

definition InvalidFileStorageConfig_fmt :: "InvalidFileStorageConfig \<Rightarrow> string" where
  "InvalidFileStorageConfig_fmt self = (case self of InvalidFileStorageConfig message \<Rightarrow> ''file_storage: '' @ message)"

definition AwsFileStorageConfig_validate :: "AwsFileStorageConfig \<Rightarrow> (InvalidFileStorageConfig, unit) result" where
  "AwsFileStorageConfig_validate self =
     rbind (when_pred (is_default_or_empty (s3_region self)) (Err (InvalidFileStorageConfig ''aws s3 region must not be empty''))) (\<lambda>_.
       when_pred (is_default_or_empty (s3_bucket_name self)) (Err (InvalidFileStorageConfig ''aws s3 bucket name must not be empty'')))"

fun FileStorageConfig_validate :: "FileStorageConfig \<Rightarrow> (InvalidFileStorageConfig, unit) result" where
  "FileStorageConfig_validate (AwsS3 aws_s3) = AwsFileStorageConfig_validate aws_s3"
| "FileStorageConfig_validate FileSystem = Ok ()"

fun get_file_storage_client ::
  "(string \<Rightarrow> 'w s3_sdk) \<Rightarrow> 'w file_system \<Rightarrow> string \<Rightarrow> FileStorageConfig \<Rightarrow> 'w file_client" where
  "get_file_storage_client connect fs base (AwsS3 aws_s3) = AwsS3_client (AwsFileStorageClient_new connect aws_s3)"
| "get_file_storage_client connect fs base FileSystem = FileSystem_client fs base"

section \<open>The contract of a client\<close>

datatype file_op = Upload string string | Delete string | Retrieve string

text \<open>One call, its answer dropped.\<close>

fun after_op :: "'w file_client \<Rightarrow> file_op \<Rightarrow> 'w \<Rightarrow> 'w" where
  "after_op client (Upload key file) w = snd (upload_file client key file w)"
| "after_op client (Delete key) w = snd (delete_file client key w)"
| "after_op client (Retrieve key) w = snd (retrieve_file client key w)"

text \<open>Whether a call may change what is stored under a key, when \<open>apart\<close> says which keys are stored apart.\<close>

fun spares :: "(string \<Rightarrow> string \<Rightarrow> bool) \<Rightarrow> string \<Rightarrow> file_op \<Rightarrow> bool" where
  "spares apart key (Upload j file) = apart j key"
| "spares apart key (Delete j) = apart j key"
| "spares apart key (Retrieve j) = True"

locale file_store =
  fixes client :: "'w file_client" and apart :: "string \<Rightarrow> string \<Rightarrow> bool"
    and content :: "'w \<Rightarrow> string \<Rightarrow> string option"
  assumes upload_stores: "upload_file client key file w = (Ok (), w') \<Longrightarrow> content w' key = Some file"
    and upload_keeps: "apart key j \<Longrightarrow> content (snd (upload_file client key file w)) j = content w j"
    and delete_removes: "delete_file client key w = (Ok (), w') \<Longrightarrow> content w' key = None"
    and delete_keeps: "apart key j \<Longrightarrow> content (snd (delete_file client key w)) j = content w j"
    and retrieve_reads: "fst (retrieve_file client key w) = ok_or (content w key) RetrieveFailed"
    and retrieve_keeps: "content (snd (retrieve_file client key w)) = content w"
begin

lemma op_keeps: "spares apart key opn \<Longrightarrow> content (after_op client opn w) key = content w key"
  by (cases opn) (simp_all add: upload_keeps delete_keeps retrieve_keeps)

lemma ops_keep: "list_all (spares apart key) ops \<Longrightarrow> content (fold (after_op client) ops w) key = content w key"
  by (induction ops arbitrary: w) (simp_all add: op_keeps)

lemma retrieve_after_upload:
  assumes "upload_file client key file w = (Ok (), w')" "list_all (spares apart key) ops"
  shows "fst (retrieve_file client key (fold (after_op client) ops w')) = Ok file"
  using upload_stores [OF assms(1)] ops_keep [OF assms(2)] by (simp add: retrieve_reads)

lemma retrieve_after_delete:
  assumes "delete_file client key w = (Ok (), w')" "list_all (spares apart key) ops"
  shows "fst (retrieve_file client key (fold (after_op client) ops w')) = Err RetrieveFailed"
  using delete_removes [OF assms(1)] ops_keep [OF assms(2)] by (simp add: retrieve_reads)

end

section \<open>The services\<close>

text \<open>A file system whose files are read as they were last written; \<open>other\<close> are pairs of paths that never name
  the same file. A write that fails may leave anything under its own path.\<close>

locale posix_files =
  fixes fs :: "'w file_system" and other :: "string \<Rightarrow> string \<Rightarrow> bool" and file_at :: "'w \<Rightarrow> string \<Rightarrow> string option"
  assumes mkdir_keeps: "file_at (snd (fs_create_dir_all fs d w)) = file_at w"
    and create_empties: "fs_create fs p w = (Ok (), w') \<Longrightarrow> file_at w' p = Some []"
    and create_keeps: "other p q \<Longrightarrow> file_at (snd (fs_create fs p w)) q = file_at w q"
    and write_appends: "file_at w p = Some [] \<Longrightarrow> fs_write_all fs p bytes w = (Ok (), w') \<Longrightarrow> file_at w' p = Some bytes"
    and write_keeps: "other p q \<Longrightarrow> file_at (snd (fs_write_all fs p bytes w)) q = file_at w q"
    and remove_removes: "fs_remove_file fs p w = (Ok (), w') \<Longrightarrow> file_at w' p = None"
    and remove_keeps: "other p q \<Longrightarrow> file_at (snd (fs_remove_file fs p w)) q = file_at w q"
    and open_exists: "fst (fs_open fs p w) = (if file_at w p = None then Err () else Ok ())"
    and open_keeps: "file_at (snd (fs_open fs p w)) = file_at w"
    and read_all: "fst (fs_read_to_end fs p w) = ok_or (file_at w p) ()"
    and read_keeps: "file_at (snd (fs_read_to_end fs p w)) = file_at w"
begin

lemma fs_upload_stores:
  "upload_file (FileSystem_client fs base) key file w = (Ok (), w') \<Longrightarrow> file_at w' (get_file_path base key) = Some file"
  by (auto simp: FileSystem_client_def FileSystem_upload_file_def eff_simps Let_def
      split: prod.splits sum.splits dest: create_empties intro: write_appends)

lemma fs_upload_keeps:
  assumes "other (get_file_path base key) q"
  shows "file_at (snd (upload_file (FileSystem_client fs base) key file w)) q = file_at w q"
proof -
  have mk: "file_at w1 = file_at w0" if "fs_create_dir_all fs d w0 = (r, w1)" for d w0 r w1
    using mkdir_keeps [of d w0] that by simp
  have cr: "file_at w1 q = file_at w0 q" if "fs_create fs (get_file_path base key) w0 = (r, w1)" for w0 r w1
    using create_keeps [OF assms, of w0] that by simp
  have wr: "file_at w1 q = file_at w0 q" if "fs_write_all fs (get_file_path base key) file w0 = (r, w1)" for w0 r w1
    using write_keeps [OF assms, of "file" w0] that by simp
  show ?thesis
    by (auto simp: FileSystem_client_def FileSystem_upload_file_def eff_simps Let_def
        split: prod.splits sum.splits dest!: mk cr wr)
qed

lemma fs_retrieve:
  "fst (retrieve_file (FileSystem_client fs base) key w) = ok_or (file_at w (get_file_path base key)) RetrieveFailed"
  "file_at (snd (retrieve_file (FileSystem_client fs base) key w)) = file_at w"
proof -
  let ?p = "get_file_path base key"
  obtain r1 w1 where o: "fs_open fs ?p w = (r1, w1)" by fastforce
  obtain r2 w2 where r: "fs_read_to_end fs ?p w1 = (r2, w2)" by fastforce
  have "r1 = (if file_at w ?p = None then Err () else Ok ())" "file_at w1 = file_at w"
    using open_exists [of ?p w] open_keeps [of ?p w] o by simp_all
  moreover have "r2 = ok_or (file_at w1 ?p) ()" "file_at w2 = file_at w1"
    using read_all [of ?p w1] read_keeps [of ?p w1] r by simp_all
  ultimately show "fst (retrieve_file (FileSystem_client fs base) key w) = ok_or (file_at w ?p) RetrieveFailed"
    "file_at (snd (retrieve_file (FileSystem_client fs base) key w)) = file_at w"
    by (auto simp: FileSystem_client_def FileSystem_retrieve_file_def eff_simps Let_def o r)
qed

end

sublocale posix_files \<subseteq> on_disk: file_store "FileSystem_client fs base"
    "\<lambda>key j. other (get_file_path base key) (get_file_path base j)" "\<lambda>w key. file_at w (get_file_path base key)" for base
proof unfold_locales
  show "file_at w' (get_file_path base key) = None" if "delete_file (FileSystem_client fs base) key w = (Ok (), w')" for key w w'
    using that by (auto simp: FileSystem_client_def FileSystem_delete_file_def eff_simps
        split: prod.splits sum.splits intro: remove_removes)
  show "file_at (snd (delete_file (FileSystem_client fs base) key w)) (get_file_path base j) = file_at w (get_file_path base j)"
    if "other (get_file_path base key) (get_file_path base j)" for key j w
    using remove_keeps [OF that, of w] by (auto simp: FileSystem_client_def FileSystem_delete_file_def eff_simps
        split: prod.splits sum.splits)
qed (simp_all add: fs_upload_stores fs_upload_keeps fs_retrieve)

context posix_files
begin

lemmas disk_store = on_disk.file_store_axioms

end

text \<open>A bucket keeps an object per key.\<close>

locale s3_bucket_service =
  fixes sdk :: "'w s3_sdk" and object_at :: "'w \<Rightarrow> string \<Rightarrow> string \<Rightarrow> string option"
  assumes put_stores: "put_object sdk b k file w = (Ok (), w') \<Longrightarrow> object_at w' b k = Some file"
    and put_keeps: "k \<noteq> j \<Longrightarrow> object_at (snd (put_object sdk b k file w)) b j = object_at w b j"
    and delete_removes: "delete_object sdk b k w = (Ok (), w') \<Longrightarrow> object_at w' b k = None"
    and delete_keeps: "k \<noteq> j \<Longrightarrow> object_at (snd (delete_object sdk b k w)) b j = object_at w b j"
    and get_reads: "fst (get_object sdk b k w) = (case object_at w b k of None \<Rightarrow> Err () | Some file \<Rightarrow> Ok (Ok file))"
    and get_keeps: "object_at (snd (get_object sdk b k w)) = object_at w"

sublocale s3_bucket_service \<subseteq> in_bucket: file_store "AwsS3_client \<lparr>s3_inner_client = sdk, s3_bucket = b\<rparr>" "(\<noteq>)"
    "\<lambda>w. object_at w b" for b
proof unfold_locales
  let ?c = "AwsS3_client \<lparr>s3_inner_client = sdk, s3_bucket = b\<rparr>"
  note defs = AwsS3_client_def AwsS3_upload_file_def AwsS3_delete_file_def AwsS3_retrieve_file_def eff_simps
  show "object_at w' b key = Some bytes" if "upload_file ?c key bytes w = (Ok (), w')" for key bytes w w'
    using that by (auto simp: defs split: prod.splits sum.splits intro: put_stores)
  show "object_at (snd (upload_file ?c key bytes w)) b j = object_at w b j" if "key \<noteq> j" for key j bytes w
    using put_keeps [OF that, of b bytes w] by (auto simp: defs split: prod.splits sum.splits)
  show "object_at w' b key = None" if "delete_file ?c key w = (Ok (), w')" for key w w'
    using that by (auto simp: defs split: prod.splits sum.splits intro: delete_removes)
  show "object_at (snd (delete_file ?c key w)) b j = object_at w b j" if "key \<noteq> j" for key j w
    using delete_keeps [OF that, of b w] by (auto simp: defs split: prod.splits sum.splits)
  show "fst (retrieve_file ?c key w) = ok_or (object_at w b key) RetrieveFailed" for key w
    using get_reads [of b key w] by (cases "get_object sdk b key w") (auto simp: defs split: sum.splits option.splits)
  show "object_at (snd (retrieve_file ?c key w)) b = object_at w b" for key w
    using get_keeps [of b key w] by (cases "get_object sdk b key w") (auto simp: defs split: sum.splits)
qed

context s3_bucket_service
begin

lemmas bucket_store = in_bucket.file_store_axioms

end

text \<open>Both services in one memory: a file under its path, an object under its bucket and key.\<close>

type_synonym mem_files = "string list \<rightharpoonup> string"

definition mem_fs :: "mem_files file_system" where
  "mem_fs = \<lparr>fs_create_dir_all = (\<lambda>d. ereturn ()),
     fs_create = (\<lambda>p w. (Ok (), w([p] \<mapsto> []))),
     fs_write_all = (\<lambda>p bytes w. case w [p] of None \<Rightarrow> (Err (), w) | Some f \<Rightarrow> (Ok (), w([p] \<mapsto> f @ bytes))),
     fs_open = (\<lambda>p w. (if w [p] = None then Err () else Ok (), w)),
     fs_read_to_end = (\<lambda>p w. (ok_or (w [p]) (), w)),
     fs_remove_file = (\<lambda>p w. (if w [p] = None then Err () else Ok (), w([p] := None)))\<rparr>"

definition mem_s3 :: "string \<Rightarrow> mem_files s3_sdk" where
  "mem_s3 region = \<lparr>put_object = (\<lambda>b k bytes w. (Ok (), w([b, k] \<mapsto> bytes))),
     delete_object = (\<lambda>b k w. (Ok (), w([b, k] := None))),
     get_object = (\<lambda>b k w. (case w [b, k] of None \<Rightarrow> Err () | Some f \<Rightarrow> Ok (Ok f), w))\<rparr>"

interpretation mem_disk: posix_files mem_fs "(\<noteq>)" "\<lambda>w p. w [p]"
  by unfold_locales (auto simp: mem_fs_def split: option.splits if_splits)

interpretation mem_bucket: s3_bucket_service "mem_s3 region" "\<lambda>w b k. w [b, k]" for region
  by unfold_locales (auto simp: mem_s3_def split: option.splits)

section \<open>Properties\<close>

text \<open>The keys a client stores apart: different keys in a bucket, keys with paths that name different files on
  disk.\<close>

definition apart_keys :: "(string \<Rightarrow> string \<Rightarrow> bool) \<Rightarrow> string \<Rightarrow> FileStorageConfig \<Rightarrow> string \<Rightarrow> string \<Rightarrow> bool" where
  "apart_keys other base config = (case config of
     AwsS3 _ \<Rightarrow> (\<noteq>)
   | FileSystem \<Rightarrow> (\<lambda>key j. other (get_file_path base key) (get_file_path base j)))"

definition content_of ::
  "('w \<Rightarrow> string \<Rightarrow> string option) \<Rightarrow> ('w \<Rightarrow> string \<Rightarrow> string \<Rightarrow> string option) \<Rightarrow> string \<Rightarrow> FileStorageConfig \<Rightarrow>
   'w \<Rightarrow> string \<Rightarrow> string option" where
  "content_of file_at object_at base config = (case config of
     AwsS3 aws_s3 \<Rightarrow> (\<lambda>w. object_at w (s3_bucket_name aws_s3))
   | FileSystem \<Rightarrow> (\<lambda>w key. file_at w (get_file_path base key)))"

lemma configured_store:
  assumes "posix_files fs other file_at" "\<And>region. s3_bucket_service (connect region) object_at"
  shows "file_store (get_file_storage_client connect fs base config) (apart_keys other base config)
    (content_of file_at object_at base config)"
proof (cases config)
  case (AwsS3 c)
  from s3_bucket_service.bucket_store [OF assms(2), of "s3_region c" "s3_bucket_name c"] show ?thesis
    by (simp add: AwsS3 AwsFileStorageClient_new_def apart_keys_def content_of_def)
next
  case FileSystem
  from posix_files.disk_store [OF assms(1), of base] show ?thesis by (simp add: FileSystem apart_keys_def content_of_def)
qed

text \<open>A relative key is stored below the directory of the files, where \<open>..\<close> still leads out of it; a key
  that starts with a slash is taken as the path itself.\<close>

lemma file_path_of_key:
  assumes "base \<noteq> []" "last base \<noteq> CHR ''/''"
  shows "get_file_path base (CHR ''/'' # rest) = CHR ''/'' # rest"
    and "key = [] \<or> hd key \<noteq> CHR ''/'' \<Longrightarrow> get_file_path base key = base @ ''/files/'' @ key"
  using assms by (auto simp: get_file_path_def path_push_def)

text \<open>C28: a file is retrieved as it was uploaded. With either of the two clients the settings choose, and
  over services that answer, a file uploaded under a key is what is retrieved under it after any calls that upload and
  delete under keys stored apart from it; once it is deleted, retrieving it fails with \<open>RetrieveFailed\<close>.\<close>

theorem file_storage_roundtrip:
  assumes disk: "posix_files fs other file_at" and s3: "\<And>region. s3_bucket_service (connect region) object_at"
    and client: "client = get_file_storage_client connect fs base config"
    and upload: "upload_file client key bytes w = (Ok (), w1)"
    and others: "list_all (spares (apart_keys other base config) key) ops"
    and w2: "w2 = fold (after_op client) ops w1"
  shows "fst (retrieve_file client key w2) = Ok bytes \<and>
    (delete_file client key w2 = (Ok (), w3) \<longrightarrow> fst (retrieve_file client key w3) = Err RetrieveFailed)"
  using file_store.retrieve_after_upload [OF configured_store [OF disk s3] upload [unfolded client] others]
    file_store.retrieve_after_delete [OF configured_store [OF disk s3], where ops = "[]"]
  by (auto simp: client w2)

theorem file_storage_roundtrip_witness:
  "fst (retrieve_file (FileSystem_client mem_fs ''/srv'') ''a'' (snd (upload_file (FileSystem_client mem_fs ''/srv'') ''b'' ''two''
     (snd (upload_file (FileSystem_client mem_fs ''/srv'') ''a'' ''one'' Map.empty))))) = Ok ''one''"
proof -
  let ?c = "get_file_storage_client mem_s3 mem_fs ''/srv'' FileSystem"
  have "fst (upload_file ?c ''a'' ''one'' Map.empty) = Ok ()" by code_simp
  then obtain w1 where u: "upload_file ?c ''a'' ''one'' Map.empty = (Ok (), w1)" by (metis prod.collapse)
  from file_storage_roundtrip [OF mem_disk.posix_files_axioms mem_bucket.s3_bucket_service_axioms refl u,
      of "[Upload ''b'' ''two'']"] u
  show ?thesis by (simp add: apart_keys_def get_file_path_def path_push_def)
qed

end
