(* ===== verification/Email_Service.thy ===== *)
theory Email_Service
  imports Pii
begin

text \<open>
  Sending e-mail (\<open>external_services/src/email.rs\<close>, \<open>email/ses.rs\<close>): an e-mail is composed, turned into rich text and
  sent through SES with credentials of a role that are fetched anew for every e-mail.

  The services of AWS (STS, which gives temporary credentials, and SES, which sends) and the proxy connector are
  parameters. A client of SES is the region, proxy and credentials it was built with.
\<close>

section \<open>Contents, settings, errors\<close>

record EmailContents =
  em_subject :: string
  em_body :: string
  em_recipient :: "string Secret"

record SESConfig =
  email_role_arn :: string
  sts_role_session_name :: string

datatype AvailableEmailClients = SES

record EmailSettings =
  es_aws_region :: string
  es_base_url :: string
  es_allowed_unverified_days :: int
  es_sender_email :: string
  es_aws_ses :: "SESConfig option"
  es_active_email_client :: AvailableEmailClients

datatype EmailError = ClientBuildingFailure | EmailSendingFailure | TokenGenerationFailure | EmailNotImplemented

datatype AwsSesError =
    SendingFailure
  | MissingConfigurationVariable string
  | AssumeRoleFailure string string string
  | TemporaryCredentialsMissing string
  | BuildingProxyConnectorFailed

section \<open>The services\<close>

text \<open>The answer of STS; its debug text goes into errors. An expiration is in nanoseconds.\<close>

record sts_credentials =
  access_key_id :: "string option"
  secret_access_key :: "string option"
  session_token :: "string option"
  expiration :: "int option"

record assumed_role =
  role_debug :: string
  role_credentials :: "sts_credentials option"

record Credentials =
  cr_access_key_id :: string
  cr_secret_access_key :: string
  cr_session_token :: "string option"
  cr_expiry :: "nat option"

record RichText =
  rt_html :: string
  rt_charset :: string

record Mail =
  mail_from :: string
  mail_to :: string
  mail_subject :: string
  mail_body :: RichText

record 'p shared_config =
  sc_region :: string
  sc_proxy :: "'p option"

record ('w, 'u, 'p) mail_cloud =
  parse_uri :: "string \<Rightarrow> 'u option"
  from_proxy :: "'u \<Rightarrow> 'p option"
  assume_role :: "'p shared_config \<Rightarrow> string \<Rightarrow> string \<Rightarrow> ('w, unit, assumed_role) eff"
  ses_send :: "'p shared_config \<Rightarrow> Credentials \<Rightarrow> Mail \<Rightarrow> ('w, unit, unit) eff"

section \<open>The client\<close>

record AwsSes =
  ses_sender :: string
  ses_settings :: EmailSettings

definition get_proxy_connector :: "('w, 'u, 'p) mail_cloud \<Rightarrow> string \<Rightarrow> (AwsSesError, 'p) result" where
  "get_proxy_connector cloud proxy_url =
     rbind (ok_or (parse_uri cloud proxy_url) BuildingProxyConnectorFailed) (\<lambda>proxy_uri.
       ok_or (from_proxy cloud proxy_uri) BuildingProxyConnectorFailed)"

definition get_shared_config ::
  "('w, 'u, 'p) mail_cloud \<Rightarrow> string \<Rightarrow> string option \<Rightarrow> (AwsSesError, 'p shared_config) result" where
  "get_shared_config cloud region proxy_url =
     (case proxy_url of
        None \<Rightarrow> Ok \<lparr>sc_region = region, sc_proxy = None\<rparr>
      | Some url \<Rightarrow> rbind (get_proxy_connector cloud url) (\<lambda>proxy. Ok \<lparr>sc_region = region, sc_proxy = Some proxy\<rparr>))"

definition credentials_of :: "assumed_role \<Rightarrow> (AwsSesError, Credentials) result" where
  "credentials_of role =
     rbind (ok_or (role_credentials role) (TemporaryCredentialsMissing (role_debug role))) (\<lambda>creds.
     rbind (ok_or (access_key_id creds) (TemporaryCredentialsMissing (role_debug role))) (\<lambda>key_id.
     rbind (ok_or (secret_access_key creds) (TemporaryCredentialsMissing (role_debug role))) (\<lambda>secret.
       Ok \<lparr>cr_access_key_id = key_id, cr_secret_access_key = secret, cr_session_token = session_token creds,
           cr_expiry = Option.bind (expiration creds) (\<lambda>nanos. if 0 \<le> nanos \<and> nanos < 2 ^ 64 then Some (nat nanos) else None)\<rparr>)))"

definition create_client ::
  "('w, 'u, 'p) mail_cloud \<Rightarrow> EmailSettings \<Rightarrow> string option \<Rightarrow> ('w, AwsSesError, 'p shared_config \<times> Credentials) eff" where
  "create_client cloud conf proxy_url =
     ebind (elift (get_shared_config cloud (es_aws_region conf) proxy_url)) (\<lambda>sts_config.
     ebind (elift (ok_or (es_aws_ses conf) (MissingConfigurationVariable ''aws_ses''))) (\<lambda>ses_config.
     ebind (change_context (AssumeRoleFailure (es_aws_region conf) (email_role_arn ses_config) (sts_role_session_name ses_config))
              (assume_role cloud sts_config (email_role_arn ses_config) (sts_role_session_name ses_config))) (\<lambda>role.
     ebind (elift (credentials_of role)) (\<lambda>credentials.
     ebind (elift (get_shared_config cloud (es_aws_region conf) proxy_url)) (\<lambda>ses_config.
       ereturn (ses_config, credentials))))))"

text \<open>The client built at the start only shows whether the settings work; it is dropped.\<close>

definition AwsSes_create :: "('w, 'u, 'p) mail_cloud \<Rightarrow> EmailSettings \<Rightarrow> string option \<Rightarrow> 'w \<Rightarrow> AwsSes \<times> 'w" where
  "AwsSes_create cloud conf proxy_url w =
     (\<lparr>ses_sender = es_sender_email conf, ses_settings = conf\<rparr>, snd (create_client cloud conf proxy_url w))"

definition convert_to_rich_text :: "string \<Rightarrow> RichText" where
  "convert_to_rich_text intermediate_string = \<lparr>rt_html = intermediate_string, rt_charset = ''UTF-8''\<rparr>"

definition send_email ::
  "('w, 'u, 'p) mail_cloud \<Rightarrow> AwsSes \<Rightarrow> string Secret \<Rightarrow> string \<Rightarrow> RichText \<Rightarrow> string option \<Rightarrow> ('w, EmailError, unit) eff" where
  "send_email cloud self recipient subject body proxy_url =
     ebind (change_context ClientBuildingFailure (create_client cloud (ses_settings self) proxy_url)) (\<lambda>(config, credentials).
     ebind (change_context EmailSendingFailure (ses_send cloud config credentials
              \<lparr>mail_from = ses_sender self, mail_to = Secret_peek recipient, mail_subject = subject, mail_body = body\<rparr>)) (\<lambda>_.
       ereturn ()))"

definition compose_and_send_email ::
  "('w, 'u, 'p) mail_cloud \<Rightarrow> AwsSes \<Rightarrow> ('w, EmailError, EmailContents) eff \<Rightarrow> string option \<Rightarrow> ('w, EmailError, unit) eff" where
  "compose_and_send_email cloud self get_email_data proxy_url =
     ebind get_email_data (\<lambda>email_data.
       send_email cloud self (em_recipient email_data) (em_subject email_data)
         (convert_to_rich_text (em_body email_data)) proxy_url)"

section \<open>What is sent\<close>

text \<open>A service that sends a message at most once per request, and none when credentials are asked for.\<close>

locale mail_service =
  fixes cloud :: "('w, 'u, 'p) mail_cloud" and outbox :: "'w \<Rightarrow> (Credentials \<times> Mail) list"
  assumes assume_role_sends_nothing: "outbox (snd (assume_role cloud c r n w)) = outbox w"
    and send_appends: "ses_send cloud c cr mail w = (Ok (), w') \<Longrightarrow> outbox w' = outbox w @ [(cr, mail)]"
    and send_fails: "ses_send cloud c cr mail w = (Err (), w') \<Longrightarrow> same_or (outbox w) (outbox w @ [(cr, mail)]) (outbox w')"
begin

lemma create_client_sends_nothing: "outbox (snd (create_client cloud conf proxy_url w)) = outbox w"
proof -
  have "outbox w2 = outbox w1" if "assume_role cloud c r n w1 = (res, w2)" for c r n w1 res w2
    using assume_role_sends_nothing [of c r n w1] that by simp
  then show ?thesis
    by (auto simp: create_client_def eff_simps split: prod.splits sum.splits)
qed

end

text \<open>A service in memory that gives every role the same credentials and keeps what it sends.\<close>

definition mem_mail :: "((Credentials \<times> Mail) list, string, string) mail_cloud" where
  "mem_mail = \<lparr>parse_uri = Some, from_proxy = Some,
     assume_role = (\<lambda>c r n. ereturn \<lparr>role_debug = ''role'', role_credentials = Some
        \<lparr>access_key_id = Some ''id'', secret_access_key = Some ''key'', session_token = None, expiration = Some (- 1)\<rparr>\<rparr>),
     ses_send = (\<lambda>c cr mail w. (Ok (), w @ [(cr, mail)]))\<rparr>"

interpretation mem_outbox: mail_service mem_mail "\<lambda>w. w"
  by unfold_locales (auto simp: mem_mail_def)

section \<open>Properties\<close>

lemma create_client_credentials:
  assumes "create_client cloud conf proxy_url w = (Ok (config, cr), w')"
  shows "\<exists>ses role. es_aws_ses conf = Some ses \<and> get_shared_config cloud (es_aws_region conf) proxy_url = Ok config \<and>
    assume_role cloud config (email_role_arn ses) (sts_role_session_name ses) w = (Ok role, w') \<and> credentials_of role = Ok cr"
  using assms by (auto simp: create_client_def eff_simps split: prod.splits sum.splits)


definition demo_ses :: AwsSes where
  "demo_ses = fst (AwsSes_create mem_mail \<lparr>es_aws_region = ''eu'', es_base_url = [], es_allowed_unverified_days = 1,
     es_sender_email = ''shop@x.io'', es_aws_ses = Some \<lparr>email_role_arn = ''arn'', sts_role_session_name = ''s''\<rparr>,
     es_active_email_client = SES\<rparr> None [])"


end
