(* ===== verification/Spec2Isabelle.thy ===== *)
theory Spec2Isabelle
  imports Derive_Props Router_Cache Kv_Drain Drainer_Shutdown_Props Scheduler_Loops Retry Payment_Enums Cache Api_Errors Api_Key_Props Users Crypto App_Settings
    Countries Percentages Utilities Logger Drainer_Health Secret_Settings File_Storage Email_Service
begin

text \<open>
  A verification development for the Rust workspace \<open>mercado\<close> (\<open>src/crates\<close>), the storage,
  scheduling and data layer of a payments and commerce backend.

  \<^bold>\<open>The program.\<close> A client writes through a key-value store that keeps the value in Redis and queues the
  SQL statement on one of several sharded Redis streams (\<open>storage_impl\<close>). The drainer (\<open>drainer\<close>)
  takes one shard at a time under a Redis flag, executes the statements it reads on the database and trims
  what it has executed. The scheduler (\<open>scheduler\<close>) keeps tasks in the process tracker table: a producer,
  under a Redis lock, marks due tasks and appends them in batches to a stream; consumers in a consumer group take
  one batch, mark its tasks and run their workflows, which retry along configured schedules. Both rest on
  the Redis wrapper (\<open>redis_interface\<close>) and on the generic queries (\<open>diesel_models\<close>). API keys and
  users are stored in tables of their own (\<open>modules\<close>, \<open>data_models\<close>); errors of every layer are
  translated to the answers of the API (\<open>data_models\<close>, \<open>api_models\<close>). Settings are validated at the start
  (\<open>data_models\<close>) and their secrets decrypted by a secrets manager (\<open>external_services\<close>, which also
  stores files and sends e-mail); secrets are encrypted and masked by \<open>common_utils\<close> and \<open>masking\<close>. The logger
  (\<open>router_env\<close>) keeps the fields of spans and writes lines of JSON. The derive macros (\<open>router_derive\<close>) generate the
  conversions of enums to columns, the errors of the API and the schemas of requests from the declarations.

  \<^bold>\<open>Conventions.\<close> \<open>Result<A, E>\<close> is \<open>(E, A) result\<close>, with \<open>Err = Inl\<close> and \<open>Ok = Inr\<close>; a
  \<open>Report<E>\<close> is its current context. An async function over a server is a state transformer that returns a
  result, \<open>('s, 'e, 'a) eff\<close>; the \<open>?\<close> operator is \<open>ebind\<close>. Unsigned integers are words of their width,
  \<open>i32\<close> is an integer with the wrap-around written out, times are integers; texts are byte lists. A panic is a value of
  its own (\<open>None\<close>, \<open>Panicked\<close>) where the code can panic. Functions are total: loops are structural or have a
  measure (\<open>chunks\<close>, \<open>show_nat\<close>), so there is no fuel anywhere; the service loops are modelled by one
  turn (\<open>spawn_turn\<close>, \<open>run_producer_flow\<close>, \<open>fetch_consumer_tasks\<close>), by a step relation over turns
  (\<open>lock_step\<close>, \<open>kv_run\<close>) or over the steps of all tasks of a process (\<open>drainer_step\<close>), or by recursion over a
  script of what happens outside (\<open>producer_loop\<close>, \<open>consumer_loop\<close>), \<open>None\<close> while they run.

  \<^bold>\<open>Code outside the repository\<close> is a parameter: the Redis client \<open>fred\<close> and its server (the record \<open>fred\<close>), Diesel
  and PostgreSQL (the record \<open>diesel\<close>), the cache \<open>moka\<close>, serde (encoders and decoders), the ciphers and hashes of
  \<open>ring\<close>, \<open>md5\<close> and \<open>blake3\<close>, CRC32, regular expressions, phone numbers, base64, the services of AWS and Vault, the
  file system, the registry of \<open>tracing\<close>, rounding in floating point, clocks and random
  numbers. What the code relies on of them is a locale, and every locale is interpreted: \<open>redis_streams\<close>,
  \<open>redis_keys\<close>, \<open>redis_groups\<close>, \<open>redis_kv\<close>, \<open>redis_pubsub\<close> and \<open>redis_streams_reliable\<close> on an in-memory Redis (\<open>mem_fred\<close>),
  \<open>db_table\<close>, \<open>db_lookup\<close> and \<open>pooled_table\<close> on in-memory tables, \<open>scheduler_store\<close>, \<open>scheduler_reliable\<close> and
  \<open>scheduler_consumer\<close> on the model of the scheduler's store over both, \<open>api_key_store\<close> and \<open>user_store\<close> on the
  models of the two services, \<open>file_store\<close> through \<open>posix_files\<close> and \<open>s3_bucket_service\<close> on both file clients,
  \<open>redis_probe\<close> on the in-memory Redis, \<open>f64_text\<close> and \<open>f64_round\<close> on rounding to 53 bits, \<open>kms_service\<close>,
  \<open>database_store\<close> on both stores of the database, \<open>case_convention\<close> on ASCII identifiers, \<open>mail_service\<close>, \<open>moka_cache\<close>, \<open>aead_cipher\<close> and \<open>email_pattern\<close> on small implementations of their own.
  The properties are stated for every server that keeps the laws.

  \<^bold>\<open>Theories.\<close>
  \<^item> \<open>Prelude\<close>: results, effects, the operations of the standard library in use, shared lemmas.
  \<^item> \<open>Redis_Types\<close>, \<open>Redis_Commands\<close>, \<open>Redis_Server\<close>: \<open>redis_interface/src/{errors,types,lib,commands}.rs\<close>
    and the laws of a Redis server.
  \<^item> \<open>Errors\<close>: the storage errors and the functions between them.
  \<^item> \<open>Drainer\<close>, \<open>Drainer_Props\<close>: \<open>drainer/src/{handler,stream,utils,types,settings}.rs\<close>. A session executes the
    longest prefix of its batch that can be executed and removes exactly it, whatever the server answers it never
    removes what it did not execute, sessions of a shard exclude each other, and repeated sessions empty a
    stream; queued operations are read back as written; the shards are visited in turn.
  \<^item> \<open>Signals\<close>, \<open>Drainer_Shutdown\<close>, \<open>Drainer_Shutdown_Props\<close>: \<open>common_utils/src/signals.rs\<close>, \<open>start_drainer\<close> in
    \<open>drainer/src/lib.rs\<close>, the tasks of \<open>handler.rs\<close> and \<open>on_error\<close> of \<open>redis_interface\<close>, interleaved in any order.
    A shutdown request is never lost and can be completed as long as no handler panics; a handler that panics blocks it
    for good, and one that was just spawned may be abandoned.
  \<^item> \<open>Diesel_Generics\<close>, \<open>Process_Tracker\<close>, \<open>Repository\<close>: \<open>diesel_models/src/generics.rs\<close>,
    \<open>process_tracker.rs\<close>, \<open>query.rs\<close>, the repositories and connections.
  \<^item> \<open>Scheduler\<close>, \<open>Scheduler_Store\<close>, \<open>Scheduler_Consumer\<close>, \<open>Scheduler_Props\<close>:
    \<open>scheduler/src/{producer,consumer,utils,scheduler}.rs\<close>, \<open>db\<close> and \<open>consumer/types\<close>. A producer
    turn marks and queues only due tasks, each once; on a store that answers it queues all of them; another producer's
    lock stops it; a consumer takes exactly one batch; and what is lost when an append or the database fails.
  \<^item> \<open>Scheduler_Loops\<close>: \<open>start_producer\<close>, \<open>start_consumer\<close> and \<open>start_process_tracker\<close>; both processes make a turn for
    each tick and end at the first poll after a signal.
  \<^item> \<open>Retry\<close>: \<open>process_data.rs\<close> and the retry functions of \<open>utils.rs\<close>, equal to a lookup in the plan written out.
  \<^item> \<open>Kv_Store\<close>, \<open>Kv_Props\<close>: \<open>storage_impl/src/redis/kv_store.rs\<close>, \<open>lib.rs\<close>, \<open>utils.rs\<close>.
  \<^item> \<open>Kv_Drain\<close> and this theory: the key-value store with the drainer, as a step relation that refines a database
    in which every accepted write is executed at once.
  \<^item> \<open>Cache\<close>, \<open>Router_Cache\<close>: \<open>storage_impl/src/redis/{cache,pub_sub}.rs\<close> and \<open>router/src/cache.rs\<close>; a redacted key
    is read afresh, and is gone from every process that has handled the message.
  \<^item> \<open>Payment_Enums\<close>, \<open>Countries\<close>, \<open>Currency\<close>: the enums of \<open>common_enums\<close> the code computes on. The codes of a country
    convert back and forth; amounts are rendered exactly but for currencies with three decimals.
  \<^item> \<open>Percentages\<close>, \<open>Utilities\<close>: \<open>common_utils/src/{types,request,static_cache,ext_traits}.rs\<close>; a percentage is applied
    up to one unit; requests and their builder agree but for the key of the certificate.
  \<^item> \<open>Api_Errors\<close>: \<open>api_models/src/errors\<close>, \<open>data_models/src/errors\<close>; statuses and codes of all answers.
  \<^item> \<open>Api_Keys\<close>, \<open>Api_Key_Props\<close>, \<open>Users\<close>: the two services from the row to the handler.
  \<^item> \<open>Crypto\<close>, \<open>Pii\<close>: \<open>common_utils/src/{crypto,pii,validation}.rs\<close>, \<open>masking/src\<close>; the AES-GCM
    wrapper decrypts what it encrypts and its nonces repeat only after \<open>2 ^ 96\<close> uses; what logs show of secrets.
  \<^item> \<open>Masked_Serialize\<close>: \<open>masking/src/serde.rs\<close>; masked JSON does not depend on what is inside a secret.
  \<^item> \<open>App_Settings\<close>: \<open>data_models/src/configs\<close>; exactly which settings pass, and the lock retries.
  \<^item> \<open>Secret_Managers\<close>, \<open>Secret_Settings\<close>: \<open>external_services/src/{aws_kms,hashicorp_vault,no_encryption,managers}\<close> and
    the decryption of the settings; what is encrypted is decrypted when it is UTF-8, and the drainer starts with its password.
  \<^item> \<open>File_Storage\<close>, \<open>Email_Service\<close>: \<open>external_services/src/{file_storage,email}\<close>; files are retrieved as
    uploaded, e-mail is sent at most once.
  \<^item> \<open>Drainer_Health\<close>: \<open>drainer/src/health_check.rs\<close>; the check leaves the streams of the drainer alone.
  \<^item> \<open>Environment\<close>, \<open>Logger\<close>: \<open>router_env/src/env.rs\<close> and \<open>logger\<close>; what a line says, and which fields of a span reach
    its parent.
  \<^item> \<open>Store_Setup\<close>: how \<open>RedisConnectionPool\<close>, the database stores, \<open>RouterStore\<close> and \<open>KVRouterStore\<close> open, and
    \<open>AppState::with_storage\<close> of \<open>modules/src/app.rs\<close>; what a store that opens has and leaves running, and that the
    application always runs on the mock store and its constant key.
  \<^item> \<open>Enum_Decls\<close>, \<open>Derive_Macros\<close>, \<open>Derive_Schema\<close>, \<open>Derive_Props\<close>: the declarations of the enums of
    \<open>common_enums\<close>, \<open>diesel_models\<close> and \<open>router_env\<close>, and the macros of \<open>router_derive\<close> as functions on syntax
    trees. Stored enums are read back as written, errors have the code and fields of their attributes, and the
    schemas agree with a reading of each field on its own.

  \<^bold>\<open>Not modelled.\<close> The HTTP server and its routes (\<open>router\<close>, whose \<open>configs\<close> are not compiled), metrics and the pipelines of
  OpenTelemetry (\<open>router_env\<close>), parsing of Rust syntax (\<open>syn\<close>), the generated \<open>schema.rs\<close>, reading of
  configuration files, the adapters to Diesel and to the time library: they are calls into libraries and frameworks, or
  run in the compiler. Time to live of Redis keys is not part of the server laws: a lock is held until it is
  released. Concurrency is interleaving: of the steps of its tasks for a drainer
  process (a session between two atomic accesses is one step), of whole turns and sessions elsewhere.
\<close>

section \<open>From a key-value write to the database\<close>


definition demo_written :: mem where
  "demo_written = snd (kv_wrapper (\<lambda>s. of_nat (length s)) Some Some Some (\<lambda>v. [v]) (\<lambda>v. ''t'') 7 demo_kv
     (HSetNx ''f'' ''v'' ''op'') ''key'' mem_init)"


section \<open>Writes and drain sessions in any order\<close>



end
